(* ===== verification/Prelude.thy ===== *)
theory Prelude
  imports Main "HOL-Library.Word" "HOL-Library.State_Monad"
begin

text \<open>
  Shared vocabulary of the development: the machine integer types of the C sources, the
  error numbers they return, the state monad in which every effectful function is written
  (HOL-Library.State_Monad, with \<open>do\<close>-notation), the two loop shapes the sources use
  (\<open>for_each\<close>: a loop without early exit; \<open>for_ret\<close>: a loop whose body may leave
  it with a result), and generic lemmas on bits of words.
\<close>

unbundle bit_operations_syntax

section \<open>Machine integers and error numbers\<close>

type_synonym u8 = "8 word"
type_synonym u16 = "16 word"
type_synonym u32 = "32 word"
type_synonym u64 = "64 word"

text \<open>Error numbers of errno.h, by value; functions return them negated.\<close>

abbreviation (input) "ENOENT \<equiv> (2::int)"
abbreviation (input) "EINTR \<equiv> (4::int)"
abbreviation (input) "EIO \<equiv> (5::int)"
abbreviation (input) "ENOMEM \<equiv> (12::int)"
abbreviation (input) "EFAULT \<equiv> (14::int)"
abbreviation (input) "ENODEV \<equiv> (19::int)"
abbreviation (input) "EINVAL \<equiv> (22::int)"
abbreviation (input) "ENOTTY \<equiv> (25::int)"
abbreviation (input) "ENOSPC \<equiv> (28::int)"
abbreviation (input) "ENOTSUP \<equiv> (95::int)"
abbreviation (input) "ETIMEDOUT \<equiv> (110::int)"

section \<open>The state monad\<close>

abbreviation return :: "'a \<Rightarrow> ('s, 'a) state" where
  "return \<equiv> State_Monad.return"

definition gets :: "('s \<Rightarrow> 'a) \<Rightarrow> ('s, 'a) state" where
  "gets f = State (\<lambda>s. (f s, s))"

definition modify :: "('s \<Rightarrow> 's) \<Rightarrow> ('s, unit) state" where
  "modify f = State (\<lambda>s. ((), f s))"

abbreviation exec :: "('s, 'a) state \<Rightarrow> 's \<Rightarrow> 's" where
  "exec m s \<equiv> snd (run_state m s)"

abbreviation result :: "('s, 'a) state \<Rightarrow> 's \<Rightarrow> 'a" where
  "result m s \<equiv> fst (run_state m s)"

lemma run_gets [simp]: "run_state (gets f) s = (f s, s)"
  by (simp add: gets_def)

lemma run_modify [simp]: "run_state (modify f) s = ((), f s)"
  by (simp add: modify_def)

lemma run_if [simp]:
  "run_state (if b then m else n) s = (if b then run_state m s else run_state n s)"
  by simp

lemma exec_bind: "exec (Monad_Syntax.bind m f) s = exec (f (result m s)) (exec m s)"
  by (simp add: split_beta)

lemma result_bind: "result (Monad_Syntax.bind m f) s = result (f (result m s)) (exec m s)"
  by (simp add: split_beta)

text \<open>A C \<open>for\<close> loop over the listed indices with no early exit.\<close>

fun for_each :: "'i list \<Rightarrow> ('i \<Rightarrow> ('s, 'a) state) \<Rightarrow> ('s, unit) state" where
  "for_each [] f = return ()"
| "for_each (i # is) f = do { f i; for_each is f }"

text \<open>A C \<open>for\<close> loop whose body may leave with a result: \<open>Some r\<close> is
  \<open>return r\<close> (or \<open>break\<close>), \<open>None\<close> goes on with the next index.\<close>

fun for_ret :: "'i list \<Rightarrow> ('i \<Rightarrow> ('s, 'r option) state) \<Rightarrow> ('s, 'r option) state" where
  "for_ret [] f = return None"
| "for_ret (i # is) f = do {
     r \<leftarrow> f i;
     (case r of None \<Rightarrow> for_ret is f | Some x \<Rightarrow> return (Some x))
   }"

lemma for_ret_first:
  "result (f i) s = Some r \<Longrightarrow> run_state (for_ret (i # is) f) s = (Some r, exec (f i) s)"
  by (simp add: split_beta)

lemma for_each_append:
  "run_state (for_each (xs @ ys) f) s = run_state (for_each ys f) (exec (for_each xs f) s)"
  by (induction xs arbitrary: s) (simp_all add: split_beta)

lemma for_each_inv:
  assumes "P s" and "\<And>i s. i \<in> set is \<Longrightarrow> P s \<Longrightarrow> P (exec (f i) s)"
  shows "P (exec (for_each is f) s)"
  using assms by (induction "is" arbitrary: s) (simp_all add: split_beta)

lemma for_ret_inv:
  assumes "P s" and "\<And>i s. i \<in> set is \<Longrightarrow> P s \<Longrightarrow> P (exec (f i) s)"
  shows "P (exec (for_ret is f) s)"
  using assms by (induction "is" arbitrary: s) (auto simp: split_beta split: option.splits)

fun first_some :: "'a option list \<Rightarrow> 'a option" where
  "first_some [] = None"
| "first_some (x # xs) = (case x of None \<Rightarrow> first_some xs | Some y \<Rightarrow> Some y)"

lemma first_some_None: "first_some xs = None \<longleftrightarrow> (\<forall>x \<in> set xs. x = None)"
  by (induction xs) (auto split: option.splits)

section \<open>Weakest preconditions\<close>

text \<open>\<open>wp m Q s\<close>: running \<open>m\<close> from \<open>s\<close> ends with a result and a state in \<open>Q\<close>. The
  rules replace each answer of the environment by an arbitrary value, so \<open>intro wp_rules\<close>
  turns a claim about effectful code into plain conditions on values.\<close>

definition wp :: "('s, 'a) state \<Rightarrow> ('a \<Rightarrow> 's \<Rightarrow> bool) \<Rightarrow> 's \<Rightarrow> bool" where
  "wp m Q s \<longleftrightarrow> Q (result m s) (exec m s)"

named_theorems wp_rules \<open>weakest precondition rules\<close>

lemma wp_return [wp_rules]: "Q x s \<Longrightarrow> wp (return x) Q s"
  by (simp add: wp_def)

lemma wp_gets [wp_rules]: "Q (f s) s \<Longrightarrow> wp (gets f) Q s"
  by (simp add: wp_def)

lemma wp_modify [wp_rules]: "Q () (f s) \<Longrightarrow> wp (modify f) Q s"
  by (simp add: wp_def)

lemma wp_bind [wp_rules]: "wp m (\<lambda>a. wp (f a) Q) s \<Longrightarrow> wp (Monad_Syntax.bind m f) Q s"
  by (simp add: wp_def split_beta)

lemma wp_if [wp_rules]:
  "(b \<Longrightarrow> wp m Q s) \<Longrightarrow> (\<not> b \<Longrightarrow> wp n Q s) \<Longrightarrow> wp (if b then m else n) Q s"
  by simp

lemma wp_option [wp_rules]:
  "(z = None \<Longrightarrow> wp m Q s) \<Longrightarrow> (\<And>x. z = Some x \<Longrightarrow> wp (f x) Q s) \<Longrightarrow>
   wp (case z of None \<Rightarrow> m | Some x \<Rightarrow> f x) Q s"
  by (cases z) simp_all

lemma wp_prod [wp_rules]:
  "(\<And>x y. z = (x, y) \<Longrightarrow> wp (f x y) Q s) \<Longrightarrow> wp (case z of (x, y) \<Rightarrow> f x y) Q s"
  by (cases z) simp

lemma wp_Let [wp_rules]: "wp (f z) Q s \<Longrightarrow> wp (let x = z in f x) Q s"
  by simp

lemma wp_mono: "wp m P s \<Longrightarrow> (\<And>a s'. P a s' \<Longrightarrow> Q a s') \<Longrightarrow> wp m Q s"
  by (simp add: wp_def)

lemma wpD: "wp m Q s \<Longrightarrow> Q (result m s) (exec m s)"
  by (simp add: wp_def)

lemma wp_for_each:
  assumes "P s" and "\<And>i s. i \<in> set is \<Longrightarrow> P s \<Longrightarrow> wp (f i) (\<lambda>_. P) s" and "\<And>s. P s \<Longrightarrow> Q () s"
  shows "wp (for_each is f) Q s"
  using assms for_each_inv[of P s "is" f] by (simp add: wp_def)

section \<open>Bits of words\<close>

named_theorems word_bits \<open>rewriting a bit of a composed word\<close>

lemmas [word_bits] =
  bit_and_iff bit_or_iff bit_xor_iff bit_not_iff bit_push_bit_iff bit_drop_bit_eq
  bit_mask_iff bit_unsigned_iff bit_exp_iff possible_bit_word

lemma bit_1_word [word_bits]: "bit (1 :: 'a::len word) n \<longleftrightarrow> n = 0"
  by (simp add: bit_1_iff)

lemma bit_times_2 [word_bits]:
  "bit (w * 2 :: 'a::len word) n \<longleftrightarrow> 0 < n \<and> n < LENGTH('a) \<and> bit w (n - 1)"
proof -
  have "w * 2 = push_bit 1 w" by simp
  then show ?thesis by (simp only: bit_push_bit_iff) auto
qed

lemma bit_word_len: "bit (w :: 'a::len word) n \<Longrightarrow> n < LENGTH('a)"
  by (rule bit_imp_le_length)

lemma bit_below:
  fixes w :: "'a::len word"
  assumes "unat w < 2 ^ n" and "bit w k"
  shows "k < n"
proof (rule ccontr)
  assume "\<not> k < n"
  have "bit (unat w) k" using assms(2) by (simp add: bit_unsigned_iff)
  then have "unat w div 2 ^ k \<noteq> 0" by (metis bit_iff_odd even_zero)
  then have "2 ^ k \<le> unat w" by (metis div_less not_le)
  moreover have "(2::nat) ^ n \<le> 2 ^ k" using \<open>\<not> k < n\<close> by simp
  ultimately show False using assms(1) by linarith
qed

lemma bit_boundD:
  fixes w :: "'a::len word"
  assumes "\<And>k. n \<le> k \<Longrightarrow> \<not> bit w k"
  shows "unat w < 2 ^ n"
proof -
  have "bit (take_bit n w) k = bit w k" for k
    using assms[of k] by (cases "n \<le> k") (auto simp: bit_take_bit_iff)
  then have "w = take_bit n w" by (intro bit_eqI) simp
  then have "unat w = take_bit n (unat w)"
    by (metis unsigned_take_bit_eq)
  then show ?thesis by (rule ssubst) (rule take_bit_nat_less_exp)
qed

lemma bit_and_mask_iff: "bit (w AND mask n :: 'a::len word) k \<longleftrightarrow> bit w k \<and> k < n"
  by (auto simp: bit_and_iff bit_mask_iff dest: bit_imp_le_length)

lemma same_high_bits:
  fixes x y :: u32
  shows "(\<forall>k<32. n \<le> k \<longrightarrow> bit x k = bit y k) \<longleftrightarrow> drop_bit n y = drop_bit n x"
proof
  assume "\<forall>k<32. n \<le> k \<longrightarrow> bit x k = bit y k"
  then have "bit y k = bit x k" if "n \<le> k" for k
    using that by (cases "k < 32") (auto dest: bit_word_len)
  then show "drop_bit n y = drop_bit n x"
    by (intro bit_eqI) (auto simp: bit_drop_bit_eq)
next
  assume d: "drop_bit n y = drop_bit n x"
  have "bit x k = bit y k" if "n \<le> k" for k
    using arg_cong[OF d, of "\<lambda>w. bit w (k - n)"] that by (simp add: bit_drop_bit_eq)
  then show "\<forall>k<32. n \<le> k \<longrightarrow> bit x k = bit y k" by blast
qed

lemma ucast_narrow_widen:
  "LENGTH('a::len) \<le> LENGTH('b::len) \<Longrightarrow> (ucast (ucast (x :: 'a word) :: 'b word) :: 'a word) = x"
  by (rule bit_eqI) (auto simp: word_bits dest: bit_word_len)

lemma list6: "length xs = 6 \<Longrightarrow> xs = [xs ! 0, xs ! 1, xs ! 2, xs ! 3, xs ! 4, xs ! 5]"
  by (auto simp: list_eq_iff_nth_eq less_Suc_eq numeral_eq_Suc nth_Cons split: nat.splits)

lemma list6E:
  assumes "length xs = 6"
  obtains a b c d e f where "xs = [a, b, c, d, e, f]"
  using list6[OF assms] by blast

text \<open>The low bits of an \<open>int\<close> argument, read back.\<close>

lemma uint_low_bits:
  "n \<le> LENGTH('a::len) \<Longrightarrow> uint (word_of_int x AND mask n :: 'a word) = x mod 2 ^ n"
  by (simp only: unsigned_take_bit_eq uint_word_of_int_eq take_bit_take_bit min_def flip: take_bit_eq_mask)
    (simp add: take_bit_eq_mod)

lemma uint_drop_bit_and_1: "uint (drop_bit n (v :: 'a::len word) AND 1) = (if bit v n then 1 else 0)"
  by (simp add: and_one_eq bit_iff_odd_drop_bit odd_iff_mod_2_eq_one)

lemma find_upto_None: "find P [a..c] = None \<longleftrightarrow> (\<forall>i. a \<le> i \<and> i \<le> c \<longrightarrow> \<not> P i)" for a c :: int
  by (auto simp: find_None_iff)

lemma find_upto_Some: "find P [a..c] = Some i \<Longrightarrow> a \<le> i \<and> i \<le> c \<and> P i" for a c :: int
proof -
  assume "find P [a..c] = Some i"
  then have "i \<in> set [a..c] \<and> P i" by (metis find_Some_iff nth_mem)
  then show ?thesis by simp
qed

lemma find_upto_skip:
  fixes a b c :: int
  assumes "a \<le> b" and "\<And>x. a \<le> x \<Longrightarrow> x < b \<Longrightarrow> \<not> P x"
  shows "find P [a..c] = find P [b..c]"
proof (cases "b \<le> c + 1")
  case True
  have "[a..c] = [a..b - 1] @ [b..c]"
    using assms(1) True by (cases "b = c + 1") (simp_all add: upto_split1)
  moreover have "find P [a..b - 1] = None" using assms(2) by (auto simp: find_upto_None)
  moreover have "find P (xs @ ys) = (case find P xs of None \<Rightarrow> find P ys | r \<Rightarrow> r)" for xs ys
    by (induction xs) auto
  ultimately show ?thesis by simp
next
  case False
  then have "find P [a..c] = None" using assms(2) by (auto simp: find_upto_None)
  then show ?thesis using False by simp
qed

lemma unat_low_bits:
  assumes "n \<le> LENGTH('a::len)"
  shows "unat (take_bit n (word_of_int x AND mask n :: 'a word)) = nat (x mod 2 ^ n)"
proof -
  have "take_bit n (word_of_int x AND mask n :: 'a word) = word_of_int x AND mask n"
    by (simp add: take_bit_eq_mask and.assoc)
  then show ?thesis using uint_low_bits[OF assms, of x] by (metis unat_eq_nat_uint)
qed

lemma upto_upt: "[0..int n - 1] = map int [0..<n]"
  by (induction n) (simp_all add: upto_rec2)

section \<open>Lists as C buffers\<close>

text \<open>\<open>memcpy(dst, src, n words)\<close> on a destination buffer.\<close>

definition copy_words :: "'a list \<Rightarrow> 'a list \<Rightarrow> nat \<Rightarrow> 'a list" where
  "copy_words dst src n = take n src @ drop n dst"

lemma length_copy_words [simp]:
  "n \<le> length src \<Longrightarrow> n \<le> length dst \<Longrightarrow> length (copy_words dst src n) = length dst"
  by (simp add: copy_words_def)

lemma nth_copy_words:
  "n \<le> length src \<Longrightarrow> n \<le> length dst \<Longrightarrow> i < length dst \<Longrightarrow>
   copy_words dst src n ! i = (if i < n then src ! i else dst ! i)"
  by (simp add: copy_words_def nth_append)

end
