(* ===== verification/Machine.thy ===== *)
theory Machine
  imports Prelude
begin

text \<open>
  What the program cannot see inside: the BCM56846 behind its BAR0 window, the operating
  system, the clock. The state holds the whole history of interactions (newest first), and
  an \<open>env\<close> answers each read and each OS call as an arbitrary function of that
  history. Every deterministic or non-deterministic device is covered: two reads of one
  offset happen at different histories and may be answered differently. The value of a local
  variable the code reads without having set it is \<open>indet\<close>, again any function of the history.
\<close>

section \<open>Interactions\<close>

text \<open>The operating system services the sources call, by name.\<close>

datatype os_fn =
    sys_kzalloc | sys_kfree | sys_pci_enable_device | sys_pci_disable_device | sys_pci_set_master
  | sys_pci_request_regions | sys_pci_release_regions | sys_pci_iomap | sys_pci_iounmap
  | sys_dma_alloc_coherent | sys_dma_handle | sys_dma_free_coherent | sys_request_irq | sys_free_irq
  | sys_mutex_lock_interruptible | sys_mutex_unlock | sys_jiffies
  | sys_copy_from_user | sys_copy_to_user | sys_remap_pfn_range
  | sys_open | sys_close | sys_mmap | sys_munmap | sys_ioctl | sys_read | sys_write
  | sys_socket | sys_pthread_create | sys_pthread_join
  | sys_read_data | sys_fopen | sys_fgets | sys_fclose | sys_access | sys_system
  | sys_malloc | sys_bind | sys_recv | sys_epoll_create | sys_epoll_ctl | sys_epoll_wait
  | sys_signal | sys_sleep | sys_shutdown

datatype io_event =
    IoRd u32 u32              \<comment> \<open>\<open>ioread32\<close>: offset, value read\<close>
  | IoWr u32 u32              \<comment> \<open>\<open>iowrite32\<close>: offset, value written\<close>
  | Delay nat                 \<comment> \<open>udelay, mdelay, usleep: microseconds\<close>
  | OsCall os_fn "int list" int   \<comment> \<open>OS call, its arguments, its answer\<close>

record env =
  bar0_answer :: "io_event list \<Rightarrow> u32 \<Rightarrow> u32"
  os_answer :: "io_event list \<Rightarrow> os_fn \<Rightarrow> int list \<Rightarrow> int"
  indet :: "io_event list \<Rightarrow> u32"

record io =
  trace :: "io_event list"

definition emit :: "io_event \<Rightarrow> ('z io_scheme, unit) state" where
  "emit e = modify (\<lambda>s. s\<lparr>trace := e # trace s\<rparr>)"

definition ioread32 :: "env \<Rightarrow> u32 \<Rightarrow> ('z io_scheme, u32) state" where
  "ioread32 E off = do {
     tr \<leftarrow> gets trace;
     let v = bar0_answer E tr off;
     emit (IoRd off v);
     return v
   }"

definition iowrite32 :: "u32 \<Rightarrow> u32 \<Rightarrow> ('z io_scheme, unit) state" where
  "iowrite32 v off = emit (IoWr off v)"

definition udelay :: "nat \<Rightarrow> ('z io_scheme, unit) state" where
  "udelay us = emit (Delay us)"

definition mdelay :: "nat \<Rightarrow> ('z io_scheme, unit) state" where
  "mdelay ms = emit (Delay (1000 * ms))"

definition os :: "env \<Rightarrow> os_fn \<Rightarrow> int list \<Rightarrow> ('z io_scheme, int) state" where
  "os E name args = do {
     tr \<leftarrow> gets trace;
     let r = os_answer E tr name args;
     emit (OsCall name args r);
     return r
   }"

definition indeterminate :: "env \<Rightarrow> ('z io_scheme, u32) state" where
  "indeterminate E = gets (\<lambda>s. indet E (trace s))"

lemma run_indeterminate [simp]: "run_state (indeterminate E) s = (indet E (trace s), s)"
  by (simp add: indeterminate_def)

lemma wp_indeterminate [wp_rules]: "(\<And>v. Q v s) \<Longrightarrow> wp (indeterminate E) Q s"
  by (simp add: wp_def)

lemma run_emit [simp]: "run_state (emit e) s = ((), s\<lparr>trace := e # trace s\<rparr>)"
  by (simp add: emit_def)

lemma run_iowrite32 [simp]:
  "run_state (iowrite32 v off) s = ((), s\<lparr>trace := IoWr off v # trace s\<rparr>)"
  by (simp add: iowrite32_def)

lemma run_ioread32 [simp]:
  "run_state (ioread32 E off) s =
     (bar0_answer E (trace s) off, s\<lparr>trace := IoRd off (bar0_answer E (trace s) off) # trace s\<rparr>)"
  by (simp add: ioread32_def Let_def)

lemma run_udelay [simp]: "run_state (udelay n) s = ((), s\<lparr>trace := Delay n # trace s\<rparr>)"
  by (simp add: udelay_def)

lemma run_mdelay [simp]: "run_state (mdelay n) s = ((), s\<lparr>trace := Delay (1000 * n) # trace s\<rparr>)"
  by (simp add: mdelay_def)

lemma run_os [simp]:
  "run_state (os E name args) s =
     (os_answer E (trace s) name args,
      s\<lparr>trace := OsCall name args (os_answer E (trace s) name args) # trace s\<rparr>)"
  by (simp add: os_def Let_def)

lemma wp_iowrite32 [wp_rules]: "Q () (s\<lparr>trace := IoWr off v # trace s\<rparr>) \<Longrightarrow> wp (iowrite32 v off) Q s"
  by (simp add: wp_def)

lemma wp_ioread32 [wp_rules]:
  "(\<And>v. Q v (s\<lparr>trace := IoRd off v # trace s\<rparr>)) \<Longrightarrow> wp (ioread32 E off) Q s"
  by (simp add: wp_def)

lemma wp_udelay [wp_rules]: "Q () (s\<lparr>trace := Delay n # trace s\<rparr>) \<Longrightarrow> wp (udelay n) Q s"
  by (simp add: wp_def)

lemma wp_mdelay [wp_rules]: "Q () (s\<lparr>trace := Delay (1000 * n) # trace s\<rparr>) \<Longrightarrow> wp (mdelay n) Q s"
  by (simp add: wp_def)

lemma wp_os [wp_rules]:
  "(\<And>r. Q r (s\<lparr>trace := OsCall name args r # trace s\<rparr>)) \<Longrightarrow> wp (os E name args) Q s"
  by (simp add: wp_def)

section \<open>Reading a history\<close>

text \<open>The value last written to an offset, as a plain register file would hold it.\<close>

fun last_wr :: "u32 \<Rightarrow> io_event list \<Rightarrow> u32 option" where
  "last_wr off [] = None"
| "last_wr off (IoWr a v # tr) = (if a = off then Some v else last_wr off tr)"
| "last_wr off (_ # tr) = last_wr off tr"

text \<open>The writes of a history, oldest first.\<close>

fun writes :: "io_event list \<Rightarrow> (u32 \<times> u32) list" where
  "writes [] = []"
| "writes (IoWr a v # tr) = writes tr @ [(a, v)]"
| "writes (_ # tr) = writes tr"

lemma writes_append: "writes (xs @ ys) = writes ys @ writes xs"
  by (induction xs rule: writes.induct) simp_all

lemma last_wr_append:
  "last_wr off (xs @ ys) = (case last_wr off xs of None \<Rightarrow> last_wr off ys | Some v \<Rightarrow> Some v)"
  by (induction off xs rule: last_wr.induct) simp_all

lemma last_wr_writes: "last_wr off tr = map_of (rev (writes tr)) off"
  by (induction off tr rule: last_wr.induct) auto

section \<open>Operations that only interact\<close>

text \<open>\<open>emits P m\<close>: whatever the state, \<open>m\<close> changes nothing but the history, and
  every event it adds satisfies \<open>P\<close>. The rules below compute this for composed code.\<close>

definition emits :: "(io_event \<Rightarrow> bool) \<Rightarrow> ('z io_scheme, 'a) state \<Rightarrow> bool" where
  "emits P m \<longleftrightarrow> (\<forall>s. \<exists>evs. exec m s = s\<lparr>trace := evs @ trace s\<rparr> \<and> list_all P evs)"

named_theorems emits_rules \<open>effects of composed operations\<close>

lemma emitsE:
  assumes "emits P m"
  obtains evs where "exec m s = s\<lparr>trace := evs @ trace s\<rparr>" and "list_all P evs"
  using assms unfolding emits_def by blast

lemma emits_return [emits_rules]: "emits P (return x)"
  by (auto simp: emits_def intro: exI[of _ "[]"])

lemma emits_gets [emits_rules]: "emits P (gets f)"
  by (auto simp: emits_def intro: exI[of _ "[]"])

lemma emits_indeterminate [emits_rules]: "emits P (indeterminate E)"
  unfolding indeterminate_def by (rule emits_gets)

lemma emits_iowrite32 [emits_rules]: "P (IoWr off v) \<Longrightarrow> emits P (iowrite32 v off)"
  by (auto simp: emits_def intro!: exI[of _ "[IoWr off v]"])

lemma emits_ioread32 [emits_rules]: "(\<And>v. P (IoRd off v)) \<Longrightarrow> emits P (ioread32 E off)"
  unfolding emits_def by (auto intro!: exI[of _ "[IoRd off v]" for v])

lemma emits_udelay [emits_rules]: "P (Delay n) \<Longrightarrow> emits P (udelay n)"
  by (auto simp: emits_def intro!: exI[of _ "[Delay n]"])

lemma emits_mdelay [emits_rules]: "P (Delay (1000 * n)) \<Longrightarrow> emits P (mdelay n)"
  by (auto simp: emits_def intro!: exI[of _ "[Delay (1000 * n)]"])

lemma emits_os [emits_rules]: "(\<And>r. P (OsCall name args r)) \<Longrightarrow> emits P (os E name args)"
  unfolding emits_def by (auto intro!: exI[of _ "[OsCall name args r]" for r])

lemma emits_bind [emits_rules]:
  assumes "emits P m" and "\<And>a. emits P (f a)"
  shows "emits P (Monad_Syntax.bind m f)"
  unfolding emits_def
proof
  fix s
  obtain e1 where 1: "exec m s = s\<lparr>trace := e1 @ trace s\<rparr>" "list_all P e1"
    using assms(1) by (rule emitsE)
  obtain e2 where 2: "exec (f (result m s)) (exec m s)
      = (exec m s)\<lparr>trace := e2 @ trace (exec m s)\<rparr>" "list_all P e2"
    using assms(2) by (rule emitsE)
  show "\<exists>evs. exec (Monad_Syntax.bind m f) s = s\<lparr>trace := evs @ trace s\<rparr> \<and> list_all P evs"
    by (rule exI[of _ "e2 @ e1"]) (use 1 2 in \<open>simp add: exec_bind del: run_state_bind\<close>)
qed

lemma emits_if [emits_rules]:
  "(b \<Longrightarrow> emits P m) \<Longrightarrow> (\<not> b \<Longrightarrow> emits P n) \<Longrightarrow> emits P (if b then m else n)"
  by simp

lemma emits_option [emits_rules]:
  "emits P m \<Longrightarrow> (\<And>x. emits P (f x)) \<Longrightarrow> emits P (case z of None \<Rightarrow> m | Some x \<Rightarrow> f x)"
  by (cases z) simp_all

lemma emits_prod [emits_rules]: "(\<And>x y. emits P (f x y)) \<Longrightarrow> emits P (case z of (x, y) \<Rightarrow> f x y)"
  by (cases z) simp

lemma emits_Let [emits_rules]: "(\<And>x. emits P (f x)) \<Longrightarrow> emits P (let x = z in f x)"
  by simp

lemma emits_for_each [emits_rules]: "(\<And>i. i \<in> set is \<Longrightarrow> emits P (f i)) \<Longrightarrow> emits P (for_each is f)"
  by (induction "is") (auto intro!: emits_rules)

lemma emits_for_ret [emits_rules]: "(\<And>i. i \<in> set is \<Longrightarrow> emits P (f i)) \<Longrightarrow> emits P (for_ret is f)"
  by (induction "is") (auto intro!: emits_rules)

lemma emits_traverse [emits_rules]:
  "(\<And>i. i \<in> set is \<Longrightarrow> emits P (f i)) \<Longrightarrow> emits P (State_Monad.traverse_list f is)"
  by (induction "is") (auto intro!: emits_rules)

lemma emits_inv:
  assumes "emits P m" and "\<And>evs tr. list_all P evs \<Longrightarrow> f (evs @ tr) = f tr"
  shows "f (trace (exec m s)) = f (trace s)"
  using emitsE[OF assms(1), of s] assms(2) by (metis (no_types, lifting) io.select_convs(1) io.surjective io.update_convs(1))

lemma emits_frame: "emits P m \<Longrightarrow> exec m s = s\<lparr>trace := trace (exec m s)\<rparr>"
  by (erule emitsE[of P m s]) simp

lemma bus_frame: "emits P m \<Longrightarrow> \<exists>tr. exec m s = s\<lparr>trace := tr\<rparr>"
  by (metis emits_frame)

lemma wp_bus:
  assumes "emits P m" and "\<And>rc tr. Q rc (s\<lparr>trace := tr\<rparr>)"
  shows "wp m Q s"
  using bus_frame[OF assms(1), of s] assms(2) by (auto simp: wp_def)

lemma emits_mono: "emits P m \<Longrightarrow> (\<And>e. P e \<Longrightarrow> Q e) \<Longrightarrow> emits Q m"
  unfolding emits_def by (metis list.pred_mono_strong)

text \<open>Events that leave every register as it is.\<close>

definition silent :: "io_event \<Rightarrow> bool" where
  "silent e \<longleftrightarrow> (\<forall>a v. e \<noteq> IoWr a v)"

lemma silent_simps [simp]:
  "\<not> silent (IoWr a v)" "silent (IoRd a v)" "silent (Delay n)" "silent (OsCall name args r)"
  by (simp_all add: silent_def)

lemma last_wr_silent: "list_all silent evs \<Longrightarrow> last_wr off (evs @ tr) = last_wr off tr"
  by (induction off evs rule: last_wr.induct) auto

lemma writes_silent: "list_all silent evs \<Longrightarrow> writes (evs @ tr) = writes tr"
  by (induction evs rule: writes.induct) auto

end
