(* ===== verification/Kernel_Bde.thy ===== *)
theory Kernel_Bde
  imports Machine
begin

text \<open>
  \<^verbatim>\<open>bde/nos_kernel_bde.c\<close>: the PCI driver that owns BAR0. Modelled: the S-Channel abort
  sequence, the chip reset sequence, and the S-Channel programmed-I/O operation with its
  mutex, its polling loop and its save and restore of \<open>CMIC_MISC_CONTROL\<close>.
\<close>

section \<open>Registers\<close>

definition CMICE_SCHAN_CTRL :: u32 where "CMICE_SCHAN_CTRL = 0x50"
definition CMICE_SCHAN_D :: "nat \<Rightarrow> u32" where "CMICE_SCHAN_D n = of_nat (n * 4)"
abbreviation (input) "SCHAN_MAX_MSG_WORDS \<equiv> (21::int)"

abbreviation (input) "CMICE_SET_START \<equiv> (0x80::u32)"
abbreviation (input) "CMICE_SET_ABORT \<equiv> (0x82::u32)"
abbreviation (input) "CMICE_CLR_START \<equiv> (0x00::u32)"
abbreviation (input) "CMICE_CLR_DONE \<equiv> (0x01::u32)"
abbreviation (input) "CMICE_CLR_ABORT \<equiv> (0x02::u32)"
abbreviation (input) "CMICE_CLR_SER \<equiv> (0x14::u32)"
abbreviation (input) "CMICE_CLR_NAK \<equiv> (0x15::u32)"
abbreviation (input) "CMICE_CLR_TIMEOUT \<equiv> (0x16::u32)"

abbreviation (input) "SCHAN_CTRL_DONE \<equiv> (push_bit 1 1 :: u32)"
abbreviation (input) "SCHAN_CTRL_TIMEOUT \<equiv> (push_bit 22 1 :: u32)"
abbreviation (input) "SCHAN_CTRL_NAK \<equiv> (push_bit 21 1 :: u32)"

definition CMIC_CONFIG :: u32 where "CMIC_CONFIG = 0x10C"
definition CMIC_SOFT_RESET :: u32 where "CMIC_SOFT_RESET = 0x580"
definition CMIC_SOFT_RESET_2 :: u32 where "CMIC_SOFT_RESET_2 = 0x57C"
definition CMIC_MISC_CONTROL :: u32 where "CMIC_MISC_CONTROL = 0x1C"
definition CMIC_SBUS_TIMEOUT :: u32 where "CMIC_SBUS_TIMEOUT = 0x200"
definition CMIC_SBUS_RING_MAP_0 :: u32 where "CMIC_SBUS_RING_MAP_0 = 0x204"
definition CMIC_SBUS_RING_MAP_1 :: u32 where "CMIC_SBUS_RING_MAP_1 = 0x208"
definition CMIC_SBUS_RING_MAP_2 :: u32 where "CMIC_SBUS_RING_MAP_2 = 0x20C"
definition CMIC_SBUS_RING_MAP_3 :: u32 where "CMIC_SBUS_RING_MAP_3 = 0x210"

lemmas kernel_regs =
  CMICE_SCHAN_CTRL_def CMIC_CONFIG_def CMIC_SOFT_RESET_def CMIC_SOFT_RESET_2_def
  CMIC_MISC_CONTROL_def CMIC_SBUS_TIMEOUT_def CMIC_SBUS_RING_MAP_0_def
  CMIC_SBUS_RING_MAP_1_def CMIC_SBUS_RING_MAP_2_def CMIC_SBUS_RING_MAP_3_def

section \<open>State\<close>

text \<open>The fields of \<open>struct nos_bde_priv\<close> the operations read; \<open>bar0\<close> is the
  base of every offset above and is non-NULL whenever the structure is published.\<close>

record nos_bde_priv =
  dma_pbase :: u64
  dma_size :: nat

record kernel_bde = io +
  bde_priv :: "nos_bde_priv option"

section \<open>Operations\<close>

definition cmice_schan_abort :: "('z kernel_bde_scheme, unit) state" where
  "cmice_schan_abort = do {
     iowrite32 CMICE_SET_ABORT CMICE_SCHAN_CTRL;
     udelay 100;
     iowrite32 CMICE_CLR_ABORT CMICE_SCHAN_CTRL;
     iowrite32 CMICE_CLR_START CMICE_SCHAN_CTRL;
     iowrite32 CMICE_CLR_DONE CMICE_SCHAN_CTRL;
     iowrite32 CMICE_CLR_SER CMICE_SCHAN_CTRL;
     iowrite32 CMICE_CLR_NAK CMICE_SCHAN_CTRL;
     iowrite32 CMICE_CLR_TIMEOUT CMICE_SCHAN_CTRL
   }"

definition bcm56846_chip_reset :: "env \<Rightarrow> ('z kernel_bde_scheme, unit) state" where
  "bcm56846_chip_reset E = do {
     val \<leftarrow> ioread32 E CMIC_CONFIG;
     iowrite32 (val OR push_bit 5 1) CMIC_CONFIG;
     mdelay 1;
     iowrite32 (val AND NOT (push_bit 5 1)) CMIC_CONFIG;
     mdelay 10;
     iowrite32 0x00000000 CMIC_SOFT_RESET;
     mdelay 50;
     iowrite32 0x000007D0 CMIC_SBUS_TIMEOUT;
     iowrite32 0x43052100 CMIC_SBUS_RING_MAP_0;
     iowrite32 0x33333343 CMIC_SBUS_RING_MAP_1;
     iowrite32 0x44444333 CMIC_SBUS_RING_MAP_2;
     iowrite32 0x00034444 CMIC_SBUS_RING_MAP_3;
     iowrite32 0x00000780 CMIC_SOFT_RESET;
     mdelay 100;
     iowrite32 0x0000F780 CMIC_SOFT_RESET;
     mdelay 50;
     iowrite32 0x0000FF8F CMIC_SOFT_RESET;
     mdelay 50;
     iowrite32 0x0000007F CMIC_SOFT_RESET_2;
     mdelay 10;
     iowrite32 0x0000FFFF CMIC_SOFT_RESET;
     mdelay 100;
     val2 \<leftarrow> ioread32 E CMIC_MISC_CONTROL;
     iowrite32 (val2 OR 1) CMIC_MISC_CONTROL;
     cmice_schan_abort;
     ioread32 E CMIC_SOFT_RESET;
     ioread32 E CMICE_SCHAN_CTRL;
     return ()
   }"

text \<open>The loop \<open>while (time_before(jiffies, deadline))\<close>: the number of iterations
  before the deadline is the clock's, a finite number since every iteration sleeps.\<close>

fun schan_poll :: "env \<Rightarrow> nat \<Rightarrow> u32 \<Rightarrow> ('z kernel_bde_scheme, bool \<times> u32) state" where
  "schan_poll E 0 ctrl = return (False, ctrl)"
| "schan_poll E (Suc n) _ = do {
     ctrl \<leftarrow> ioread32 E CMICE_SCHAN_CTRL;
     if ctrl AND SCHAN_CTRL_DONE \<noteq> 0 then return (True, ctrl)
     else do { udelay 10; schan_poll E n ctrl }
   }"

text \<open>\<open>nos_bde_schan_op\<close> in three parts: up to and including START; the completion after the
  poll loop (data, status, abort, restore); the whole with its guards and its mutex.\<close>

definition schan_start :: "env \<Rightarrow> u32 list \<Rightarrow> int \<Rightarrow> ('z kernel_bde_scheme, u32 \<times> u32) state" where
  "schan_start E cmd cmd_words = do {
     saved_misc \<leftarrow> ioread32 E CMIC_MISC_CONTROL;
     ctrl \<leftarrow> ioread32 E CMICE_SCHAN_CTRL;
     (if ctrl \<noteq> 0 then cmice_schan_abort else return ());
     for_each [0..<nat cmd_words] (\<lambda>i. iowrite32 (cmd ! i) (CMICE_SCHAN_D i));
     (if cmd_words > 7 then iowrite32 saved_misc CMIC_MISC_CONTROL else return ());
     iowrite32 CMICE_SET_START CMICE_SCHAN_CTRL;
     return (saved_misc, ctrl)
   }"

definition schan_finish ::
  "env \<Rightarrow> u32 \<Rightarrow> bool \<Rightarrow> u32 \<Rightarrow> u32 list option \<Rightarrow> int \<Rightarrow> ('z kernel_bde_scheme, u32 list option \<times> int) state" where
  "schan_finish E saved_misc done ctrl data data_words =
     (if done then
        if ctrl AND (SCHAN_CTRL_TIMEOUT OR SCHAN_CTRL_NAK) \<noteq> 0 then do {
          cmice_schan_abort;
          iowrite32 saved_misc CMIC_MISC_CONTROL;
          return (data, - EIO)
        } else do {
          data' \<leftarrow> (case data of None \<Rightarrow> return None
            | Some d \<Rightarrow> do {
                ws \<leftarrow> State_Monad.traverse_list (\<lambda>i. ioread32 E (CMICE_SCHAN_D i)) [0..<nat data_words];
                return (Some (copy_words d ws (nat data_words)))
              });
          cmice_schan_abort;
          iowrite32 saved_misc CMIC_MISC_CONTROL;
          return (data', 0)
        }
      else do {
        cmice_schan_abort;
        iowrite32 saved_misc CMIC_MISC_CONTROL;
        return (data, - ETIMEDOUT)
      })"

definition nos_bde_schan_op ::
  "env \<Rightarrow> u32 list \<Rightarrow> int \<Rightarrow> u32 list option \<Rightarrow> int \<Rightarrow> int \<Rightarrow>
   ('z kernel_bde_scheme, int \<times> u32 list option \<times> int) state" where
  "nos_bde_schan_op E cmd cmd_words data data_words status = do {
     p \<leftarrow> gets bde_priv;
     if p = None \<or> cmd_words \<le> 0 \<or> cmd_words > SCHAN_MAX_MSG_WORDS \<or>
        data_words < 0 \<or> data_words > SCHAN_MAX_MSG_WORDS
     then return (- EINVAL, data, status)
     else do {
       intr \<leftarrow> os E sys_mutex_lock_interruptible [];
       if intr \<noteq> 0 then return (- EINTR, data, status)
       else do {
         (saved_misc, ctrl) \<leftarrow> schan_start E cmd cmd_words;
         polls \<leftarrow> os E sys_jiffies [50];
         (done, ctrl) \<leftarrow> schan_poll E (nat polls) ctrl;
         (data', status') \<leftarrow> schan_finish E saved_misc done ctrl data data_words;
         os E sys_mutex_unlock [];
         return (0, data', status')
       }
     }
   }"

subsection \<open>Probe and remove\<close>

text \<open>The unwinding labels of \<open>nos_bde_probe\<close>, each falling through to the next.\<close>

definition err_free :: "env \<Rightarrow> ('z kernel_bde_scheme, unit) state" where
  "err_free E = do { os E sys_kfree []; return () }"

definition err_disable :: "env \<Rightarrow> ('z kernel_bde_scheme, unit) state" where
  "err_disable E = do { os E sys_pci_disable_device []; err_free E }"

definition err_release :: "env \<Rightarrow> ('z kernel_bde_scheme, unit) state" where
  "err_release E = do { os E sys_pci_release_regions []; err_disable E }"

definition err_iounmap :: "env \<Rightarrow> ('z kernel_bde_scheme, unit) state" where
  "err_iounmap E = do { os E sys_pci_iounmap []; err_release E }"

definition err_dma :: "env \<Rightarrow> ('z kernel_bde_scheme, unit) state" where
  "err_dma E = do { os E sys_dma_free_coherent []; err_iounmap E }"

abbreviation (input) "BAR0_SIZE \<equiv> (262144::int)"
abbreviation (input) "DMA_POOL_SIZE \<equiv> (4194304::nat)"

definition nos_bde_probe :: "env \<Rightarrow> ('z kernel_bde_scheme, int) state" where
  "nos_bde_probe E = do {
     priv \<leftarrow> os E sys_kzalloc [];
     if priv = 0 then return (- ENOMEM)
     else do {
       rc \<leftarrow> os E sys_pci_enable_device [];
       if rc \<noteq> 0 then do { err_free E; return rc }
       else do {
         os E sys_pci_set_master [];
         rc \<leftarrow> os E sys_pci_request_regions [];
         if rc \<noteq> 0 then do { err_disable E; return rc }
         else do {
           bar0 \<leftarrow> os E sys_pci_iomap [0, BAR0_SIZE];
           if bar0 = 0 then do { err_release E; return (- ENOMEM) }
           else do {
             vbase \<leftarrow> os E sys_dma_alloc_coherent [int DMA_POOL_SIZE];
             if vbase = 0 then do { err_iounmap E; return (- ENOMEM) }
             else do {
               pbase \<leftarrow> os E sys_dma_handle [];
               irq \<leftarrow> os E sys_request_irq [];
               if irq \<noteq> 0 then do { err_dma E; return (- EIO) }
               else do {
                 modify (\<lambda>s. s\<lparr>bde_priv := Some \<lparr>dma_pbase = word_of_int pbase, dma_size = DMA_POOL_SIZE\<rparr>\<rparr>);
                 bcm56846_chip_reset E;
                 return 0
               }
             }
           }
         }
       }
     }
   }"

definition nos_bde_remove :: "env \<Rightarrow> ('z kernel_bde_scheme, unit) state" where
  "nos_bde_remove E = do {
     priv \<leftarrow> gets bde_priv;
     if priv = None then return ()
     else do {
       modify (\<lambda>s. s\<lparr>bde_priv := None\<rparr>);
       os E sys_free_irq [];
       os E sys_dma_free_coherent [];
       os E sys_pci_iounmap [];
       os E sys_pci_release_regions [];
       os E sys_pci_disable_device [];
       os E sys_kfree [];
       return ()
     }
   }"

section \<open>Events of the sequences\<close>

definition abort_events :: "io_event list" where
  "abort_events =
     [IoWr CMICE_SCHAN_CTRL CMICE_CLR_TIMEOUT, IoWr CMICE_SCHAN_CTRL CMICE_CLR_NAK,
      IoWr CMICE_SCHAN_CTRL CMICE_CLR_SER, IoWr CMICE_SCHAN_CTRL CMICE_CLR_DONE,
      IoWr CMICE_SCHAN_CTRL CMICE_CLR_START, IoWr CMICE_SCHAN_CTRL CMICE_CLR_ABORT,
      Delay 100, IoWr CMICE_SCHAN_CTRL CMICE_SET_ABORT]"

lemma run_abort [simp]:
  "run_state cmice_schan_abort s = ((), s\<lparr>trace := abort_events @ trace s\<rparr>)"
  by (simp add: cmice_schan_abort_def abort_events_def)

lemma last_wr_abort [simp]:
  "off \<noteq> CMICE_SCHAN_CTRL \<Longrightarrow> last_wr off (abort_events @ tr) = last_wr off tr"
  by (simp add: abort_events_def)

lemma emits_abort [emits_rules]:
  "(\<And>v. v \<noteq> CMICE_SET_START \<Longrightarrow> P (IoWr CMICE_SCHAN_CTRL v)) \<Longrightarrow> P (Delay 100) \<Longrightarrow>
   emits P cmice_schan_abort"
  unfolding cmice_schan_abort_def by (intro emits_rules) simp_all

lemma emits_poll: "emits silent (schan_poll E n c)"
  by (induction n arbitrary: c) (auto intro!: emits_rules)

definition cmd_events :: "u32 list \<Rightarrow> nat \<Rightarrow> io_event list" where
  "cmd_events cmd n = rev (map (\<lambda>i. IoWr (CMICE_SCHAN_D i) (cmd ! i)) [0..<n])"

lemma run_cmd_writes:
  "run_state (for_each [0..<n] (\<lambda>i. iowrite32 (cmd ! i) (CMICE_SCHAN_D i))) s
   = ((), s\<lparr>trace := cmd_events cmd n @ trace s\<rparr>)"
proof -
  have "run_state (for_each is (\<lambda>i. iowrite32 (cmd ! i) (CMICE_SCHAN_D i))) s
     = ((), s\<lparr>trace := rev (map (\<lambda>i. IoWr (CMICE_SCHAN_D i) (cmd ! i)) is) @ trace s\<rparr>)" for "is"
    by (induction "is" arbitrary: s) simp_all
  then show ?thesis by (simp add: cmd_events_def)
qed

lemma unat_schan_D: "i \<le> 21 \<Longrightarrow> unat (CMICE_SCHAN_D i) = i * 4"
  by (simp add: CMICE_SCHAN_D_def unat_of_nat take_bit_eq_mod del: of_nat_mult)

lemma schan_D_inj: "i \<le> 21 \<Longrightarrow> j \<le> 21 \<Longrightarrow> CMICE_SCHAN_D i = CMICE_SCHAN_D j \<longleftrightarrow> i = j"
  by (subst word_unat_eq_iff) (simp add: unat_schan_D)

lemma schan_D_7: "CMICE_SCHAN_D 7 = CMIC_MISC_CONTROL"
  by (simp add: CMICE_SCHAN_D_def CMIC_MISC_CONTROL_def)

lemma schan_D_20: "CMICE_SCHAN_D 20 = CMICE_SCHAN_CTRL"
  by (simp add: CMICE_SCHAN_D_def CMICE_SCHAN_CTRL_def)

lemma last_wr_cmd:
  assumes "n \<le> 21" and "i \<le> 21"
  shows "last_wr (CMICE_SCHAN_D i) (cmd_events cmd n @ tr)
         = (if i < n then Some (cmd ! i) else last_wr (CMICE_SCHAN_D i) tr)"
  using assms(1)
proof (induction n)
  case 0
  then show ?case by (simp add: cmd_events_def)
next
  case (Suc n)
  then show ?case
    using assms(2) schan_D_inj[of n i] by (auto simp: cmd_events_def less_Suc_eq)
qed

section \<open>The shape of a run\<close>

definition schan_op_ok :: "env \<Rightarrow> int \<Rightarrow> int \<Rightarrow> 'z kernel_bde_scheme \<Rightarrow> bool" where
  "schan_op_ok E cmd_words data_words s \<longleftrightarrow>
     bde_priv s \<noteq> None \<and> 0 < cmd_words \<and> cmd_words \<le> SCHAN_MAX_MSG_WORDS \<and>
     0 \<le> data_words \<and> data_words \<le> SCHAN_MAX_MSG_WORDS \<and>
     os_answer E (trace s) sys_mutex_lock_interruptible [] = 0"

text \<open>The value \<open>CMIC_MISC_CONTROL\<close> has when the operation has taken the mutex.\<close>

definition misc_at :: "env \<Rightarrow> 'z kernel_bde_scheme \<Rightarrow> u32" where
  "misc_at E s = bar0_answer E (OsCall sys_mutex_lock_interruptible [] 0 # trace s) CMIC_MISC_CONTROL"

text \<open>The history at the moment the operation asserts START.\<close>

definition start_history :: "env \<Rightarrow> u32 list \<Rightarrow> int \<Rightarrow> 'z kernel_bde_scheme \<Rightarrow> io_event list" where
  "start_history E cmd cmd_words s =
     (let tr2 = IoRd CMIC_MISC_CONTROL (misc_at E s) # OsCall sys_mutex_lock_interruptible [] 0 # trace s;
          ctrl = bar0_answer E tr2 CMICE_SCHAN_CTRL
      in (if cmd_words > 7 then [IoWr CMIC_MISC_CONTROL (misc_at E s)] else []) @
         cmd_events cmd (nat cmd_words) @ (if ctrl \<noteq> 0 then abort_events else []) @
         IoRd CMICE_SCHAN_CTRL ctrl # tr2)"

lemma silent_reads:
  "\<exists>ws evs. run_state (State_Monad.traverse_list (\<lambda>i. ioread32 E (CMICE_SCHAN_D i)) is) s
      = (ws, s\<lparr>trace := evs @ trace s\<rparr>) \<and> list_all silent evs"
proof -
  have "emits silent (State_Monad.traverse_list (\<lambda>i. ioread32 E (CMICE_SCHAN_D i)) is)"
    by (intro emits_rules) simp_all
  from emitsE[OF this, of s] show ?thesis
    by (metis prod.collapse)
qed

lemma silent_poll:
  "\<exists>d c' evs. run_state (schan_poll E n c) s
      = ((d, c'), s\<lparr>trace := evs @ trace s\<rparr>) \<and> list_all silent evs"
  using emitsE[OF emits_poll, of E n c s] by (metis prod.collapse)

lemma run_schan_start:
  "run_state (schan_start E cmd n) (s\<lparr>trace := OsCall sys_mutex_lock_interruptible [] 0 # trace s\<rparr>)
   = ((misc_at E s, bar0_answer E (IoRd CMIC_MISC_CONTROL (misc_at E s) #
         OsCall sys_mutex_lock_interruptible [] 0 # trace s) CMICE_SCHAN_CTRL),
      s\<lparr>trace := IoWr CMICE_SCHAN_CTRL CMICE_SET_START # start_history E cmd n s\<rparr>)"
  by (simp add: schan_start_def run_cmd_writes start_history_def misc_at_def Let_def)

lemma run_schan_finish:
  "\<exists>r evs. run_state (schan_finish E m d c data k) s
      = (r, s\<lparr>trace := IoWr CMIC_MISC_CONTROL m # abort_events @ evs @ trace s\<rparr>) \<and> list_all silent evs"
proof -
  obtain ws re where re: "run_state (State_Monad.traverse_list (\<lambda>i. ioread32 E (CMICE_SCHAN_D i)) [0..<nat k]) s
      = (ws, s\<lparr>trace := re @ trace s\<rparr>)" "list_all silent re"
    using silent_reads by blast
  have "exec (schan_finish E m d c data k) s
      = s\<lparr>trace := IoWr CMIC_MISC_CONTROL m # abort_events @
           (if d \<and> c AND (SCHAN_CTRL_TIMEOUT OR SCHAN_CTRL_NAK) = 0 \<and> data \<noteq> None then re else []) @ trace s\<rparr>"
    using re by (auto simp: schan_finish_def split: option.splits)
  moreover have "list_all silent
      (if d \<and> c AND (SCHAN_CTRL_TIMEOUT OR SCHAN_CTRL_NAK) = 0 \<and> data \<noteq> None then re else [])"
    using re(2) by simp
  ultimately show ?thesis
    by (cases "run_state (schan_finish E m d c data k) s") (simp only: snd_conv, blast)
qed

lemma schan_op_shape:
  assumes ok: "schan_op_ok E cmd_words data_words s"
  obtains evs r data' status' where
    "run_state (nos_bde_schan_op E cmd cmd_words data data_words status) s
     = ((0, data', status'),
        s\<lparr>trace := OsCall sys_mutex_unlock [] r # IoWr CMIC_MISC_CONTROL (misc_at E s) # abort_events @ evs @
          IoWr CMICE_SCHAN_CTRL CMICE_SET_START # start_history E cmd cmd_words s\<rparr>)"
    and "list_all silent evs"
proof -
  let ?s1 = "s\<lparr>trace := IoWr CMICE_SCHAN_CTRL CMICE_SET_START # start_history E cmd cmd_words s\<rparr>"
  let ?j = "os_answer E (trace ?s1) sys_jiffies [50]"
  let ?c = "bar0_answer E (IoRd CMIC_MISC_CONTROL (misc_at E s) #
              OsCall sys_mutex_lock_interruptible [] 0 # trace s) CMICE_SCHAN_CTRL"
  let ?s2 = "?s1\<lparr>trace := OsCall sys_jiffies [50] ?j # trace ?s1\<rparr>"
  obtain p where p: "bde_priv s = Some p"
    using ok unfolding schan_op_ok_def by blast
  obtain d c2 pe where pe: "run_state (schan_poll E (nat ?j) ?c) ?s2
      = ((d, c2), ?s2\<lparr>trace := pe @ trace ?s2\<rparr>)" "list_all silent pe"
    using silent_poll by blast
  let ?s3 = "?s2\<lparr>trace := pe @ trace ?s2\<rparr>"
  obtain data' status' fe where fe: "run_state (schan_finish E (misc_at E s) d c2 data data_words) ?s3
      = ((data', status'), ?s3\<lparr>trace := IoWr CMIC_MISC_CONTROL (misc_at E s) # abort_events @ fe @ trace ?s3\<rparr>)"
      "list_all silent fe"
    using run_schan_finish[of E "misc_at E s" d c2 data data_words ?s3] by (auto split: prod.splits)
  show ?thesis
    by (rule that[where evs = "fe @ pe @ [OsCall sys_jiffies [50] ?j]"])
      (use ok p pe fe in \<open>auto simp: schan_op_ok_def nos_bde_schan_op_def run_schan_start\<close>)
qed

section \<open>What the chip sees\<close>

text \<open>The histories just before each START, newest first: in such a history the last value
  written to \<open>SCHAN_D(i)\<close> is word \<open>i\<close> of the message the CMIC takes.\<close>

fun schan_starts :: "io_event list \<Rightarrow> io_event list list" where
  "schan_starts [] = []"
| "schan_starts (IoWr a v # tr) =
     (if a = CMICE_SCHAN_CTRL \<and> v = CMICE_SET_START then tr # schan_starts tr else schan_starts tr)"
| "schan_starts (_ # tr) = schan_starts tr"

lemma schan_starts_silent: "list_all silent evs \<Longrightarrow> schan_starts (evs @ tr) = schan_starts tr"
  by (induction evs rule: schan_starts.induct) auto

lemma schan_starts_abort [simp]: "schan_starts (abort_events @ tr) = schan_starts tr"
  by (simp add: abort_events_def)

lemma schan_starts_cmd: "n \<le> 20 \<Longrightarrow> schan_starts (cmd_events cmd n @ tr) = schan_starts tr"
proof (induction n)
  case 0
  then show ?case by (simp add: cmd_events_def)
next
  case (Suc n)
  then show ?case
    using schan_D_inj[of n 20] by (simp add: cmd_events_def schan_D_20)
qed

lemma misc_not_ctrl [simp]: "CMIC_MISC_CONTROL \<noteq> CMICE_SCHAN_CTRL"
  by (simp add: kernel_regs)

lemma schan_starts_start_history:
  "n \<le> 20 \<Longrightarrow> schan_starts (start_history E cmd n s) = schan_starts (trace s)"
  by (simp add: start_history_def Let_def schan_starts_cmd)

lemma last_wr_start_history:
  assumes "n \<le> 20" and "i < nat n"
  shows "last_wr (CMICE_SCHAN_D i) (start_history E cmd n s)
         = Some (if i = 7 \<and> n > 7 then misc_at E s else cmd ! i)"
proof -
  have "CMIC_MISC_CONTROL = CMICE_SCHAN_D i \<longleftrightarrow> i = 7"
    using assms schan_D_inj[of 7 i] by (simp add: schan_D_7)
  then show ?thesis
    using assms by (auto simp: start_history_def Let_def last_wr_cmd)
qed

text \<open>C8. The message the CMIC takes at START. For every environment, one S-Channel operation
  with at most 20 command words asserts START exactly once, and at that moment the message
  registers hold the caller's words, all but one: when the message is longer than 7 words,
  word 7 (data word 5 of a memory write) is not the caller's but the saved value of
  CMIC_MISC_CONTROL, because SCHAN_D(7) is that register and it is restored before START.\<close>

theorem schan_message_at_start:
  assumes "schan_op_ok E cmd_words data_words s" and "cmd_words \<le> 20"
  shows "\<exists>h. schan_starts (trace (exec (nos_bde_schan_op E cmd cmd_words data data_words status) s))
              = h # schan_starts (trace s) \<and>
             (\<forall>i < nat cmd_words. last_wr (CMICE_SCHAN_D i) h
                = Some (if i = 7 \<and> cmd_words > 7 then misc_at E s else cmd ! i))"
proof -
  obtain evs r where run: "trace (exec (nos_bde_schan_op E cmd cmd_words data data_words status) s)
      = OsCall sys_mutex_unlock [] r # IoWr CMIC_MISC_CONTROL (misc_at E s) # abort_events @ evs @
        IoWr CMICE_SCHAN_CTRL CMICE_SET_START # start_history E cmd cmd_words s"
    and "list_all silent evs"
    by (rule schan_op_shape[OF assms(1), of cmd data status]) simp
  then have "schan_starts (trace (exec (nos_bde_schan_op E cmd cmd_words data data_words status) s))
      = start_history E cmd cmd_words s # schan_starts (trace s)"
    using assms(2) by (simp add: schan_starts_silent schan_starts_start_history)
  with last_wr_start_history[OF assms(2)] show ?thesis by blast
qed

text \<open>A concrete environment for the witnesses: no OS call fails, the clock allows one poll, the
  controller reports DONE, CMIC_MISC_CONTROL reads 1 and every other register 0.\<close>

definition ready_env :: env where
  "ready_env = \<lparr>bar0_answer = (\<lambda>_ off. if off = CMICE_SCHAN_CTRL then 2 else if off = CMIC_MISC_CONTROL then 1 else 0),
                os_answer = (\<lambda>_ name _. if name = sys_jiffies then 1 else 0), indet = (\<lambda>_. 0)\<rparr>"

definition probed :: kernel_bde where
  "probed = \<lparr>trace = [], bde_priv = Some \<lparr>dma_pbase = 0x10000000, dma_size = DMA_POOL_SIZE\<rparr>\<rparr>"

lemma ready_ok: "0 < n \<Longrightarrow> n \<le> 21 \<Longrightarrow> 0 \<le> k \<Longrightarrow> k \<le> 21 \<Longrightarrow> schan_op_ok ready_env n k probed"
  by (simp add: schan_op_ok_def ready_env_def probed_def)

lemma ready_misc: "misc_at ready_env probed = 1"
  by (simp add: misc_at_def ready_env_def kernel_regs)

theorem schan_message_at_start_witness:
  "\<exists>h. schan_starts (trace (exec (nos_bde_schan_op ready_env [10, 11, 12, 13, 14, 15, 16, 17, 18] 9 None 0 0) probed)) = [h]
       \<and> last_wr (CMICE_SCHAN_D 6) h = Some 16 \<and> last_wr (CMICE_SCHAN_D 7) h = Some 1
       \<and> last_wr (CMICE_SCHAN_D 8) h = Some 18"
proof -
  have "schan_starts (trace probed) = []" by (simp add: probed_def)
  with schan_message_at_start[OF ready_ok, of 9 0 "[10, 11, 12, 13, 14, 15, 16, 17, 18]" None 0]
  obtain h where
    "schan_starts (trace (exec (nos_bde_schan_op ready_env [10, 11, 12, 13, 14, 15, 16, 17, 18] 9 None 0 0) probed)) = [h]"
    and h: "\<forall>i<9. last_wr (CMICE_SCHAN_D i) h
       = Some (if i = 7 then 1 else [10, 11, 12, 13, 14, 15, 16, 17, 18] ! i)"
    by (auto simp: ready_misc)
  then show ?thesis
    using h[rule_format, of 6] h[rule_format, of 7] h[rule_format, of 8] by simp
qed

text \<open>The S-Channel operation preserves CMIC_MISC_CONTROL: on every path that touches the
  hardware (success, bus error, timeout) the last value written to the register is the one read
  before the message was written over it, so the LINK40G/S-Channel enable bits survive. A call
  that is refused (no device, bad lengths, interrupted lock) writes no register at all.\<close>

lemma schan_keeps_misc:
  "let s' = exec (nos_bde_schan_op E cmd cmd_words data data_words status) s in
     if schan_op_ok E cmd_words data_words s
     then last_wr CMIC_MISC_CONTROL (trace s') = Some (misc_at E s)
     else writes (trace s') = writes (trace s)"
proof (cases "schan_op_ok E cmd_words data_words s")
  case True
  show ?thesis
    by (rule schan_op_shape[OF True, of cmd data status]) (simp add: True)
next
  case False
  then show ?thesis
    by (auto simp: schan_op_ok_def nos_bde_schan_op_def Let_def)
qed

section \<open>The mutex\<close>

text \<open>Times the S-Channel mutex is held after a history.\<close>

fun lock_depth :: "io_event list \<Rightarrow> int" where
  "lock_depth [] = 0"
| "lock_depth (OsCall name args r # tr) =
     (if name = sys_mutex_lock_interruptible \<and> r = 0 then lock_depth tr + 1
      else if name = sys_mutex_unlock then lock_depth tr - 1 else lock_depth tr)"
| "lock_depth (_ # tr) = lock_depth tr"

definition lock_free :: "io_event \<Rightarrow> bool" where
  "lock_free e \<longleftrightarrow> (\<forall>args r. e \<noteq> OsCall sys_mutex_lock_interruptible args r \<and> e \<noteq> OsCall sys_mutex_unlock args r)"

lemma lock_depth_free: "list_all lock_free evs \<Longrightarrow> lock_depth (evs @ tr) = lock_depth tr"
  by (induction evs rule: lock_depth.induct) (auto simp: lock_free_def)

lemma emits_start: "emits lock_free (schan_start E cmd n)"
  unfolding schan_start_def by (intro emits_rules) (auto simp: lock_free_def)

lemma emits_poll_free: "emits lock_free (schan_poll E n c)"
  by (induction n arbitrary: c) (auto intro!: emits_rules simp: lock_free_def)

lemma emits_finish: "emits lock_free (schan_finish E m d c data k)"
  unfolding schan_finish_def by (intro emits_rules) (auto simp: lock_free_def)

lemma emits_locked_part:
  "emits lock_free (do {
     (saved_misc, ctrl) \<leftarrow> schan_start E cmd n;
     polls \<leftarrow> os E sys_jiffies [50];
     (done, ctrl) \<leftarrow> schan_poll E (nat polls) ctrl;
     schan_finish E saved_misc done ctrl data k })"
  by (intro emits_rules emits_start emits_poll_free emits_finish) (auto simp: lock_free_def)

text \<open>The mutex is released on every path: for every environment and every argument, the
  operation returns with the S-Channel mutex held exactly as often as when it was called, also
  when the bus reports an error, when it times out and when a signal interrupts the lock.\<close>

lemma schan_lock_depth:
  "lock_depth (trace (exec (nos_bde_schan_op E cmd cmd_words data data_words status) s)) = lock_depth (trace s)"
proof -
  let ?ok = "\<not> (bde_priv s = None \<or> cmd_words \<le> 0 \<or> cmd_words > SCHAN_MAX_MSG_WORDS \<or>
                 data_words < 0 \<or> data_words > SCHAN_MAX_MSG_WORDS)"
  let ?r = "os_answer E (trace s) sys_mutex_lock_interruptible []"
  let ?s1 = "s\<lparr>trace := OsCall sys_mutex_lock_interruptible [] ?r # trace s\<rparr>"
  let ?m = "do {
     (saved_misc, ctrl) \<leftarrow> schan_start E cmd cmd_words;
     polls \<leftarrow> os E sys_jiffies [50];
     (done, ctrl) \<leftarrow> schan_poll E (nat polls) ctrl;
     schan_finish E saved_misc done ctrl data data_words }"
  obtain evs where evs: "exec ?m ?s1 = ?s1\<lparr>trace := evs @ trace ?s1\<rparr>" "list_all lock_free evs"
    using emits_locked_part by (rule emitsE)
  have run: "exec (nos_bde_schan_op E cmd cmd_words data data_words status) s
     = (if \<not> ?ok then s else if ?r \<noteq> 0 then ?s1 else exec (os E sys_mutex_unlock []) (exec ?m ?s1))"
    by (simp add: nos_bde_schan_op_def split_beta)
  show ?thesis
    unfolding run evs(1) using evs(2) by (auto simp: lock_depth_free)
qed

text \<open>C3. What the S-Channel operation borrows it gives back. On every path that touches the hardware
  (success, bus error, timeout) CMIC_MISC_CONTROL, which the command words overwrite, ends with the
  value read before, and a call that is refused (no device, bad lengths, interrupted lock) writes no
  register at all; on every path, and for every argument, the mutex is held as often after the call
  as before it.\<close>

theorem schan_op_restores:
  "let s' = exec (nos_bde_schan_op E cmd cmd_words data data_words status) s in
     (if schan_op_ok E cmd_words data_words s
      then last_wr CMIC_MISC_CONTROL (trace s') = Some (misc_at E s)
      else writes (trace s') = writes (trace s)) \<and>
     lock_depth (trace s') = lock_depth (trace s)"
  using schan_keeps_misc[of E cmd cmd_words data data_words status s]
  by (simp add: Let_def schan_lock_depth)

section \<open>Reset order\<close>

definition ring_setup :: "(u32 \<times> u32) list" where
  "ring_setup = [(CMIC_SBUS_TIMEOUT, 0x7D0), (CMIC_SBUS_RING_MAP_0, 0x43052100),
     (CMIC_SBUS_RING_MAP_1, 0x33333343), (CMIC_SBUS_RING_MAP_2, 0x44444333),
     (CMIC_SBUS_RING_MAP_3, 0x00034444)]"

lemma writes_chip_reset:
  "\<exists>v v2. writes (trace (exec (bcm56846_chip_reset E) s)) = writes (trace s) @
     [(CMIC_CONFIG, v OR push_bit 5 1), (CMIC_CONFIG, v AND NOT (push_bit 5 1)), (CMIC_SOFT_RESET, 0)] @
     ring_setup @
     [(CMIC_SOFT_RESET, 0x780), (CMIC_SOFT_RESET, 0xF780), (CMIC_SOFT_RESET, 0xFF8F),
      (CMIC_SOFT_RESET_2, 0x7F), (CMIC_SOFT_RESET, 0xFFFF), (CMIC_MISC_CONTROL, v2 OR 1)] @
     writes abort_events"
  by (simp add: bcm56846_chip_reset_def ring_setup_def abort_events_def del: push_bit_numeral) blast

text \<open>C10. Ordering requirement of the chip reset: whatever the chip answers, each time the reset
  sequence writes CMIC_SOFT_RESET with a bit of MMU, IP or EP (bits 4 to 6) released, it has
  before that written the SBUS timeout and all four ring maps with their values; and the
  sequence ends with every block released.\<close>

theorem chip_reset_order:
  "\<exists>new. writes (trace (exec (bcm56846_chip_reset E) s)) = writes (trace s) @ new \<and>
         map_of (rev new) CMIC_SOFT_RESET = Some 0xFFFF \<and>
         (\<forall>pre v post. new = pre @ (CMIC_SOFT_RESET, v) # post \<longrightarrow> v AND 0x70 \<noteq> 0 \<longrightarrow>
            set ring_setup \<subseteq> set pre)"
proof -
  obtain v v2 where w: "writes (trace (exec (bcm56846_chip_reset E) s)) = writes (trace s) @
     [(CMIC_CONFIG, v OR push_bit 5 1), (CMIC_CONFIG, v AND NOT (push_bit 5 1)), (CMIC_SOFT_RESET, 0)] @
     ring_setup @
     [(CMIC_SOFT_RESET, 0x780), (CMIC_SOFT_RESET, 0xF780), (CMIC_SOFT_RESET, 0xFF8F),
      (CMIC_SOFT_RESET_2, 0x7F), (CMIC_SOFT_RESET, 0xFFFF), (CMIC_MISC_CONTROL, v2 OR 1)] @
     writes abort_events" (is "_ = _ @ ?new")
    using writes_chip_reset by blast
  have "map_of (rev ?new) CMIC_SOFT_RESET = Some 0xFFFF"
    by (simp add: ring_setup_def abort_events_def kernel_regs)
  moreover have "set ring_setup \<subseteq> set pre"
    if "?new = pre @ (CMIC_SOFT_RESET, x) # post" and "x AND 0x70 \<noteq> 0" for pre x post
    using that
    by (auto simp: ring_setup_def abort_events_def kernel_regs Cons_eq_append_conv)
  ultimately show ?thesis using w by blast
qed

theorem chip_reset_order_witness:
  "\<exists>pre post. writes (trace (exec (bcm56846_chip_reset ready_env) probed)) = pre @ (CMIC_SOFT_RESET, 0xFFFF) # post
     \<and> set ring_setup \<subseteq> set pre"
proof -
  have w0: "writes (trace probed) = []" by (simp add: probed_def)
  obtain new where n: "writes (trace (exec (bcm56846_chip_reset ready_env) probed)) = new"
    and last: "map_of (rev new) CMIC_SOFT_RESET = Some 0xFFFF"
    and ord: "\<And>pre v post. new = pre @ (CMIC_SOFT_RESET, v) # post \<Longrightarrow> v AND 0x70 \<noteq> 0 \<Longrightarrow>
                set ring_setup \<subseteq> set pre"
    using chip_reset_order[of ready_env probed] w0 by auto
  from last have "(CMIC_SOFT_RESET, 0xFFFF) \<in> set new"
    by (auto dest: map_of_SomeD)
  then obtain pre post where sp: "new = pre @ (CMIC_SOFT_RESET, 0xFFFF) # post"
    by (auto simp: in_set_conv_decomp)
  moreover have "set ring_setup \<subseteq> set pre"
    by (rule ord[OF sp]) simp
  ultimately show ?thesis using n by blast
qed

section \<open>Resources of probe and remove\<close>

text \<open>The resource an event acquires, and the one it releases. \<open>held\<close> keeps the acquired
  resources as a stack; a release that is not of the top of the stack leaves a mark.\<close>

datatype resource = R_priv | R_device | R_regions | R_bar0 | R_dma | R_irq | R_bad

fun acquires :: "io_event \<Rightarrow> resource option" where
  "acquires (OsCall name args r) =
     (if name = sys_kzalloc \<and> r \<noteq> 0 then Some R_priv
      else if name = sys_pci_enable_device \<and> r = 0 then Some R_device
      else if name = sys_pci_request_regions \<and> r = 0 then Some R_regions
      else if name = sys_pci_iomap \<and> r \<noteq> 0 then Some R_bar0
      else if name = sys_dma_alloc_coherent \<and> r \<noteq> 0 then Some R_dma
      else if name = sys_request_irq \<and> r = 0 then Some R_irq else None)"
| "acquires _ = None"

fun releases :: "io_event \<Rightarrow> resource option" where
  "releases (OsCall name args r) =
     (if name = sys_kfree then Some R_priv
      else if name = sys_pci_disable_device then Some R_device
      else if name = sys_pci_release_regions then Some R_regions
      else if name = sys_pci_iounmap then Some R_bar0
      else if name = sys_dma_free_coherent then Some R_dma
      else if name = sys_free_irq then Some R_irq else None)"
| "releases _ = None"

fun held :: "io_event list \<Rightarrow> resource list" where
  "held [] = []"
| "held (e # tr) =
     (case acquires e of Some r \<Rightarrow> r # held tr
      | None \<Rightarrow> (case releases e of None \<Rightarrow> held tr
          | Some r \<Rightarrow> (case held tr of [] \<Rightarrow> [R_bad]
              | t # rs \<Rightarrow> if t = r then rs else R_bad # t # rs)))"

definition all_resources :: "resource list" where
  "all_resources = [R_irq, R_dma, R_bar0, R_regions, R_device, R_priv]"

definition resource_free :: "io_event \<Rightarrow> bool" where
  "resource_free e \<longleftrightarrow> acquires e = None \<and> releases e = None"

lemma held_free: "list_all resource_free evs \<Longrightarrow> held (evs @ tr) = held tr"
  by (induction evs) (simp_all add: resource_free_def)

lemma emits_chip_reset: "emits resource_free (bcm56846_chip_reset E)"
  unfolding bcm56846_chip_reset_def by (intro emits_rules) (simp_all add: resource_free_def)

lemma held_chip_reset: "held (trace (exec (bcm56846_chip_reset E) s)) = held (trace s)"
  by (rule emits_inv[OF emits_chip_reset held_free])

lemma bde_priv_chip_reset [simp]: "bde_priv (exec (bcm56846_chip_reset E) s) = bde_priv s"
  using arg_cong[OF emits_frame[OF emits_chip_reset, of E s], of bde_priv] by simp

lemmas unwind_defs =
  err_free_def err_disable_def err_release_def err_iounmap_def err_dma_def

lemma wp_chip_reset:
  "(\<And>tr. held tr = held (trace s) \<Longrightarrow> Q () (s\<lparr>trace := tr\<rparr>)) \<Longrightarrow> wp (bcm56846_chip_reset E) Q s"
  unfolding wp_def using emits_frame[OF emits_chip_reset, of E s] held_chip_reset[of E s]
  by (metis (full_types) old.unit.exhaust)

lemma wp_probe:
  "wp (nos_bde_probe E) (\<lambda>rc s'. if rc = 0 then held (trace s') = all_resources @ held (trace s) \<and> bde_priv s' \<noteq> None
      else held (trace s') = held (trace s) \<and> bde_priv s' = bde_priv s) s"
  unfolding nos_bde_probe_def unwind_defs
  by (intro wp_rules wp_chip_reset) (simp_all add: all_resources_def)

lemma wp_remove:
  "bde_priv s \<noteq> None \<Longrightarrow> held (trace s) = all_resources @ rs \<Longrightarrow>
   wp (nos_bde_remove E) (\<lambda>_ s'. held (trace s') = rs \<and> bde_priv s' = None) s"
  unfolding nos_bde_remove_def by (intro wp_rules) (simp_all add: all_resources_def)

text \<open>C11. Probing leaks nothing: whichever step the OS fails, the resources held after the
  probe are exactly those held before, released in reverse order of acquisition, and the device
  stays unpublished; when every step succeeds, all six resources are held, the device is
  published, and removing it gives all six back in reverse order.\<close>

theorem probe_no_leak:
  "let rc = result (nos_bde_probe E) s; s' = exec (nos_bde_probe E) s in
     if rc = 0
     then held (trace s') = all_resources @ held (trace s) \<and> bde_priv s' \<noteq> None \<and>
          held (trace (exec (nos_bde_remove E') s')) = held (trace s) \<and>
          bde_priv (exec (nos_bde_remove E') s') = None
     else held (trace s') = held (trace s) \<and> bde_priv s' = bde_priv s"
  using wpD[OF wp_probe, of E s] wpD[OF wp_remove, of "exec (nos_bde_probe E) s" "held (trace s)" E']
  by (auto simp: Let_def split: if_splits)

end
