(* ===== verification/User_Bde.thy ===== *)
theory User_Bde
  imports Kernel_Bde
begin

text \<open>
  The path from the SDK to the kernel: \<^verbatim>\<open>bde/nos_user_bde.c\<close> (the ioctl and mmap handlers of
  \<^verbatim>\<open>/dev/nos-bde\<close>) and \<^verbatim>\<open>sdk/src/bde_ioctl.c\<close> (its user-space client), composed: an
  \<open>ioctl\<close> of the client runs the handler, which runs the S-Channel operation of
  \<open>Kernel_Bde\<close>.
\<close>

section \<open>The ioctl interface\<close>

record nos_bde_reg =
  reg_offset :: u32
  reg_value :: u32

record nos_bde_dma_info =
  info_pbase :: u64
  info_size :: u32

record nos_bde_schan =
  sch_cmd :: "u32 list"
  sch_data :: "u32 list"
  sch_len :: int
  sch_status :: int

datatype bde_request =
    NOS_BDE_READ_REG nos_bde_reg
  | NOS_BDE_WRITE_REG nos_bde_reg
  | NOS_BDE_GET_DMA_INFO nos_bde_dma_info
  | NOS_BDE_SCHAN_OP nos_bde_schan
  | UNKNOWN_REQUEST

definition nos_bde_get_bar0 :: "('z kernel_bde_scheme, bool) state" where
  "nos_bde_get_bar0 = gets (\<lambda>s. bde_priv s \<noteq> None)"

definition nos_bde_get_dma_pbase :: "('z kernel_bde_scheme, u64) state" where
  "nos_bde_get_dma_pbase = gets (\<lambda>s. case bde_priv s of None \<Rightarrow> 0 | Some p \<Rightarrow> dma_pbase p)"

definition nos_bde_get_dma_size :: "('z kernel_bde_scheme, nat) state" where
  "nos_bde_get_dma_size = gets (\<lambda>s. case bde_priv s of None \<Rightarrow> 0 | Some p \<Rightarrow> dma_size p)"

text \<open>The handler gets the request as the caller's memory and gives it back as the handler
  left it. The command words of an S-Channel request are read through a pointer to
  \<open>schan.cmd\<close>, behind which \<open>schan.data\<close>, \<open>len\<close> and \<open>status\<close> lie.\<close>

definition nos_bde_ioctl :: "env \<Rightarrow> bde_request \<Rightarrow> ('z kernel_bde_scheme, int \<times> bde_request) state" where
  "nos_bde_ioctl E req = do {
     bar0 \<leftarrow> nos_bde_get_bar0;
     if \<not> bar0 then return (- ENODEV, req)
     else (case req of
       NOS_BDE_READ_REG reg \<Rightarrow> do {
         cf \<leftarrow> os E sys_copy_from_user [];
         if cf \<noteq> 0 then return (- EFAULT, req)
         else if reg_offset reg \<ge> 0x40000 then return (- EINVAL, req)
         else do {
           v \<leftarrow> ioread32 E (reg_offset reg);
           ct \<leftarrow> os E sys_copy_to_user [];
           if ct \<noteq> 0 then return (- EFAULT, req)
           else return (0, NOS_BDE_READ_REG (reg\<lparr>reg_value := v\<rparr>))
         }
       }
     | NOS_BDE_WRITE_REG reg \<Rightarrow> do {
         cf \<leftarrow> os E sys_copy_from_user [];
         if cf \<noteq> 0 then return (- EFAULT, req)
         else if reg_offset reg \<ge> 0x40000 then return (- EINVAL, req)
         else do {
           iowrite32 (reg_value reg) (reg_offset reg);
           return (0, req)
         }
       }
     | NOS_BDE_GET_DMA_INFO info \<Rightarrow> do {
         pbase \<leftarrow> nos_bde_get_dma_pbase;
         size \<leftarrow> nos_bde_get_dma_size;
         ct \<leftarrow> os E sys_copy_to_user [];
         if ct \<noteq> 0 then return (- EFAULT, req)
         else return (0, NOS_BDE_GET_DMA_INFO \<lparr>info_pbase = pbase, info_size = of_nat size\<rparr>)
       }
     | NOS_BDE_SCHAN_OP schan \<Rightarrow> do {
         cf \<leftarrow> os E sys_copy_from_user [];
         if cf \<noteq> 0 then return (- EFAULT, req)
         else do {
           (rc, data, status) \<leftarrow> nos_bde_schan_op E
              (sch_cmd schan @ sch_data schan @ [word_of_int (sch_len schan), word_of_int (sch_status schan)])
              (sch_len schan) (Some (sch_data schan)) 16 (sch_status schan);
           if rc < 0 then return (- EIO, req)
           else do {
             ct \<leftarrow> os E sys_copy_to_user [];
             if ct \<noteq> 0 then return (- EFAULT, req)
             else return (0, NOS_BDE_SCHAN_OP (schan\<lparr>sch_data := the data, sch_status := status\<rparr>))
           }
         }
       }
     | UNKNOWN_REQUEST \<Rightarrow> return (- ENOTTY, req))
   }"

definition nos_bde_mmap :: "env \<Rightarrow> nat \<Rightarrow> ('z kernel_bde_scheme, int) state" where
  "nos_bde_mmap E vma_length = do {
     size \<leftarrow> nos_bde_get_dma_size;
     pbase \<leftarrow> nos_bde_get_dma_pbase;
     bar0 \<leftarrow> nos_bde_get_bar0;
     if \<not> bar0 \<or> pbase = 0 \<or> size = 0 then return (- ENODEV)
     else if vma_length > size then return (- EINVAL)
     else os E sys_remap_pfn_range [int vma_length]
   }"

section \<open>The user-space client\<close>

text \<open>Pointers to the mapped pool are integers; \<open>MAP_FAILED\<close> is \<open>-1\<close>, \<open>NULL\<close> is 0.\<close>

record bde_state = kernel_bde +
  bde_fd :: int
  bde_dma_base :: int
  bde_dma_size :: nat

abbreviation (input) "MAP_FAILED \<equiv> (-1::int)"
abbreviation (input) "PAGE_SIZE \<equiv> (4096::nat)"

definition ioctl :: "env \<Rightarrow> bde_request \<Rightarrow> ('z bde_state_scheme, int \<times> bde_request) state" where
  "ioctl E req = do {
     (r, req') \<leftarrow> nos_bde_ioctl E req;
     return (if r < 0 then - 1 else r, req')
   }"

definition mmap_bde :: "env \<Rightarrow> nat \<Rightarrow> ('z bde_state_scheme, int) state" where
  "mmap_bde E len = do {
     r \<leftarrow> nos_bde_mmap E ((len + PAGE_SIZE - 1) div PAGE_SIZE * PAGE_SIZE);
     if r < 0 then return MAP_FAILED else os E sys_mmap [int len]
   }"

definition bde_open :: "env \<Rightarrow> ('z bde_state_scheme, int) state" where
  "bde_open E = do {
     fd \<leftarrow> gets bde_fd;
     if fd \<ge> 0 then return 0
     else do {
       fd \<leftarrow> os E sys_open [];
       modify (\<lambda>s. s\<lparr>bde_fd := fd\<rparr>);
       return (if fd \<ge> 0 then 0 else - 1)
     }
   }"

definition bde_close :: "env \<Rightarrow> ('z bde_state_scheme, unit) state" where
  "bde_close E = do {
     base \<leftarrow> gets bde_dma_base;
     size \<leftarrow> gets bde_dma_size;
     (if base \<noteq> MAP_FAILED \<and> base \<noteq> 0 then do {
        os E sys_munmap [base, int size];
        modify (\<lambda>s. s\<lparr>bde_dma_base := MAP_FAILED, bde_dma_size := 0\<rparr>)
      } else return ());
     fd \<leftarrow> gets bde_fd;
     (if fd \<ge> 0 then do {
        os E sys_close [fd];
        modify (\<lambda>s. s\<lparr>bde_fd := - 1\<rparr>)
      } else return ())
   }"

text \<open>Out-parameters are given their value before the call and returned with the result.\<close>

definition bde_read_reg :: "env \<Rightarrow> u32 \<Rightarrow> u32 \<Rightarrow> ('z bde_state_scheme, int \<times> u32) state" where
  "bde_read_reg E offset value = do {
     fd \<leftarrow> gets bde_fd;
     if fd < 0 then return (- 1, value)
     else do {
       (rc, r) \<leftarrow> ioctl E (NOS_BDE_READ_REG \<lparr>reg_offset = offset, reg_value = 0\<rparr>);
       if rc < 0 then return (- 1, value)
       else return (0, case r of NOS_BDE_READ_REG reg \<Rightarrow> reg_value reg | _ \<Rightarrow> value)
     }
   }"

definition bde_write_reg :: "env \<Rightarrow> u32 \<Rightarrow> u32 \<Rightarrow> ('z bde_state_scheme, int) state" where
  "bde_write_reg E offset value = do {
     fd \<leftarrow> gets bde_fd;
     if fd < 0 then return (- 1)
     else do {
       (rc, r) \<leftarrow> ioctl E (NOS_BDE_WRITE_REG \<lparr>reg_offset = offset, reg_value = value\<rparr>);
       return (if rc = 0 then 0 else - 1)
     }
   }"

definition bde_get_dma_info :: "env \<Rightarrow> u64 \<Rightarrow> u32 \<Rightarrow> ('z bde_state_scheme, int \<times> u64 \<times> u32) state" where
  "bde_get_dma_info E pbase psize = do {
     fd \<leftarrow> gets bde_fd;
     if fd < 0 then return (- 1, pbase, psize)
     else do {
       (rc, r) \<leftarrow> ioctl E (NOS_BDE_GET_DMA_INFO \<lparr>info_pbase = 0, info_size = 0\<rparr>);
       if rc < 0 then return (- 1, pbase, psize)
       else return (case r of NOS_BDE_GET_DMA_INFO i \<Rightarrow> (0, info_pbase i, info_size i) | _ \<Rightarrow> (0, pbase, psize))
     }
   }"

definition bde_mmap_dma :: "env \<Rightarrow> ('z bde_state_scheme, int) state" where
  "bde_mmap_dma E = do {
     base \<leftarrow> gets bde_dma_base;
     if base \<noteq> MAP_FAILED \<and> base \<noteq> 0 then return base
     else do {
       fd \<leftarrow> gets bde_fd;
       if fd < 0 then return 0
       else do {
         (rc, pbase, size) \<leftarrow> bde_get_dma_info E 0 0;
         if rc < 0 \<or> size = 0 then return 0
         else do {
           base \<leftarrow> mmap_bde E (unat size);
           modify (\<lambda>s. s\<lparr>bde_dma_base := base\<rparr>);
           if base = MAP_FAILED then return 0
           else do {
             modify (\<lambda>s. s\<lparr>bde_dma_size := unat size\<rparr>);
             return base
           }
         }
       }
     }
   }"

definition bde_schan_op ::
  "env \<Rightarrow> u32 list \<Rightarrow> int \<Rightarrow> u32 list option \<Rightarrow> int \<Rightarrow> int \<Rightarrow>
   ('z bde_state_scheme, int \<times> u32 list option \<times> int) state" where
  "bde_schan_op E cmd cmd_words data data_len status = do {
     fd \<leftarrow> gets bde_fd;
     if fd < 0 \<or> cmd_words \<le> 0 \<or> cmd_words > 16 then return (- 1, data, status)
     else do {
       let scmd = copy_words (replicate 16 0) cmd (nat cmd_words);
       let sdata = (case data of
             Some d \<Rightarrow> if data_len > 0 then copy_words (replicate 16 0) d (nat (if data_len \<le> 16 then data_len else 16))
                       else replicate 16 0
           | None \<Rightarrow> replicate 16 0);
       (rc, r) \<leftarrow> ioctl E (NOS_BDE_SCHAN_OP \<lparr>sch_cmd = scmd, sch_data = sdata, sch_len = cmd_words, sch_status = - 1\<rparr>);
       if rc < 0 then return (- 1, data, status)
       else (case r of
           NOS_BDE_SCHAN_OP s \<Rightarrow> return (0,
             (case data of
                Some d \<Rightarrow> if data_len > 0 then Some (copy_words d (sch_data s) (nat (if data_len \<le> 16 then data_len else 16)))
                          else Some d
              | None \<Rightarrow> None), sch_status s)
         | _ \<Rightarrow> return (0, data, status))
     }
   }"

section \<open>The window\<close>

text \<open>The ioctl handler reaches only the mapped BAR0 window of 256 KiB.\<close>

definition in_bar0 :: "io_event \<Rightarrow> bool" where
  "in_bar0 e = (case e of IoRd a v \<Rightarrow> a < 0x40000 | IoWr a v \<Rightarrow> a < 0x40000 | _ \<Rightarrow> True)"

lemma in_bar0_simps [simp]:
  "in_bar0 (IoRd a v) \<longleftrightarrow> a < 0x40000" "in_bar0 (IoWr a v) \<longleftrightarrow> a < 0x40000"
  "in_bar0 (Delay n)" "in_bar0 (OsCall f args r)"
  by (simp_all add: in_bar0_def)

lemma regs_in_bar0 [simp]: "CMICE_SCHAN_CTRL < 0x40000" "CMIC_MISC_CONTROL < 0x40000"
  by (simp_all add: kernel_regs)

lemma schan_D_in_bar0: "i < 21 \<Longrightarrow> CMICE_SCHAN_D i < 0x40000"
  by (simp add: word_less_nat_alt unat_schan_D)

lemma emits_poll_bar0: "emits in_bar0 (schan_poll E n c)"
  by (induction n arbitrary: c) (auto intro!: emits_rules)

lemma emits_schan_op_bar0: "emits in_bar0 (nos_bde_schan_op E cmd n data k st)"
  unfolding nos_bde_schan_op_def schan_start_def schan_finish_def
  by (intro emits_rules emits_poll_bar0) (auto intro!: schan_D_in_bar0)

lemma emits_ioctl_bar0: "emits in_bar0 (nos_bde_ioctl E req)"
  unfolding nos_bde_ioctl_def nos_bde_get_bar0_def nos_bde_get_dma_pbase_def nos_bde_get_dma_size_def
  by (cases req; simp only: bde_request.case; intro emits_rules emits_schan_op_bar0) (auto simp: not_le)


end
