(* ===== verification/Sbus.thy ===== *)
theory Sbus
  imports User_Bde
begin

text \<open>
  \<^verbatim>\<open>sdk/src/sbus.c\<close>: register and memory access over S-Channel messages, with
  \<^verbatim>\<open>sdk/src/reg.c\<close> and \<^verbatim>\<open>sdk/src/schan.c\<close>. Diagnostics on stderr are left out.
\<close>

section \<open>Message format\<close>

abbreviation (input) "SCHAN_READ_REG_CMD \<equiv> (0x0B::u32)"
abbreviation (input) "SCHAN_WRITE_REG_CMD \<equiv> (0x0D::u32)"
abbreviation (input) "SCHAN_READ_MEM_CMD \<equiv> (0x07::u32)"
abbreviation (input) "SCHAN_WRITE_MEM_CMD \<equiv> (0x09::u32)"

definition schan_header :: "u32 \<Rightarrow> u32 \<Rightarrow> u32 \<Rightarrow> u32" where
  "schan_header opcode dstblk dwords =
     push_bit 26 opcode OR push_bit 20 dstblk OR push_bit 14 0 OR push_bit 7 (dwords * 4)"

definition cdk_addr_to_block :: "u32 \<Rightarrow> u32" where
  "cdk_addr_to_block addr = (drop_bit 20 addr AND 0xf) OR (drop_bit 26 addr AND 0x30)"

definition cdk_port_addr :: "u32 \<Rightarrow> int \<Rightarrow> u32" where
  "cdk_port_addr base port =
     (base AND NOT 0xF00000) OR push_bit 20 (cdk_addr_to_block base) OR push_bit 12 (word_of_int port)"

section \<open>Registers\<close>

definition sbus_reg_write :: "env \<Rightarrow> u32 \<Rightarrow> u32 \<Rightarrow> ('z bde_state_scheme, int) state" where
  "sbus_reg_write E addr value = do {
     (rc, _, status) \<leftarrow> bde_schan_op E
        [schan_header SCHAN_WRITE_REG_CMD (cdk_addr_to_block addr) 1, addr, value] 3 None 0 (- 1);
     return (if rc < 0 \<or> status \<noteq> 0 then - 1 else 0)
   }"

definition sbus_reg_read :: "env \<Rightarrow> u32 \<Rightarrow> u32 \<Rightarrow> ('z bde_state_scheme, int \<times> u32) state" where
  "sbus_reg_read E addr value = do {
     (rc, resp, status) \<leftarrow> bde_schan_op E
        [schan_header SCHAN_READ_REG_CMD (cdk_addr_to_block addr) 1, addr] 2 (Some [0, 0]) 2 (- 1);
     return (if rc < 0 \<or> status \<noteq> 0 then (- 1, value) else (0, the resp ! 1))
   }"

definition sbus_reg_modify :: "env \<Rightarrow> u32 \<Rightarrow> u32 \<Rightarrow> u32 \<Rightarrow> ('z bde_state_scheme, int) state" where
  "sbus_reg_modify E addr msk value = do {
     (rc, cur) \<leftarrow> sbus_reg_read E addr 0;
     if rc < 0 then return (- 1)
     else sbus_reg_write E addr ((cur AND NOT msk) OR (value AND msk))
   }"

definition sbus_reg_write_blk :: "env \<Rightarrow> u32 \<Rightarrow> u32 \<Rightarrow> u32 \<Rightarrow> ('z bde_state_scheme, int) state" where
  "sbus_reg_write_blk E block addr value = do {
     (rc, _, status) \<leftarrow> bde_schan_op E
        [schan_header SCHAN_WRITE_REG_CMD block 1, addr, value] 3 None 0 (- 1);
     return (if rc < 0 \<or> status \<noteq> 0 then - 1 else 0)
   }"

definition sbus_reg_write64 :: "env \<Rightarrow> u32 \<Rightarrow> u32 list \<Rightarrow> ('z bde_state_scheme, int) state" where
  "sbus_reg_write64 E addr data = do {
     (rc, _, status) \<leftarrow> bde_schan_op E
        [schan_header SCHAN_WRITE_REG_CMD (cdk_addr_to_block addr) 2, addr, data ! 0, data ! 1] 4 None 0 (- 1);
     return (if rc < 0 \<or> status \<noteq> 0 then - 1 else 0)
   }"

definition sbus_reg_read64 :: "env \<Rightarrow> u32 \<Rightarrow> u32 list \<Rightarrow> ('z bde_state_scheme, int \<times> u32 list) state" where
  "sbus_reg_read64 E addr data = do {
     (rc, resp, status) \<leftarrow> bde_schan_op E
        [schan_header SCHAN_READ_REG_CMD (cdk_addr_to_block addr) 2, addr] 2 (Some [0, 0, 0]) 3 (- 1);
     return (if rc < 0 \<or> status \<noteq> 0 then (- 1, data) else (0, [the resp ! 1, the resp ! 2]))
   }"

section \<open>Memories\<close>

definition sbus_mem_write_blk ::
  "env \<Rightarrow> u32 \<Rightarrow> u32 \<Rightarrow> int \<Rightarrow> u32 list \<Rightarrow> int \<Rightarrow> ('z bde_state_scheme, int) state" where
  "sbus_mem_write_blk E block addr index data nwords0 = do {
     let nwords = (if nwords0 > 14 then 14 else nwords0);
     (rc, resp, status) \<leftarrow> bde_schan_op E
        ([schan_header SCHAN_WRITE_MEM_CMD block (word_of_int nwords), addr + word_of_int index]
          @ map ((!) data) [0..<nat nwords])
        (2 + nwords) (Some [0, 0]) 1 (- 1);
     if rc < 0 \<or> status \<noteq> 0 then return (- 1)
     else if the resp ! 0 AND 0x0041 \<noteq> 0 then return (- 1)
     else return 0
   }"

definition sbus_mem_write :: "env \<Rightarrow> u32 \<Rightarrow> int \<Rightarrow> u32 list \<Rightarrow> int \<Rightarrow> ('z bde_state_scheme, int) state" where
  "sbus_mem_write E addr index data nwords0 = do {
     let nwords = (if nwords0 > 14 then 14 else nwords0);
     (rc, resp, status) \<leftarrow> bde_schan_op E
        ([schan_header SCHAN_WRITE_MEM_CMD (cdk_addr_to_block addr) (word_of_int nwords), addr + word_of_int index]
          @ map ((!) data) [0..<nat nwords])
        (2 + nwords) (Some [0, 0]) 1 (- 1);
     if rc < 0 \<or> status \<noteq> 0 then return (- 1)
     else if the resp ! 0 AND 0x0041 \<noteq> 0 then return (- 1)
     else return 0
   }"

definition sbus_mem_read ::
  "env \<Rightarrow> u32 \<Rightarrow> int \<Rightarrow> u32 list \<Rightarrow> int \<Rightarrow> ('z bde_state_scheme, int \<times> u32 list) state" where
  "sbus_mem_read E addr index data nwords0 = do {
     let nwords = (if nwords0 > 14 then 14 else nwords0);
     (rc, resp, status) \<leftarrow> bde_schan_op E
        [schan_header SCHAN_READ_MEM_CMD (cdk_addr_to_block addr) (word_of_int nwords), addr + word_of_int index]
        2 (Some (replicate 16 0)) (1 + nwords) (- 1);
     if rc < 0 \<or> status \<noteq> 0 then return (- 1, data)
     else return (0, copy_words data (tl (the resp)) (nat nwords))
   }"

definition sbus_mem_read_blk ::
  "env \<Rightarrow> u32 \<Rightarrow> u32 \<Rightarrow> int \<Rightarrow> u32 list \<Rightarrow> int \<Rightarrow> ('z bde_state_scheme, int \<times> u32 list) state" where
  "sbus_mem_read_blk E block addr index data nwords0 = do {
     let nwords = (if nwords0 > 14 then 14 else nwords0);
     (rc, resp, status) \<leftarrow> bde_schan_op E
        [schan_header SCHAN_READ_MEM_CMD block (word_of_int nwords), addr + word_of_int index]
        2 (Some (replicate 16 0)) (1 + nwords) (- 1);
     if rc < 0 \<or> status \<noteq> 0 then return (- 1, data)
     else return (0, copy_words data (tl (the resp)) (nat nwords))
   }"

section \<open>Direct and raw access\<close>

definition bcm56846_reg_read32 :: "env \<Rightarrow> u32 \<Rightarrow> u32 \<Rightarrow> ('z bde_state_scheme, int \<times> u32) state" where
  "bcm56846_reg_read32 E offset value = bde_read_reg E offset value"

definition bcm56846_reg_write32 :: "env \<Rightarrow> u32 \<Rightarrow> u32 \<Rightarrow> ('z bde_state_scheme, int) state" where
  "bcm56846_reg_write32 E offset value = bde_write_reg E offset value"

text \<open>The raw calls share the caller's buffer for the response; a write therefore gives the
  buffer back as the response left it.\<close>

definition schan_write_memory :: "env \<Rightarrow> u32 \<Rightarrow> u32 list \<Rightarrow> int \<Rightarrow> ('z bde_state_scheme, int \<times> u32 list) state" where
  "schan_write_memory E addr data num_words =
     (if num_words \<le> 0 \<or> num_words > 16 then return (- 1, data)
      else do {
        (rc, data', status) \<leftarrow> bde_schan_op E [addr] 1 (Some data) num_words 0;
        return (if rc < 0 then - 1 else if status = 0 then 0 else - 1, the data')
      })"

definition schan_read_memory :: "env \<Rightarrow> u32 \<Rightarrow> u32 list option \<Rightarrow> int \<Rightarrow> ('z bde_state_scheme, int \<times> u32 list option) state" where
  "schan_read_memory E addr data num_words =
     (case data of None \<Rightarrow> return (- 1, None)
      | Some d \<Rightarrow>
         if num_words \<le> 0 \<or> num_words > 16 then return (- 1, Some d)
         else do {
           (rc, data', status) \<leftarrow> bde_schan_op E [addr] 1
              (Some (copy_words d (replicate (nat num_words) 0) (nat num_words))) num_words 0;
           return (if rc < 0 then - 1 else if status = 0 then 0 else - 1, data')
         })"

definition schan_write :: "env \<Rightarrow> u32 \<Rightarrow> u32 list \<Rightarrow> int \<Rightarrow> ('z bde_state_scheme, int \<times> u32 list) state" where
  "schan_write E cmd_word data len = do {
     (rc, data', status) \<leftarrow> bde_schan_op E [cmd_word] 1 (Some data) (if len > 16 then 16 else len) 0;
     return (if rc < 0 then - 1 else if status = 0 then 0 else - 1, the data')
   }"

definition schan_read :: "env \<Rightarrow> u32 \<Rightarrow> u32 list option \<Rightarrow> int \<Rightarrow> ('z bde_state_scheme, int \<times> u32 list option) state" where
  "schan_read E addr data len = schan_read_memory E addr data len"

section \<open>Header and address fields\<close>

lemma mask_lits:
  "(0x3f::u32) = mask 6" "(0x7f::u32) = mask 7" "(0xf::u32) = mask 4" "(0x30::u32) = push_bit 4 (mask 2)"
  "(0xF00000::u32) = push_bit 20 (mask 4)" "(0x3ff::u32) = mask 10"
  by (simp_all add: mask_numeral)

lemma header_fields_of:
  assumes "unat opcode < 64" and "unat dstblk < 64" and "unat dwords < 32"
  shows "drop_bit 26 (schan_header opcode dstblk dwords) = opcode"
    and "drop_bit 20 (schan_header opcode dstblk dwords) AND 0x3f = dstblk"
    and "drop_bit 7 (schan_header opcode dstblk dwords) AND 0x7f = 4 * dwords"
proof -
  have o: "bit opcode k \<Longrightarrow> k < 6" and b: "bit dstblk k \<Longrightarrow> k < 6" and d: "bit dwords k \<Longrightarrow> k < 5" for k
    using bit_below[of opcode 6 k] bit_below[of dstblk 6 k] bit_below[of dwords 5 k] assms by auto
  have four: "dwords * 4 = push_bit 2 dwords" by (simp add: push_bit_eq_mult)
  show "drop_bit 26 (schan_header opcode dstblk dwords) = opcode"
    and "drop_bit 20 (schan_header opcode dstblk dwords) AND 0x3f = dstblk"
    and "drop_bit 7 (schan_header opcode dstblk dwords) AND 0x7f = 4 * dwords"
    unfolding schan_header_def four mask_lits mult.commute[of 4 dwords]
    by (rule bit_eqI; auto simp: word_bits bit_and_mask_iff dest: o b d)+
qed

text \<open>The message header is decodable: for an opcode and a block of six bits and a length of
  at most 31 words, the three fields the CMIC takes from the header (opcode, destination block,
  data length in bytes) are exactly what was put in; the fields do not overlap.\<close>

theorem schan_header_fields:
  assumes "unat opcode < 64" and "unat dstblk < 64" and "unat dwords < 32"
  shows "drop_bit 26 (schan_header opcode dstblk dwords) = opcode \<and>
         drop_bit 20 (schan_header opcode dstblk dwords) AND 0x3f = dstblk \<and>
         drop_bit 7 (schan_header opcode dstblk dwords) AND 0x7f = 4 * dwords"
  using header_fields_of[OF assms] by blast

theorem schan_header_fields_witness:
  "drop_bit 26 (schan_header 9 26 4) = (9::u32) \<and> drop_bit 20 (schan_header 9 26 4) AND 0x3f = (26::u32)"
  using schan_header_fields[of 9 26 4] by simp

text \<open>Per-port addresses route to the block of their base: for a base below 2^30 (a block
  number below 16) whose port field is empty, inserting a port number below 64 leaves the SBUS
  block that cdk_addr_to_block extracts unchanged, can be read back from bits 17 to 12, and
  leaves the register offset alone.\<close>

theorem cdk_port_addr_fields:
  assumes "unat addr < 2 ^ 30" and "addr AND 0x3f000 = 0" and "0 \<le> port" and "port < 64"
  shows "cdk_addr_to_block (cdk_port_addr addr port) = cdk_addr_to_block addr \<and>
         drop_bit 12 (cdk_port_addr addr port) AND 0x3f = word_of_int port \<and>
         cdk_port_addr addr port AND 0xfff = addr AND 0xfff"
proof -
  let ?p = "word_of_int port :: u32"
  obtain n where n: "port = int n" "n < 64"
    using assms(3,4) by (metis nat_0_le of_nat_less_numeral_iff)
  have "unat ?p < 2 ^ 6"
    using n by (simp add: unat_of_nat take_bit_nat_eq_self)
  then have p: "bit ?p k \<Longrightarrow> k < 6" for k by (rule bit_below)
  have b: "bit addr k \<Longrightarrow> k < 30" for k
    using bit_below[OF assms(1)] .
  have m: "(0x3f000::u32) = push_bit 12 (mask 6)" "(0xfff::u32) = mask 12"
    by (simp_all add: mask_numeral)
  have z: "\<not> bit addr k" if "12 \<le> k" "k < 18" for k
  proof -
    have "bit (addr AND push_bit 12 (mask 6)) k = bit (0::u32) k"
      using assms(2) by (simp only: m)
    then show ?thesis using that by (auto simp: word_bits)
  qed
  then have z12: "\<not> bit addr (12 + n)" if "n < 6" for n using that by simp
  show ?thesis
    unfolding cdk_port_addr_def cdk_addr_to_block_def mask_lits m(2)
    by (intro conjI bit_eqI) (auto simp: word_bits bit_and_mask_iff dest: p b z z12)
qed

theorem cdk_port_addr_fields_witness:
  "cdk_addr_to_block (cdk_port_addr 0x02300050 52) = (3::u32)
   \<and> drop_bit 12 (cdk_port_addr 0x02300050 52) AND 0x3f = (52::u32)"
  using cdk_port_addr_fields[of "0x02300050" 52]
  by (simp add: cdk_addr_to_block_def)

text \<open>Above 2^30 the same formula spills the block number into bits 24 and 25.\<close>

lemma cdk_port_addr_high_block: "cdk_port_addr 0x40000000 0 = 0x41000000"
  by (simp add: cdk_port_addr_def cdk_addr_to_block_def)

section \<open>From the client to the message registers\<close>

definition after_copy_in :: "'z bde_state_scheme \<Rightarrow> 'z bde_state_scheme" where
  "after_copy_in s = s\<lparr>trace := OsCall sys_copy_from_user [] 0 # trace s\<rparr>"

definition bde_up :: "env \<Rightarrow> int \<Rightarrow> 'z bde_state_scheme \<Rightarrow> bool" where
  "bde_up E n s \<longleftrightarrow> 0 \<le> bde_fd s \<and> n \<le> 16 \<and> os_answer E (trace s) sys_copy_from_user [] = 0 \<and>
     schan_op_ok E n 16 (after_copy_in s)"

lemma run_ioctl_schan:
  assumes "bde_priv s = Some p" and "os_answer E (trace s) sys_copy_from_user [] = 0"
    and "run_state (nos_bde_schan_op E (sch_cmd q @ sch_data q @
            [word_of_int (sch_len q), word_of_int (sch_status q)])
          (sch_len q) (Some (sch_data q)) 16 (sch_status q)) (after_copy_in s) = ((0, d, st), s')"
  shows "run_state (ioctl E (NOS_BDE_SCHAN_OP q)) s =
    (let r = os_answer E (trace s') sys_copy_to_user [] in
      (if r \<noteq> 0 then (- 1, NOS_BDE_SCHAN_OP q) else (0, NOS_BDE_SCHAN_OP (q\<lparr>sch_data := the d, sch_status := st\<rparr>)),
       s'\<lparr>trace := OsCall sys_copy_to_user [] r # trace s'\<rparr>))"
  using assms by (simp add: ioctl_def nos_bde_ioctl_def nos_bde_get_bar0_def after_copy_in_def Let_def)

section \<open>Effects of the SDK accessors\<close>

text \<open>Every accessor only interacts, inside the BAR0 window, and changes no software state.\<close>

lemma emits_ioctl [emits_rules]: "emits in_bar0 (ioctl E req)"
  unfolding ioctl_def by (intro emits_rules emits_ioctl_bar0)

lemma emits_bde_access [emits_rules]:
  "emits in_bar0 (bde_read_reg E offset v)" "emits in_bar0 (bde_write_reg E offset v)"
  "emits in_bar0 (bde_get_dma_info E pb sz)"
  unfolding bde_read_reg_def bde_write_reg_def bde_get_dma_info_def
  by (intro emits_rules; cases "offset :: u32"; simp split: bde_request.split add: emits_return)+

lemma emits_bde_schan_op [emits_rules]: "emits in_bar0 (bde_schan_op E cmd n d k st)"
  unfolding bde_schan_op_def
  by (intro emits_rules) (simp split: bde_request.split add: emits_return)

lemma emits_sbus [emits_rules]:
  "emits in_bar0 (sbus_reg_write E a v)" "emits in_bar0 (sbus_reg_read E a v)"
  "emits in_bar0 (sbus_reg_write_blk E b a v)" "emits in_bar0 (sbus_reg_write64 E a d)"
  "emits in_bar0 (sbus_reg_read64 E a d)" "emits in_bar0 (sbus_mem_write E a i d n)"
  "emits in_bar0 (sbus_mem_read E a i d n)" "emits in_bar0 (sbus_mem_write_blk E b a i d n)"
  "emits in_bar0 (sbus_mem_read_blk E b a i d n)"
  unfolding sbus_reg_write_def sbus_reg_read_def sbus_reg_write_blk_def sbus_reg_write64_def
    sbus_reg_read64_def sbus_mem_write_def sbus_mem_read_def sbus_mem_write_blk_def sbus_mem_read_blk_def
  by (intro emits_rules)+

lemma emits_sbus_modify [emits_rules]: "emits in_bar0 (sbus_reg_modify E a m v)"
  unfolding sbus_reg_modify_def by (intro emits_rules)

lemma emits_reg [emits_rules]:
  "emits in_bar0 (bcm56846_reg_read32 E a v)" "emits in_bar0 (bcm56846_reg_write32 E a v)"
  unfolding bcm56846_reg_read32_def bcm56846_reg_write32_def by (intro emits_rules)+

end
