(* ===== verification/Device_Model.thy ===== *)
theory Device_Model
  imports Sbus
begin

text \<open>
  What the SDK relies on of the chip and the operating system to make table accesses work:
  the SBUS contract of the CMIC. The contents of every table are read off the history of the
  START commands, so the contract needs no state of its own; \<open>sbus_device\<close> states it as a
  hypothesis on the environment, \<open>chip_env\<close> is an environment that satisfies it. From it
  follow the laws of \<open>sbus_mem_write\<close> and \<open>sbus_mem_read\<close> down the whole path
  (SDK, ioctl, kernel, message registers), collected in the locale \<open>sbus_table\<close>.
\<close>

section \<open>The contract\<close>

text \<open>Word \<open>i\<close> of the message registers at a START, and the fields of its header.\<close>

definition msg_word :: "io_event list \<Rightarrow> nat \<Rightarrow> u32" where
  "msg_word h i = (case last_wr (CMICE_SCHAN_D i) h of None \<Rightarrow> 0 | Some v \<Rightarrow> v)"

definition msg_opcode :: "io_event list \<Rightarrow> u32" where
  "msg_opcode h = drop_bit 26 (msg_word h 0)"

definition msg_block :: "io_event list \<Rightarrow> u32" where
  "msg_block h = drop_bit 20 (msg_word h 0) AND 0x3f"

definition msg_bytes :: "io_event list \<Rightarrow> u32" where
  "msg_bytes h = drop_bit 7 (msg_word h 0) AND 0x7f"

text \<open>Word \<open>i\<close> of the entry at address \<open>a\<close> of block \<open>b\<close>: the last memory write
  that covers it, 0 before any.\<close>

fun mem_word :: "io_event list list \<Rightarrow> u32 \<Rightarrow> u32 \<Rightarrow> nat \<Rightarrow> u32" where
  "mem_word [] b a i = 0"
| "mem_word (h # hs) b a i =
     (if msg_opcode h = SCHAN_WRITE_MEM_CMD \<and> msg_block h = b \<and> msg_word h 1 = a \<and> 4 * i < unat (msg_bytes h)
      then msg_word h (2 + i) else mem_word hs b a i)"

text \<open>Likewise for registers (of up to two words).\<close>

fun reg_word :: "io_event list list \<Rightarrow> u32 \<Rightarrow> u32 \<Rightarrow> nat \<Rightarrow> u32" where
  "reg_word [] b a i = 0"
| "reg_word (h # hs) b a i =
     (if msg_opcode h = SCHAN_WRITE_REG_CMD \<and> msg_block h = b \<and> msg_word h 1 = a \<and> 4 * i < unat (msg_bytes h)
      then msg_word h (2 + i) else reg_word hs b a i)"

text \<open>Word \<open>i\<close> of the response to the newest START: a read answers a zero status
  word and the entry or register, every other command zero.\<close>

fun sbus_response :: "io_event list list \<Rightarrow> nat \<Rightarrow> u32" where
  "sbus_response [] i = 0"
| "sbus_response (h # hs) i =
     (if msg_opcode h = SCHAN_READ_MEM_CMD \<and> 0 < i then mem_word hs (msg_block h) (msg_word h 1) (i - 1)
      else if msg_opcode h = SCHAN_READ_REG_CMD \<and> 0 < i then reg_word hs (msg_block h) (msg_word h 1) (i - 1)
      else 0)"

text \<open>The contract: no OS service on the path fails, the clock allows at least one poll; after
  START the controller reports DONE without an error and presents the response in the message
  registers (except D(7), which is CMIC_MISC_CONTROL, and D(16) onwards). Everything else is
  arbitrary.\<close>

definition sbus_device :: "env \<Rightarrow> bool" where
  "sbus_device E \<longleftrightarrow>
     (\<forall>h. os_answer E h sys_copy_from_user [] = 0 \<and> os_answer E h sys_copy_to_user [] = 0 \<and>
          os_answer E h sys_mutex_lock_interruptible [] = 0 \<and> os_answer E h sys_jiffies [50] > 0) \<and>
     (\<forall>h. last_wr CMICE_SCHAN_CTRL h = Some CMICE_SET_START \<longrightarrow>
          bar0_answer E h CMICE_SCHAN_CTRL = SCHAN_CTRL_DONE \<and>
          (\<forall>i<16. i \<noteq> 7 \<longrightarrow> bar0_answer E h (CMICE_SCHAN_D i) = sbus_response (schan_starts h) i))"

definition bde_ready :: "'z bde_state_scheme \<Rightarrow> bool" where
  "bde_ready s \<longleftrightarrow> 0 \<le> bde_fd s \<and> bde_priv s \<noteq> None"

definition chip_word :: "'z bde_state_scheme \<Rightarrow> u32 \<Rightarrow> u32 \<Rightarrow> nat \<Rightarrow> u32" where
  "chip_word s b a i = mem_word (schan_starts (trace s)) b a i"

definition chip_env :: env where
  "chip_env = \<lparr>bar0_answer = (\<lambda>h off.
       if off = CMICE_SCHAN_CTRL then (if last_wr CMICE_SCHAN_CTRL h = Some CMICE_SET_START then SCHAN_CTRL_DONE else 0)
       else if off = CMIC_MISC_CONTROL then 1
       else sbus_response (schan_starts h) (unat off div 4)),
     os_answer = (\<lambda>_ name _. if name = sys_jiffies then 1 else 0), indet = (\<lambda>_. 0)\<rparr>"

lemma chip_env_device: "sbus_device chip_env"
proof -
  have "CMICE_SCHAN_D i \<noteq> CMICE_SCHAN_CTRL" "CMICE_SCHAN_D i \<noteq> CMIC_MISC_CONTROL"
    if "i < 16" "i \<noteq> 7" for i
    using that schan_D_inj[of i 20] schan_D_inj[of i 7] by (auto simp: schan_D_20 schan_D_7)
  then show ?thesis
    by (simp add: sbus_device_def chip_env_def unat_schan_D)
qed

section \<open>One operation under the contract\<close>

lemma last_wr_start: "last_wr CMICE_SCHAN_CTRL (IoWr CMICE_SCHAN_CTRL v # h) = Some v" by simp

lemma read_response:
  assumes E: "sbus_device E" and "last_wr CMICE_SCHAN_CTRL (trace s) = Some CMICE_SET_START"
    and "\<forall>i \<in> set is. i < 16"
  shows "\<exists>ws evs. run_state (State_Monad.traverse_list (\<lambda>i. ioread32 E (CMICE_SCHAN_D i)) is) s
      = (ws, s\<lparr>trace := evs @ trace s\<rparr>) \<and> list_all silent evs \<and> length ws = length is \<and>
      (\<forall>k < length is. is ! k \<noteq> 7 \<longrightarrow> ws ! k = sbus_response (schan_starts (trace s)) (is ! k))"
  using assms(2,3)
proof (induction "is" arbitrary: s)
  case Nil
  then show ?case by (auto intro!: exI[of _ "[]"])
next
  case (Cons i js)
  let ?e = "IoRd (CMICE_SCHAN_D i) (bar0_answer E (trace s) (CMICE_SCHAN_D i))"
  let ?s1 = "s\<lparr>trace := ?e # trace s\<rparr>"
  have v: "i \<noteq> 7 \<longrightarrow> bar0_answer E (trace s) (CMICE_SCHAN_D i) = sbus_response (schan_starts (trace s)) i"
    using E Cons.prems unfolding sbus_device_def by simp
  obtain ws evs where ih: "run_state (State_Monad.traverse_list (\<lambda>i. ioread32 E (CMICE_SCHAN_D i)) js) ?s1
      = (ws, ?s1\<lparr>trace := evs @ trace ?s1\<rparr>)" "list_all silent evs" "length ws = length js"
      "\<forall>k < length js. js ! k \<noteq> 7 \<longrightarrow> ws ! k = sbus_response (schan_starts (trace s)) (js ! k)"
    using Cons.IH[of ?s1] Cons.prems by auto
  show ?case
    by (intro exI[of _ "bar0_answer E (trace s) (CMICE_SCHAN_D i) # ws"] exI[of _ "evs @ [?e]"])
      (use ih v in \<open>auto simp: nth_Cons split: nat.splits\<close>)
qed

lemma run_poll_done:
  assumes "sbus_device E" and "last_wr CMICE_SCHAN_CTRL (trace s) = Some CMICE_SET_START" and "0 < n"
  shows "run_state (schan_poll E n c) s = ((True, SCHAN_CTRL_DONE),
           s\<lparr>trace := IoRd CMICE_SCHAN_CTRL SCHAN_CTRL_DONE # trace s\<rparr>)"
proof -
  have a: "bar0_answer E (trace s) CMICE_SCHAN_CTRL = SCHAN_CTRL_DONE"
    using assms(1,2) unfolding sbus_device_def by blast
  show ?thesis using assms(3) by (cases n) (simp_all add: a)
qed

text \<open>The kernel operation: it succeeds, adds one START and answers its response.\<close>

lemma schan_op_device:
  assumes E: "sbus_device E" and p: "bde_priv s \<noteq> None" and n: "0 < n" "n \<le> 20" and d: "length d = 16"
  shows "\<exists>ws tr. run_state (nos_bde_schan_op E cmd n (Some d) 16 st) s = ((0, Some ws, 0), s\<lparr>trace := tr\<rparr>) \<and>
      length ws = 16 \<and> schan_starts tr = start_history E cmd n s # schan_starts (trace s) \<and>
      (\<forall>i<16. i \<noteq> 7 \<longrightarrow> ws ! i = sbus_response (schan_starts tr) i)"
proof -
  have os: "os_answer E h sys_mutex_lock_interruptible [] = 0" "0 < os_answer E h sys_jiffies [50]" for h
    using E unfolding sbus_device_def by blast+
  let ?s1 = "s\<lparr>trace := IoWr CMICE_SCHAN_CTRL CMICE_SET_START # start_history E cmd n s\<rparr>"
  let ?j = "os_answer E (trace ?s1) sys_jiffies [50]"
  let ?s2 = "?s1\<lparr>trace := OsCall sys_jiffies [50] ?j # trace ?s1\<rparr>"
  let ?s3 = "?s2\<lparr>trace := IoRd CMICE_SCHAN_CTRL SCHAN_CTRL_DONE # trace ?s2\<rparr>"
  have poll: "run_state (schan_poll E (nat ?j) c) ?s2 = ((True, SCHAN_CTRL_DONE), ?s3)" for c
    using run_poll_done[OF E, of ?s2 "nat ?j" c] os(2)[of "trace ?s1"] by simp
  obtain ws evs where rd: "run_state (State_Monad.traverse_list (\<lambda>i. ioread32 E (CMICE_SCHAN_D i)) [0..<16]) ?s3
      = (ws, ?s3\<lparr>trace := evs @ trace ?s3\<rparr>)" "list_all silent evs" "length ws = 16"
      "\<forall>k < 16. k \<noteq> 7 \<longrightarrow> ws ! k = sbus_response (schan_starts (trace ?s3)) k"
    using read_response[OF E, of ?s3 "[0..<16]"] by auto
  have fin: "run_state (schan_finish E m True SCHAN_CTRL_DONE (Some d) 16) ?s3
      = ((Some ws, 0), ?s3\<lparr>trace := IoWr CMIC_MISC_CONTROL m # abort_events @ evs @ trace ?s3\<rparr>)" for m
    using rd(1,3) d by (simp add: schan_finish_def copy_words_def)
  obtain q where q: "bde_priv s = Some q" using p by blast
  let ?r = "os_answer E (IoWr CMIC_MISC_CONTROL (misc_at E s) # abort_events @ evs @ trace ?s3) sys_mutex_unlock []"
  have run: "run_state (nos_bde_schan_op E cmd n (Some d) 16 st) s = ((0, Some ws, 0),
      s\<lparr>trace := OsCall sys_mutex_unlock [] ?r # IoWr CMIC_MISC_CONTROL (misc_at E s) # abort_events @ evs @ trace ?s3\<rparr>)"
    using n q poll fin by (simp add: nos_bde_schan_op_def os run_schan_start)
  have "schan_starts (OsCall sys_mutex_unlock [] ?r # IoWr CMIC_MISC_CONTROL (misc_at E s) # abort_events @ evs @ trace ?s3)
      = start_history E cmd n s # schan_starts (trace s)"
    using rd(2) n by (simp add: schan_starts_silent schan_starts_start_history)
  moreover have "schan_starts (trace ?s3) = start_history E cmd n s # schan_starts (trace s)"
    using n by (simp add: schan_starts_start_history)
  ultimately show ?thesis using run rd(3,4) by metis
qed

section \<open>The SDK operations under the contract\<close>

text \<open>The command block as the kernel reads it: the caller's words, then the rest of the
  request structure.\<close>

lemma bde_schan_op_device_opt:
  assumes E: "sbus_device E" and s: "bde_ready s" and n: "0 < n" "n \<le> 16" "length cmd = nat n"
    and k: "\<And>x. d = Some x \<Longrightarrow> 0 < k \<and> k \<le> 16 \<and> length x \<ge> nat k"
  obtains ws tr pad where "run_state (bde_schan_op E cmd n d k st0) s
        = ((0, map_option (\<lambda>x. copy_words x ws (nat k)) d, 0), s\<lparr>trace := tr\<rparr>)" and
      "length ws = 16" and
      "schan_starts tr = start_history E (cmd @ pad) n (after_copy_in s) # schan_starts (trace s)" and
      "\<forall>i<16. i \<noteq> 7 \<longrightarrow> ws ! i = sbus_response (schan_starts tr) i"
proof -
  let ?sd = "case d of None \<Rightarrow> replicate 16 (0::u32) | Some x \<Rightarrow> copy_words (replicate 16 (0::u32)) x (nat k)"
  let ?q = "\<lparr>sch_cmd = copy_words (replicate 16 0) cmd (nat n), sch_data = ?sd, sch_len = n, sch_status = - 1\<rparr>"
  let ?pad = "replicate (16 - nat n) 0 @ ?sd @ [word_of_int n, word_of_int (- 1)]"
  have c: "sch_cmd ?q @ sch_data ?q @ [word_of_int (sch_len ?q), word_of_int (sch_status ?q)] = cmd @ ?pad"
    using n by (simp add: copy_words_def)
  have l: "length ?sd = 16" using k by (auto simp: copy_words_def split: option.split)
  obtain p where p: "bde_priv s = Some p" and fd: "0 \<le> bde_fd s" using s by (auto simp: bde_ready_def)
  have os: "os_answer E h sys_copy_from_user [] = 0" "os_answer E h sys_copy_to_user [] = 0" for h
    using E unfolding sbus_device_def by blast+
  obtain ws tr where op: "run_state (nos_bde_schan_op E (cmd @ ?pad) n (Some ?sd) 16 (- 1)) (after_copy_in s)
        = ((0, Some ws, 0), (after_copy_in s)\<lparr>trace := tr\<rparr>)"
      "length ws = 16" "schan_starts tr = start_history E (cmd @ ?pad) n (after_copy_in s) # schan_starts (trace s)"
      "\<forall>i<16. i \<noteq> 7 \<longrightarrow> ws ! i = sbus_response (schan_starts tr) i"
    using schan_op_device[OF E, of "after_copy_in s" n ?sd "cmd @ ?pad" "- 1"] p n l
    by (auto simp: after_copy_in_def)
  have io: "run_state (ioctl E (NOS_BDE_SCHAN_OP ?q)) s
     = ((0, NOS_BDE_SCHAN_OP (?q\<lparr>sch_data := ws, sch_status := 0\<rparr>)),
        s\<lparr>trace := OsCall sys_copy_to_user [] 0 # tr\<rparr>)"
    using run_ioctl_schan[OF p os(1), of ?q "Some ws" 0 "(after_copy_in s)\<lparr>trace := tr\<rparr>"] op(1)
    unfolding c by (simp add: os after_copy_in_def)
  have "run_state (bde_schan_op E cmd n d k st0) s
        = ((0, map_option (\<lambda>x. copy_words x ws (nat k)) d, 0), s\<lparr>trace := OsCall sys_copy_to_user [] 0 # tr\<rparr>)"
    using fd n(1,2) k io by (cases d) (auto simp: bde_schan_op_def Let_def)
  then show ?thesis
    by (rule that[of ws "OsCall sys_copy_to_user [] 0 # tr" ?pad]) (use op(2-4) in simp_all)
qed

lemma bde_schan_op_device:
  assumes E: "sbus_device E" and s: "bde_ready s" and n: "0 < n" "n \<le> 16" "length cmd = nat n"
    and k: "0 < k" "k \<le> 16" "length d \<ge> nat k"
  obtains ws tr pad where "run_state (bde_schan_op E cmd n (Some d) k st0) s
        = ((0, Some (copy_words d ws (nat k)), 0), s\<lparr>trace := tr\<rparr>)" and
      "length ws = 16" and
      "schan_starts tr = start_history E (cmd @ pad) n (after_copy_in s) # schan_starts (trace s)" and
      "\<forall>i<16. i \<noteq> 7 \<longrightarrow> ws ! i = sbus_response (schan_starts tr) i"
  by (rule bde_schan_op_device_opt[OF E s n, of "Some d" k st0]) (use k in \<open>simp_all add: that\<close>)

lemma msg_word_start:
  "n \<le> 16 \<Longrightarrow> i < nat n \<Longrightarrow> i < length cmd \<Longrightarrow>
   msg_word (start_history E (cmd @ pad) n s) i = (if i = 7 \<and> n > 7 then misc_at E s else cmd ! i)"
  by (simp add: msg_word_def last_wr_start_history nth_append)

lemma header_fields:
  assumes "msg_word h 0 = schan_header c (cdk_addr_to_block a) w" and "unat c < 64" and "unat w < 32"
  shows "msg_opcode h = c" and "msg_block h = cdk_addr_to_block a" and "msg_bytes h = 4 * w"
proof -
  have "unat (cdk_addr_to_block a) < 2 ^ 6"
  proof (rule bit_boundD)
    show "\<not> bit (cdk_addr_to_block a) k" if "6 \<le> k" for k
      using that by (auto simp: cdk_addr_to_block_def word_bits mask_lits bit_and_mask_iff)
  qed
  then show "msg_opcode h = c" "msg_block h = cdk_addr_to_block a" "msg_bytes h = 4 * w"
    unfolding msg_opcode_def msg_block_def msg_bytes_def assms(1)
    using header_fields_of[OF assms(2), of "cdk_addr_to_block a" w] assms(3) by auto
qed

text \<open>The entry a memory write leaves behind: data word 5 travels in SCHAN_D(7), where the
  saved CMIC_MISC_CONTROL is put back before START.\<close>

definition stored_word :: "env \<Rightarrow> 'z bde_state_scheme \<Rightarrow> u32 list \<Rightarrow> nat \<Rightarrow> u32" where
  "stored_word E s data i = (if i = 5 then misc_at E (after_copy_in s) else data ! i)"

lemma sbus_mem_write_device:
  assumes E: "sbus_device E" and s: "bde_ready s" and n: "0 < n" "n \<le> 14" "length data \<ge> nat n"
  shows "\<exists>tr. run_state (sbus_mem_write E addr idx data n) s = (0, s\<lparr>trace := tr\<rparr>) \<and>
    (\<forall>b a i. mem_word (schan_starts tr) b a i =
       (if b = cdk_addr_to_block addr \<and> a = addr + word_of_int idx \<and> i < nat n then stored_word E s data i
        else mem_word (schan_starts (trace s)) b a i))"
proof -
  let ?cmd = "[schan_header SCHAN_WRITE_MEM_CMD (cdk_addr_to_block addr) (word_of_int n), addr + word_of_int idx]
          @ map ((!) data) [0..<nat n]"
  obtain m where m: "n = int m" "0 < m" "m \<le> 14"
    using n zero_less_imp_eq_int[of n] by auto
  have w: "unat (word_of_int n :: u32) = m"
    using m by (simp add: unat_of_nat take_bit_nat_eq_self)
  obtain ws tr pad where op: "run_state (bde_schan_op E ?cmd (2 + n) (Some [0, 0]) 1 (- 1)) s
        = ((0, Some (copy_words [0, 0] ws (nat 1)), 0), s\<lparr>trace := tr\<rparr>)"
      "length ws = 16" "schan_starts tr = start_history E (?cmd @ pad) (2 + n) (after_copy_in s) # schan_starts (trace s)"
      "\<forall>i<16. i \<noteq> 7 \<longrightarrow> ws ! i = sbus_response (schan_starts tr) i"
    by (rule bde_schan_op_device[OF E s, of "2 + n" ?cmd 1 "[0, 0]" "- 1"]) (use n m in auto)
  define h where "h = start_history E (?cmd @ pad) (2 + n) (after_copy_in s)"
  have st: "schan_starts tr = h # schan_starts (trace s)" using op(3) by (simp only: h_def)
  have mw: "msg_word h i = (if i = 7 then misc_at E (after_copy_in s) else ?cmd ! i)" if "i < 2 + m" for i
    using that m unfolding h_def by (subst msg_word_start) auto
  have h0: "msg_word h 0 = schan_header SCHAN_WRITE_MEM_CMD (cdk_addr_to_block addr) (word_of_int n)"
    using mw[of 0] by simp
  have h1: "msg_word h 1 = addr + word_of_int idx"
    using mw[of 1] by simp
  have hd: "msg_word h (2 + i) = stored_word E s data i" if "i < m" for i
    using mw[of "2 + i"] that m(1) by (simp add: stored_word_def)
  have f: "msg_opcode h = SCHAN_WRITE_MEM_CMD" "msg_block h = cdk_addr_to_block addr" "msg_bytes h = 4 * word_of_int n"
    using header_fields[OF h0] w m(3) by simp_all
  have bytes: "unat (msg_bytes h) = 4 * m"
  proof -
    have "4 * word_of_int n = (of_nat (4 * m) :: u32)" by (simp add: m(1))
    then show ?thesis unfolding f(3) using m(3) by (simp add: unat_of_nat take_bit_nat_eq_self del: of_nat_mult)
  qed
  have r0: "ws ! 0 = 0"
    using op(4)[rule_format, of 0] f(1) by (simp add: st)
  then have "run_state (sbus_mem_write E addr idx data n) s = (0, s\<lparr>trace := tr\<rparr>)"
    using op(1) n op(2) by (simp add: sbus_mem_write_def Let_def copy_words_def take_Suc_conv_app_nth)
  moreover have "mem_word (schan_starts tr) b a i =
       (if b = cdk_addr_to_block addr \<and> a = addr + word_of_int idx \<and> i < nat n then stored_word E s data i
        else mem_word (schan_starts (trace s)) b a i)" for b a i
    using m(1) bytes hd by (auto simp: st f(1,2) h1 simp del: One_nat_def)
  ultimately show ?thesis by blast
qed

lemma sbus_mem_read_device:
  assumes E: "sbus_device E" and s: "bde_ready s" and n: "0 < n" "n \<le> 6" "length data = nat n"
  shows "\<exists>tr. run_state (sbus_mem_read E addr idx data n) s =
      ((0, map (mem_word (schan_starts (trace s)) (cdk_addr_to_block addr) (addr + word_of_int idx)) [0..<nat n]),
       s\<lparr>trace := tr\<rparr>) \<and>
    (\<forall>b a i. mem_word (schan_starts tr) b a i = mem_word (schan_starts (trace s)) b a i)"
proof -
  let ?cmd = "[schan_header SCHAN_READ_MEM_CMD (cdk_addr_to_block addr) (word_of_int n), addr + word_of_int idx]"
  obtain m where m: "n = int m" "0 < m" "m \<le> 6"
    using n zero_less_imp_eq_int[of n] by auto
  have w: "unat (word_of_int n :: u32) = m"
    using m by (simp add: unat_of_nat take_bit_nat_eq_self)
  obtain ws tr pad where op: "run_state (bde_schan_op E ?cmd 2 (Some (replicate 16 0)) (1 + n) (- 1)) s
        = ((0, Some (copy_words (replicate 16 0) ws (nat (1 + n))), 0), s\<lparr>trace := tr\<rparr>)"
      "length ws = 16" "schan_starts tr = start_history E (?cmd @ pad) 2 (after_copy_in s) # schan_starts (trace s)"
      "\<forall>i<16. i \<noteq> 7 \<longrightarrow> ws ! i = sbus_response (schan_starts tr) i"
    by (rule bde_schan_op_device[OF E s, of 2 ?cmd "1 + n" "replicate 16 0" "- 1"]) (use n in auto)
  define h where "h = start_history E (?cmd @ pad) 2 (after_copy_in s)"
  have st: "schan_starts tr = h # schan_starts (trace s)" using op(3) by (simp only: h_def)
  have mw: "msg_word h i = ?cmd ! i" if "i < 2" for i
    using that unfolding h_def by (subst msg_word_start) auto
  have h0: "msg_word h 0 = schan_header SCHAN_READ_MEM_CMD (cdk_addr_to_block addr) (word_of_int n)"
    using mw[of 0] by simp
  have h1: "msg_word h 1 = addr + word_of_int idx"
    using mw[of 1] by simp
  have f: "msg_opcode h = SCHAN_READ_MEM_CMD" "msg_block h = cdk_addr_to_block addr"
    using header_fields[OF h0] w m(3) by simp_all
  have r: "ws ! Suc i = mem_word (schan_starts (trace s)) (cdk_addr_to_block addr) (addr + word_of_int idx) i" if "i < m" for i
    using op(4)[rule_format, of "Suc i"] that m(3) f h1 by (simp add: st)
  have out: "copy_words data (tl (copy_words (replicate 16 0) ws (nat (1 + n)))) (nat n)
      = map (mem_word (schan_starts (trace s)) (cdk_addr_to_block addr) (addr + word_of_int idx)) [0..<nat n]"
    using m n(3) op(2) r
    by (intro nth_equalityI) (simp_all add: copy_words_def nth_append nth_tl nat_add_distrib)
  have "run_state (sbus_mem_read E addr idx data n) s =
      ((0, map (mem_word (schan_starts (trace s)) (cdk_addr_to_block addr) (addr + word_of_int idx)) [0..<nat n]),
       s\<lparr>trace := tr\<rparr>)"
    using op(1) n out by (simp add: sbus_mem_read_def Let_def)
  moreover have "mem_word (schan_starts tr) b a i = mem_word (schan_starts (trace s)) b a i" for b a i
    using f by (simp add: st)
  ultimately show ?thesis by blast
qed

section \<open>The interface of a table\<close>

text \<open>What the table components (L2, L3, ECMP, VLAN) rely on: a table of \<open>W\<close>-word
  entries with \<open>N\<close> indices, in states satisfying \<open>ok\<close>.\<close>

locale sbus_table =
  fixes wr :: "int \<Rightarrow> u32 list \<Rightarrow> ('s, int) state"
    and rd :: "int \<Rightarrow> ('s, int \<times> u32 list) state"
    and ok :: "'s \<Rightarrow> bool"
    and cell :: "'s \<Rightarrow> int \<Rightarrow> u32 list"
    and W :: nat
    and N :: int
  assumes wr_result: "ok s \<Longrightarrow> 0 \<le> i \<Longrightarrow> i < N \<Longrightarrow> length d = W \<Longrightarrow> result (wr i d) s = 0"
    and wr_ok: "ok s \<Longrightarrow> 0 \<le> i \<Longrightarrow> i < N \<Longrightarrow> length d = W \<Longrightarrow> ok (exec (wr i d) s)"
    and wr_cell: "ok s \<Longrightarrow> 0 \<le> i \<Longrightarrow> i < N \<Longrightarrow> length d = W \<Longrightarrow> 0 \<le> j \<Longrightarrow> j < N \<Longrightarrow>
          cell (exec (wr i d) s) j = (if j = i then d else cell s j)"
    and rd_result: "ok s \<Longrightarrow> 0 \<le> i \<Longrightarrow> i < N \<Longrightarrow> result (rd i) s = (0, cell s i)"
    and rd_ok: "ok s \<Longrightarrow> 0 \<le> i \<Longrightarrow> i < N \<Longrightarrow> ok (exec (rd i) s)"
    and rd_cell: "ok s \<Longrightarrow> 0 \<le> i \<Longrightarrow> i < N \<Longrightarrow> cell (exec (rd i) s) j = cell s j"
    and cell_length: "length (cell s i) = W"
begin

lemma read_own_write:
  assumes "ok s" and "0 \<le> i" "i < N" and "length d = W"
  shows "result (rd i) (exec (wr i d) s) = (0, d)"
  using assms by (simp add: rd_result wr_ok wr_cell)

lemma read_other_write:
  assumes "ok s" and "0 \<le> i" "i < N" and "length d = W" and "0 \<le> j" "j < N" and "j \<noteq> i"
  shows "result (rd j) (exec (wr i d) s) = result (rd j) s"
  using assms by (simp add: rd_result wr_ok wr_cell)

text \<open>A search loop over table entries: read, then decide on the entry alone.\<close>

lemma scan_reads:
  assumes "ok s" and "\<And>i. i \<in> set is \<Longrightarrow> 0 \<le> g i \<and> g i < N"
    and "\<And>i. body i = do { (rc, w) \<leftarrow> rd (g i); return (if rc \<noteq> 0 then None else f i w) }"
  shows "result (for_ret is body) s = first_some (map (\<lambda>i. f i (cell s (g i))) is)"
    and "ok (exec (for_ret is body) s)"
    and "cell (exec (for_ret is body) s) j = cell s j"
proof -
  have "result (for_ret is body) s = first_some (map (\<lambda>i. f i (cell s (g i))) is) \<and>
        ok (exec (for_ret is body) s) \<and> (\<forall>j. cell (exec (for_ret is body) s) j = cell s j)"
    using assms(1,2)
  proof (induction "is" arbitrary: s)
    case Nil
    then show ?case by simp
  next
    case (Cons i js)
    let ?s1 = "exec (rd (g i)) s"
    have b: "result (body i) s = f i (cell s (g i))" "exec (body i) s = ?s1"
      using Cons.prems by (simp_all add: assms(3) split_beta rd_result)
    have ok1: "ok ?s1" and c1: "cell ?s1 j = cell s j" for j
      using Cons.prems by (simp_all add: rd_ok rd_cell)
    have "result (for_ret js body) ?s1 = first_some (map (\<lambda>i. f i (cell s (g i))) js) \<and>
        ok (exec (for_ret js body) ?s1) \<and> (\<forall>j. cell (exec (for_ret js body) ?s1) j = cell s j)"
      using Cons.IH[OF ok1] Cons.prems(2) c1 by simp
    then show ?case
      using ok1 c1 b by (simp add: result_bind exec_bind del: run_state_bind split: option.split)
  qed
  then show "result (for_ret is body) s = first_some (map (\<lambda>i. f i (cell s (g i))) is)"
    and "ok (exec (for_ret is body) s)"
    and "cell (exec (for_ret is body) s) j = cell s j"
    by blast+
qed

text \<open>A loop that claims the first free entry.\<close>

lemma scan_claim:
  assumes "ok s" and "\<And>i. i \<in> set is \<Longrightarrow> 0 \<le> i \<and> i < N" and "length d = W"
    and "\<And>i. body i = do { (rc, w) \<leftarrow> rd i;
           if rc \<noteq> 0 then return None
           else if free w then do { rc \<leftarrow> wr i d; return (Some (h rc i)) } else return None }"
  shows "result (for_ret is body) s = map_option (h 0) (find (\<lambda>i. free (cell s i)) is)"
    and "ok (exec (for_ret is body) s)"
    and "0 \<le> j \<Longrightarrow> j < N \<Longrightarrow> cell (exec (for_ret is body) s) j =
      (if find (\<lambda>i. free (cell s i)) is = Some j then d else cell s j)"
proof -
  have "result (for_ret is body) s = map_option (h 0) (find (\<lambda>i. free (cell s i)) is) \<and>
      ok (exec (for_ret is body) s) \<and>
      (\<forall>j. 0 \<le> j \<longrightarrow> j < N \<longrightarrow> cell (exec (for_ret is body) s) j =
        (if find (\<lambda>i. free (cell s i)) is = Some j then d else cell s j))"
    using assms(1,2)
  proof (induction "is" arbitrary: s)
    case Nil
    then show ?case by simp
  next
    case (Cons i js)
    let ?s1 = "exec (rd i) s"
    have i: "0 \<le> i" "i < N" using Cons.prems by auto
    have ok1: "ok ?s1" and c1: "cell ?s1 j = cell s j" for j
      using Cons.prems by (simp_all add: rd_ok rd_cell)
    show ?case
    proof (cases "free (cell s i)")
      case True
      then have "result (body i) s = Some (h 0 i)" "exec (body i) s = exec (wr i d) ?s1"
        using Cons.prems i ok1 by (simp_all add: assms(4) split_beta rd_result wr_result assms(3))
      then show ?thesis
        using True i ok1 c1 by (auto simp: result_bind exec_bind wr_ok wr_cell assms(3) simp del: run_state_bind)
    next
      case False
      then have b: "result (body i) s = None" "exec (body i) s = ?s1"
        using Cons.prems i by (simp_all add: assms(4) split_beta rd_result)
      show ?thesis
        using Cons.IH[OF ok1] Cons.prems(2) c1 False b by (simp add: result_bind exec_bind del: run_state_bind)
    qed
  qed
  then show "result (for_ret is body) s = map_option (h 0) (find (\<lambda>i. free (cell s i)) is)"
    and "ok (exec (for_ret is body) s)"
    and "0 \<le> j \<Longrightarrow> j < N \<Longrightarrow> cell (exec (for_ret is body) s) j =
      (if find (\<lambda>i. free (cell s i)) is = Some j then d else cell s j)"
    by blast+
qed

lemma last_write_wins:
  assumes "ok s" and "0 \<le> i" "i < N" and "length d = W" "length d' = W" and "0 \<le> j" "j < N"
  shows "cell (exec (wr i d') (exec (wr i d) s)) j = cell (exec (wr i d') s) j"
  using assms by (simp add: wr_ok wr_cell)

end

definition table_ok :: "env \<Rightarrow> 'z bde_state_scheme \<Rightarrow> bool" where
  "table_ok E s \<longleftrightarrow> sbus_device E \<and> bde_ready s"

definition table_cell :: "u32 \<Rightarrow> nat \<Rightarrow> 'z bde_state_scheme \<Rightarrow> int \<Rightarrow> u32 list" where
  "table_cell addr n s idx =
     map (mem_word (schan_starts (trace s)) (cdk_addr_to_block addr) (addr + word_of_int idx)) [0..<n]"

lemma length_table_cell [simp]: "length (table_cell addr n s idx) = n"
  by (simp add: table_cell_def)

lemma table_cell_frame [simp]: "table_cell addr n (s\<lparr>bde_fd := x\<rparr>) idx = table_cell addr n s idx"
  by (simp add: table_cell_def)

lemma uint_word_of_int_small: "0 \<le> i \<Longrightarrow> i < 2 ^ 32 \<Longrightarrow> uint (word_of_int i :: u32) = i"
  by (simp add: uint_word_of_int_eq take_bit_int_eq_self)

lemma word_of_int_inj:
  assumes "0 \<le> i" "i < 2 ^ 32" "0 \<le> j" "j < 2 ^ 32"
  shows "(word_of_int i :: u32) = word_of_int j \<longleftrightarrow> i = j"
  using uint_word_of_int_small[OF assms(1,2)] uint_word_of_int_small[OF assms(3,4)] by metis

lemma sbus_table_laws:
  assumes W: "0 < W" "W \<le> 5" and N: "N \<le> 2 ^ 32"
  shows "sbus_table (\<lambda>i d. sbus_mem_write E addr i d (int W)) (\<lambda>i. sbus_mem_read E addr i (replicate W 0) (int W))
           (table_ok E) (table_cell addr W) W N"
proof
  fix s :: "'z bde_state_scheme" and i j :: int and d :: "u32 list"
  assume ok: "table_ok E s" and i: "0 \<le> i" "i < N"
  have ok': "sbus_device E" "bde_ready s" using ok by (simp_all add: table_ok_def)
  show "result (sbus_mem_read E addr i (replicate W 0) (int W)) s = (0, table_cell addr W s i)"
    and "table_ok E (exec (sbus_mem_read E addr i (replicate W 0) (int W)) s)"
    and "table_cell addr W (exec (sbus_mem_read E addr i (replicate W 0) (int W)) s) j = table_cell addr W s j"
    using sbus_mem_read_device[OF ok', of "int W" "replicate W 0" addr i] W ok'
    by (auto simp: table_cell_def table_ok_def bde_ready_def)
  assume d: "length d = W"
  obtain tr where w: "run_state (sbus_mem_write E addr i d (int W)) s = (0, s\<lparr>trace := tr\<rparr>)"
    "\<forall>b a k. mem_word (schan_starts tr) b a k =
       (if b = cdk_addr_to_block addr \<and> a = addr + word_of_int i \<and> k < W then d ! k
        else mem_word (schan_starts (trace s)) b a k)"
    using sbus_mem_write_device[OF ok', of "int W" d addr i] W d by (auto simp: stored_word_def)
  show "result (sbus_mem_write E addr i d (int W)) s = 0"
    and "table_ok E (exec (sbus_mem_write E addr i d (int W)) s)"
    using w ok' by (simp_all add: table_ok_def bde_ready_def)
  assume j: "0 \<le> j" "j < N"
  have "(word_of_int j :: u32) = word_of_int i \<longleftrightarrow> j = i"
    using i j N by (intro word_of_int_inj) auto
  then show "table_cell addr W (exec (sbus_mem_write E addr i d (int W)) s) j
      = (if j = i then d else table_cell addr W s j)"
    using w d by (auto intro!: nth_equalityI simp: table_cell_def)
next
  show "length (table_cell addr W s i) = W" for s i by simp
qed

lemma mem_write_device:
  assumes "table_ok E s" and "1 \<le> n" and "n \<le> 14" and "length data = nat n"
  shows "result (sbus_mem_write E addr idx data n) s = 0 \<and>
    chip_word (exec (sbus_mem_write E addr idx data n) s) b a i =
       (if b = cdk_addr_to_block addr \<and> a = addr + word_of_int idx \<and> i < nat n
        then (if i = 5 then misc_at E (after_copy_in s) else data ! i)
        else chip_word s b a i)"
proof -
  have ok: "sbus_device E" "bde_ready s" using assms(1) by (simp_all add: table_ok_def)
  obtain tr where "run_state (sbus_mem_write E addr idx data n) s = (0, s\<lparr>trace := tr\<rparr>)"
    "\<forall>b a i. mem_word (schan_starts tr) b a i =
       (if b = cdk_addr_to_block addr \<and> a = addr + word_of_int idx \<and> i < nat n then stored_word E s data i
        else mem_word (schan_starts (trace s)) b a i)"
    using sbus_mem_write_device[OF ok, of n data addr idx] assms(2-4) by auto
  then show ?thesis by (simp add: chip_word_def stored_word_def)
qed

text \<open>C2. What a memory write leaves in the chip, through every layer: over a chip that answers,
  writing an entry of 1 to 14 words succeeds and changes exactly the addressed entry of the
  addressed block; each word stored is the caller's, except that word 5 of an entry of six or
  more words is the value of CMIC_MISC_CONTROL.\<close>

theorem mem_write_stores:
  assumes "table_ok E s" and "1 \<le> n" and "n \<le> 14" and "length data = nat n"
  shows "result (sbus_mem_write E addr idx data n) s = 0 \<and>
    chip_word (exec (sbus_mem_write E addr idx data n) s) b a i =
       (if b = cdk_addr_to_block addr \<and> a = addr + word_of_int idx \<and> i < nat n
        then (if i = 5 then misc_at E (after_copy_in s) else data ! i)
        else chip_word s b a i)"
  by (rule mem_write_device[OF assms])

text \<open>A state for the witnesses: the driver is probed, the device file open, nothing written.\<close>

definition bde0 :: bde_state where
  "bde0 = \<lparr>trace = [], bde_priv = Some \<lparr>dma_pbase = 0x10000000, dma_size = DMA_POOL_SIZE\<rparr>,
           bde_fd = 3, bde_dma_base = - 1, bde_dma_size = 0\<rparr>"

lemma bde0_ok: "table_ok chip_env bde0"
  by (simp add: table_ok_def chip_env_device bde_ready_def bde0_def)

lemma chip_env_misc: "misc_at chip_env s = 1"
  by (simp add: misc_at_def chip_env_def)

theorem mem_write_stores_witness:
  "let s' = exec (sbus_mem_write chip_env 0x0a170000 9 [11, 12, 13, 14, 15, 16, 17, 18] 8) bde0 in
     chip_word s' (cdk_addr_to_block 0x0a170000) 0x0a170009 4 = 15 \<and>
     chip_word s' (cdk_addr_to_block 0x0a170000) 0x0a170009 5 = 1"
  using mem_write_stores[OF bde0_ok, of 8 "[11, 12, 13, 14, 15, 16, 17, 18]" "0x0a170000" 9]
  by (simp add: chip_env_misc Let_def)

end
