(* ===== verification/Bitfield.thy ===== *)
theory Bitfield
  imports Prelude
begin

text \<open>
  Bit fields across the 32-bit words of a table entry: the interface of the two static copies of
  \<open>set_bit\<close> and \<open>set_bits_u64\<close> (\<^verbatim>\<open>sdk/src/l3.c\<close> and
  \<^verbatim>\<open>sdk/src/ecmp.c\<close>), as a locale, with what reading a field back gives.
\<close>

text \<open>Bit \<open>k\<close> of an entry, and the value of the field of \<open>w\<close> bits at \<open>st\<close>.\<close>

definition entry_bit :: "u32 list \<Rightarrow> nat \<Rightarrow> bool" where
  "entry_bit ws k = bit (ws ! (k div 32)) (k mod 32)"

definition entry_field :: "u32 list \<Rightarrow> nat \<Rightarrow> nat \<Rightarrow> nat" where
  "entry_field ws st w = horner_sum of_bool 2 (map (\<lambda>i. entry_bit ws (st + i)) [0..<w])"

lemma entry_field_eqI:
  assumes "\<And>i. i < w \<Longrightarrow> entry_bit ws (st + i) = bit (v :: u64) i"
  shows "entry_field ws st w = unat (take_bit w v)"
proof -
  have "map (\<lambda>i. entry_bit ws (st + i)) [0..<w] = map (bit v) [0..<w]"
    using assms by simp
  also have "\<dots> = map (bit (unat v)) [0..<w]"
    by (simp add: bit_unsigned_iff)
  finally show ?thesis
    by (simp only: entry_field_def horner_sum_bit_eq_take_bit unsigned_take_bit_eq)
qed

lemma entry_field_cong:
  "(\<And>i. i < w \<Longrightarrow> entry_bit ws (st + i) = entry_bit ws' (st + i)) \<Longrightarrow> entry_field ws st w = entry_field ws' st w"
  unfolding entry_field_def by (intro arg_cong[where f = "horner_sum of_bool 2"] map_cong) auto

text \<open>Setting or clearing one bit of one word.\<close>

lemma entry_bit_update:
  assumes "j < 32 * length ws" and "i < length ws" and "b < 32"
  shows "entry_bit (ws[i := ws ! i OR push_bit b 1]) j = (if j = 32 * i + b then True else entry_bit ws j)"
    and "entry_bit (ws[i := ws ! i AND NOT (push_bit b 1)]) j = (if j = 32 * i + b then False else entry_bit ws j)"
proof -
  have "j = 32 * i + b \<longleftrightarrow> j div 32 = i \<and> j mod 32 = b"
    using assms(3) by (metis add.right_neutral div_less div_mult_self2 mod_less mod_mult_self2 mult_div_mod_eq mult.commute zero_neq_numeral add.commute)
  then show "entry_bit (ws[i := ws ! i OR push_bit b 1]) j = (if j = 32 * i + b then True else entry_bit ws j)"
    and "entry_bit (ws[i := ws ! i AND NOT (push_bit b 1)]) j = (if j = 32 * i + b then False else entry_bit ws j)"
    using assms by (auto simp: entry_bit_def nth_list_update word_bits)
qed

locale field_writer =
  fixes set1 :: "u32 list \<Rightarrow> int \<Rightarrow> int \<Rightarrow> int \<Rightarrow> u32 list"
    and setn :: "u32 list \<Rightarrow> int \<Rightarrow> int \<Rightarrow> int \<Rightarrow> u64 \<Rightarrow> u32 list"
  assumes set1_length: "length (set1 ws n k x) = length ws"
    and set1_bit: "0 \<le> k \<Longrightarrow> int (length ws) = n \<Longrightarrow> j < 32 * length ws \<Longrightarrow>
          entry_bit (set1 ws n k x) j = (if int j = k then x \<noteq> 0 else entry_bit ws j)"
    and setn_fold: "setn ws n st w v =
          fold (\<lambda>i ws. set1 ws n (st + i) (if bit v (nat i) then 1 else 0)) [0..w - 1] ws"
begin

lemma setn_length: "length (setn ws n st w v) = length ws"
proof -
  have "length (fold (\<lambda>i ws. set1 ws n (st + i) (f i)) is ws) = length ws" for f "is"
    by (induction "is" arbitrary: ws) (simp_all add: set1_length)
  then show ?thesis by (simp add: setn_fold)
qed

lemma setn_bit:
  assumes "0 \<le> st" and "int (length ws) = n" and "j < 32 * length ws" and "0 \<le> w"
  shows "entry_bit (setn ws n st w v) j
       = (if st \<le> int j \<and> int j < st + w then bit v (nat (int j - st)) else entry_bit ws j)"
proof -
  let ?f = "\<lambda>i ws. set1 ws n (st + i) (if bit v (nat i) then 1 else 0)"
  have l: "length (fold ?f is ws) = length ws" for "is"
    by (induction "is" arbitrary: ws) (simp_all add: set1_length)
  have "entry_bit (fold ?f (map int [0..<m]) ws) j
      = (if st \<le> int j \<and> int j < st + int m then bit v (nat (int j - st)) else entry_bit ws j)" for m
  proof (induction m)
    case 0
    then show ?case by auto
  next
    case (Suc m)
    have "entry_bit (fold ?f (map int [0..<Suc m]) ws) j
        = (if int j = st + int m then bit v m else entry_bit (fold ?f (map int [0..<m]) ws) j)"
      using assms(1-3) by (simp add: set1_bit l)
    then show ?case using Suc by auto
  qed
  from this[of "nat w"] show ?thesis
    using assms(4) upto_upt[of "nat w"] by (simp add: setn_fold)
qed

lemma field_written:
  assumes "0 \<le> st" and "int (length ws) = n" and "st + int w \<le> 32 * n"
  shows "entry_field (setn ws n st (int w) v) (nat st) w = unat (take_bit w v)"
  using assms by (intro entry_field_eqI) (subst setn_bit; auto)

lemma field_kept:
  assumes "0 \<le> st" and "0 \<le> w" and "int (length ws) = n" and "st' + w' \<le> 32 * length ws"
    and "int (st' + w') \<le> st \<or> st + w \<le> int st'"
  shows "entry_field (setn ws n st w v) st' w' = entry_field ws st' w'"
  using assms by (intro entry_field_cong) (subst setn_bit; auto)

lemma field_kept1:
  assumes "0 \<le> k" and "int (length ws) = n" and "st' + w' \<le> 32 * length ws"
    and "int (st' + w') \<le> k \<or> k < int st'"
  shows "entry_field (set1 ws n k v) st' w' = entry_field ws st' w'"
  using assms by (intro entry_field_cong) (subst set1_bit; auto)

end

text \<open>The two copies of the code provide the interface by the same text.\<close>

lemma field_writer_by_words:
  assumes s1: "\<And>ws n k x. set1 ws n k x =
     (let wi = k div 32; bi = nat (k mod 32) in
      if wi < 0 \<or> wi \<ge> n then ws
      else if x \<noteq> 0 then ws[nat wi := ws ! nat wi OR push_bit bi 1]
      else ws[nat wi := ws ! nat wi AND NOT (push_bit bi 1)])"
    and sn: "\<And>ws n st w v. setn ws n st w v =
      fold (\<lambda>i ws. set1 ws n (st + i) (uint (drop_bit (nat i) v AND 1))) [0..w - 1] ws"
  shows "field_writer set1 setn"
proof
  fix ws :: "u32 list" and n k x :: int and j :: nat
  show "length (set1 ws n k x) = length ws"
    by (simp add: s1 Let_def)
  assume k: "0 \<le> k" and n: "int (length ws) = n" and j: "j < 32 * length ws"
  show "entry_bit (set1 ws n k x) j = (if int j = k then x \<noteq> 0 else entry_bit ws j)"
  proof (cases "nat (k div 32) < length ws")
    case True
    have "32 * nat (k div 32) + nat (k mod 32) = nat k"
      using k by (simp add: nat_mod_distrib nat_div_distrib)
    then show ?thesis
      using entry_bit_update[OF j True, of "nat (k mod 32)" ] k n True
      by (auto simp: s1 Let_def)
  next
    case False
    then have "int j \<noteq> k" "k div 32 \<ge> n" using j n k by (auto simp: zdiv_int)
    then show ?thesis by (simp add: s1 Let_def)
  qed
next
  show "setn ws n st w v =
      fold (\<lambda>i ws. set1 ws n (st + i) (if bit v (nat i) then 1 else 0)) [0..w - 1] ws" for ws n st w v
    by (simp add: sn uint_drop_bit_and_1)
qed


end
