(* ===== verification/Id_Pool.thy ===== *)
theory Id_Pool
  imports Prelude
begin

text \<open>
  Pools of table indices: the interface of \<open>alloc_id\<close>/\<open>free_id\<close> of \<^verbatim>\<open>sdk/src/l3.c\<close> and of
  \<open>alloc_group_id\<close>/\<open>free_group_id\<close> of \<^verbatim>\<open>sdk/src/ecmp.c\<close>. A pool hands out the integers
  of \<open>{lo..<hi}\<close>; a negative answer means exhausted.
\<close>

text \<open>The usual marks: index \<open>i\<close> is taken when its mark is not zero.\<close>

definition ids_taken :: "int \<Rightarrow> int \<Rightarrow> (int \<Rightarrow> int) \<Rightarrow> int set" where
  "ids_taken lo hi used = {i. lo \<le> i \<and> i < hi \<and> used i \<noteq> 0}"

locale id_pool =
  fixes alloc :: "'p \<Rightarrow> 'p \<times> int"
    and release :: "'p \<Rightarrow> int \<Rightarrow> 'p"
    and taken :: "'p \<Rightarrow> int set"
    and inv :: "'p \<Rightarrow> bool"
    and lo hi :: int
  assumes lo: "0 \<le> lo" "lo \<le> hi"
    and alloc_ok: "inv p \<Longrightarrow> alloc p = (p', i) \<Longrightarrow> 0 \<le> i \<Longrightarrow>
          lo \<le> i \<and> i < hi \<and> i \<notin> taken p \<and> taken p' = insert i (taken p) \<and> inv p'"
    and alloc_full: "inv p \<Longrightarrow> alloc p = (p', i) \<Longrightarrow> i < 0 \<Longrightarrow> p' = p \<and> {lo..<hi} \<subseteq> taken p"
    and release_ok: "inv p \<Longrightarrow> lo \<le> i \<Longrightarrow> i < hi \<Longrightarrow> taken (release p i) = taken p - {i} \<and> inv (release p i)"
begin

text \<open>Allocation never fails while an index is free, and never hands out a live one.\<close>

lemma alloc_succeeds:
  assumes "inv p" and "j \<in> {lo..<hi}" and "j \<notin> taken p"
  shows "0 \<le> snd (alloc p)"
  using alloc_full[OF assms(1) prod.collapse[symmetric]] assms(2,3) by (meson in_mono linorder_not_less)

lemma alloc_release:
  assumes "inv p" and "alloc p = (p', i)" and "0 \<le> i"
  shows "taken (release p' i) = taken p"
proof -
  have "lo \<le> i" "i < hi" "i \<notin> taken p" "taken p' = insert i (taken p)" "inv p'"
    using alloc_ok[OF assms] by auto
  then show ?thesis using release_ok[of p' i] by auto
qed

fun alloc_n :: "nat \<Rightarrow> 'p \<Rightarrow> 'p \<times> int list" where
  "alloc_n 0 p = (p, [])"
| "alloc_n (Suc n) p = (let (p', i) = alloc p; (p'', is) = alloc_n n p' in (p'', i # is))"

text \<open>Indices handed out one after the other are pairwise distinct and new.\<close>

lemma alloc_n_distinct:
  assumes "inv p" and "alloc_n n p = (q, is)" and "\<forall>i \<in> set is. 0 \<le> i"
  shows "distinct is \<and> set is \<inter> taken p = {} \<and> taken q = taken p \<union> set is \<and> inv q \<and> set is \<subseteq> {lo..<hi}"
  using assms
proof (induction n arbitrary: p "is")
  case 0
  then show ?case by simp
next
  case (Suc n)
  obtain p' i where a: "alloc p = (p', i)" by fastforce
  obtain js where js: "alloc_n n p' = (q, js)" "is = i # js"
    using Suc.prems(2) by (simp add: a Let_def split: prod.splits)
  then have "0 \<le> i" "\<forall>i \<in> set js. 0 \<le> i" using Suc.prems(3) by auto
  with alloc_ok[OF Suc.prems(1) a] Suc.IH[OF _ js(1)] js(2) show ?case by auto
qed

text \<open>A pool of \<open>hi - lo\<close> indices serves that many allocations and no more.\<close>

lemma capacity:
  assumes "inv p" and "alloc_n n p = (q, is)" and "\<forall>i \<in> set is. 0 \<le> i"
  shows "length is \<le> nat (hi - lo)"
proof -
  have "distinct is" "set is \<subseteq> {lo..<hi}" using alloc_n_distinct[OF assms] by auto
  then show ?thesis
    using card_mono[of "{lo..<hi}" "set is"] distinct_card[of "is"] by simp
qed

end

end
