(* ===== verification/Ecmp.thy ===== *)
theory Ecmp
  imports Device_Model Bitfield Id_Pool
begin

text \<open>
  \<^verbatim>\<open>sdk/src/ecmp.c\<close>: ECMP groups: a round-robin allocator of grp numbers, a
  first-fit allocator of contiguous member slots, and the grp descriptor.
\<close>

section \<open>State\<close>

record ecmp_state = bde_state +
  ecmp_used :: "int \<Rightarrow> int"
  ecmp_group_used :: "int \<Rightarrow> int"
  next_group_id :: int

abbreviation (input) "L3_ECMP_BASE \<equiv> (0x0e176000::u32)"
abbreviation (input) "L3_ECMP_WORDS \<equiv> (1::int)"
abbreviation (input) "L3_ECMP_ENTRIES \<equiv> (4096::int)"
abbreviation (input) "L3_ECMP_GROUP_BASE \<equiv> (0x0e174000::u32)"
abbreviation (input) "L3_ECMP_GROUP_WORDS \<equiv> (7::int)"
abbreviation (input) "L3_ECMP_GROUP_ENTRIES \<equiv> (1024::int)"

section \<open>Helpers\<close>

definition set_bit_ecmp :: "u32 list \<Rightarrow> int \<Rightarrow> int \<Rightarrow> int \<Rightarrow> u32 list" where
  "set_bit_ecmp words num_words k value =
     (let wi = k div 32; bi = nat (k mod 32) in
      if wi < 0 \<or> wi \<ge> num_words then words
      else if value \<noteq> 0 then words[nat wi := words ! nat wi OR push_bit bi 1]
      else words[nat wi := words ! nat wi AND NOT (push_bit bi 1)])"

definition set_bits_u64_ecmp :: "u32 list \<Rightarrow> int \<Rightarrow> int \<Rightarrow> int \<Rightarrow> u64 \<Rightarrow> u32 list" where
  "set_bits_u64_ecmp words num_words start_bit width value =
     fold (\<lambda>i words. set_bit_ecmp words num_words (start_bit + i)
            (uint (drop_bit (nat i) value AND 1))) [0..width - 1] words"

definition l3_ecmp_write :: "env \<Rightarrow> int \<Rightarrow> u32 \<Rightarrow> ('z bde_state_scheme, int) state" where
  "l3_ecmp_write E index word = sbus_mem_write E L3_ECMP_BASE index [word] L3_ECMP_WORDS"

definition l3_ecmp_group_write :: "env \<Rightarrow> int \<Rightarrow> u32 list \<Rightarrow> ('z bde_state_scheme, int) state" where
  "l3_ecmp_group_write E group_id words = sbus_mem_write E L3_ECMP_GROUP_BASE group_id words L3_ECMP_GROUP_WORDS"

text \<open>The grp allocator works on the used marks and the next number to try.\<close>

definition alloc_group_id :: "(int \<Rightarrow> int) \<times> int \<Rightarrow> ((int \<Rightarrow> int) \<times> int) \<times> int" where
  "alloc_group_id p =
     (case p of (used, nxt) \<Rightarrow>
       (case find (\<lambda>i. used i = 0) [nxt..L3_ECMP_GROUP_ENTRIES - 1] of
          Some i \<Rightarrow> ((used(i := 1), i + 1), i)
        | None \<Rightarrow> (case find (\<lambda>i. used i = 0) [1..nxt - 1] of
            Some i \<Rightarrow> ((used(i := 1), i + 1), i)
          | None \<Rightarrow> ((used, nxt), - 1))))"

definition free_group_id :: "(int \<Rightarrow> int) \<times> int \<Rightarrow> int \<Rightarrow> (int \<Rightarrow> int) \<times> int" where
  "free_group_id p idx =
     (case p of (used, nxt) \<Rightarrow> (if idx > 0 \<and> idx < L3_ECMP_GROUP_ENTRIES then used(idx := 0) else used, nxt))"

text \<open>The search for a free block: \<open>base += i\<close> and the loop's \<open>base++\<close> jump past
  the used slot found.\<close>

function find_block :: "(int \<Rightarrow> int) \<Rightarrow> int \<Rightarrow> int \<Rightarrow> int option" where
  "find_block used count base =
     (if base + count \<le> L3_ECMP_ENTRIES then
        (case find (\<lambda>i. used (base + i) \<noteq> 0) [0..count - 1] of
           Some i \<Rightarrow> find_block used count (base + i + 1)
         | None \<Rightarrow> Some base)
      else None)"
  by pat_completeness auto
termination
  by (relation "measure (\<lambda>(used, count, base). nat (4097 - base - count))")
    (auto dest!: find_upto_Some)

declare find_block.simps [simp del]

definition mark_slots :: "(int \<Rightarrow> int) \<Rightarrow> int \<Rightarrow> int \<Rightarrow> int \<Rightarrow> (int \<Rightarrow> int)" where
  "mark_slots used base count v = fold (\<lambda>i u. u(base + i := v)) [0..count - 1] used"

definition alloc_ecmp_slots :: "(int \<Rightarrow> int) \<Rightarrow> int \<Rightarrow> (int \<Rightarrow> int) \<times> int" where
  "alloc_ecmp_slots used count =
     (if count \<le> 0 \<or> count > L3_ECMP_ENTRIES then (used, - 1)
      else case find_block used count 0 of
        Some base \<Rightarrow> (mark_slots used base count 1, base)
      | None \<Rightarrow> (used, - 1))"

definition free_ecmp_slots :: "(int \<Rightarrow> int) \<Rightarrow> int \<Rightarrow> int \<Rightarrow> (int \<Rightarrow> int)" where
  "free_ecmp_slots used base count =
     (if base < 0 \<or> count \<le> 0 then used
      else if base + count > L3_ECMP_ENTRIES then used
      else mark_slots used base count 0)"

section \<open>Groups\<close>

definition oif_bits :: "int list" where "oif_bits = [82, 96, 110, 124, 138, 152, 166, 180]"
definition type_bits :: "int list" where "type_bits = [81, 95, 109, 123, 137, 151, 165, 179]"

definition pack_group :: "int list \<Rightarrow> int \<Rightarrow> int \<Rightarrow> u32 list" where
  "pack_group egress_ids count base_ptr =
     (let w = replicate 7 0;
          w = set_bits_u64_ecmp w L3_ECMP_GROUP_WORDS 10 12 (word_of_int base_ptr AND 0xfff);
          w = set_bits_u64_ecmp w L3_ECMP_GROUP_WORDS 0 10 (word_of_int count AND 0x3ff);
          w = set_bit_ecmp w L3_ECMP_GROUP_WORDS 196 (if count > 8 then 1 else 0)
      in if count \<le> 8
         then fold (\<lambda>i w. set_bit_ecmp
                (set_bits_u64_ecmp w L3_ECMP_GROUP_WORDS (oif_bits ! nat i) 13
                   (word_of_int (egress_ids ! nat i) AND 0x1fff))
                L3_ECMP_GROUP_WORDS (type_bits ! nat i) 0) [0..count - 1] w
         else w)"

definition release_group :: "int \<Rightarrow> int \<Rightarrow> int \<Rightarrow> ('z ecmp_state_scheme, unit) state" where
  "release_group base_ptr count grp = modify (\<lambda>s. s\<lparr>
     ecmp_used := free_ecmp_slots (ecmp_used s) base_ptr count,
     ecmp_group_used := fst (free_group_id (ecmp_group_used s, next_group_id s) grp)\<rparr>)"

definition bcm56846_l3_ecmp_create ::
  "env \<Rightarrow> int list option \<Rightarrow> int \<Rightarrow> int option \<Rightarrow> ('z ecmp_state_scheme, int \<times> int option) state" where
  "bcm56846_l3_ecmp_create E egress_ids count ecmp_id =
     (case (egress_ids, ecmp_id) of
        (Some ids, Some _) \<Rightarrow>
          if count \<le> 0 then return (- EINVAL, ecmp_id)
          else if count > 1023 then return (- EINVAL, ecmp_id)
          else do {
            (p, grp) \<leftarrow> gets (\<lambda>s. alloc_group_id (ecmp_group_used s, next_group_id s));
            modify (\<lambda>s. s\<lparr>ecmp_group_used := fst p, next_group_id := snd p\<rparr>);
            if grp < 0 then return (- ENOSPC, ecmp_id)
            else do {
              (used, base_ptr) \<leftarrow> gets (\<lambda>s. alloc_ecmp_slots (ecmp_used s) count);
              modify (\<lambda>s. s\<lparr>ecmp_used := used\<rparr>);
              if base_ptr < 0 then do {
                modify (\<lambda>s. s\<lparr>ecmp_group_used := fst (free_group_id (ecmp_group_used s, next_group_id s) grp)\<rparr>);
                return (- ENOSPC, ecmp_id)
              } else do {
                r \<leftarrow> for_ret [0..count - 1] (\<lambda>i. do {
                   rc \<leftarrow> l3_ecmp_write E (base_ptr + i) (word_of_int (ids ! nat i) AND 0x3fff);
                   if rc \<noteq> 0 then do { release_group base_ptr count grp; return (Some (- EIO)) }
                   else return None
                 });
                (case r of Some rc \<Rightarrow> return (rc, ecmp_id)
                 | None \<Rightarrow> do {
                     rc \<leftarrow> l3_ecmp_group_write E grp (pack_group ids count base_ptr);
                     if rc \<noteq> 0 then do { release_group base_ptr count grp; return (- EIO, ecmp_id) }
                     else return (0, Some grp)
                   })
              }
            }
          }
      | _ \<Rightarrow> return (- EINVAL, ecmp_id))"

definition bcm56846_l3_ecmp_destroy :: "env \<Rightarrow> int \<Rightarrow> ('z ecmp_state_scheme, int) state" where
  "bcm56846_l3_ecmp_destroy E ecmp_id =
     (if ecmp_id \<le> 0 \<or> ecmp_id \<ge> L3_ECMP_GROUP_ENTRIES then return (- EINVAL)
      else do {
        l3_ecmp_group_write E ecmp_id [0, 0, 0, 0, 0, 0, 0];
        modify (\<lambda>s. s\<lparr>ecmp_group_used := fst (free_group_id (ecmp_group_used s, next_group_id s) ecmp_id)\<rparr>);
        return 0
      })"

section \<open>The allocators\<close>

interpretation ecf: field_writer set_bit_ecmp set_bits_u64_ecmp
  by (rule field_writer_by_words) (simp_all add: set_bit_ecmp_def set_bits_u64_ecmp_def)

definition group_inv :: "(int \<Rightarrow> int) \<times> int \<Rightarrow> bool" where
  "group_inv p \<longleftrightarrow> 1 \<le> snd p \<and> snd p \<le> L3_ECMP_GROUP_ENTRIES"

lemma alloc_group_cases:
  assumes "alloc_group_id (used, nxt) = (p', i)" and "1 \<le> nxt" "nxt \<le> 1024"
  shows "(0 \<le> i \<longrightarrow> 1 \<le> i \<and> i < 1024 \<and> used i = 0 \<and> p' = (used(i := 1), i + 1)) \<and>
      (i < 0 \<longrightarrow> p' = (used, nxt) \<and> (\<forall>j. 1 \<le> j \<and> j < 1024 \<longrightarrow> used j \<noteq> 0))"
proof (cases "find (\<lambda>i. used i = 0) [nxt..1023]")
  case (Some j)
  then have "i = j" "p' = (used(j := 1), j + 1)" using assms(1) by (auto simp: alloc_group_id_def)
  then show ?thesis using find_upto_Some[OF Some] assms(2,3) by simp
next
  case n1: None
  show ?thesis
  proof (cases "find (\<lambda>i. used i = 0) [1..nxt - 1]")
    case (Some j)
    then have "i = j" "p' = (used(j := 1), j + 1)" using n1 assms(1) by (auto simp: alloc_group_id_def)
    then show ?thesis using find_upto_Some[OF Some] assms(2,3) by simp
  next
    case n2: None
    then have r: "i = - 1" "p' = (used, nxt)" using n1 assms(1) by (auto simp: alloc_group_id_def)
    have "used j \<noteq> 0" if "1 \<le> j" "j < 1024" for j
      using n1 n2 that unfolding find_upto_None by (cases "nxt \<le> j") auto
    then show ?thesis using r by simp
  qed
qed

interpretation group_pool: id_pool alloc_group_id free_group_id
    "\<lambda>p. ids_taken 1 L3_ECMP_GROUP_ENTRIES (fst p)" group_inv 1 L3_ECMP_GROUP_ENTRIES
proof
  fix p p' i assume p: "group_inv p" and a: "alloc_group_id p = (p', i)"
  obtain used nxt where pd: "p = (used, nxt)" by fastforce
  have "(0 \<le> i \<longrightarrow> 1 \<le> i \<and> i < 1024 \<and> used i = 0 \<and> p' = (used(i := 1), i + 1)) \<and>
      (i < 0 \<longrightarrow> p' = p \<and> (\<forall>j. 1 \<le> j \<and> j < 1024 \<longrightarrow> used j \<noteq> 0))"
    using alloc_group_cases[of used nxt p' i] p a by (simp add: pd group_inv_def)
  then show "0 \<le> i \<Longrightarrow> 1 \<le> i \<and> i < 1024 \<and> i \<notin> ids_taken 1 1024 (fst p) \<and>
      ids_taken 1 1024 (fst p') = insert i (ids_taken 1 1024 (fst p)) \<and> group_inv p'"
    and "i < 0 \<Longrightarrow> p' = p \<and> {1..<1024} \<subseteq> ids_taken 1 1024 (fst p)"
    by (auto simp: ids_taken_def group_inv_def pd)
next
  show "ids_taken 1 1024 (fst (free_group_id p i)) = ids_taken 1 1024 (fst p) - {i} \<and> group_inv (free_group_id p i)"
    if "group_inv p" "1 \<le> i" "i < 1024" for p i
    using that by (auto simp: free_group_id_def ids_taken_def group_inv_def split: prod.split)
qed simp_all

definition block_free :: "(int \<Rightarrow> int) \<Rightarrow> int \<Rightarrow> int \<Rightarrow> bool" where
  "block_free used count b \<longleftrightarrow> list_all (\<lambda>i. used (b + i) = 0) [0..count - 1]"

lemma find_block_first_fit:
  assumes "0 < count" and "0 \<le> base"
  shows "find_block used count base = find (block_free used count) [base..4096 - count]"
  using assms
proof (induction used count base rule: find_block.induct)
  case (1 used count base)
  show ?case
  proof (cases "base + count \<le> 4096")
    case False
    then show ?thesis by (simp add: find_block.simps)
  next
    case fits: True
    show ?thesis
    proof (cases "find (\<lambda>i. used (base + i) \<noteq> 0) [0..count - 1]")
      case None
      then have "block_free used count base"
        by (auto simp: find_upto_None block_free_def list_all_iff)
      then show ?thesis using fits None by (simp add: find_block.simps upto_rec1)
    next
      case (Some i)
      then have i: "0 \<le> i" "i < count" "used (base + i) \<noteq> 0" using find_upto_Some[OF Some] by auto
      have "\<not> block_free used count x" if "base \<le> x" "x < base + i + 1" for x
        using that i unfolding block_free_def list_all_iff
        by (auto intro!: bexI[of _ "base + i - x"])
      then have "find (block_free used count) [base..4096 - count]
          = find (block_free used count) [base + i + 1..4096 - count]"
        using i by (intro find_upto_skip) auto
      then show ?thesis
        using 1(1)[OF fits Some] 1(2,3) i fits Some by (simp add: find_block.simps[of used count base])
    qed
  qed
qed

lemma mark_slots_apply:
  "0 \<le> count \<Longrightarrow> mark_slots used base count v j = (if base \<le> j \<and> j < base + count then v else used j)"
proof -
  have "fold (\<lambda>i u. u(base + i := v)) (map int [0..<m]) used j
      = (if base \<le> j \<and> j < base + int m then v else used j)" for m
    by (induction m) auto
  then show "0 \<le> count \<Longrightarrow> ?thesis"
    using upto_upt[of "nat count"] by (simp add: mark_slots_def)
qed

text \<open>The member allocator is a correct first fit: although its search skips ahead past a
  used slot, it returns the lowest base at which the requested number of consecutive slots is
  free and marks exactly those; it fails only if no such base exists or the request is out of
  range, and then changes nothing.\<close>

theorem ecmp_slots_first_fit:
  "alloc_ecmp_slots used count =
     (case (if 0 < count \<and> count \<le> 4096 then find (block_free used count) [0..4096 - count] else None) of
        None \<Rightarrow> (used, - 1)
      | Some base \<Rightarrow> (\<lambda>j. if base \<le> j \<and> j < base + count then 1 else used j, base))"
proof (cases "0 < count \<and> count \<le> 4096")
  case True
  then show ?thesis
    using find_block_first_fit[of count 0 used]
    by (auto simp: alloc_ecmp_slots_def mark_slots_apply fun_eq_iff split: option.split)
qed (auto simp: alloc_ecmp_slots_def)

section \<open>Creation and destruction\<close>

definition groups :: "'z ecmp_state_scheme \<Rightarrow> int set" where
  "groups s = ids_taken 1 L3_ECMP_GROUP_ENTRIES (ecmp_group_used s)"

definition slots :: "'z ecmp_state_scheme \<Rightarrow> int set" where
  "slots s = ids_taken 0 L3_ECMP_ENTRIES (ecmp_used s)"

definition ecmp_inv :: "'z ecmp_state_scheme \<Rightarrow> bool" where
  "ecmp_inv s \<longleftrightarrow> group_inv (ecmp_group_used s, next_group_id s)"

lemma wp_ecmp_write [wp_rules]:
  "(\<And>rc tr. Q rc (s\<lparr>trace := tr\<rparr>)) \<Longrightarrow> wp (l3_ecmp_write E i w) Q s"
  "(\<And>rc tr. Q rc (s\<lparr>trace := tr\<rparr>)) \<Longrightarrow> wp (l3_ecmp_group_write E i ws) Q s"
  using bus_frame[OF emits_sbus(6), of E L3_ECMP_BASE i "[w]" L3_ECMP_WORDS s]
    bus_frame[OF emits_sbus(6), of E L3_ECMP_GROUP_BASE i ws L3_ECMP_GROUP_WORDS s]
  by (auto simp: wp_def l3_ecmp_write_def l3_ecmp_group_write_def)

text \<open>The member loop: it ends well and changes nothing but the history, or it releases.\<close>

lemma wp_member_loop:
  assumes "Q None s" and "\<And>s tr. Q None s \<Longrightarrow> Q None (s\<lparr>trace := tr\<rparr>)"
    and "\<And>s. Q None s \<Longrightarrow> wp (release_group b c g) (\<lambda>_. Q (Some (- EIO))) s"
  shows "wp (for_ret is (\<lambda>i. do {
           rc \<leftarrow> l3_ecmp_write E (b + i) (f i);
           if rc \<noteq> 0 then do { release_group b c g; return (Some (- EIO)) } else return None })) Q s"
  using assms(1)
proof (induction "is" arbitrary: s)
  case Nil
  then show ?case by (simp add: wp_def)
next
  case (Cons i js)
  have Q: "Q None (s\<lparr>trace := tr\<rparr>)" for tr using Cons.prems assms(2) by blast
  have rel: "wp (release_group b c g) (\<lambda>_. Q (Some (- EIO))) (s\<lparr>trace := tr\<rparr>)" for tr
    using assms(3) Q by blast
  show ?case
    unfolding for_ret.simps
    by (intro wp_rules) (auto intro!: wp_rules wp_mono[OF rel] Cons.IH Q simp: wp_def[of "return _"])
qed

definition ecmp_outcome :: "'z ecmp_state_scheme \<Rightarrow> int \<Rightarrow> int \<times> int option \<Rightarrow> int option \<Rightarrow> 'z ecmp_state_scheme \<Rightarrow> bool" where
  "ecmp_outcome s count r out s' \<longleftrightarrow> ecmp_inv s' \<and>
     (if fst r = 0 then
        \<exists>g b. snd r = Some g \<and> 1 \<le> g \<and> g < 1024 \<and> g \<notin> groups s \<and> groups s' = insert g (groups s) \<and>
              0 \<le> b \<and> b + count \<le> 4096 \<and> {b..<b + count} \<inter> slots s = {} \<and> slots s' = slots s \<union> {b..<b + count}
      else groups s' = groups s \<and> slots s' = slots s \<and> snd r = out)"

text \<open>The two allocations, and what giving both back does.\<close>

lemma group_step:
  assumes "ecmp_inv s" and "alloc_group_id (ecmp_group_used s, next_group_id s) = ((gused, nxt), g)"
  shows "group_inv (gused, nxt)"
    and "g < 0 \<Longrightarrow> gused = ecmp_group_used s \<and> nxt = next_group_id s"
    and "\<not> g < 0 \<Longrightarrow> 1 \<le> g \<and> g < 1024 \<and> g \<notin> groups s \<and> ids_taken 1 1024 gused = insert g (groups s)"
    and "\<not> g < 0 \<Longrightarrow> ids_taken 1 1024 (fst (free_group_id (gused, nxt) g)) = groups s"
proof -
  note inv = assms(1)[unfolded ecmp_inv_def]
  show "group_inv (gused, nxt)"
    using group_pool.alloc_ok[OF inv assms(2)] group_pool.alloc_full[OF inv assms(2)] inv by (cases "g < 0") auto
  show "g < 0 \<Longrightarrow> gused = ecmp_group_used s \<and> nxt = next_group_id s"
    using group_pool.alloc_full[OF inv assms(2)] by simp
  show "\<not> g < 0 \<Longrightarrow> 1 \<le> g \<and> g < 1024 \<and> g \<notin> groups s \<and> ids_taken 1 1024 gused = insert g (groups s)"
    using group_pool.alloc_ok[OF inv assms(2)] by (simp add: groups_def)
  show "\<not> g < 0 \<Longrightarrow> ids_taken 1 1024 (fst (free_group_id (gused, nxt) g)) = groups s"
    using group_pool.alloc_release[OF inv assms(2)] by (simp add: groups_def)
qed

lemma slot_step:
  assumes "alloc_ecmp_slots (ecmp_used s) count = (used, b)" and "0 < count" "count \<le> 4096"
  shows "b < 0 \<Longrightarrow> used = ecmp_used s"
    and "\<not> b < 0 \<Longrightarrow> b + count \<le> 4096 \<and> {b..<b + count} \<inter> slots s = {} \<and>
           ids_taken 0 4096 used = slots s \<union> {b..<b + count} \<and>
           ids_taken 0 4096 (free_ecmp_slots used b count) = slots s"
proof -
  have c: "(b = - 1 \<and> used = ecmp_used s) \<or>
     (0 \<le> b \<and> b \<le> 4096 - count \<and> block_free (ecmp_used s) count b \<and>
      used = mark_slots (ecmp_used s) b count 1)"
    using assms find_block_first_fit[of count 0 "ecmp_used s"]
    by (auto simp: alloc_ecmp_slots_def split: option.splits dest: find_upto_Some)
  then show "b < 0 \<Longrightarrow> used = ecmp_used s" by auto
  assume "\<not> b < 0"
  with c have r: "0 \<le> b \<and> b \<le> 4096 - count \<and> block_free (ecmp_used s) count b"
    and u: "used = mark_slots (ecmp_used s) b count 1" by auto
  then have f: "ecmp_used s j = 0" if "b \<le> j" "j < b + count" for j
    using that by (auto simp: block_free_def list_all_iff dest!: bspec[where x = "j - b"])
  show "b + count \<le> 4096 \<and> {b..<b + count} \<inter> slots s = {} \<and>
           ids_taken 0 4096 used = slots s \<union> {b..<b + count} \<and>
           ids_taken 0 4096 (free_ecmp_slots used b count) = slots s"
    using r f assms(2,3) unfolding u
    by (auto simp: slots_def ids_taken_def mark_slots_apply free_ecmp_slots_def)
qed

lemma ecmp_views [simp]:
  "groups (s\<lparr>trace := tr\<rparr>) = groups s" "slots (s\<lparr>trace := tr\<rparr>) = slots s" "ecmp_inv (s\<lparr>trace := tr\<rparr>) = ecmp_inv s"
  by (simp_all add: groups_def slots_def ecmp_inv_def)

lemma ecmp_views_upd:
  "groups (s\<lparr>ecmp_used := u\<rparr>) = groups s" "slots (s\<lparr>ecmp_used := u\<rparr>) = ids_taken 0 4096 u"
  "groups (s\<lparr>ecmp_group_used := g\<rparr>) = ids_taken 1 1024 g" "slots (s\<lparr>ecmp_group_used := g\<rparr>) = slots s"
  "groups (s\<lparr>next_group_id := n\<rparr>) = groups s" "slots (s\<lparr>next_group_id := n\<rparr>) = slots s"
  "ecmp_inv (s\<lparr>ecmp_used := u\<rparr>) = ecmp_inv s"
  by (simp_all add: groups_def slots_def ecmp_inv_def)

text \<open>The part of the creation after the allocations, with its cleanup: \<open>Q None\<close> holds until a write fails,
  \<open>Q (Some e)\<close> after the cleanup.\<close>

lemma wp_create_tail:
  fixes Q :: "int option \<Rightarrow> 'z ecmp_state_scheme \<Rightarrow> bool"
  assumes start: "Q None s0" and frame: "\<And>s' tr. Q None s' \<Longrightarrow> Q None (s'\<lparr>trace := tr\<rparr>)"
    and rel: "\<And>s'. Q None s' \<Longrightarrow> wp (release_group b count g) (\<lambda>_. Q (Some (- EIO))) s'"
    and fin: "\<And>s'. Q None s' \<Longrightarrow> R (0, Some g) s'"
    and fail: "\<And>e s'. Q (Some e) s' \<Longrightarrow> e = - EIO \<and> R (- EIO, Some o0) s'"
  shows "wp (for_ret [0..count - 1] (\<lambda>i. do {
           rc \<leftarrow> l3_ecmp_write E (b + i) (word_of_int (l ! nat i) AND 16383);
           if rc \<noteq> 0 then do { release_group b count g; return (Some (- 5)) } else return None }))
       (\<lambda>a. wp (case a of
           None \<Rightarrow> do { rc \<leftarrow> l3_ecmp_group_write E g (pack_group l count b);
             if rc \<noteq> 0 then do { release_group b count g; return (- 5, Some o0) } else return (0, Some g) }
         | Some rc \<Rightarrow> return (rc, Some o0)) R) s0"
proof (rule wp_mono[where P = Q])
  show "wp (for_ret [0..count - 1] (\<lambda>i. do {
           rc \<leftarrow> l3_ecmp_write E (b + i) (word_of_int (l ! nat i) AND 16383);
           if rc \<noteq> 0 then do { release_group b count g; return (Some (- 5)) } else return None })) Q s0"
    by (rule wp_member_loop) (use rel start frame in auto)
  fix a s' assume Qa: "Q a s'"
  show "wp (case a of
           None \<Rightarrow> do { rc \<leftarrow> l3_ecmp_group_write E g (pack_group l count b);
             if rc \<noteq> 0 then do { release_group b count g; return (- 5, Some o0) } else return (0, Some g) }
         | Some rc \<Rightarrow> return (rc, Some o0)) R s'"
  proof (cases a)
    case None
    show ?thesis unfolding None option.case
      by (intro wp_rules wp_mono[OF rel])
        (use Qa[unfolded None] in \<open>auto intro: wp_return frame fin dest: fail\<close>)
  next
    case (Some e)
    then show ?thesis using Qa fail[of e s'] by (auto simp: wp_def)
  qed
qed

lemma wp_ecmp_create:
  assumes "ecmp_inv s"
  shows "wp (bcm56846_l3_ecmp_create E ids count out) (\<lambda>r s'. ecmp_outcome s count r out s') s"
proof (cases "\<exists>l o0. ids = Some l \<and> out = Some o0 \<and> 0 < count \<and> count \<le> 1023")
  case False
  then show ?thesis
    using assms unfolding bcm56846_l3_ecmp_create_def
    by (cases ids; cases out; simp only: prod.case option.case; intro wp_rules; auto simp: ecmp_outcome_def)
next
  case True
  then obtain l o0 where args: "ids = Some l" "out = Some o0" "0 < count" "count \<le> 1023" by blast
  obtain gused nxt g where a: "alloc_group_id (ecmp_group_used s, next_group_id s) = ((gused, nxt), g)"
    by (metis prod.exhaust)
  obtain used b where bl: "alloc_ecmp_slots (ecmp_used s) count = (used, b)" by fastforce
  note gs = group_step[OF assms a]
  have c4: "count \<le> 4096" using args(4) by simp
  note bs = slot_step[OF bl args(3) c4]
  define Q where "Q r s' = (case r of
      None \<Rightarrow> ecmp_used s' = used \<and> ecmp_group_used s' = gused \<and> next_group_id s' = nxt
    | Some e \<Rightarrow> e = - EIO \<and> groups s' = groups s \<and> slots s' = slots s \<and> ecmp_inv s')"
    for r :: "int option" and s' :: "'a ecmp_state_scheme"
  have rel: "wp (release_group b count g) (\<lambda>_. Q (Some (- EIO))) s'"
    if "Q None s'" "\<not> g < 0" "\<not> b < 0" for s'
    unfolding release_group_def
    by (intro wp_rules)
      (use that gs bs in \<open>auto simp: Q_def ecmp_views_upd ecmp_inv_def free_group_id_def group_inv_def\<close>)
  have fin: "ecmp_outcome s count (0, Some g) out s'" if "Q None s'" "\<not> g < 0" "\<not> b < 0" for s'
    using that gs bs by (auto simp: Q_def ecmp_outcome_def groups_def slots_def ecmp_inv_def intro!: exI[of _ b])
  have fail: "ecmp_outcome s count (- EIO, out) out s'" if "Q (Some (- EIO)) s'" for s'
    using that by (simp add: Q_def ecmp_outcome_def)
  have loop: "wp (for_ret [0..count - 1] (\<lambda>i. do {
           rc \<leftarrow> l3_ecmp_write E (b + i) (word_of_int (l ! nat i) AND 16383);
           if rc \<noteq> 0 then do { release_group b count g; return (Some (- 5)) } else return None }))
       (\<lambda>a. wp (case a of
           None \<Rightarrow> do { rc \<leftarrow> l3_ecmp_group_write E g (pack_group l count b);
             if rc \<noteq> 0 then do { release_group b count g; return (- 5, Some o0) } else return (0, Some g) }
         | Some rc \<Rightarrow> return (rc, Some o0)) (\<lambda>r. ecmp_outcome s count r (Some o0)))
       (s\<lparr>ecmp_group_used := gused, next_group_id := nxt, ecmp_used := used\<rparr>)"
    if nn: "\<not> g < 0" "\<not> b < 0"
    by (rule wp_create_tail[where Q = Q])
      (use rel[OF _ nn] fin[OF _ nn] fail args(2) in \<open>auto simp: Q_def\<close>)
  have full1: "ecmp_outcome s count (- ENOSPC, out) out s" using assms by (simp add: ecmp_outcome_def)
  have full2: "ecmp_outcome s count (- ENOSPC, out) out
      (s\<lparr>next_group_id := nxt, ecmp_group_used := fst (free_group_id (gused, nxt) g)\<rparr>)" if "\<not> g < 0"
    using gs that by (auto simp: ecmp_outcome_def ecmp_views_upd ecmp_inv_def free_group_id_def group_inv_def groups_def slots_def)
  show ?thesis
    unfolding bcm56846_l3_ecmp_create_def args option.case prod.case
    by (intro wp_rules) (use args gs(2) bs(1) loop full1 full2 in \<open>auto simp: a bl\<close>)
qed

text \<open>C15. ECMP group creation is all or nothing: whatever the bus answers, a successful creation
  returns a group number that was free and occupies a block of consecutive member slots that
  were all free; every failure (arguments, exhaustion of groups or slots, bus error at any
  member or at the descriptor) leaves both pools as they were. Destroying a group frees its
  number but no member slot: the slots of a destroyed group are never reused.\<close>

theorem ecmp_all_or_nothing:
  assumes "ecmp_inv s"
  shows "ecmp_outcome s count (result (bcm56846_l3_ecmp_create E ids count out) s) out
           (exec (bcm56846_l3_ecmp_create E ids count out) s) \<and>
         (let s' = exec (bcm56846_l3_ecmp_destroy E g) s in
            ecmp_inv s' \<and> groups s' = groups s - {g} \<and> slots s' = slots s)"
proof
  show "ecmp_outcome s count (result (bcm56846_l3_ecmp_create E ids count out) s) out
           (exec (bcm56846_l3_ecmp_create E ids count out) s)"
    by (rule wpD[OF wp_ecmp_create[OF assms]])
  have "wp (bcm56846_l3_ecmp_destroy E g) (\<lambda>_ s'. ecmp_inv s' \<and> groups s' = groups s - {g} \<and> slots s' = slots s) s"
    unfolding bcm56846_l3_ecmp_destroy_def
    by (intro wp_rules)
      (use assms in \<open>auto simp: ecmp_views_upd ecmp_inv_def free_group_id_def group_inv_def groups_def slots_def ids_taken_def\<close>)
  then show "let s' = exec (bcm56846_l3_ecmp_destroy E g) s in
            ecmp_inv s' \<and> groups s' = groups s - {g} \<and> slots s' = slots s"
    by (simp add: wp_def Let_def)
qed

definition ecmp0 :: ecmp_state where
  "ecmp0 = bde_state.extend bde0 \<lparr>ecmp_used = \<lambda>_. 0, ecmp_group_used = \<lambda>_. 0, next_group_id = 1\<rparr>"

theorem ecmp_all_or_nothing_witness:
  "ecmp_outcome ecmp0 2 (result (bcm56846_l3_ecmp_create chip_env (Some [5, 6]) 2 (Some 0)) ecmp0) (Some 0)
     (exec (bcm56846_l3_ecmp_create chip_env (Some [5, 6]) 2 (Some 0)) ecmp0)"
proof -
  have "ecmp_inv ecmp0" by (simp add: ecmp_inv_def group_inv_def ecmp0_def bde_state.defs)
  from ecmp_all_or_nothing[OF this] show ?thesis by blast
qed

section \<open>The descriptor\<close>

lemma oif_nth: "i < 8 \<Longrightarrow> oif_bits ! i = 82 + 14 * int i" "i < 8 \<Longrightarrow> type_bits ! i = 81 + 14 * int i"
  by (auto simp: oif_bits_def type_bits_def less_Suc_eq numeral_eq_Suc)

definition put_oif :: "int list \<Rightarrow> int \<Rightarrow> u32 list \<Rightarrow> u32 list" where
  "put_oif ids i w = set_bit_ecmp
     (set_bits_u64_ecmp w 7 (oif_bits ! nat i) 13 (word_of_int (ids ! nat i) AND 0x1fff)) 7 (type_bits ! nat i) 0"

lemma length_put_oif [simp]: "length (put_oif ids i w) = length w"
  by (simp add: put_oif_def ecf.setn_length ecf.set1_length)

lemma put_oifs:
  assumes "length w = 7" and "m \<le> 8"
  shows "length (fold (put_oif ids) (map int [0..<m]) w) = 7 \<and>
     (\<forall>st n. st + n \<le> 81 \<or> (193 < st \<and> st + n \<le> 224) \<longrightarrow>
        entry_field (fold (put_oif ids) (map int [0..<m]) w) st n = entry_field w st n) \<and>
     (\<forall>i<m. entry_field (fold (put_oif ids) (map int [0..<m]) w) (82 + 14 * i) 13 = nat (ids ! i mod 8192))"
  using assms(2)
proof (induction m)
  case 0
  then show ?case using assms(1) by simp
next
  case (Suc m)
  let ?w = "fold (put_oif ids) (map int [0..<m]) w"
  have l: "length ?w = 7" using Suc by simp
  have m: "m < 8" using Suc.prems by simp
  let ?v = "word_of_int (ids ! m) AND 0x1fff :: u64"
  have step: "put_oif ids (int m) ?w =
      set_bit_ecmp (set_bits_u64_ecmp ?w 7 (82 + 14 * int m) 13 ?v) 7 (81 + 14 * int m) 0"
    by (simp add: put_oif_def oif_nth[OF m])
  have kept: "entry_field (put_oif ids (int m) ?w) st n = entry_field ?w st n"
    if "st + n \<le> 224" "int (st + n) \<le> 81 + 14 * int m \<or> 95 + 14 * int m \<le> int st" for st n
    unfolding step using that l m
    by (subst ecf.field_kept1; (subst ecf.field_kept)?; auto simp: ecf.setn_length)
  have v: "unat (take_bit 13 ?v) = nat (ids ! m mod 8192)"
    using unat_low_bits[of 13 "ids ! m", where 'a = 64] by (simp add: mask_numeral)
  have new: "entry_field (put_oif ids (int m) ?w) (82 + 14 * m) 13 = nat (ids ! m mod 8192)"
    unfolding step using l m ecf.field_written[of "82 + 14 * int m" ?w 7 13 ?v] v
    by (subst ecf.field_kept1) (auto simp: ecf.setn_length nat_add_distrib nat_mult_distrib)
  show ?case
    using Suc.IH m l kept new by (auto simp: less_Suc_eq)
qed

text \<open>The descriptor says what was asked for: the group's BASE_PTR and COUNT are the block's
  base and the number of members, ECMP_GT8 is set exactly above 8 members, and up to 8 members
  the fast-path field of member i holds the low 13 bits of its egress identifier; identifiers go
  up to 16383, so from 8192 on the field names another next hop.\<close>

theorem ecmp_descriptor:
  assumes "0 \<le> b" and "b < 4096" and "0 < count" and "count \<le> 1023"
  shows "let w = pack_group ids count b in
     entry_field w 10 12 = nat b \<and> entry_field w 0 10 = nat count \<and> (entry_field w 196 1 = 1 \<longleftrightarrow> 8 < count) \<and>
     (\<forall>i < nat count. count \<le> 8 \<longrightarrow> entry_field w (82 + 14 * i) 13 = nat (ids ! i mod 8192))"
proof -
  let ?b = "word_of_int b AND 0xfff :: u64" and ?c = "word_of_int count AND 0x3ff :: u64"
  let ?w1 = "set_bits_u64_ecmp (replicate 7 0) 7 10 12 ?b"
  let ?w2 = "set_bits_u64_ecmp ?w1 7 0 10 ?c"
  let ?w3 = "set_bit_ecmp ?w2 7 196 (if count > 8 then 1 else 0)"
  have l: "length ?w1 = 7" "length ?w2 = 7" "length ?w3 = 7" by (simp_all add: ecf.setn_length ecf.set1_length)
  have vb: "unat (take_bit 12 ?b) = nat b"
    using unat_low_bits[of 12 b, where 'a = 64] assms(1,2) by (simp add: mask_numeral)
  have vc: "unat (take_bit 10 ?c) = nat count"
    using unat_low_bits[of 10 count, where 'a = 64] assms(3,4) by (simp add: mask_numeral)
  have f: "entry_field ?w3 10 12 = nat b" "entry_field ?w3 0 10 = nat count"
    using ecf.field_written[of 10 "replicate 7 0" 7 12 ?b] ecf.field_written[of 0 ?w1 7 10 ?c] l vb vc
    by (simp_all add: ecf.field_kept1 ecf.field_kept)
  have g: "entry_field ?w3 196 1 = 1 \<longleftrightarrow> 8 < count"
    using l by (simp add: entry_field_def ecf.set1_bit ecf.setn_bit)
  have p: "pack_group ids count b = (if count \<le> 8 then fold (put_oif ids) (map int [0..<nat count]) ?w3 else ?w3)"
    using upto_upt[of "nat count"] assms(3) by (simp add: pack_group_def Let_def put_oif_def[abs_def])
  show ?thesis
    using f g put_oifs[OF l(3), of "nat count" ids] by (auto simp: p Let_def)
qed

theorem ecmp_descriptor_witness:
  "entry_field (pack_group [5, 9000] 2 64) 10 12 = 64 \<and> entry_field (pack_group [5, 9000] 2 64) (82 + 14 * 1) 13 = 808"
  using ecmp_descriptor[of 64 2 "[5, 9000]"] by (auto simp: Let_def dest!: spec[where x = "1::nat"])

end
