(* ===== verification/Vlan.thy ===== *)
theory Vlan
  imports Device_Model Bitfield
begin

text \<open>
  \<^verbatim>\<open>sdk/src/vlan.c\<close>: the ingress VLAN table (10 words) and the egress VLAN table (8 words) with
  their shadow copies and member bitmaps, all indexed by the VLAN identifier.
\<close>

section \<open>State\<close>

record vlan_state = bde_state +
  vlan_ing :: "u16 \<Rightarrow> u32 list"
  vlan_egr :: "u16 \<Rightarrow> u32 list"
  vlan_valid :: "u16 \<Rightarrow> int"
  vlan_ing_pbm :: "u16 \<Rightarrow> u64"
  vlan_egr_pbm :: "u16 \<Rightarrow> u64"
  vlan_egr_utbm :: "u16 \<Rightarrow> u64"

abbreviation (input) "VLAN_BASE \<equiv> (0x12168000::u32)"
abbreviation (input) "VLAN_WORDS \<equiv> (10::int)"
abbreviation (input) "EGR_VLAN_BASE \<equiv> (0x0d260000::u32)"
abbreviation (input) "EGR_VLAN_WORDS \<equiv> (8::int)"

section \<open>Fields\<close>

definition vlan_set_port_bitmap :: "u32 list \<Rightarrow> u64 \<Rightarrow> u32 list" where
  "vlan_set_port_bitmap words bm =
     words[0 := ucast (bm AND 0xffffffff), 1 := ucast (drop_bit 32 bm AND 0xffffffff),
           2 := words ! 2 AND NOT 0x3]"

definition vlan_set_ing_port_bitmap :: "u32 list \<Rightarrow> u64 \<Rightarrow> u32 list" where
  "vlan_set_ing_port_bitmap words bm =
     words[2 := (words ! 2 AND 0x3) OR ucast (push_bit 2 (bm AND 0x3fffffff)),
           3 := ucast (drop_bit 30 bm AND 0xffffffff),
           4 := (words ! 4 AND NOT 0x3) OR ucast (drop_bit 62 bm AND 0x3)]"

definition vlan_set_stg_valid_profile :: "u32 list \<Rightarrow> int \<Rightarrow> int \<Rightarrow> int \<Rightarrow> u32 list" where
  "vlan_set_stg_valid_profile words stg valid profile_ptr =
     words[4 := (words ! 4 AND NOT (push_bit 4 0x1ff)) OR push_bit 4 (word_of_int stg AND 0x1ff),
           6 := (if valid \<noteq> 0 then words ! 6 OR push_bit 13 1 else words ! 6 AND NOT (push_bit 13 1)),
           7 := (words ! 7 AND NOT (push_bit 8 0x7f)) OR push_bit 8 (word_of_int profile_ptr AND 0x7f)]"

definition egr_vlan_set_ut_port_bitmap :: "u32 list \<Rightarrow> u64 \<Rightarrow> u32 list" where
  "egr_vlan_set_ut_port_bitmap words bm =
     words[3 := ucast (bm AND 0xffffffff), 4 := ucast (drop_bit 32 bm AND 0xffffffff),
           5 := words ! 5 AND NOT 0x3]"

definition egr_vlan_set_port_bitmap :: "u32 list \<Rightarrow> u64 \<Rightarrow> u32 list" where
  "egr_vlan_set_port_bitmap words bm =
     words[5 := (words ! 5 AND 0x3) OR ucast (push_bit 2 (bm AND 0x3fffffff)),
           6 := ucast (drop_bit 30 bm AND 0xffffffff),
           7 := (words ! 7 AND NOT 0xf) OR ucast (drop_bit 62 bm AND 0xf)]"

definition egr_vlan_set_valid_stg :: "u32 list \<Rightarrow> int \<Rightarrow> int \<Rightarrow> u32 list" where
  "egr_vlan_set_valid_stg words stg valid =
     (let w0 = (if valid \<noteq> 0 then words ! 0 OR 1 else words ! 0 AND NOT 1)
      in words[0 := (w0 AND NOT (push_bit 1 0x1ff)) OR push_bit 1 (word_of_int stg AND 0x1ff)])"

section \<open>Operations\<close>

definition vlan_write_ing :: "env \<Rightarrow> u16 \<Rightarrow> ('z vlan_state_scheme, int) state" where
  "vlan_write_ing E vid = do {
     w \<leftarrow> gets (\<lambda>s. vlan_ing s vid);
     sbus_mem_write E VLAN_BASE (uint vid) w VLAN_WORDS
   }"

definition vlan_write_egr :: "env \<Rightarrow> u16 \<Rightarrow> ('z vlan_state_scheme, int) state" where
  "vlan_write_egr E vid = do {
     w \<leftarrow> gets (\<lambda>s. vlan_egr s vid);
     sbus_mem_write E EGR_VLAN_BASE (uint vid) w EGR_VLAN_WORDS
   }"

text \<open>Writing both tables: the second write is skipped when the first fails.\<close>

definition vlan_write_both :: "env \<Rightarrow> u16 \<Rightarrow> ('z vlan_state_scheme, int) state" where
  "vlan_write_both E vid = do {
     rc \<leftarrow> vlan_write_ing E vid;
     rc \<leftarrow> (if rc \<noteq> 0 then return rc else vlan_write_egr E vid);
     return (if rc \<noteq> 0 then - EIO else 0)
   }"

definition upd_ing :: "u16 \<Rightarrow> (u32 list \<Rightarrow> u32 list) \<Rightarrow> ('z vlan_state_scheme, unit) state" where
  "upd_ing vid f = modify (\<lambda>s. s\<lparr>vlan_ing := (vlan_ing s)(vid := f (vlan_ing s vid))\<rparr>)"

definition upd_egr :: "u16 \<Rightarrow> (u32 list \<Rightarrow> u32 list) \<Rightarrow> ('z vlan_state_scheme, unit) state" where
  "upd_egr vid f = modify (\<lambda>s. s\<lparr>vlan_egr := (vlan_egr s)(vid := f (vlan_egr s vid))\<rparr>)"

definition vlan_clear :: "u16 \<Rightarrow> ('z vlan_state_scheme, unit) state" where
  "vlan_clear vid = do {
     upd_ing vid (\<lambda>_. replicate 10 0);
     upd_egr vid (\<lambda>_. replicate 8 0);
     modify (\<lambda>s. s\<lparr>vlan_ing_pbm := (vlan_ing_pbm s)(vid := 0)\<rparr>);
     modify (\<lambda>s. s\<lparr>vlan_egr_pbm := (vlan_egr_pbm s)(vid := 0)\<rparr>);
     modify (\<lambda>s. s\<lparr>vlan_egr_utbm := (vlan_egr_utbm s)(vid := 0)\<rparr>)
   }"

definition bcm56846_vlan_create :: "env \<Rightarrow> u16 \<Rightarrow> ('z vlan_state_scheme, int) state" where
  "bcm56846_vlan_create E vid =
     (if vid > 4095 then return (- EINVAL)
      else do {
        vlan_clear vid;
        ipbm \<leftarrow> gets (\<lambda>s. vlan_ing_pbm s vid);
        upd_ing vid (\<lambda>w. vlan_set_port_bitmap w ipbm);
        upd_ing vid (\<lambda>w. vlan_set_ing_port_bitmap w ipbm);
        upd_ing vid (\<lambda>w. vlan_set_stg_valid_profile w 2 1 0);
        upd_egr vid (\<lambda>w. egr_vlan_set_valid_stg w 2 1);
        utbm \<leftarrow> gets (\<lambda>s. vlan_egr_utbm s vid);
        upd_egr vid (\<lambda>w. egr_vlan_set_ut_port_bitmap w utbm);
        epbm \<leftarrow> gets (\<lambda>s. vlan_egr_pbm s vid);
        upd_egr vid (\<lambda>w. egr_vlan_set_port_bitmap w epbm);
        modify (\<lambda>s. s\<lparr>vlan_valid := (vlan_valid s)(vid := 1)\<rparr>);
        vlan_write_both E vid
      })"

definition bcm56846_vlan_port_add :: "env \<Rightarrow> u16 \<Rightarrow> int \<Rightarrow> int \<Rightarrow> ('z vlan_state_scheme, int) state" where
  "bcm56846_vlan_port_add E vid port tagged =
     (if vid > 4095 \<or> port \<le> 0 \<or> port > 52 then return (- EINVAL)
      else do {
        valid \<leftarrow> gets (\<lambda>s. vlan_valid s vid);
        rc \<leftarrow> (if valid = 0 then bcm56846_vlan_create E vid else return 0);
        if rc \<noteq> 0 then return rc
        else do {
          let bt = nat port;
          modify (\<lambda>s. s\<lparr>vlan_ing_pbm := (vlan_ing_pbm s)(vid := vlan_ing_pbm s vid OR push_bit bt 1)\<rparr>);
          ipbm \<leftarrow> gets (\<lambda>s. vlan_ing_pbm s vid);
          upd_ing vid (\<lambda>w. vlan_set_port_bitmap w ipbm);
          upd_ing vid (\<lambda>w. vlan_set_ing_port_bitmap w ipbm);
          (if tagged = 0
           then modify (\<lambda>s. s\<lparr>vlan_egr_utbm := (vlan_egr_utbm s)(vid := vlan_egr_utbm s vid OR push_bit bt 1)\<rparr>)
           else return ());
          modify (\<lambda>s. s\<lparr>vlan_egr_pbm := (vlan_egr_pbm s)(vid := vlan_egr_pbm s vid OR push_bit bt 1)\<rparr>);
          utbm \<leftarrow> gets (\<lambda>s. vlan_egr_utbm s vid);
          upd_egr vid (\<lambda>w. egr_vlan_set_ut_port_bitmap w utbm);
          epbm \<leftarrow> gets (\<lambda>s. vlan_egr_pbm s vid);
          upd_egr vid (\<lambda>w. egr_vlan_set_port_bitmap w epbm);
          vlan_write_both E vid
        }
      })"

definition bcm56846_vlan_destroy :: "env \<Rightarrow> u16 \<Rightarrow> ('z vlan_state_scheme, int) state" where
  "bcm56846_vlan_destroy E vid =
     (if vid > 4095 then return (- EINVAL)
      else do {
        vlan_clear vid;
        modify (\<lambda>s. s\<lparr>vlan_valid := (vlan_valid s)(vid := 0)\<rparr>);
        vlan_write_ing E vid;
        vlan_write_egr E vid;
        return 0
      })"

section \<open>What the setters write\<close>

lemma vlan_masks:
  "(0xffffffff :: u64) = mask 32" "(0x3fffffff :: u64) = mask 30" "(0x3 :: u64) = mask 2" "(0x3 :: u32) = mask 2"
  "(0xf :: u64) = mask 4" "(0xf :: u32) = mask 4" "(0x1ff :: u32) = mask 9" "(0x7f :: u32) = mask 7" "(3::u32) = mask 2"
  by (simp_all add: mask_numeral)

lemma entry_cases:
  fixes j :: nat
  obtains q r where "j = 32 * q + r" "r < 32"
  by (metis div_mult_mod_eq mod_less_divisor mult.commute zero_less_numeral)

lemma entry_bit_split: "r < 32 \<Longrightarrow> entry_bit ws (32 * q + r) = bit (ws ! q) r"
  by (simp add: entry_bit_def)

lemma bit_8192: "bit (8192 :: int) n \<longleftrightarrow> n = 13" "bit (- 8193 :: int) n \<longleftrightarrow> n \<noteq> 13"
proof -
  have e: "(8192 :: int) = 2 ^ 13" "(- 8193 :: int) = NOT (2 ^ 13)" by simp_all
  show "bit (8192 :: int) n \<longleftrightarrow> n = 13" "bit (- 8193 :: int) n \<longleftrightarrow> n \<noteq> 13"
    unfolding e by (auto simp: bit_exp_iff bit_not_iff simp del: power_numeral)
qed

lemma vlan_port_bitmap_bit:
  assumes "length ws = 10" and "j < 320"
  shows "entry_bit (vlan_set_port_bitmap ws bm) j = (if j < 64 then bit bm j else if j < 66 then False else entry_bit ws j)"
proof (cases rule: entry_cases[of j])
  case (1 q r)
  then have "q < 10" using assms(2) by linarith
  then have c: "q = 0 \<or> q = 1 \<or> q = 2 \<or> q = 3 \<or> q = 4 \<or> q = 5 \<or> q = 6 \<or> q = 7 \<or> q = 8 \<or> q = 9" by presburger
  show ?thesis
    using c 1(2) assms(1) unfolding vlan_set_port_bitmap_def vlan_masks Let_def 1(1) entry_bit_split[OF 1(2)]
    by (elim disjE) (auto simp: nth_list_update word_bits bit_and_mask_iff bit_8192)
qed

lemma vlan_ing_port_bitmap_bit:
  assumes "length ws = 10" and "j < 320"
  shows "entry_bit (vlan_set_ing_port_bitmap ws bm) j = (if 66 \<le> j \<and> j < 130 then bit bm (j - 66) else entry_bit ws j)"
proof (cases rule: entry_cases[of j])
  case (1 q r)
  then have "q < 10" using assms(2) by linarith
  then have c: "q = 0 \<or> q = 1 \<or> q = 2 \<or> q = 3 \<or> q = 4 \<or> q = 5 \<or> q = 6 \<or> q = 7 \<or> q = 8 \<or> q = 9" by presburger
  show ?thesis
    using c 1(2) assms(1) unfolding vlan_set_ing_port_bitmap_def vlan_masks Let_def 1(1) entry_bit_split[OF 1(2)]
    by (elim disjE) (auto simp: nth_list_update word_bits bit_and_mask_iff bit_8192)
qed

lemma egr_ut_bitmap_bit:
  assumes "length ws = 8" and "j < 256"
  shows "entry_bit (egr_vlan_set_ut_port_bitmap ws bm) j = (if 96 \<le> j \<and> j < 160 then bit bm (j - 96) else if 160 \<le> j \<and> j < 162 then False else entry_bit ws j)"
proof (cases rule: entry_cases[of j])
  case (1 q r)
  then have "q < 8" using assms(2) by linarith
  then have c: "q = 0 \<or> q = 1 \<or> q = 2 \<or> q = 3 \<or> q = 4 \<or> q = 5 \<or> q = 6 \<or> q = 7" by presburger
  show ?thesis
    using c 1(2) assms(1) unfolding egr_vlan_set_ut_port_bitmap_def vlan_masks Let_def 1(1) entry_bit_split[OF 1(2)]
    by (elim disjE) (auto simp: nth_list_update word_bits bit_and_mask_iff bit_8192)
qed

lemma egr_port_bitmap_bit:
  assumes "length ws = 8" and "j < 256"
  shows "entry_bit (egr_vlan_set_port_bitmap ws bm) j = (if 162 \<le> j \<and> j < 228 then bit bm (j - 162) else entry_bit ws j)"
proof (cases rule: entry_cases[of j])
  case (1 q r)
  then have "q < 8" using assms(2) by linarith
  then have c: "q = 0 \<or> q = 1 \<or> q = 2 \<or> q = 3 \<or> q = 4 \<or> q = 5 \<or> q = 6 \<or> q = 7" by presburger
  show ?thesis
    using c 1(2) assms(1) unfolding egr_vlan_set_port_bitmap_def vlan_masks Let_def 1(1) entry_bit_split[OF 1(2)]
    by (elim disjE) (auto simp: nth_list_update word_bits bit_and_mask_iff bit_8192)
qed

lemma egr_valid_stg_bit:
  assumes "length ws = 8" and "j < 256"
  shows "entry_bit (egr_vlan_set_valid_stg ws stg v) j = (if j = 0 then v \<noteq> 0 else if j < 10 then bit (word_of_int stg :: u32) (j - 1) else entry_bit ws j)"
proof (cases rule: entry_cases[of j])
  case (1 q r)
  then have "q < 8" using assms(2) by linarith
  then have c: "q = 0 \<or> q = 1 \<or> q = 2 \<or> q = 3 \<or> q = 4 \<or> q = 5 \<or> q = 6 \<or> q = 7" by presburger
  show ?thesis
    using c 1(2) assms(1) unfolding egr_vlan_set_valid_stg_def vlan_masks Let_def 1(1) entry_bit_split[OF 1(2)]
    by (elim disjE) (auto simp: nth_list_update word_bits bit_and_mask_iff bit_8192)
qed

lemma vlan_stg_valid_bit:
  assumes "length ws = 10" and "j < 320"
  shows "entry_bit (vlan_set_stg_valid_profile ws stg v p) j = (if 132 \<le> j \<and> j < 141 then bit (word_of_int stg :: u32) (j - 132) else if j = 205 then v \<noteq> 0 else if 232 \<le> j \<and> j < 239 then bit (word_of_int p :: u32) (j - 232) else entry_bit ws j)"
proof (cases rule: entry_cases[of j])
  case (1 q r)
  then have "q < 10" using assms(2) by linarith
  then have c: "q = 0 \<or> q = 1 \<or> q = 2 \<or> q = 3 \<or> q = 4 \<or> q = 5 \<or> q = 6 \<or> q = 7 \<or> q = 8 \<or> q = 9" by presburger
  show ?thesis
    using c 1(2) assms(1) unfolding vlan_set_stg_valid_profile_def vlan_masks Let_def 1(1) entry_bit_split[OF 1(2)]
    by (elim disjE) (auto simp: nth_list_update word_bits bit_and_mask_iff bit_8192)
qed

section \<open>The shadow state\<close>

definition add_member :: "u16 \<Rightarrow> int \<Rightarrow> int \<Rightarrow> 'z vlan_state_scheme \<Rightarrow> 'z vlan_state_scheme" where
  "add_member vid port tagged s =
     (let ipbm = vlan_ing_pbm s vid OR push_bit (nat port) 1;
          epbm = vlan_egr_pbm s vid OR push_bit (nat port) 1;
          utbm = (if tagged = 0 then vlan_egr_utbm s vid OR push_bit (nat port) 1 else vlan_egr_utbm s vid)
      in s\<lparr>vlan_ing_pbm := (vlan_ing_pbm s)(vid := ipbm),
           vlan_ing := (vlan_ing s)(vid := vlan_set_ing_port_bitmap (vlan_set_port_bitmap (vlan_ing s vid) ipbm) ipbm),
           vlan_egr_utbm := (vlan_egr_utbm s)(vid := utbm), vlan_egr_pbm := (vlan_egr_pbm s)(vid := epbm),
           vlan_egr := (vlan_egr s)(vid := egr_vlan_set_port_bitmap (egr_vlan_set_ut_port_bitmap (vlan_egr s vid) utbm) epbm)\<rparr>)"

definition fresh_vlan :: "u16 \<Rightarrow> 'z vlan_state_scheme \<Rightarrow> 'z vlan_state_scheme" where
  "fresh_vlan vid s =
     s\<lparr>vlan_ing_pbm := (vlan_ing_pbm s)(vid := 0), vlan_egr_pbm := (vlan_egr_pbm s)(vid := 0),
       vlan_egr_utbm := (vlan_egr_utbm s)(vid := 0),
       vlan_ing := (vlan_ing s)(vid := vlan_set_stg_valid_profile
          (vlan_set_ing_port_bitmap (vlan_set_port_bitmap (replicate 10 0) 0) 0) 2 1 0),
       vlan_egr := (vlan_egr s)(vid := egr_vlan_set_port_bitmap
          (egr_vlan_set_ut_port_bitmap (egr_vlan_set_valid_stg (replicate 8 0) 2 1) 0) 0),
       vlan_valid := (vlan_valid s)(vid := 1)\<rparr>"

lemma create_run:
  "\<not> vid > 4095 \<Longrightarrow> run_state (bcm56846_vlan_create E vid) s = run_state (vlan_write_both E vid) (fresh_vlan vid s)"
  by (simp add: bcm56846_vlan_create_def vlan_clear_def upd_ing_def upd_egr_def fresh_vlan_def)

lemma port_add_run:
  assumes "vid \<le> 4095" and "0 < port" and "port \<le> 52"
  shows "run_state (bcm56846_vlan_port_add E vid port tagged) s =
     (if vlan_valid s vid = 0
      then (let (rc, s1) = run_state (vlan_write_both E vid) (fresh_vlan vid s)
            in if rc \<noteq> 0 then (rc, s1) else run_state (vlan_write_both E vid) (add_member vid port tagged s1))
      else run_state (vlan_write_both E vid) (add_member vid port tagged s))"
proof -
  have a: "\<not> vid > 4095" "\<not> port \<le> 0" "\<not> port > 52" using assms by auto
  show ?thesis
    using a create_run[OF a(1), of E s]
    by (simp add: bcm56846_vlan_port_add_def upd_ing_def upd_egr_def add_member_def Let_def split_beta)
qed

text \<open>The shadow entries agree with the member bitmaps.\<close>

definition vlan_entry_ok :: "'z vlan_state_scheme \<Rightarrow> u16 \<Rightarrow> bool" where
  "vlan_entry_ok s vid \<longleftrightarrow> length (vlan_ing s vid) = 10 \<and> length (vlan_egr s vid) = 8 \<and>
     (vlan_valid s vid \<noteq> 0 \<longrightarrow>
        vlan_ing_pbm s vid = vlan_egr_pbm s vid \<and>
        (\<forall>p. bit (vlan_egr_utbm s vid) p \<longrightarrow> bit (vlan_egr_pbm s vid) p) \<and>
        entry_bit (vlan_ing s vid) 205 \<and> entry_bit (vlan_egr s vid) 0 \<and>
        (\<forall>p<64. entry_bit (vlan_ing s vid) p = bit (vlan_ing_pbm s vid) p \<and>
           entry_bit (vlan_ing s vid) (66 + p) = bit (vlan_ing_pbm s vid) p \<and>
           entry_bit (vlan_egr s vid) (96 + p) = bit (vlan_egr_utbm s vid) p \<and>
           entry_bit (vlan_egr s vid) (162 + p) = bit (vlan_egr_pbm s vid) p))"

definition vlan_inv :: "'z vlan_state_scheme \<Rightarrow> bool" where
  "vlan_inv s \<longleftrightarrow> (\<forall>vid. vlan_entry_ok s vid)"

lemma vlan_lengths [simp]:
  "length (vlan_set_port_bitmap ws bm) = length ws" "length (vlan_set_ing_port_bitmap ws bm) = length ws"
  "length (vlan_set_stg_valid_profile ws a b c) = length ws"
  "length (egr_vlan_set_ut_port_bitmap ws bm) = length ws" "length (egr_vlan_set_port_bitmap ws bm) = length ws"
  "length (egr_vlan_set_valid_stg ws a b) = length ws"
  by (simp_all add: vlan_set_port_bitmap_def vlan_set_ing_port_bitmap_def vlan_set_stg_valid_profile_def
      egr_vlan_set_ut_port_bitmap_def egr_vlan_set_port_bitmap_def egr_vlan_set_valid_stg_def Let_def)

lemmas vlan_bits = vlan_port_bitmap_bit vlan_ing_port_bitmap_bit vlan_stg_valid_bit
  egr_ut_bitmap_bit egr_port_bitmap_bit egr_valid_stg_bit

lemma inv_fresh: "vlan_inv s \<Longrightarrow> vlan_inv (fresh_vlan vid s)"
  by (auto simp: vlan_inv_def vlan_entry_ok_def fresh_vlan_def vlan_bits)

lemma inv_add_member:
  assumes "vlan_inv s" and "vlan_valid s vid \<noteq> 0"
  shows "vlan_inv (add_member vid port tagged s)"
proof -
  have ok: "vlan_entry_ok s v" for v using assms(1) by (simp add: vlan_inv_def)
  have "vlan_entry_ok (add_member vid port tagged s) v" for v
  proof (cases "v = vid")
    case True
    show ?thesis
      using ok[of vid] assms(2) True by (auto simp: vlan_entry_ok_def add_member_def Let_def vlan_bits word_bits)
  next
    case False
    then show ?thesis using ok[of v] by (simp add: vlan_entry_ok_def add_member_def Let_def)
  qed
  then show ?thesis by (simp add: vlan_inv_def)
qed

lemma vlan_inv_trace [simp]: "vlan_inv (s\<lparr>trace := tr\<rparr>) = vlan_inv s"
  by (simp add: vlan_inv_def vlan_entry_ok_def)

lemma emits_write_both: "emits in_bar0 (vlan_write_both E vid)" "emits in_bar0 (vlan_write_ing E vid)"
  "emits in_bar0 (vlan_write_egr E vid)"
  unfolding vlan_write_both_def vlan_write_ing_def vlan_write_egr_def by (intro emits_rules)+

lemma write_both_frame: "\<exists>tr. exec (vlan_write_both E vid) s = s\<lparr>trace := tr\<rparr>"
  using bus_frame[OF emits_write_both(1)] .

lemma port_add_exec:
  assumes "vid \<le> 4095" and "0 < port" and "port \<le> 52"
  obtains tr where "vlan_valid s vid \<noteq> 0"
      "exec (bcm56846_vlan_port_add E vid port tagged) s = (add_member vid port tagged s)\<lparr>trace := tr\<rparr>"
  | tr where "vlan_valid s vid = 0" "result (bcm56846_vlan_port_add E vid port tagged) s \<noteq> 0"
      "exec (bcm56846_vlan_port_add E vid port tagged) s = (fresh_vlan vid s)\<lparr>trace := tr\<rparr>"
  | tr tr' where "vlan_valid s vid = 0"
      "exec (bcm56846_vlan_port_add E vid port tagged) s
         = (add_member vid port tagged ((fresh_vlan vid s)\<lparr>trace := tr'\<rparr>))\<lparr>trace := tr\<rparr>"
proof (cases "vlan_valid s vid = 0")
  case False
  then show ?thesis
    using that(1) port_add_run[OF assms, of E tagged s] write_both_frame[of E vid "add_member vid port tagged s"]
    by auto
next
  case True
  obtain rc tr' where w: "run_state (vlan_write_both E vid) (fresh_vlan vid s) = (rc, (fresh_vlan vid s)\<lparr>trace := tr'\<rparr>)"
    using write_both_frame[of E vid "fresh_vlan vid s"] by (metis prod.collapse)
  show ?thesis
    using that(2,3)[of tr'] that(3) True w port_add_run[OF assms, of E tagged s]
      write_both_frame[of E vid "add_member vid port tagged ((fresh_vlan vid s)\<lparr>trace := tr'\<rparr>)"]
    by (cases "rc = 0") (auto simp: Let_def)
qed

lemma vlan_valid_simps [simp]:
  "vlan_valid (fresh_vlan vid s) vid = 1" "vlan_valid (add_member vid p t s) = vlan_valid s"
  by (simp_all add: fresh_vlan_def add_member_def Let_def)

text \<open>C16. The VLAN shadow state stays consistent: for every VLAN the ingress and egress member
  bitmaps are equal, the untagged bitmap is a subset of them, and the two table entries carry the
  valid bit and exactly these bitmaps in their PORT_BITMAP, ING_PORT_BITMAP and UT_PORT_BITMAP
  fields. Creating and destroying a VLAN and adding a port keep this for every VLAN, whatever
  the arguments and whatever the bus answers.\<close>

theorem vlan_shadow_consistent:
  assumes "vlan_inv s"
  shows "vlan_inv (exec (bcm56846_vlan_create E vid) s) \<and>
         vlan_inv (exec (bcm56846_vlan_port_add E vid port tagged) s) \<and>
         vlan_inv (exec (bcm56846_vlan_destroy E vid) s)"
proof (intro conjI)
  show "vlan_inv (exec (bcm56846_vlan_create E vid) s)"
  proof (cases "vid > 4095")
    case True
    then show ?thesis using assms by (simp add: bcm56846_vlan_create_def)
  next
    case False
    then show ?thesis
      using create_run[OF False, of E s] write_both_frame[of E vid "fresh_vlan vid s"] inv_fresh[OF assms, of vid]
      by (metis vlan_inv_trace)
  qed
  show "vlan_inv (exec (bcm56846_vlan_port_add E vid port tagged) s)"
  proof (cases "vid > 4095 \<or> port \<le> 0 \<or> port > 52")
    case True
    then show ?thesis using assms by (simp add: bcm56846_vlan_port_add_def)
  next
    case False
    then have "vid \<le> 4095" "0 < port" "port \<le> 52" by auto
    then show ?thesis
      by (rule port_add_exec[of vid port s E tagged]) (use assms in \<open>simp_all add: inv_fresh inv_add_member\<close>)
  qed
  have "wp (bcm56846_vlan_destroy E vid) (\<lambda>_ s'. vlan_inv s') s"
    unfolding bcm56846_vlan_destroy_def vlan_clear_def upd_ing_def upd_egr_def
    by (intro wp_rules wp_bus[OF emits_write_both(2)] wp_bus[OF emits_write_both(3)])
      (use assms in \<open>auto simp: vlan_inv_def vlan_entry_ok_def\<close>)
  then show "vlan_inv (exec (bcm56846_vlan_destroy E vid) s)" by (simp add: wp_def)
qed

definition vlan0 :: vlan_state where
  "vlan0 = bde_state.extend bde0 \<lparr>vlan_ing = \<lambda>_. replicate 10 0, vlan_egr = \<lambda>_. replicate 8 0, vlan_valid = \<lambda>_. 0,
     vlan_ing_pbm = \<lambda>_. 0, vlan_egr_pbm = \<lambda>_. 0, vlan_egr_utbm = \<lambda>_. 0\<rparr>"

lemma vlan0_inv: "vlan_inv vlan0"
  by (simp add: vlan_inv_def vlan_entry_ok_def vlan0_def bde_state.defs)

theorem vlan_shadow_consistent_witness:
  "vlan_inv (exec (bcm56846_vlan_port_add chip_env 100 7 0) vlan0)"
  using vlan_shadow_consistent[OF vlan0_inv, of chip_env 100 7 0] by blast

section \<open>What the chip holds\<close>

abbreviation "ing_block \<equiv> cdk_addr_to_block VLAN_BASE"
abbreviation "egr_block \<equiv> cdk_addr_to_block EGR_VLAN_BASE"

lemma vlan_blocks: "ing_block = 1" "egr_block = 2"
  by (simp_all add: cdk_addr_to_block_def)

lemma write_both_device:
  assumes ok: "table_ok E s" and l: "length (vlan_ing s vid) = 10" "length (vlan_egr s vid) = 8"
  shows "result (vlan_write_both E vid) s = 0"
    and "table_ok E (exec (vlan_write_both E vid) s)"
    and "k < 10 \<Longrightarrow> k \<noteq> 5 \<Longrightarrow>
      chip_word (exec (vlan_write_both E vid) s) ing_block (VLAN_BASE + word_of_int (uint vid)) k = vlan_ing s vid ! k"
    and "k < 8 \<Longrightarrow> k \<noteq> 5 \<Longrightarrow>
      chip_word (exec (vlan_write_both E vid) s) egr_block (EGR_VLAN_BASE + word_of_int (uint vid)) k = vlan_egr s vid ! k"
    and "\<exists>h. chip_word (exec (vlan_write_both E vid) s) egr_block (EGR_VLAN_BASE + word_of_int (uint vid)) 5
           = bar0_answer E h CMIC_MISC_CONTROL"
proof -
  note w1 = mem_write_device[OF ok, of 10 "vlan_ing s vid" VLAN_BASE "uint vid", simplified l, simplified]
  obtain tr where f1: "exec (vlan_write_ing E vid) s = s\<lparr>trace := tr\<rparr>"
    using bus_frame[OF emits_write_both(2)] by blast
  have ok1: "table_ok E (s\<lparr>trace := tr\<rparr>)" using ok by (simp add: table_ok_def bde_ready_def)
  note w2 = mem_write_device[OF ok1, of 8 "vlan_egr s vid" EGR_VLAN_BASE "uint vid", simplified l, simplified]
  obtain tr' where f2: "exec (vlan_write_egr E vid) (s\<lparr>trace := tr\<rparr>) = s\<lparr>trace := tr'\<rparr>"
    using bus_frame[OF emits_write_both(3), of E vid "s\<lparr>trace := tr\<rparr>"] by auto
  have r1: "run_state (vlan_write_ing E vid) s = (0, s\<lparr>trace := tr\<rparr>)"
    using w1 f1 by (simp add: vlan_write_ing_def prod_eq_iff)
  have r2: "run_state (vlan_write_egr E vid) (s\<lparr>trace := tr\<rparr>) = (0, s\<lparr>trace := tr'\<rparr>)"
    using w2 f2 by (simp add: vlan_write_egr_def prod_eq_iff)
  have run: "run_state (vlan_write_both E vid) s = (0, s\<lparr>trace := tr'\<rparr>)"
    by (simp add: vlan_write_both_def r1 r2)
  have c1: "chip_word (s\<lparr>trace := tr\<rparr>) b a i =
      (if b = ing_block \<and> a = VLAN_BASE + word_of_int (uint vid) \<and> i < 10
       then (if i = 5 then misc_at E (after_copy_in s) else vlan_ing s vid ! i) else chip_word s b a i)" for b a i
    using w1 f1 by (simp add: vlan_write_ing_def)
  have c2: "chip_word (s\<lparr>trace := tr'\<rparr>) b a i =
      (if b = egr_block \<and> a = EGR_VLAN_BASE + word_of_int (uint vid) \<and> i < 8
       then (if i = 5 then misc_at E (after_copy_in (s\<lparr>trace := tr\<rparr>)) else vlan_egr s vid ! i)
       else chip_word (s\<lparr>trace := tr\<rparr>) b a i)" for b a i
    using w2 f2 by (simp add: vlan_write_egr_def)
  show "result (vlan_write_both E vid) s = 0" by (simp add: run)
  show "table_ok E (exec (vlan_write_both E vid) s)" using ok by (simp add: run table_ok_def bde_ready_def)
  show "chip_word (exec (vlan_write_both E vid) s) ing_block (VLAN_BASE + word_of_int (uint vid)) k = vlan_ing s vid ! k"
    if "k < 10" "k \<noteq> 5" using that by (simp add: run c1 c2 vlan_blocks)
  show "chip_word (exec (vlan_write_both E vid) s) egr_block (EGR_VLAN_BASE + word_of_int (uint vid)) k = vlan_egr s vid ! k"
    if "k < 8" "k \<noteq> 5" using that by (simp add: run c2)
  show "\<exists>h. chip_word (exec (vlan_write_both E vid) s) egr_block (EGR_VLAN_BASE + word_of_int (uint vid)) 5
           = bar0_answer E h CMIC_MISC_CONTROL"
    by (auto simp: run c2 misc_at_def)
qed

lemma table_ok_shadow [simp]:
  "table_ok E (fresh_vlan vid s) = table_ok E s" "table_ok E (add_member vid port tagged s) = table_ok E s"
  by (simp_all add: table_ok_def bde_ready_def fresh_vlan_def add_member_def Let_def)

lemma vlan_inv_lengths: "vlan_inv s \<Longrightarrow> length (vlan_ing s vid) = 10" "vlan_inv s \<Longrightarrow> length (vlan_egr s vid) = 8"
  by (simp_all add: vlan_inv_def vlan_entry_ok_def)

lemma port_add_device:
  assumes ok: "table_ok E s" and inv: "vlan_inv s" and args: "vid \<le> 4095" "0 < port" "port \<le> 52"
  obtains s1 where "run_state (bcm56846_vlan_port_add E vid port tagged) s = (0, exec (vlan_write_both E vid) s1)"
    and "table_ok E s1" and "vlan_inv s1"
proof (cases "vlan_valid s vid = 0")
  case False
  let ?s1 = "add_member vid port tagged s"
  have i: "vlan_inv ?s1" by (rule inv_add_member[OF inv False])
  show ?thesis
    by (rule that[of ?s1])
      (use False ok i write_both_device(1)[of E ?s1 vid] vlan_inv_lengths[OF i] port_add_run[OF args, of E tagged s]
       in \<open>simp_all add: prod_eq_iff\<close>)
next
  case True
  let ?f = "fresh_vlan vid s"
  have fi: "vlan_inv ?f" "table_ok E ?f" using inv_fresh[OF inv] ok by simp_all
  note fd = write_both_device(1,2)[OF fi(2) vlan_inv_lengths[OF fi(1)], of vid]
  let ?e = "exec (vlan_write_both E vid) ?f"
  have ei: "vlan_inv ?e" "vlan_valid ?e vid \<noteq> 0"
    using write_both_frame[of E vid ?f] fi(1) by auto
  let ?s1 = "add_member vid port tagged ?e"
  have i: "vlan_inv ?s1" by (rule inv_add_member[OF ei])
  have ok1: "table_ok E ?s1" using fd(2) by simp
  show ?thesis
    by (rule that[of ?s1])
      (use True ok1 i fd(1) write_both_device(1)[OF ok1 vlan_inv_lengths[OF i], of vid] port_add_run[OF args, of E tagged s]
       in \<open>simp_all add: prod_eq_iff Let_def split_beta\<close>)
qed

text \<open>C17. Membership in the chip: over a chip that answers, adding a port succeeds, and the egress
  VLAN entry then holds the shadow words except word 5, which holds CMIC_MISC_CONTROL. Word 5
  carries the egress membership of ports 0 to 29: their bits in the chip are bits 2 to 31 of
  CMIC_MISC_CONTROL, whatever ports the VLAN has.\<close>

theorem vlan_port_add_chip:
  assumes "table_ok E s" and "vlan_inv s" and "vid \<le> 4095" and "0 < port" and "port \<le> 52"
  shows "let s' = exec (bcm56846_vlan_port_add E vid port tagged) s; a = EGR_VLAN_BASE + word_of_int (uint vid) in
     result (bcm56846_vlan_port_add E vid port tagged) s = 0 \<and>
     (\<forall>k < 8. k \<noteq> 5 \<longrightarrow> chip_word s' egr_block a k = vlan_egr s' vid ! k) \<and>
     (\<exists>h. chip_word s' egr_block a 5 = bar0_answer E h CMIC_MISC_CONTROL)"
proof (rule port_add_device[OF assms, of tagged])
  fix s1 assume r: "run_state (bcm56846_vlan_port_add E vid port tagged) s = (0, exec (vlan_write_both E vid) s1)"
    and ok: "table_ok E s1" and i: "vlan_inv s1"
  obtain tr where f: "exec (vlan_write_both E vid) s1 = s1\<lparr>trace := tr\<rparr>" using write_both_frame by blast
  then have sh: "vlan_egr (exec (vlan_write_both E vid) s1) = vlan_egr s1" by simp
  show ?thesis
    unfolding Let_def r fst_conv snd_conv sh
    using write_both_device(4,5)[OF ok vlan_inv_lengths[OF i], where vid = vid] by blast
qed

lemma vlan0_ok: "table_ok chip_env vlan0"
  using bde0_ok by (simp add: table_ok_def bde_ready_def vlan0_def bde_state.defs)

theorem vlan_port_add_chip_witness:
  "let s' = exec (bcm56846_vlan_port_add chip_env 100 7 0) vlan0 in
     chip_word s' egr_block (EGR_VLAN_BASE + 100) 3 = vlan_egr s' 100 ! 3"
  using vlan_port_add_chip[OF vlan0_ok vlan0_inv, of 100 7 0] by (simp add: Let_def)

text \<open>Membership: after a port add that reports success, the members of the VLAN are the port
  and the earlier members, the untagged ports are the earlier ones and the port if it was added
  untagged, and every other VLAN is as before. In particular adding an untagged member again as
  tagged leaves it untagged.\<close>

theorem vlan_port_add_members:
  assumes "vid \<le> 4095" and "0 < port" and "port \<le> 52"
    and "result (bcm56846_vlan_port_add E vid port tagged) s = 0"
  shows "let s' = exec (bcm56846_vlan_port_add E vid port tagged) s; was = vlan_valid s vid \<noteq> 0 in
     (\<forall>p. bit (vlan_egr_pbm s' vid) p \<longleftrightarrow> p = nat port \<or> was \<and> bit (vlan_egr_pbm s vid) p) \<and>
     (\<forall>p. bit (vlan_egr_utbm s' vid) p \<longleftrightarrow> p = nat port \<and> tagged = 0 \<or> was \<and> bit (vlan_egr_utbm s vid) p) \<and>
     (\<forall>v. v \<noteq> vid \<longrightarrow> vlan_ing s' v = vlan_ing s v \<and> vlan_egr s' v = vlan_egr s v \<and> vlan_valid s' v = vlan_valid s v)"
  using assms(4)
  by (rule_tac port_add_exec[OF assms(1-3), of s E tagged])
    (use assms(2,3) in \<open>auto simp: add_member_def fresh_vlan_def Let_def word_bits\<close>)

theorem vlan_port_add_members_witness:
  "bit (vlan_egr_utbm (exec (bcm56846_vlan_port_add chip_env 100 7 0) vlan0) 100) 7"
proof -
  have "result (bcm56846_vlan_port_add chip_env 100 7 0) vlan0 = 0"
    by (rule port_add_device[OF vlan0_ok vlan0_inv, of 100 7 0]) simp_all
  from vlan_port_add_members[OF _ _ _ this] show ?thesis by (simp add: Let_def)
qed

end
