(* ===== verification/Ctext.thy ===== *)
theory Ctext
  imports Prelude
begin

text \<open>
  The conversions between numbers and text of the C library that the sources use on sysfs
  files, configuration files and command scripts: \<open>printf("%d")\<close>, \<open>fscanf("%ld")\<close>,
  \<open>snprintf\<close>'s truncation. Numbers are \<open>int\<close>; \<open>long\<close> has 32 bits on the target
  (powerpc), and a number that does not fit is read as the nearest bound.
\<close>

section \<open>Characters\<close>

definition is_digit :: "char \<Rightarrow> bool" where
  "is_digit c \<longleftrightarrow> 48 \<le> (of_char c :: nat) \<and> (of_char c :: nat) \<le> 57"

definition digit_val :: "char \<Rightarrow> nat" where
  "digit_val c = of_char c - 48"

definition is_space :: "char \<Rightarrow> bool" where
  "is_space c \<longleftrightarrow> (of_char c :: nat) = 32 \<or> 9 \<le> (of_char c :: nat) \<and> (of_char c :: nat) \<le> 13"

definition newline :: char where
  "newline = CHR 0x0A"

section \<open>Printing\<close>

fun dec_nat :: "nat \<Rightarrow> string" where
  "dec_nat n = (if n < 10 then [char_of (48 + n)] else dec_nat (n div 10) @ [char_of (48 + n mod 10)])"

declare dec_nat.simps [simp del]

definition dec_int :: "int \<Rightarrow> string" where
  "dec_int i = (if i < 0 then CHR ''-'' # dec_nat (nat (- i)) else dec_nat (nat i))"

text \<open>\<open>snprintf(buf, n, ...)\<close>: at most \<open>n - 1\<close> characters are stored.\<close>

definition snprintf_buf :: "nat \<Rightarrow> string \<Rightarrow> string" where
  "snprintf_buf n s = take (n - 1) s"

section \<open>Scanning\<close>

definition digits_val :: "string \<Rightarrow> nat" where
  "digits_val ds = foldl (\<lambda>v c. 10 * v + digit_val c) 0 ds"

definition LONG_MAX :: int where "LONG_MAX = 2147483647"

definition long_range :: "int \<Rightarrow> bool" where
  "long_range v \<longleftrightarrow> - LONG_MAX - 1 \<le> v \<and> v \<le> LONG_MAX"

definition split_sign :: "string \<Rightarrow> bool \<times> string" where
  "split_sign s = (case s of [] \<Rightarrow> (False, [])
     | c # cs \<Rightarrow> if c = CHR ''-'' then (True, cs) else if c = CHR ''+'' then (False, cs) else (False, s))"

definition signed_val :: "bool \<Rightarrow> string \<Rightarrow> int" where
  "signed_val neg ds = (if neg then - int (digits_val ds) else int (digits_val ds))"

text \<open>\<open>fscanf(f, "%ld", &v)\<close> on the text of the file: \<open>None\<close> when no number is there.\<close>

definition scan_long :: "string \<Rightarrow> int option" where
  "scan_long s = (let (neg, u) = split_sign (dropWhile is_space s); ds = takeWhile is_digit u in
     if ds = [] then None
     else Some (max (- LONG_MAX - 1) (min LONG_MAX (signed_val neg ds))))"

section \<open>Reading what was printed\<close>

lemma digit_char: "n < 10 \<Longrightarrow> is_digit (char_of (48 + n)) \<and> digit_val (char_of (48 + n)) = n"
  by (simp add: is_digit_def digit_val_def of_char_of)

lemma dec_nat_digits: "list_all is_digit (dec_nat n)"
proof (induction n rule: dec_nat.induct)
  case (1 n)
  show ?case
    by (subst dec_nat.simps) (use 1 digit_char[of n] digit_char[of "n mod 10"] in simp)
qed

lemma dec_nat_not_Nil [simp]: "dec_nat n \<noteq> []"
  by (subst dec_nat.simps) simp

lemma digits_val_snoc: "digits_val (ds @ [c]) = 10 * digits_val ds + digit_val c"
  by (simp add: digits_val_def)

lemma digits_val_dec_nat [simp]: "digits_val (dec_nat n) = n"
proof (induction n rule: dec_nat.induct)
  case (1 n)
  show ?case
  proof (cases "n < 10")
    case True
    then show ?thesis
      using digit_char[of n] by (subst dec_nat.simps) (simp add: digits_val_def)
  next
    case False
    have "digits_val (dec_nat n) = 10 * digits_val (dec_nat (n div 10)) + n mod 10"
      using False digit_char[of "n mod 10"] by (subst dec_nat.simps) (simp add: digits_val_snoc)
    then show ?thesis using 1 False by simp
  qed
qed

text \<open>A text that goes on with something else than a digit.\<close>

definition no_digit_first :: "string \<Rightarrow> bool" where
  "no_digit_first s \<longleftrightarrow> (case s of [] \<Rightarrow> True | c # _ \<Rightarrow> \<not> is_digit c)"

lemma newline_not_digit [simp]: "\<not> is_digit newline"
  by (simp add: is_digit_def newline_def of_char_of)

lemma no_digit_first_simps [simp]: "no_digit_first []" "no_digit_first (newline # s)"
  by (simp_all add: no_digit_first_def)

lemma takeWhile_digits:
  assumes "list_all is_digit ds" and "no_digit_first rest"
  shows "takeWhile is_digit (ds @ rest) = ds" and "dropWhile is_digit (ds @ rest) = rest"
  using assms by (induction ds) (auto simp: no_digit_first_def split: list.splits)

lemma digit_plain: "is_digit c \<Longrightarrow> \<not> is_space c \<and> c \<noteq> CHR ''-'' \<and> c \<noteq> CHR ''+''"
  by (auto simp: is_digit_def is_space_def)

lemma split_sign_digit: "is_digit c \<Longrightarrow> split_sign (c # cs) = (False, c # cs)"
  using digit_plain[of c] by (simp add: split_sign_def)

lemma split_sign_dec_int [simp]: "split_sign (dec_int i @ rest) = (i < 0, dec_nat (nat \<bar>i\<bar>) @ rest)"
proof (cases "i < 0")
  case False
  obtain c cs where cs: "dec_nat (nat i) = c # cs" by (meson dec_nat_not_Nil neq_Nil_conv)
  then have "is_digit c" using dec_nat_digits[of "nat i"] by simp
  then show ?thesis using False cs by (simp add: dec_int_def split_sign_digit)
qed (simp add: dec_int_def split_sign_def)

lemma dropWhile_space_dec_int [simp]: "dropWhile is_space (dec_int i @ rest) = dec_int i @ rest"
proof (cases "i < 0")
  case False
  obtain c cs where cs: "dec_nat (nat i) = c # cs" by (meson dec_nat_not_Nil neq_Nil_conv)
  then have "is_digit c" using dec_nat_digits[of "nat i"] by simp
  then show ?thesis using False cs digit_plain[of c] by (simp add: dec_int_def)
qed (simp add: dec_int_def is_space_def)

lemma signed_val_dec [simp]: "signed_val (i < 0) (dec_nat (nat \<bar>i\<bar>)) = i"
  by (simp add: signed_val_def)

theorem scan_long_dec_int:
  "long_range i \<Longrightarrow> no_digit_first rest \<Longrightarrow> scan_long (dec_int i @ rest) = Some i"
  using takeWhile_digits(1)[OF dec_nat_digits, of rest "nat \<bar>i\<bar>"]
  by (simp add: scan_long_def long_range_def)

end
