(* ===== verification/Cpld.thy ===== *)
theory Cpld
  imports Ctext
begin

text \<open>
  The CPLD platform driver (src/platform/drivers/accton_as5610_cpld.c): byte registers behind
  \<open>cpld_rd\<close> and \<open>cpld_wr\<close>, and the sysfs attributes that read and write them. The
  CPLD, the file system and the Linux string helpers answer through a \<open>plat_env\<close>: the
  chip and the files as arbitrary functions of the history, the helpers as functions whose
  documented behaviour is the contract \<open>kernel_lib_ok\<close>. What the chip does with a written
  register is the contract \<open>cpld_latch\<close>.
\<close>

section \<open>Interactions of the platform software\<close>

datatype fs_path =
    Cpld_attr string        \<comment> \<open>a file of the driver's sysfs directory, \<open>CPLD_BASE "/name"\<close>\<close>
  | Fs string               \<comment> \<open>any other path\<close>

datatype plat_msg =
    Psu_absent int | Psu_not_ok int | Fan_not_ok | Fan_not_present | Airflow string
  | Max_temp int | High_temp int | Sfp_found int string "u8 list" "u8 list" "u8 list"

datatype plat_event =
    CpldRd u8 u8                      \<comment> \<open>\<open>ioread8\<close>: register, value read\<close>
  | CpldWr u8 u8                      \<comment> \<open>\<open>iowrite8\<close>: register, value written\<close>
  | KernCall string int               \<comment> \<open>a kernel service and its answer\<close>
  | FsOpen fs_path bool               \<comment> \<open>\<open>fopen\<close>/\<open>open\<close>/\<open>opendir\<close> succeeded\<close>
  | FsText fs_path string             \<comment> \<open>the text read from a file\<close>
  | FsDir string "string list"        \<comment> \<open>the entries of a directory\<close>
  | FsBytes string "u8 list"          \<comment> \<open>the bytes one \<open>read\<close> returned\<close>
  | FsIoctl string bool               \<comment> \<open>\<open>ioctl(I2C_SLAVE)\<close> succeeded\<close>
  | FsWrite string bool               \<comment> \<open>\<open>write\<close> of the offset byte succeeded\<close>
  | Printed plat_msg
  | Slept nat

record plat_env =
  cpld_answer :: "plat_event list \<Rightarrow> u8 \<Rightarrow> u8"
  kern_answer :: "plat_event list \<Rightarrow> string \<Rightarrow> int"
  open_answer :: "plat_event list \<Rightarrow> fs_path \<Rightarrow> bool"
  text_answer :: "plat_event list \<Rightarrow> string \<Rightarrow> string"
  dir_answer :: "plat_event list \<Rightarrow> string \<Rightarrow> string list"
  bytes_answer :: "plat_event list \<Rightarrow> string \<Rightarrow> u8 list"
  bool_answer :: "plat_event list \<Rightarrow> string \<Rightarrow> bool"
  garbage :: "plat_event list \<Rightarrow> int"            \<comment> \<open>an automatic variable read before it was set\<close>
  kstrtol :: "string \<Rightarrow> int option"              \<comment> \<open>base 10; \<open>None\<close> is an error code\<close>
  sysfs_streq :: "string \<Rightarrow> string \<Rightarrow> bool"

record plat =
  hist :: "plat_event list"
  attr_group :: bool            \<comment> \<open>the driver's sysfs files exist\<close>
  airflow_logged :: bool        \<comment> \<open>static flag of the daemon's \<open>cpld_check_fans\<close>\<close>

definition happened :: "plat_event \<Rightarrow> ('z plat_scheme, unit) state" where
  "happened e = modify (\<lambda>s. s\<lparr>hist := e # hist s\<rparr>)"

lemma run_happened [simp]: "run_state (happened e) s = ((), s\<lparr>hist := e # hist s\<rparr>)"
  by (simp add: happened_def)

definition kern :: "plat_env \<Rightarrow> string \<Rightarrow> ('z plat_scheme, int) state" where
  "kern E f = do {
     h \<leftarrow> gets hist;
     let r = kern_answer E h f;
     happened (KernCall f r);
     return r
   }"

lemma run_kern [simp]:
  "run_state (kern E f) s =
     (kern_answer E (hist s) f, s\<lparr>hist := KernCall f (kern_answer E (hist s) f) # hist s\<rparr>)"
  by (simp add: kern_def Let_def)

section \<open>Registers\<close>

definition CPLD_REG_PSU2_STATUS :: u8 where "CPLD_REG_PSU2_STATUS = 0x01"
definition CPLD_REG_PSU1_STATUS :: u8 where "CPLD_REG_PSU1_STATUS = 0x02"
definition CPLD_REG_SYS_STATUS :: u8 where "CPLD_REG_SYS_STATUS = 0x03"
definition CPLD_REG_FAN_SPEED :: u8 where "CPLD_REG_FAN_SPEED = 0x0D"
definition CPLD_REG_LED :: u8 where "CPLD_REG_LED = 0x13"

definition cpld_rd :: "plat_env \<Rightarrow> u8 \<Rightarrow> ('z plat_scheme, u8) state" where
  "cpld_rd E reg = do {
     h \<leftarrow> gets hist;
     let v = cpld_answer E h reg;
     happened (CpldRd reg v);
     return v
   }"

definition cpld_wr :: "u8 \<Rightarrow> u8 \<Rightarrow> ('z plat_scheme, unit) state" where
  "cpld_wr reg val = happened (CpldWr reg val)"

lemma run_cpld_rd [simp]:
  "run_state (cpld_rd E reg) s =
     (cpld_answer E (hist s) reg, s\<lparr>hist := CpldRd reg (cpld_answer E (hist s) reg) # hist s\<rparr>)"
  by (simp add: cpld_rd_def Let_def)

lemma run_cpld_wr [simp]: "run_state (cpld_wr reg v) s = ((), s\<lparr>hist := CpldWr reg v # hist s\<rparr>)"
  by (simp add: cpld_wr_def)

section \<open>Fan PWM\<close>

definition FAN_PWM_SCALE :: int where "FAN_PWM_SCALE = 8"
definition FAN_PWM_MAX :: int where "FAN_PWM_MAX = 248"

definition print_int :: "int \<Rightarrow> string" where
  "print_int i = dec_int i @ [newline]"

definition pwm1_show :: "plat_env \<Rightarrow> ('z plat_scheme, string) state" where
  "pwm1_show E = do {
     v \<leftarrow> cpld_rd E CPLD_REG_FAN_SPEED;
     let raw = v AND 0x1F;
     return (print_int (uint raw * FAN_PWM_SCALE))
   }"

definition clamp_val :: "int \<Rightarrow> int \<Rightarrow> int \<Rightarrow> int" where
  "clamp_val v lo hi = min (max v lo) hi"

text \<open>A store returns the number of bytes taken or a negative error number.\<close>

definition pwm1_store :: "plat_env \<Rightarrow> string \<Rightarrow> ('z plat_scheme, int) state" where
  "pwm1_store E buf = (case kstrtol E buf of
     None \<Rightarrow> return (- EINVAL)
   | Some val \<Rightarrow> do {
       let val = clamp_val val 0 FAN_PWM_MAX;
       cpld_wr CPLD_REG_FAN_SPEED (word_of_int (val div FAN_PWM_SCALE));
       return (int (length buf))
     })"

section \<open>Status attributes\<close>

definition show_clear :: "plat_env \<Rightarrow> u8 \<Rightarrow> u8 \<Rightarrow> ('z plat_scheme, string) state" where
  "show_clear E reg msk = do {
     v \<leftarrow> cpld_rd E reg;
     return (print_int (if v AND msk = 0 then 1 else 0))
   }"

definition show_set :: "plat_env \<Rightarrow> u8 \<Rightarrow> u8 \<Rightarrow> ('z plat_scheme, string) state" where
  "show_set E reg msk = do {
     v \<leftarrow> cpld_rd E reg;
     return (print_int (if v AND msk = 0 then 0 else 1))
   }"

definition psu_pwr1_present_show :: "plat_env \<Rightarrow> ('z plat_scheme, string) state" where
  "psu_pwr1_present_show E = show_clear E CPLD_REG_PSU1_STATUS 0x01"

definition psu_pwr1_all_ok_show :: "plat_env \<Rightarrow> ('z plat_scheme, string) state" where
  "psu_pwr1_all_ok_show E = show_set E CPLD_REG_PSU1_STATUS 0x02"

definition psu_pwr2_present_show :: "plat_env \<Rightarrow> ('z plat_scheme, string) state" where
  "psu_pwr2_present_show E = show_clear E CPLD_REG_PSU2_STATUS 0x01"

definition psu_pwr2_all_ok_show :: "plat_env \<Rightarrow> ('z plat_scheme, string) state" where
  "psu_pwr2_all_ok_show E = show_set E CPLD_REG_PSU2_STATUS 0x02"

definition system_fan_ok_show :: "plat_env \<Rightarrow> ('z plat_scheme, string) state" where
  "system_fan_ok_show E = show_clear E CPLD_REG_SYS_STATUS 0x08"

definition system_fan_present_show :: "plat_env \<Rightarrow> ('z plat_scheme, string) state" where
  "system_fan_present_show E = show_clear E CPLD_REG_SYS_STATUS 0x04"

definition system_fan_air_flow_show :: "plat_env \<Rightarrow> ('z plat_scheme, string) state" where
  "system_fan_air_flow_show E = do {
     v \<leftarrow> cpld_rd E CPLD_REG_SYS_STATUS;
     return ((if v AND 0x10 \<noteq> 0 then ''back-to-front'' else ''front-to-back'') @ [newline])
   }"

section \<open>LEDs\<close>

definition led_psu_show :: "plat_env \<Rightarrow> u8 \<Rightarrow> u8 \<Rightarrow> u8 \<Rightarrow> ('z plat_scheme, string) state" where
  "led_psu_show E msk green amber = do {
     v \<leftarrow> cpld_rd E CPLD_REG_LED;
     let val = v AND msk;
     return ((if val = green then ''green'' else if val = amber then ''amber'' else ''off'') @ [newline])
   }"

definition led_psu_store ::
  "plat_env \<Rightarrow> u8 \<Rightarrow> u8 \<Rightarrow> u8 \<Rightarrow> string \<Rightarrow> ('z plat_scheme, int) state" where
  "led_psu_store E msk green amber buf = do {
     v \<leftarrow> cpld_rd E CPLD_REG_LED;
     let val = v AND NOT msk;
     let val = (if sysfs_streq E buf ''green'' then val OR green
                else if sysfs_streq E buf ''amber'' then val OR amber
                else val);
     cpld_wr CPLD_REG_LED val;
     return (int (length buf))
   }"

definition led_diag_show :: "plat_env \<Rightarrow> ('z plat_scheme, string) state" where
  "led_diag_show E = do {
     v \<leftarrow> cpld_rd E CPLD_REG_LED;
     let val = v AND 0x30;
     return ((if val = 0x20 then ''green'' else if val = 0x10 then ''amber'' else ''off'') @ [newline])
   }"

definition led_diag_store :: "plat_env \<Rightarrow> string \<Rightarrow> ('z plat_scheme, int) state" where
  "led_diag_store E buf = do {
     v \<leftarrow> cpld_rd E CPLD_REG_LED;
     let val = v AND NOT 0x30;
     let val = (if sysfs_streq E buf ''green'' then val OR 0x20
                else if sysfs_streq E buf ''amber'' then val OR 0x10
                else val);
     cpld_wr CPLD_REG_LED val;
     return (int (length buf))
   }"

definition led_psu1_show :: "plat_env \<Rightarrow> ('z plat_scheme, string) state" where
  "led_psu1_show E = led_psu_show E 0x03 0x02 0x01"
definition led_psu1_store :: "plat_env \<Rightarrow> string \<Rightarrow> ('z plat_scheme, int) state" where
  "led_psu1_store E buf = led_psu_store E 0x03 0x02 0x01 buf"
definition led_psu2_show :: "plat_env \<Rightarrow> ('z plat_scheme, string) state" where
  "led_psu2_show E = led_psu_show E 0x0C 0x08 0x04"
definition led_psu2_store :: "plat_env \<Rightarrow> string \<Rightarrow> ('z plat_scheme, int) state" where
  "led_psu2_store E buf = led_psu_store E 0x0C 0x08 0x04 buf"
definition led_fan_show :: "plat_env \<Rightarrow> ('z plat_scheme, string) state" where
  "led_fan_show E = led_psu_show E 0xC0 0x80 0x40"
definition led_fan_store :: "plat_env \<Rightarrow> string \<Rightarrow> ('z plat_scheme, int) state" where
  "led_fan_store E buf = led_psu_store E 0xC0 0x80 0x40 buf"

definition watch_dog_keep_alive_store :: "plat_env \<Rightarrow> string \<Rightarrow> ('z plat_scheme, int) state" where
  "watch_dog_keep_alive_store E buf = do {
     cpld_wr 0x06 0x01;
     return (int (length buf))
   }"

section \<open>The attribute group\<close>

text \<open>\<open>cpld_attrs[]\<close> with the show and store functions the \<open>DEVICE_ATTR\<close> macros bind:
  \<open>None\<close> is an attribute without that operation, or no such file.\<close>

definition attr_show :: "plat_env \<Rightarrow> string \<Rightarrow> ('z plat_scheme, string) state option" where
  "attr_show E = map_of [
     (''pwm1'', pwm1_show E),
     (''psu_pwr1_present'', psu_pwr1_present_show E),
     (''psu_pwr1_all_ok'', psu_pwr1_all_ok_show E),
     (''psu_pwr2_present'', psu_pwr2_present_show E),
     (''psu_pwr2_all_ok'', psu_pwr2_all_ok_show E),
     (''system_fan_ok'', system_fan_ok_show E),
     (''system_fan_present'', system_fan_present_show E),
     (''system_fan_air_flow'', system_fan_air_flow_show E),
     (''led_diag'', led_diag_show E),
     (''led_psu1'', led_psu1_show E),
     (''led_psu2'', led_psu2_show E),
     (''led_fan'', led_fan_show E)]"

definition attr_store :: "plat_env \<Rightarrow> string \<Rightarrow> (string \<Rightarrow> ('z plat_scheme, int) state) option" where
  "attr_store E = map_of [
     (''pwm1'', pwm1_store E),
     (''led_diag'', led_diag_store E),
     (''led_psu1'', led_psu1_store E),
     (''led_psu2'', led_psu2_store E),
     (''led_fan'', led_fan_store E),
     (''watch_dog_keep_alive'', watch_dog_keep_alive_store E)]"

section \<open>Probe and remove\<close>

text \<open>Answers: \<open>devm_kzalloc\<close> 0 is no memory; \<open>ioremap\<close> negative is the error of
  \<open>PTR_ERR\<close>; \<open>sysfs_create_group\<close> nonzero is an error.\<close>

definition as5610_cpld_probe :: "plat_env \<Rightarrow> ('z plat_scheme, int) state" where
  "as5610_cpld_probe E = do {
     cpld \<leftarrow> kern E ''devm_kzalloc'';
     if cpld = 0 then return (- ENOMEM)
     else do {
       base \<leftarrow> kern E ''devm_platform_ioremap_resource'';
       if base < 0 then return base
       else do {
         ret \<leftarrow> kern E ''sysfs_create_group'';
         if ret \<noteq> 0 then return ret
         else do {
           modify (\<lambda>s. s\<lparr>attr_group := True\<rparr>);
           return 0
         }
       }
     }
   }"

definition as5610_cpld_remove :: "plat_env \<Rightarrow> ('z plat_scheme, int) state" where
  "as5610_cpld_remove E = do {
     modify (\<lambda>s. s\<lparr>attr_group := False\<rparr>);
     return 0
   }"

lemma probe_creates_files:
  "\<not> attr_group s \<Longrightarrow> attr_group (exec (as5610_cpld_probe E) s) \<longleftrightarrow> result (as5610_cpld_probe E) s = 0"
  by (simp add: as5610_cpld_probe_def Let_def)

section \<open>Contracts\<close>

text \<open>The Linux helpers, as documented: \<open>kstrtol\<close> reads a decimal number with an optional
  trailing newline, \<open>sysfs_streq\<close> compares modulo one trailing newline.\<close>

definition chomp :: "string \<Rightarrow> string" where
  "chomp s = (if s \<noteq> [] \<and> last s = newline then butlast s else s)"

definition kernel_lib_ok :: "plat_env \<Rightarrow> bool" where
  "kernel_lib_ok E \<longleftrightarrow>
     (\<forall>i. long_range i \<longrightarrow> kstrtol E (dec_int i) = Some i \<and> kstrtol E (dec_int i @ [newline]) = Some i) \<and>
     (\<forall>a b. sysfs_streq E a b \<longleftrightarrow> chomp a = chomp b)"

fun cpld_content :: "(u8 \<Rightarrow> u8) \<Rightarrow> plat_event list \<Rightarrow> u8 \<Rightarrow> u8" where
  "cpld_content boot [] r = boot r"
| "cpld_content boot (CpldWr a v # h) r = (if a = r then v else cpld_content boot h r)"
| "cpld_content boot (_ # h) r = cpld_content boot h r"

text \<open>Register \<open>r\<close> keeps what is written to it, from the value it had at power on.\<close>

definition cpld_latch :: "plat_env \<Rightarrow> (u8 \<Rightarrow> u8) \<Rightarrow> u8 \<Rightarrow> bool" where
  "cpld_latch E boot r \<longleftrightarrow> (\<forall>h. cpld_answer E h r = cpld_content boot h r)"

lemma cpld_latchD: "cpld_latch E boot r \<Longrightarrow> cpld_answer E h r = cpld_content boot h r"
  by (simp add: cpld_latch_def)

lemma kernel_lib_streq: "kernel_lib_ok E \<Longrightarrow> sysfs_streq E a b \<longleftrightarrow> chomp a = chomp b"
  by (simp add: kernel_lib_ok_def)

lemma chomp_colour [simp]:
  "chomp (c @ [newline]) = c" "chomp ''green'' = ''green''" "chomp ''amber'' = ''amber''" "chomp ''off'' = ''off''"
  by (simp_all add: chomp_def newline_def)

section \<open>LED fields\<close>

text \<open>The field of the LED register with mask, value for green and value for amber.\<close>

definition led_field :: "u8 \<Rightarrow> u8 \<Rightarrow> u8 \<Rightarrow> bool" where
  "led_field m g a \<longleftrightarrow> g AND m = g \<and> a AND m = a \<and> g \<noteq> a \<and> g \<noteq> 0 \<and> a \<noteq> 0"

definition led_colour :: "string \<Rightarrow> string" where
  "led_colour buf = (if chomp buf = ''green'' \<or> chomp buf = ''amber'' then chomp buf else ''off'')"

definition led_read :: "u8 \<Rightarrow> u8 \<Rightarrow> u8 \<Rightarrow> u8 \<Rightarrow> string" where
  "led_read m g a v = (if v AND m = g then ''green'' else if v AND m = a then ''amber'' else ''off'') @ [newline]"

definition led_written :: "u8 \<Rightarrow> u8 \<Rightarrow> u8 \<Rightarrow> string \<Rightarrow> u8 \<Rightarrow> u8" where
  "led_written m g a c v = (v AND NOT m) OR (if c = ''green'' then g else if c = ''amber'' then a else 0)"

lemma led_diag_is_led_psu:
  "led_diag_show E = led_psu_show E 0x30 0x20 0x10" "led_diag_store E = led_psu_store E 0x30 0x20 0x10"
  by (simp_all add: led_diag_show_def led_psu_show_def led_diag_store_def led_psu_store_def fun_eq_iff)

lemma led_psu_show_value: "result (led_psu_show E m g a) s = led_read m g a (cpld_answer E (hist s) CPLD_REG_LED)"
  by (simp add: led_psu_show_def led_read_def Let_def)

lemma led_psu_store_effect:
  assumes "kernel_lib_ok E"
  shows "exec (led_psu_store E m g a buf) s = s\<lparr>hist :=
      CpldWr CPLD_REG_LED (led_written m g a (chomp buf) (cpld_answer E (hist s) CPLD_REG_LED)) #
      CpldRd CPLD_REG_LED (cpld_answer E (hist s) CPLD_REG_LED) # hist s\<rparr>"
  using assms by (simp add: led_psu_store_def led_written_def Let_def kernel_lib_streq)

lemma field_insert:
  fixes v m x :: u8
  assumes "x AND m = x"
  shows "((v AND NOT m) OR x) AND m = x"
    and "m AND m' = 0 \<Longrightarrow> ((v AND NOT m) OR x) AND m' = v AND m'"
proof -
  have x: "bit x k \<Longrightarrow> bit m k" for k using assms by (metis bit_and_iff)
  then show "((v AND NOT m) OR x) AND m = x"
    by (intro bit_eqI) (auto simp: word_bits)
  assume "m AND m' = 0"
  then have "\<not> (bit m k \<and> bit m' k)" for k by (metis bit_and_iff bit_0_eq bot_apply bot_bool_def)
  then show "((v AND NOT m) OR x) AND m' = v AND m'"
    using x by (intro bit_eqI) (auto simp: word_bits)
qed

lemma led_written_field:
  assumes "led_field m g a"
  shows "led_read m g a (led_written m g a (chomp buf) v) = led_colour buf @ [newline]"
    and "m AND m' = 0 \<Longrightarrow> led_read m' g' a' (led_written m g a (chomp buf) v) = led_read m' g' a' v"
proof -
  have f: "g AND m = g" "a AND m = a" "g \<noteq> a" "g \<noteq> 0" "a \<noteq> 0"
    using assms by (simp_all add: led_field_def)
  show "led_read m g a (led_written m g a (chomp buf) v) = led_colour buf @ [newline]"
    using f field_insert(1)[of g m v] field_insert(1)[of a m v] field_insert(1)[of 0 m v]
    by (auto simp: led_read_def led_written_def led_colour_def)
  assume d: "m AND m' = 0"
  have "led_written m g a (chomp buf) v AND m' = v AND m'"
    using f field_insert(2)[OF _ d] unfolding led_written_def by simp
  then show "led_read m' g' a' (led_written m g a (chomp buf) v) = led_read m' g' a' v"
    by (simp add: led_read_def)
qed

lemma led_fields:
  "led_field 0x30 0x20 0x10" "led_field 0x03 0x02 0x01" "led_field 0x0C 0x08 0x04" "led_field 0xC0 0x80 0x40"
  by (simp_all add: led_field_def)

lemmas led_attrs = led_psu1_show_def led_psu1_store_def led_psu2_show_def led_psu2_store_def
  led_fan_show_def led_fan_store_def led_diag_is_led_psu attr_show_def attr_store_def

lemma led_store_show_field:
  assumes "kernel_lib_ok E" and "cpld_latch E boot CPLD_REG_LED" and "led_field m g a"
  shows "result (led_psu_show E m g a) (exec (led_psu_store E m g a buf) s) = led_colour buf @ [newline]"
    and "m AND m' = 0 \<Longrightarrow>
      result (led_psu_show E m' g' a') (exec (led_psu_store E m g a buf) s) = result (led_psu_show E m' g' a') s"
  using assms led_written_field[OF assms(3)]
  by (simp_all add: led_psu_show_value led_psu_store_effect cpld_latchD)

text \<open>C24. Each of the four LED attributes is a field of its own: after any text is stored into
  one of them, reading it gives that colour (with one trailing newline in the text or none;
  \<open>off\<close> for a text that is no colour), and reading any other gives what it gave before.\<close>

theorem led_store_show:
  assumes "kernel_lib_ok E" and "cpld_latch E boot CPLD_REG_LED"
    and "led \<in> set [''led_diag'', ''led_psu1'', ''led_psu2'', ''led_fan'']"
    and "other \<in> set [''led_diag'', ''led_psu1'', ''led_psu2'', ''led_fan'']"
  shows "result (the (attr_show E other)) (exec (the (attr_store E led) buf) s) =
    (if other = led then led_colour buf @ [newline] else result (the (attr_show E other)) s)"
proof -
  note r = led_store_show_field[OF assms(1,2)]
  show ?thesis using assms(3,4)
    by (auto simp: led_attrs r led_fields)
qed

section \<open>PWM round trip\<close>

definition pwm_raw :: "int \<Rightarrow> int" where
  "pwm_raw v = clamp_val v 0 FAN_PWM_MAX div FAN_PWM_SCALE"

lemma pwm_raw_range: "0 \<le> pwm_raw v" "pwm_raw v \<le> 31"
  by (auto simp: pwm_raw_def clamp_val_def FAN_PWM_MAX_def FAN_PWM_SCALE_def)

lemma pwm_raw_word: "uint (word_of_int (pwm_raw v) AND 0x1F :: u8) = pwm_raw v"
  using uint_low_bits[where 'a = 8, of 5 "pwm_raw v"] pwm_raw_range[of v] by (simp add: mask_eq_exp_minus_1)

lemma kstrtol_dec:
  "kernel_lib_ok E \<Longrightarrow> long_range v \<Longrightarrow> nl \<in> {[], [newline]} \<Longrightarrow> kstrtol E (dec_int v @ nl) = Some v"
  by (auto simp: kernel_lib_ok_def)

lemma pwm1_store_effect:
  assumes "kernel_lib_ok E" and "long_range v" and "nl \<in> {[], [newline]}"
  shows "exec (pwm1_store E (dec_int v @ nl)) s =
    s\<lparr>hist := CpldWr CPLD_REG_FAN_SPEED (word_of_int (pwm_raw v)) # hist s\<rparr>"
  using kstrtol_dec[OF assms] by (simp add: pwm1_store_def pwm_raw_def Let_def)

lemma pwm1_store_show:
  assumes "kernel_lib_ok E" and "cpld_latch E boot CPLD_REG_FAN_SPEED" and "long_range v"
    and "nl \<in> {[], [newline]}"
  shows "result (pwm1_show E) (exec (pwm1_store E (dec_int v @ nl)) s) = print_int (pwm_raw v * 8)"
  using assms(2) pwm_raw_word[of v]
  by (simp add: pwm1_store_effect[OF assms(1,3,4)] pwm1_show_def cpld_latchD Let_def FAN_PWM_SCALE_def)

section \<open>Instances of the contracts\<close>

definition kstrtol_ref :: "string \<Rightarrow> int option" where
  "kstrtol_ref s = (let (neg, ds) = split_sign (chomp s) in
     if ds \<noteq> [] \<and> list_all is_digit ds \<and> long_range (signed_val neg ds) then Some (signed_val neg ds)
     else None)"

definition demo_plat_env :: plat_env where
  "demo_plat_env = \<lparr>cpld_answer = cpld_content (\<lambda>_. 0xFF), kern_answer = (\<lambda>_ _. 0),
     open_answer = (\<lambda>_ _. True), text_answer = (\<lambda>_ _. []), dir_answer = (\<lambda>_ _. []),
     bytes_answer = (\<lambda>_ _. []), bool_answer = (\<lambda>_ _. True), garbage = (\<lambda>_. 0),
     kstrtol = kstrtol_ref, sysfs_streq = (\<lambda>a b. chomp a = chomp b)\<rparr>"

lemma last_dec_int: "is_digit (last (dec_int i))"
proof -
  have "is_digit (last (dec_nat n))" for n
    using dec_nat_digits[of n] by (metis dec_nat_not_Nil last_in_set list_all_iff)
  then show ?thesis by (simp add: dec_int_def)
qed

lemma chomp_dec_int [simp]: "chomp (dec_int i) = dec_int i" "chomp (dec_int i @ [newline]) = dec_int i"
  using last_dec_int[of i] by (auto simp: chomp_def)

lemma kstrtol_ref_ok: "long_range i \<Longrightarrow> chomp s = dec_int i \<Longrightarrow> kstrtol_ref s = Some i"
  using split_sign_dec_int[of i "[]"] dec_nat_digits[of "nat \<bar>i\<bar>"] by (simp add: kstrtol_ref_def)

lemma demo_plat_env_ok: "kernel_lib_ok demo_plat_env" "cpld_latch demo_plat_env (\<lambda>_. 0xFF) r"
  by (auto simp: demo_plat_env_def kernel_lib_ok_def cpld_latch_def kstrtol_ref_ok)

theorem led_store_show_witness:
  "result (the (attr_show demo_plat_env ''led_psu2''))
     (exec (the (attr_store demo_plat_env ''led_psu1'') ''amber'') \<lparr>hist = [], attr_group = True, airflow_logged = False\<rparr>)
   = result (the (attr_show demo_plat_env ''led_psu2'')) \<lparr>hist = [], attr_group = True, airflow_logged = False\<rparr>"
  by (subst led_store_show[OF demo_plat_env_ok]) simp_all

end
