(* ===== verification/Platform.thy ===== *)
theory Platform
  imports Cpld
begin

text \<open>
  The platform management daemon (src/platform/platform-mgrd/main.c): one iteration of its
  main loop is \<open>mgrd_tick\<close>, \<open>n\<close> iterations \<open>mgrd_run\<close>. Its file accesses reach the
  attributes of the CPLD driver (theory Cpld) while the driver's files exist, and the
  environment otherwise, so the fan and watchdog properties go from the temperature files to the
  CPLD registers.
\<close>

section \<open>File access\<close>

text \<open>\<open>fopen\<close> for reading and the text of the file. The files of the driver's directory exist
  while the driver is bound and are served by its show functions.\<close>

definition read_text :: "plat_env \<Rightarrow> fs_path \<Rightarrow> ('z plat_scheme, string option) state" where
  "read_text E path = do {
     s \<leftarrow> gets (\<lambda>s. s);
     let ok = open_answer E (hist s) path;
     (case path of
        Cpld_attr name \<Rightarrow> (case (if attr_group s \<and> ok then attr_show E name else None) of
            None \<Rightarrow> do { happened (FsOpen path False); return None }
          | Some sh \<Rightarrow> do { happened (FsOpen path True); t \<leftarrow> sh; return (Some t) })
      | Fs p \<Rightarrow>
          if ok then do {
            happened (FsOpen path True);
            h \<leftarrow> gets hist;
            let t = text_answer E h p;
            happened (FsText path t);
            return (Some t)
          } else do { happened (FsOpen path False); return None })
   }"

definition sysfs_read_int :: "plat_env \<Rightarrow> fs_path \<Rightarrow> ('z plat_scheme, int option) state" where
  "sysfs_read_int E path = do {
     t \<leftarrow> read_text E path;
     return (Option.bind t scan_long)
   }"

text \<open>\<open>fputs\<close> fills the stdio buffer and cannot fail; the driver's store function runs when
  \<open>fclose\<close> flushes it, and its error is not looked at.\<close>

definition sysfs_write_str :: "plat_env \<Rightarrow> fs_path \<Rightarrow> string \<Rightarrow> ('z plat_scheme, int) state" where
  "sysfs_write_str E path val = do {
     s \<leftarrow> gets (\<lambda>s. s);
     let ok = open_answer E (hist s) path;
     (case path of
        Cpld_attr name \<Rightarrow> (case (if attr_group s \<and> ok then attr_store E name else None) of
            None \<Rightarrow> do { happened (FsOpen path False); return (-1) }
          | Some st \<Rightarrow> do { happened (FsOpen path True); st val; return 0 })
      | Fs p \<Rightarrow> do { happened (FsOpen path ok); return (if ok then 0 else -1) })
   }"

definition sysfs_write_int :: "plat_env \<Rightarrow> fs_path \<Rightarrow> int \<Rightarrow> ('z plat_scheme, int) state" where
  "sysfs_write_int E path val = sysfs_write_str E path (snprintf_buf 32 (dec_int val))"

fun trim_from :: "u8 list \<Rightarrow> nat \<Rightarrow> u8 list" where
  "trim_from s 0 = s"
| "trim_from s (Suc i) = (if s ! i = 32 \<or> s ! i = 0 then trim_from (s[i := 0]) i else s)"

definition trim_trailing :: "u8 list \<Rightarrow> u8 list" where
  "trim_trailing s = trim_from s (length s)"

section \<open>CPLD checks\<close>

definition cpld_watchdog_keepalive :: "plat_env \<Rightarrow> ('z plat_scheme, unit) state" where
  "cpld_watchdog_keepalive E = do {
     _ \<leftarrow> sysfs_write_str E (Cpld_attr ''watch_dog_keep_alive'') ''1'';
     return ()
   }"

text \<open>\<open>ok\<close> is a variable of the whole loop: when \<open>all_ok\<close> cannot be read it keeps the value
  of the other PSU, or is unset.\<close>

definition check_one_psu :: "plat_env \<Rightarrow> int \<Rightarrow> int \<Rightarrow> ('z plat_scheme, int) state" where
  "check_one_psu E psu ok = do {
     p \<leftarrow> sysfs_read_int E (Cpld_attr (''psu_pwr'' @ dec_int psu @ ''_present''));
     (case p of None \<Rightarrow> return ok
      | Some present \<Rightarrow> do {
          r \<leftarrow> sysfs_read_int E (Cpld_attr (''psu_pwr'' @ dec_int psu @ ''_all_ok''));
          let ok = (case r of None \<Rightarrow> ok | Some v \<Rightarrow> v);
          let color = (if present = 0 then ''off'' else if ok \<noteq> 0 then ''green'' else ''amber'');
          _ \<leftarrow> sysfs_write_str E (Cpld_attr (''led_psu'' @ dec_int psu)) color;
          (if present = 0 then happened (Printed (Psu_absent psu))
           else if ok = 0 then happened (Printed (Psu_not_ok psu))
           else return ());
          return ok
        })
   }"

definition cpld_check_psu :: "plat_env \<Rightarrow> ('z plat_scheme, unit) state" where
  "cpld_check_psu E = do {
     ok \<leftarrow> gets (\<lambda>s. garbage E (hist s));
     ok \<leftarrow> check_one_psu E 1 ok;
     _ \<leftarrow> check_one_psu E 2 ok;
     return ()
   }"

text \<open>\<open>fgets\<close> into 32 bytes, cut at the newline.\<close>

definition log_airflow :: "plat_env \<Rightarrow> ('z plat_scheme, unit) state" where
  "log_airflow E = do {
     done \<leftarrow> gets airflow_logged;
     if done then return ()
     else do {
       t \<leftarrow> read_text E (Cpld_attr ''system_fan_air_flow'');
       (case t of None \<Rightarrow> return ()
        | Some line \<Rightarrow> if line = [] then return ()
            else happened (Printed (Airflow (takeWhile (\<lambda>c. c \<noteq> newline) (take 31 line)))));
       modify (\<lambda>s. s\<lparr>airflow_logged := True\<rparr>)
     }
   }"

definition cpld_check_fans :: "plat_env \<Rightarrow> ('z plat_scheme, unit) state" where
  "cpld_check_fans E = do {
     v \<leftarrow> sysfs_read_int E (Cpld_attr ''system_fan_ok'');
     let fan_ok = (v \<noteq> Some 0);
     (if fan_ok then return () else happened (Printed Fan_not_ok));
     v \<leftarrow> sysfs_read_int E (Cpld_attr ''system_fan_present'');
     let fan_present = (v \<noteq> Some 0);
     (if fan_present then return () else happened (Printed Fan_not_present));
     let fan_color = (if \<not> fan_present \<or> \<not> fan_ok then ''amber'' else ''green'');
     _ \<leftarrow> sysfs_write_str E (Cpld_attr ''led_fan'') fan_color;
     log_airflow E
   }"

definition cpld_set_led :: "plat_env \<Rightarrow> string \<Rightarrow> string \<Rightarrow> ('z plat_scheme, int) state" where
  "cpld_set_led E name color = sysfs_write_str E (Cpld_attr name) color"

definition cpld_set_fan_pwm :: "plat_env \<Rightarrow> int \<Rightarrow> ('z plat_scheme, int) state" where
  "cpld_set_fan_pwm E pwm = sysfs_write_int E (Cpld_attr ''pwm1'') pwm"

section \<open>Temperature\<close>

text \<open>A loop that updates a local variable.\<close>

fun fold_st :: "('i \<Rightarrow> 'a \<Rightarrow> ('s, 'a) state) \<Rightarrow> 'i list \<Rightarrow> 'a \<Rightarrow> ('s, 'a) state" where
  "fold_st f [] a = return a"
| "fold_st f (i # is) a = do { a \<leftarrow> f i a; fold_st f is a }"

definition HWMON_BASE :: string where "HWMON_BASE = ''/sys/class/hwmon''"

definition read_sensor :: "plat_env \<Rightarrow> string \<Rightarrow> int \<Rightarrow> int \<Rightarrow> ('z plat_scheme, int) state" where
  "read_sensor E base i max_temp = do {
     v \<leftarrow> sysfs_read_int E (Fs (snprintf_buf 320 (base @ ''/temp'' @ dec_int i @ ''_input'')));
     return (case v of None \<Rightarrow> max_temp | Some val \<Rightarrow> if val > max_temp then val else max_temp)
   }"

definition read_hwmon :: "plat_env \<Rightarrow> string \<Rightarrow> int \<Rightarrow> ('z plat_scheme, int) state" where
  "read_hwmon E d_name max_temp =
     (if take 1 d_name = ''.'' then return max_temp
      else fold_st (read_sensor E (snprintf_buf 256 (HWMON_BASE @ ''/'' @ d_name))) [1..10] max_temp)"

definition thermal_read_max :: "plat_env \<Rightarrow> ('z plat_scheme, int) state" where
  "thermal_read_max E = do {
     h \<leftarrow> gets hist;
     if \<not> open_answer E h (Fs HWMON_BASE) then do { happened (FsOpen (Fs HWMON_BASE) False); return (-1) }
     else do {
       happened (FsOpen (Fs HWMON_BASE) True);
       h \<leftarrow> gets hist;
       let entries = dir_answer E h HWMON_BASE;
       happened (FsDir HWMON_BASE entries);
       fold_st (read_hwmon E) entries (-1)
     }
   }"

definition TEMP_LOW_MC :: int where "TEMP_LOW_MC = 35000"
definition TEMP_MED_MC :: int where "TEMP_MED_MC = 45000"
definition TEMP_HIGH_MC :: int where "TEMP_HIGH_MC = 55000"
definition PWM_LOW :: int where "PWM_LOW = 96"
definition PWM_MED :: int where "PWM_MED = 168"
definition PWM_HIGH :: int where "PWM_HIGH = 248"
definition PWM_MAX :: int where "PWM_MAX = 248"

definition thermal_manage_fans :: "plat_env \<Rightarrow> int \<Rightarrow> ('z plat_scheme, unit) state" where
  "thermal_manage_fans E max_mc =
     (if max_mc < 0 then do { _ \<leftarrow> cpld_set_fan_pwm E PWM_MAX; return () }
      else do {
        pwm \<leftarrow> (if max_mc < TEMP_LOW_MC then return PWM_LOW
               else if max_mc < TEMP_MED_MC then return PWM_MED
               else if max_mc < TEMP_HIGH_MC then return PWM_HIGH
               else do { happened (Printed (High_temp max_mc)); return PWM_MAX });
        _ \<leftarrow> cpld_set_fan_pwm E pwm;
        return ()
      })"

section \<open>SFP EEPROMs\<close>

definition NUM_PORTS :: int where "NUM_PORTS = 52"
definition SFP_EEPROM_SIZE :: nat where "SFP_EEPROM_SIZE = 128"

definition read_bytes :: "plat_env \<Rightarrow> string \<Rightarrow> ('z plat_scheme, u8 list option) state" where
  "read_bytes E path = do {
     h \<leftarrow> gets hist;
     let bs = take SFP_EEPROM_SIZE (bytes_answer E h path);
     happened (FsBytes path bs);
     return (if length bs = SFP_EEPROM_SIZE then Some bs else None)
   }"

definition fs_open :: "plat_env \<Rightarrow> string \<Rightarrow> ('z plat_scheme, bool) state" where
  "fs_open E path = do {
     h \<leftarrow> gets hist;
     let ok = open_answer E h (Fs path);
     happened (FsOpen (Fs path) ok);
     return ok
   }"

definition sfp_read_sysfs :: "plat_env \<Rightarrow> int \<Rightarrow> ('z plat_scheme, u8 list option) state" where
  "sfp_read_sysfs E port = do {
     let path = ''/sys/class/eeprom_dev/eeprom'' @ dec_int (port + 6) @ ''/device/eeprom'';
     ok \<leftarrow> fs_open E path;
     if ok then read_bytes E path else return None
   }"

definition sfp_read_i2c :: "plat_env \<Rightarrow> int \<Rightarrow> ('z plat_scheme, u8 list option) state" where
  "sfp_read_i2c E port = do {
     let path = ''/dev/i2c-'' @ dec_int (21 + port);
     ok \<leftarrow> fs_open E path;
     if \<not> ok then return None
     else do {
       h \<leftarrow> gets hist;
       let slave = bool_answer E h path;
       happened (FsIoctl path slave);
       if \<not> slave then return None
       else do {
         h \<leftarrow> gets hist;
         let wrote = bool_answer E h path;
         happened (FsWrite path wrote);
         if \<not> wrote then return None
         else read_bytes E path
       }
     }
   }"

definition sfp_type_str :: "u8 \<Rightarrow> string" where
  "sfp_type_str b =
     (if b = 0x03 then ''SFP'' else if b = 0x0C then ''QSFP'' else if b = 0x0D then ''QSFP+''
      else if b = 0x11 then ''QSFP28'' else ''Unknown'')"

text \<open>A 16-byte field copied into 17 bytes, trimmed, and printed up to the first NUL.\<close>

definition sfp_field :: "u8 list \<Rightarrow> nat \<Rightarrow> u8 list" where
  "sfp_field buf off = takeWhile (\<lambda>b. b \<noteq> 0) (trim_trailing (take 16 (drop off buf) @ [0]))"

definition sfp_print_eeprom :: "int \<Rightarrow> u8 list \<Rightarrow> ('z plat_scheme, unit) state" where
  "sfp_print_eeprom port buf = happened (Printed (Sfp_found port (sfp_type_str (buf ! 0))
     (sfp_field buf 20) (sfp_field buf 40) (sfp_field buf 68)))"

definition sfp_scan_port :: "plat_env \<Rightarrow> int \<Rightarrow> ('z plat_scheme, unit) state" where
  "sfp_scan_port E port = do {
     r \<leftarrow> sfp_read_sysfs E port;
     r \<leftarrow> (case r of Some buf \<Rightarrow> return (Some buf) | None \<Rightarrow> sfp_read_i2c E port);
     (case r of None \<Rightarrow> return ()
      | Some buf \<Rightarrow> if buf ! 0 = 0 \<or> buf ! 0 = 0xFF then return () else sfp_print_eeprom port buf)
   }"

definition sfp_scan_all :: "plat_env \<Rightarrow> ('z plat_scheme, unit) state" where
  "sfp_scan_all E = for_each [1..NUM_PORTS] (sfp_scan_port E)"

section \<open>Main loop\<close>

definition WDT_KEEPALIVE_S :: nat where "WDT_KEEPALIVE_S = 15"
definition POLL_INTERVAL_S :: nat where "POLL_INTERVAL_S = 30"

definition mgrd_poll :: "plat_env \<Rightarrow> ('z plat_scheme, unit) state" where
  "mgrd_poll E = do {
     max_temp \<leftarrow> thermal_read_max E;
     (if max_temp \<ge> 0 then happened (Printed (Max_temp max_temp)) else return ());
     thermal_manage_fans E max_temp;
     cpld_check_psu E;
     cpld_check_fans E;
     sfp_scan_all E
   }"

definition mgrd_tick :: "plat_env \<Rightarrow> nat \<Rightarrow> ('z plat_scheme, unit) state" where
  "mgrd_tick E ticks = do {
     (if ticks mod WDT_KEEPALIVE_S = 0 then cpld_watchdog_keepalive E else return ());
     (if ticks mod POLL_INTERVAL_S = 0 then mgrd_poll E else return ());
     happened (Slept 1)
   }"

text \<open>\<open>main\<close>: the start-up LED and the first \<open>n\<close> iterations of its endless loop.\<close>

definition mgrd_run :: "plat_env \<Rightarrow> nat \<Rightarrow> ('z plat_scheme, unit) state" where
  "mgrd_run E n = do {
     _ \<leftarrow> cpld_set_led E ''led_diag'' ''green'';
     for_each [0..<n] (mgrd_tick E)
   }"

section \<open>What an operation can do\<close>

text \<open>\<open>ev_only P m\<close>: \<open>m\<close> leaves the driver's files as they are and adds only events in
  \<open>P\<close> to the history.\<close>

definition ev_only :: "(plat_event \<Rightarrow> bool) \<Rightarrow> ('z plat_scheme, 'a) state \<Rightarrow> bool" where
  "ev_only P m \<longleftrightarrow> (\<forall>s. \<exists>evs. hist (exec m s) = evs @ hist s \<and> list_all P evs \<and>
     attr_group (exec m s) = attr_group s)"

named_theorems ev_rules \<open>events of composed operations\<close>

lemma ev_onlyE:
  assumes "ev_only P m"
  obtains evs where "hist (exec m s) = evs @ hist s" "list_all P evs" "attr_group (exec m s) = attr_group s"
  using assms unfolding ev_only_def by blast

lemma ev_return [ev_rules]: "ev_only P (return x)"
  and ev_gets [ev_rules]: "ev_only P (gets f)"
  and ev_flag [ev_rules]: "ev_only P (modify (\<lambda>s. s\<lparr>airflow_logged := b\<rparr>))"
  by (auto simp: ev_only_def)

lemma ev_happened [ev_rules]: "P e \<Longrightarrow> ev_only P (happened e)"
  by (auto simp: ev_only_def)

lemma ev_bind [ev_rules]:
  assumes "ev_only P m" and "\<And>a. ev_only P (f a)"
  shows "ev_only P (Monad_Syntax.bind m f)"
  unfolding ev_only_def
proof
  fix s
  obtain e1 where 1: "hist (exec m s) = e1 @ hist s" "list_all P e1" "attr_group (exec m s) = attr_group s"
    using assms(1) by (rule ev_onlyE)
  obtain e2 where 2: "hist (exec (f (result m s)) (exec m s)) = e2 @ hist (exec m s)" "list_all P e2"
      "attr_group (exec (f (result m s)) (exec m s)) = attr_group (exec m s)"
    using assms(2) by (rule ev_onlyE)
  show "\<exists>evs. hist (exec (Monad_Syntax.bind m f) s) = evs @ hist s \<and> list_all P evs \<and>
      attr_group (exec (Monad_Syntax.bind m f) s) = attr_group s"
    by (rule exI[of _ "e2 @ e1"]) (use 1 2 in \<open>simp add: exec_bind del: run_state_bind\<close>)
qed

lemma ev_mono: "ev_only P m \<Longrightarrow> (\<And>e. P e \<Longrightarrow> Q e) \<Longrightarrow> ev_only Q m"
  unfolding ev_only_def by (metis list.pred_mono_strong)

lemma ev_if [ev_rules]: "(b \<Longrightarrow> ev_only P m) \<Longrightarrow> (\<not> b \<Longrightarrow> ev_only P n) \<Longrightarrow> ev_only P (if b then m else n)"
  by simp

lemma ev_option [ev_rules]:
  "(z = None \<Longrightarrow> ev_only P m) \<Longrightarrow> (\<And>x. z = Some x \<Longrightarrow> ev_only P (f x)) \<Longrightarrow>
   ev_only P (case z of None \<Rightarrow> m | Some x \<Rightarrow> f x)"
  by (cases z) simp_all

lemma ev_Let [ev_rules]: "ev_only P (f z) \<Longrightarrow> ev_only P (let x = z in f x)"
  by simp

lemma ev_for_each [ev_rules]: "(\<And>i. i \<in> set is \<Longrightarrow> ev_only P (f i)) \<Longrightarrow> ev_only P (for_each is f)"
  by (induction "is") (auto intro!: ev_rules)

lemma ev_fold_st [ev_rules]: "(\<And>i a. i \<in> set is \<Longrightarrow> ev_only P (f i a)) \<Longrightarrow> ev_only P (fold_st f is a)"
  by (induction "is" arbitrary: a) (auto intro!: ev_rules)

text \<open>Events that leave the fan speed and the watchdog alone, and the clock; \<open>calm\<close> when no
  temperature file is read either.\<close>

definition quiet :: "plat_event \<Rightarrow> bool" where
  "quiet e \<longleftrightarrow> (case e of CpldWr r v \<Rightarrow> r = CPLD_REG_LED | Slept _ \<Rightarrow> False | _ \<Rightarrow> True)"

definition calm :: "plat_event \<Rightarrow> bool" where
  "calm e \<longleftrightarrow> quiet e \<and> (\<forall>p t. e \<noteq> FsText p t)"

lemma quiet_simps [simp]:
  "quiet (CpldWr r v) \<longleftrightarrow> r = CPLD_REG_LED" "quiet (CpldRd r v)" "quiet (FsOpen p b)" "quiet (FsText p t)"
  "quiet (FsDir d ds)" "quiet (FsBytes d bs)" "quiet (FsIoctl d b)" "quiet (FsWrite d b)" "quiet (Printed m)"
  "\<not> quiet (Slept n)" "quiet (KernCall f i)"
  by (simp_all add: quiet_def)

lemma calm_simps [simp]:
  "calm (CpldWr r v) \<longleftrightarrow> r = CPLD_REG_LED" "calm (CpldRd r v)" "calm (FsOpen p b)" "calm (FsBytes d bs)"
  "calm (FsIoctl d b)" "calm (FsWrite d b)" "calm (Printed m)"
  by (simp_all add: calm_def)

lemma ev_cpld_rd [ev_rules]: "(\<And>v. P (CpldRd r v)) \<Longrightarrow> ev_only P (cpld_rd E r)"
  unfolding cpld_rd_def by (intro ev_rules) simp

lemma ev_cpld_wr [ev_rules]: "P (CpldWr r v) \<Longrightarrow> ev_only P (cpld_wr r v)"
  unfolding cpld_wr_def by (intro ev_rules)

lemma attr_show_ev: "attr_show E name = Some sh \<Longrightarrow> (\<And>r v. P (CpldRd r v)) \<Longrightarrow> ev_only P sh"
  by (auto simp: attr_show_def pwm1_show_def psu_pwr1_present_show_def psu_pwr1_all_ok_show_def
      psu_pwr2_present_show_def psu_pwr2_all_ok_show_def system_fan_ok_show_def system_fan_present_show_def
      system_fan_air_flow_show_def led_diag_show_def led_psu1_show_def led_psu2_show_def led_fan_show_def
      led_psu_show_def show_clear_def show_set_def Let_def split: if_splits intro!: ev_rules)

lemma attr_store_calm:
  "attr_store E name = Some st \<Longrightarrow> name \<noteq> ''pwm1'' \<Longrightarrow> name \<noteq> ''watch_dog_keep_alive'' \<Longrightarrow> ev_only calm (st val)"
  by (auto simp: attr_store_def led_diag_store_def led_psu1_store_def led_psu2_store_def led_fan_store_def
      led_psu_store_def Let_def split: if_splits intro!: ev_rules)

lemma read_text_calm [ev_rules]: "ev_only calm (read_text E (Cpld_attr name))"
  by (auto simp: read_text_def Let_def intro!: ev_rules elim!: attr_show_ev split: if_splits)

lemma sysfs_read_int_calm [ev_rules]: "ev_only calm (sysfs_read_int E (Cpld_attr name))"
  unfolding sysfs_read_int_def by (intro ev_rules)

lemma sysfs_write_str_calm:
  "name \<noteq> ''pwm1'' \<Longrightarrow> name \<noteq> ''watch_dog_keep_alive'' \<Longrightarrow> ev_only calm (sysfs_write_str E (Cpld_attr name) val)"
  by (auto simp: sysfs_write_str_def Let_def intro!: ev_rules elim!: attr_store_calm split: if_splits)

lemma cpld_check_psu_calm: "ev_only calm (cpld_check_psu E)"
  unfolding cpld_check_psu_def check_one_psu_def Let_def
  by (intro ev_rules sysfs_write_str_calm) simp_all

lemma cpld_check_fans_calm: "ev_only calm (cpld_check_fans E)"
  unfolding cpld_check_fans_def log_airflow_def Let_def
  by (intro ev_rules sysfs_write_str_calm) simp_all

lemma sfp_scan_all_calm: "ev_only calm (sfp_scan_all E)"
  unfolding sfp_scan_all_def sfp_scan_port_def sfp_read_sysfs_def sfp_read_i2c_def sfp_print_eeprom_def
    fs_open_def read_bytes_def Let_def
  by (intro ev_rules) simp_all

lemma after_fans_calm:
  "ev_only calm (do { cpld_check_psu E; cpld_check_fans E; sfp_scan_all E })"
  by (intro ev_bind cpld_check_psu_calm cpld_check_fans_calm sfp_scan_all_calm)

lemma read_sensor_quiet [ev_rules]: "ev_only quiet (read_sensor E base i mx)"
  unfolding read_sensor_def sysfs_read_int_def read_text_def Let_def
  by (auto intro!: ev_rules)

lemma thermal_read_max_quiet: "ev_only quiet (thermal_read_max E)"
  unfolding thermal_read_max_def read_hwmon_def Let_def
  by (intro ev_rules) simp_all

section \<open>The hottest sensor\<close>

fun readings :: "plat_event list \<Rightarrow> int list" where
  "readings [] = []"
| "readings (FsText p t # h) = (case scan_long t of None \<Rightarrow> readings h | Some v \<Rightarrow> v # readings h)"
| "readings (_ # h) = readings h"

text \<open>The highest temperature among the numbers read, -1 when there is none.\<close>

definition hottest :: "plat_event list \<Rightarrow> int" where
  "hottest h = foldr max (readings h) (-1)"

lemma hottest_simps [simp]:
  "hottest [] = -1" "hottest (FsOpen p b # h) = hottest h" "hottest (FsDir d ds # h) = hottest h"
  "hottest (CpldWr r v # h) = hottest h" "hottest (Printed m # h) = hottest h"
  "hottest (FsText p t # h) = (case scan_long t of None \<Rightarrow> hottest h | Some v \<Rightarrow> max v (hottest h))"
  by (simp_all add: hottest_def split: option.splits)

lemma hottest_ge: "-1 \<le> hottest h"
proof -
  have "-1 \<le> foldr max xs (-1 :: int)" for xs by (induction xs) (auto simp: le_max_iff_disj)
  then show ?thesis by (simp add: hottest_def)
qed

lemma readings_append: "readings (a @ b) = readings a @ readings b"
  by (induction a rule: readings.induct) (auto split: option.splits)

lemma hottest_append: "hottest (a @ b) = max (hottest a) (hottest b)"
proof -
  have "foldr max xs m = max (foldr max xs (-1)) m" if "-1 \<le> m" for xs and m :: int
    using that by (induction xs) auto
  from this[OF hottest_ge[of b], of "readings a"] show ?thesis
    by (simp only: hottest_def readings_append foldr_append)
qed

lemma hottest_calm: "list_all calm evs \<Longrightarrow> hottest evs = -1"
  unfolding hottest_def by (induction evs rule: readings.induct) (auto simp: calm_def)

text \<open>A loop body that keeps the highest value it has seen.\<close>

definition keeps_max :: "(int \<Rightarrow> ('z plat_scheme, int) state) \<Rightarrow> bool" where
  "keeps_max f \<longleftrightarrow> (\<forall>a s. -1 \<le> a \<longrightarrow>
     (\<exists>evs. hist (exec (f a) s) = evs @ hist s \<and> result (f a) s = max a (hottest evs)))"

lemma keeps_maxD:
  "keeps_max f \<Longrightarrow> -1 \<le> a \<Longrightarrow>
   \<exists>evs. hist (exec (f a) s) = evs @ hist s \<and> result (f a) s = max a (hottest evs)"
  by (simp add: keeps_max_def)

lemma keeps_max_fold:
  fixes f :: "'i \<Rightarrow> int \<Rightarrow> ('z plat_scheme, int) state"
  assumes "\<And>i. keeps_max (f i)"
  shows "keeps_max (fold_st f is)"
proof (induction "is")
  case Nil
  show ?case by (auto simp: keeps_max_def)
next
  case (Cons i "is")
  show ?case unfolding keeps_max_def
  proof (intro allI impI)
    fix a :: int and s :: "'z plat_scheme"
    assume a: "-1 \<le> a"
    obtain e1 where 1: "hist (exec (f i a) s) = e1 @ hist s" "result (f i a) s = max a (hottest e1)"
      using assms a unfolding keeps_max_def by blast
    then have "-1 \<le> result (f i a) s" using a by simp
    then obtain e2 where 2: "hist (exec (fold_st f is (result (f i a) s)) (exec (f i a) s)) = e2 @ hist (exec (f i a) s)"
        "result (fold_st f is (result (f i a) s)) (exec (f i a) s) = max (result (f i a) s) (hottest e2)"
      using Cons unfolding keeps_max_def by blast
    show "\<exists>evs. hist (exec (fold_st f (i # is) a) s) = evs @ hist s \<and>
        result (fold_st f (i # is) a) s = max a (hottest evs)"
      by (rule exI[of _ "e2 @ e1"])
        (use 1 2 in \<open>simp add: exec_bind result_bind hottest_append max.assoc max.commute max.left_commute
           del: run_state_bind\<close>)
  qed
qed

lemma sysfs_read_int_file:
  "\<exists>evs. hist (exec (sysfs_read_int E (Fs p)) s) = evs @ hist s \<and>
     hottest evs = (case result (sysfs_read_int E (Fs p)) s of None \<Rightarrow> -1 | Some v \<Rightarrow> max v (-1))"
proof (cases "open_answer E (hist s) (Fs p)")
  case True
  define t where "t = text_answer E (FsOpen (Fs p) True # hist s) p"
  have r: "run_state (sysfs_read_int E (Fs p)) s =
      (scan_long t, s\<lparr>hist := FsText (Fs p) t # FsOpen (Fs p) True # hist s\<rparr>)"
    using True by (simp add: sysfs_read_int_def read_text_def Let_def t_def)
  show ?thesis
    by (rule exI[of _ "[FsText (Fs p) t, FsOpen (Fs p) True]"]) (simp add: r split: option.splits)
next
  case False
  then have r: "run_state (sysfs_read_int E (Fs p)) s = (None, s\<lparr>hist := FsOpen (Fs p) False # hist s\<rparr>)"
    by (simp add: sysfs_read_int_def read_text_def Let_def)
  show ?thesis by (rule exI[of _ "[FsOpen (Fs p) False]"]) (simp add: r)
qed

lemma keeps_max_sensor: "keeps_max (read_sensor E base i)"
  unfolding keeps_max_def
proof (intro allI impI)
  fix a :: int and s :: "'a plat_scheme"
  assume a: "-1 \<le> a"
  define m :: "('a plat_scheme, int option) state" where
    "m = sysfs_read_int E (Fs (snprintf_buf 320 (base @ ''/temp'' @ dec_int i @ ''_input'')))"
  obtain evs where evs: "hist (exec m s) = evs @ hist s"
      "hottest evs = (case result m s of None \<Rightarrow> -1 | Some v \<Rightarrow> max v (-1))"
    using sysfs_read_int_file unfolding m_def by blast
  have "exec (read_sensor E base i a) s = exec m s"
      "result (read_sensor E base i a) s = (case result m s of None \<Rightarrow> a | Some v \<Rightarrow> if v > a then v else a)"
    unfolding read_sensor_def m_def[symmetric] by (simp_all add: split_beta)
  then show "\<exists>evs. hist (exec (read_sensor E base i a) s) = evs @ hist s \<and>
      result (read_sensor E base i a) s = max a (hottest evs)"
    using evs a by (intro exI[of _ evs]) (auto split: option.splits)
qed

lemma keeps_max_hwmon: "keeps_max (read_hwmon E d)"
proof (cases "take 1 d = ''.''")
  case True
  then show ?thesis by (auto simp: keeps_max_def read_hwmon_def)
next
  case False
  show ?thesis unfolding keeps_max_def
  proof (intro allI impI)
    fix a :: int and s :: "'a plat_scheme"
    assume "-1 \<le> a"
    then show "\<exists>evs. hist (exec (read_hwmon E d a) s) = evs @ hist s \<and>
        result (read_hwmon E d a) s = max a (hottest evs)"
      using keeps_maxD[OF keeps_max_fold[where f = "read_sensor E (snprintf_buf 256 (HWMON_BASE @ ''/'' @ d))",
            OF keeps_max_sensor], of a "[1..10]" s] False
      by (simp only: read_hwmon_def if_False)
  qed
qed

lemma thermal_read_max_hottest:
  "\<exists>evs. hist (exec (thermal_read_max E) s) = evs @ hist s \<and> result (thermal_read_max E) s = hottest evs"
proof (cases "open_answer E (hist s) (Fs HWMON_BASE)")
  case True
  define h where "h = FsOpen (Fs HWMON_BASE) True # hist s"
  define s' where "s' = s\<lparr>hist := FsDir HWMON_BASE (dir_answer E h HWMON_BASE) # h\<rparr>"
  have r: "run_state (thermal_read_max E) s = run_state (fold_st (read_hwmon E) (dir_answer E h HWMON_BASE) (-1)) s'"
    using True by (simp add: thermal_read_max_def h_def s'_def Let_def)
  obtain evs where "hist (exec (thermal_read_max E) s) = evs @ hist s'" "result (thermal_read_max E) s = max (-1) (hottest evs)"
    using keeps_maxD[OF keeps_max_fold[where f = "read_hwmon E", OF keeps_max_hwmon], of "-1" _ s'] unfolding r by auto
  then show ?thesis
    by (intro exI[of _ "evs @ [FsDir HWMON_BASE (dir_answer E h HWMON_BASE), FsOpen (Fs HWMON_BASE) True]"])
      (simp add: s'_def h_def hottest_append hottest_ge)
qed (auto simp: thermal_read_max_def Let_def)

section \<open>From temperature files to the fan register\<close>

text \<open>What the fan register should hold when the hottest reading is \<open>mc\<close> millidegrees.\<close>

definition fan_policy :: "int \<Rightarrow> u8" where
  "fan_policy mc = (if mc < 0 then 31 else if mc < 35000 then 12 else if mc < 45000 then 21 else 31)"

lemma fan_policy_mono: "0 \<le> a \<Longrightarrow> a \<le> b \<Longrightarrow> fan_policy a \<le> fan_policy b"
  by (simp add: fan_policy_def)

lemma fan_policy_fail_safe: "mc < 0 \<Longrightarrow> fan_policy mc = 31" "12 \<le> fan_policy mc"
  by (simp_all add: fan_policy_def)

lemma dec_pwm: "dec_int 96 = ''96''" "dec_int 168 = ''168''" "dec_int 248 = ''248''"
  by code_simp+

lemma pwm_text:
  "v \<in> {96, 168, 248} \<Longrightarrow> snprintf_buf 32 (dec_int v) = dec_int v \<and> long_range v"
  by (auto simp: dec_pwm snprintf_buf_def long_range_def LONG_MAX_def)

lemma cpld_set_fan_pwm_effect:
  assumes "kernel_lib_ok E" and "\<And>h. open_answer E h (Cpld_attr ''pwm1'')" and "attr_group s"
    and "v \<in> {96, 168, 248}"
  shows "exec (cpld_set_fan_pwm E v) s = s\<lparr>hist :=
    CpldWr CPLD_REG_FAN_SPEED (word_of_int (pwm_raw v)) # FsOpen (Cpld_attr ''pwm1'') True # hist s\<rparr>"
proof -
  define s1 where "s1 = s\<lparr>hist := FsOpen (Cpld_attr ''pwm1'') True # hist s\<rparr>"
  have "exec (cpld_set_fan_pwm E v) s = exec (pwm1_store E (dec_int v)) s1"
    using assms pwm_text[OF assms(4)]
    by (simp add: cpld_set_fan_pwm_def sysfs_write_int_def sysfs_write_str_def Let_def attr_store_def s1_def split_beta)
  then show ?thesis
    using pwm1_store_effect[OF assms(1), of v "[]" s1] pwm_text[OF assms(4)] by (simp add: s1_def)
qed

lemma pwm_raws:
  "pwm_raw 96 = 12" "pwm_raw 168 = 21" "pwm_raw 248 = 31"
  by (simp_all add: pwm_raw_def clamp_val_def FAN_PWM_MAX_def FAN_PWM_SCALE_def)

lemmas pwm_consts = PWM_LOW_def PWM_MED_def PWM_HIGH_def PWM_MAX_def
  TEMP_LOW_MC_def TEMP_MED_MC_def TEMP_HIGH_MC_def

lemma thermal_manage_fans_effect:
  assumes "kernel_lib_ok E" and "\<And>h. open_answer E h (Cpld_attr ''pwm1'')" and "attr_group s"
  shows "\<exists>evs. exec (thermal_manage_fans E mc) s =
    s\<lparr>hist := CpldWr CPLD_REG_FAN_SPEED (fan_policy mc) # evs @ hist s\<rparr> \<and> list_all calm evs"
proof -
  define evs where "evs = FsOpen (Cpld_attr ''pwm1'') True # (if mc < 55000 then [] else [Printed (High_temp mc)])"
  have "exec (thermal_manage_fans E mc) s = s\<lparr>hist := CpldWr CPLD_REG_FAN_SPEED (fan_policy mc) # evs @ hist s\<rparr>"
    using assms
    by (simp add: thermal_manage_fans_def exec_bind result_bind cpld_set_fan_pwm_effect pwm_raws pwm_consts fan_policy_def evs_def
        del: run_state_bind)
  then show ?thesis by (intro exI[of _ evs]) (simp add: evs_def)
qed

lemma cpld_content_append:
  "list_all quiet evs \<Longrightarrow> cpld_content boot (evs @ h) CPLD_REG_FAN_SPEED = cpld_content boot h CPLD_REG_FAN_SPEED"
  by (induction evs) (auto simp: quiet_def CPLD_REG_LED_def CPLD_REG_FAN_SPEED_def split: plat_event.splits)

lemma quiet_calm: "list_all calm evs \<Longrightarrow> list_all quiet evs"
  by (auto simp: list_all_iff calm_def)

definition demo_plat :: plat where
  "demo_plat = \<lparr>hist = [], attr_group = True, airflow_logged = False\<rparr>"

text \<open>C25. From the temperature files to the fan: while the CPLD driver is bound, one poll of the
  daemon leaves in the CPLD's fan register the speed for the highest temperature among all the
  numbers it read in that poll - 12, 21 or 31 of 31 below 35, below 45 and from 45 degrees on,
  and 31 when no sensor gave a temperature of at least zero.\<close>

theorem mgrd_poll_fan_speed:
  assumes "kernel_lib_ok E" and "\<And>h. open_answer E h (Cpld_attr ''pwm1'')" and "attr_group s"
  shows "\<exists>evs. hist (exec (mgrd_poll E) s) = evs @ hist s \<and>
    cpld_content boot (evs @ hist s) CPLD_REG_FAN_SPEED = fan_policy (hottest evs)"
proof -
  define mc where "mc = result (thermal_read_max E) s"
  define s1 where "s1 = exec (thermal_read_max E) s"
  define s2 where "s2 = exec (if mc \<ge> 0 then happened (Printed (Max_temp mc)) else return ()) s1"
  define s3 where "s3 = exec (thermal_manage_fans E mc) s2"
  define tl :: "('a plat_scheme, unit) state" where
    "tl = do { cpld_check_psu E; cpld_check_fans E; sfp_scan_all E }"
  have run: "exec (mgrd_poll E) s = exec tl s3"
    unfolding mgrd_poll_def s3_def s2_def s1_def mc_def tl_def by (simp only: exec_bind result_bind)
  obtain e1 where e1: "hist s1 = e1 @ hist s" "mc = hottest e1"
    using thermal_read_max_hottest unfolding s1_def mc_def by blast
  have g1: "attr_group s1"
    using thermal_read_max_quiet assms(3) unfolding s1_def by (metis ev_onlyE)
  obtain e2 where e2: "s2 = s1\<lparr>hist := e2 @ hist s1\<rparr>" "list_all calm e2"
  proof (cases "mc \<ge> 0")
    case True
    then show ?thesis using that[of "[Printed (Max_temp mc)]"] by (simp add: s2_def)
  qed (use that[of "[]"] in \<open>simp add: s2_def\<close>)
  have "attr_group s2" using g1 e2 by simp
  then obtain e3 where e3: "s3 = s2\<lparr>hist := CpldWr CPLD_REG_FAN_SPEED (fan_policy mc) # e3 @ hist s2\<rparr>" "list_all calm e3"
    using thermal_manage_fans_effect[OF assms(1,2)] unfolding s3_def by blast
  obtain e4 where e4: "hist (exec tl s3) = e4 @ hist s3" "list_all calm e4"
    using after_fans_calm unfolding tl_def by (rule ev_onlyE)
  define evs where "evs = e4 @ CpldWr CPLD_REG_FAN_SPEED (fan_policy mc) # e3 @ e2 @ e1"
  have "hist (exec (mgrd_poll E) s) = evs @ hist s"
    unfolding run using e1 e2 e3 e4 by (simp add: evs_def)
  moreover have "hottest evs = hottest e1"
    using hottest_calm[OF e4(2)] hottest_calm[OF e3(2)] hottest_calm[OF e2(2)] hottest_ge[of e1]
    by (simp add: evs_def hottest_append)
  moreover have "cpld_content boot (evs @ hist s) CPLD_REG_FAN_SPEED = fan_policy mc"
    using cpld_content_append[OF quiet_calm[OF e4(2)]] by (simp add: evs_def)
  ultimately show ?thesis using e1(2) by auto
qed

theorem mgrd_poll_fan_speed_witness:
  "\<exists>evs. hist (exec (mgrd_poll demo_plat_env) demo_plat) = evs @ [] \<and>
    cpld_content (\<lambda>_. 0xFF) (evs @ []) CPLD_REG_FAN_SPEED = fan_policy (hottest evs)"
  using mgrd_poll_fan_speed[OF demo_plat_env_ok(1), of demo_plat "\<lambda>_. 0xFF"]
  by (simp add: demo_plat_env_def demo_plat_def)

section \<open>The watchdog is fed\<close>

definition keepalives :: "plat_event list \<Rightarrow> nat" where
  "keepalives h = length (filter (\<lambda>e. e = CpldWr 0x06 0x01) h)"

fun slept :: "plat_event list \<Rightarrow> nat" where
  "slept [] = 0"
| "slept (Slept n # h) = n + slept h"
| "slept (_ # h) = slept h"

definition untimed :: "plat_event \<Rightarrow> bool" where
  "untimed e \<longleftrightarrow> (case e of CpldWr r v \<Rightarrow> r \<noteq> 0x06 | Slept _ \<Rightarrow> False | _ \<Rightarrow> True)"

lemma untimed_append:
  "list_all untimed evs \<Longrightarrow> keepalives (evs @ h) = keepalives h \<and> slept (evs @ h) = slept h"
  by (induction evs) (auto simp: keepalives_def untimed_def split: plat_event.splits)

lemma untimed_quiet: "quiet e \<Longrightarrow> untimed e"
  by (auto simp: quiet_def untimed_def CPLD_REG_LED_def split: plat_event.splits)

lemma untimed_calm: "calm e \<Longrightarrow> untimed e"
  by (simp add: calm_def untimed_quiet)

lemma pwm1_store_untimed: "ev_only untimed (pwm1_store E buf)"
  unfolding pwm1_store_def Let_def
  by (intro ev_rules) (simp_all add: untimed_def CPLD_REG_FAN_SPEED_def)

lemma cpld_set_fan_pwm_untimed: "ev_only untimed (cpld_set_fan_pwm E v)"
  using pwm1_store_untimed
  by (auto simp: cpld_set_fan_pwm_def sysfs_write_int_def sysfs_write_str_def attr_store_def untimed_def
      intro!: ev_rules split: if_splits)

lemma mgrd_poll_untimed: "ev_only untimed (mgrd_poll E)"
  unfolding mgrd_poll_def thermal_manage_fans_def
  by (intro ev_rules cpld_set_fan_pwm_untimed)
    (auto intro: ev_mono[OF thermal_read_max_quiet untimed_quiet] ev_mono[OF cpld_check_psu_calm untimed_calm]
      ev_mono[OF cpld_check_fans_calm untimed_calm] ev_mono[OF sfp_scan_all_calm untimed_calm] simp: untimed_def)

lemma keepalive_effect:
  assumes "attr_group s" and "open_answer E (hist s) (Cpld_attr ''watch_dog_keep_alive'')"
  shows "exec (cpld_watchdog_keepalive E) s =
    s\<lparr>hist := CpldWr 0x06 0x01 # FsOpen (Cpld_attr ''watch_dog_keep_alive'') True # hist s\<rparr>"
  using assms by (simp add: cpld_watchdog_keepalive_def sysfs_write_str_def attr_store_def
      watch_dog_keep_alive_store_def Let_def)

lemma mgrd_tick_timing:
  assumes "\<And>h. open_answer E h (Cpld_attr ''watch_dog_keep_alive'')" and "attr_group s"
  shows "keepalives (hist (exec (mgrd_tick E n) s)) = keepalives (hist s) + (if n mod 15 = 0 then 1 else 0) \<and>
    slept (hist (exec (mgrd_tick E n) s)) = slept (hist s) + 1 \<and> attr_group (exec (mgrd_tick E n) s)"
proof -
  define s1 where "s1 = exec (if n mod 15 = 0 then cpld_watchdog_keepalive E else return ()) s"
  define s2 where "s2 = exec (if n mod 30 = 0 then mgrd_poll E else return ()) s1"
  have run: "exec (mgrd_tick E n) s = s2\<lparr>hist := Slept 1 # hist s2\<rparr>"
    unfolding mgrd_tick_def s2_def s1_def WDT_KEEPALIVE_S_def POLL_INTERVAL_S_def
    by (simp only: exec_bind result_bind) simp
  have s1: "keepalives (hist s1) = keepalives (hist s) + (if n mod 15 = 0 then 1 else 0)"
      "slept (hist s1) = slept (hist s)" "attr_group s1"
    using assms by (simp_all add: s1_def keepalive_effect keepalives_def)
  have "ev_only untimed (if n mod 30 = 0 then mgrd_poll E else return ())"
    by (intro ev_if ev_return mgrd_poll_untimed)
  from ev_onlyE[OF this, where s = s1] obtain evs where
    "hist s2 = evs @ hist s1" "list_all untimed evs" "attr_group s2 = attr_group s1"
    unfolding s2_def by blast
  then show ?thesis using s1 untimed_append[of evs "hist s1"] by (simp add: run keepalives_def)
qed

lemma ceil15_Suc: "(Suc n + 14) div 15 = (n + 14) div 15 + (if n mod 15 = 0 then 1 else 0)" for n :: nat
proof -
  define q r where "q = n div 15" and "r = n mod 15"
  then have n: "n = 15 * q + r" "r < 15" by simp_all
  have "(Suc n + 14) div 15 = Suc q" using n by (intro div_nat_eqI) auto
  moreover have "(n + 14) div 15 = (if r = 0 then q else Suc q)"
    using n by (intro div_nat_eqI) auto
  ultimately show ?thesis by (simp add: r_def)
qed



section \<open>Printed EEPROM fields\<close>

text \<open>Trimming leaves the length, removes the blanks and NULs at the end, and nothing else.\<close>

definition is_blank :: "u8 \<Rightarrow> bool" where
  "is_blank b \<longleftrightarrow> b = 32 \<or> b = 0"

lemma trim_from_append:
  "i = length xs \<Longrightarrow> trim_from (xs @ ys) i =
     (let k = length (dropWhile is_blank (rev xs)) in take k xs @ replicate (length xs - k) 0 @ ys)"
proof (induction xs arbitrary: ys i rule: rev_induct)
  case (snoc x xs)
  show ?case
  proof (cases "is_blank x")
    case True
    define k where "k = length (dropWhile is_blank (rev xs))"
    have k: "k \<le> length xs" unfolding k_def by (metis length_dropWhile_le length_rev)
    have "trim_from ((xs @ [x]) @ ys) (Suc (length xs)) = trim_from (xs @ 0 # ys) (length xs)"
      using True by (simp add: is_blank_def nth_append list_update_append)
    also have "\<dots> = take k xs @ replicate (length xs - k) 0 @ 0 # ys"
      using snoc.IH[of "length xs" "0 # ys"] by (simp add: k_def Let_def)
    also have "\<dots> = take k (xs @ [x]) @ replicate (Suc (length xs) - k) 0 @ ys"
      using k by (simp add: Suc_diff_le replicate_append_same[symmetric])
    finally show ?thesis using True snoc.prems by (simp add: k_def Let_def)
  next
    case False
    then show ?thesis using snoc.prems by (simp add: is_blank_def nth_append)
  qed
qed simp

lemma trim_trailing_spec:
  "\<exists>bs. s = take (length s - length bs) s @ bs \<and> list_all is_blank bs \<and>
     trim_trailing s = take (length s - length bs) s @ replicate (length bs) 0 \<and>
     (length bs < length s \<longrightarrow> \<not> is_blank (s ! (length s - length bs - 1)))"
proof -
  define bs where "bs = rev (takeWhile is_blank (rev s))"
  define k where "k = length (dropWhile is_blank (rev s))"
  have l: "k = length s - length bs"
    unfolding k_def bs_def using takeWhile_dropWhile_id[of is_blank "rev s"]
    by (metis add_diff_cancel_left' length_append length_rev)
  have s: "s = rev (dropWhile is_blank (rev s)) @ bs"
    unfolding bs_def by (metis rev_append rev_rev_ident takeWhile_dropWhile_id)
  then have t: "take k s = rev (dropWhile is_blank (rev s))"
    unfolding k_def by (metis append_eq_conv_conj length_rev)
  have "list_all is_blank bs" unfolding bs_def by (auto simp: list_all_iff dest: set_takeWhileD)
  moreover have "trim_trailing s = take k s @ replicate (length s - k) 0"
    using trim_from_append[of "length s" s "[]"] by (simp add: trim_trailing_def k_def Let_def)
  moreover have "length s - k = length bs" using s by (metis k_def add_diff_cancel_left' length_append length_rev)
  moreover have "\<not> is_blank (s ! (k - 1))" if "0 < k"
  proof -
    have ne: "dropWhile is_blank (rev s) \<noteq> []" using that unfolding k_def by auto
    have "s ! (k - 1) = rev (dropWhile is_blank (rev s)) ! (k - 1)"
      using s that by (metis k_def diff_less length_rev nth_append zero_less_one)
    also have "\<dots> = hd (dropWhile is_blank (rev s))"
      using ne that by (simp add: rev_nth k_def hd_conv_nth)
    finally show ?thesis using hd_dropWhile[OF ne] by simp
  qed
  ultimately show ?thesis using l s t by (intro exI[of _ bs]) simp
qed

end
