(* ===== verification/Miim.thy ===== *)
theory Miim
  imports Device_Model
begin

text \<open>
  \<^verbatim>\<open>sdk/src/serdes.c\<close>, first part, and \<^verbatim>\<open>sdk/src/i2c.c\<close>: MDIO access through the CMIC (MIIM),
  the WARPcore register access on top of it (AER), the maps from ports to PHYs, and the I2C
  helper for the retimers.
\<close>

section \<open>Registers\<close>

definition CMIC_MIIM_CTRL :: u32 where "CMIC_MIIM_CTRL = 0x50"
definition CMIC_MIIM_PARAM :: u32 where "CMIC_MIIM_PARAM = 0x158"
definition CMIC_MIIM_ADDRESS :: u32 where "CMIC_MIIM_ADDRESS = 0x4a0"
definition CMIC_MIIM_READ_DATA :: u32 where "CMIC_MIIM_READ_DATA = 0x15c"
definition CMIC_MIIM_INT_SEL_MAP :: u32 where "CMIC_MIIM_INT_SEL_MAP = 0x1bc"
definition CMIC_MIIM_EXT_SEL_MAP :: u32 where "CMIC_MIIM_EXT_SEL_MAP = 0x1b8"

lemmas miim_regs = CMIC_MIIM_CTRL_def CMIC_MIIM_PARAM_def CMIC_MIIM_ADDRESS_def CMIC_MIIM_READ_DATA_def

abbreviation (input) "CMIC_MIIM_CTRL_DONE \<equiv> (push_bit 18 1 :: u32)"
abbreviation (input) "MIIM_POLL_MAX \<equiv> (2000::nat)"
abbreviation (input) "WC_REG_AER_BLK \<equiv> (0x1f::u32)"
abbreviation (input) "WC_REG_AER_LANE \<equiv> (0x1e::u32)"
abbreviation (input) "WC_AER_BROADCAST \<equiv> (0xffd0::u16)"

definition MIIM_PARAM_INTERNAL :: u32 where "MIIM_PARAM_INTERNAL = push_bit 25 1"
definition MIIM_PARAM_BUS_ID :: "int \<Rightarrow> u32" where
  "MIIM_PARAM_BUS_ID b = push_bit 22 (word_of_int b AND 7)"
definition MIIM_PARAM_PHY :: "int \<Rightarrow> u32" where
  "MIIM_PARAM_PHY pa = push_bit 16 (word_of_int pa AND 31)"
definition MIIM_PARAM_DATA :: "u16 \<Rightarrow> u32" where
  "MIIM_PARAM_DATA d = ucast d AND 0xffff"

section \<open>MIIM\<close>

text \<open>The poll loops: at most 2000 reads of the control register; the result tells whether
  DONE was seen.\<close>

fun miim_poll :: "env \<Rightarrow> nat \<Rightarrow> u32 \<Rightarrow> ('z bde_state_scheme, bool) state" where
  "miim_poll E 0 ctrl = return False"
| "miim_poll E (Suc n) ctrl = do {
     (_, ctrl) \<leftarrow> bde_read_reg E CMIC_MIIM_CTRL ctrl;
     if ctrl AND CMIC_MIIM_CTRL_DONE \<noteq> 0 then return True else miim_poll E n ctrl
   }"

definition miim_write :: "env \<Rightarrow> int \<Rightarrow> int \<Rightarrow> u32 \<Rightarrow> u16 \<Rightarrow> ('z bde_state_scheme, int) state" where
  "miim_write E phy_addr bus_id reg data = do {
     ctrl \<leftarrow> indeterminate E;
     bde_write_reg E CMIC_MIIM_CTRL 17;
     bde_write_reg E CMIC_MIIM_CTRL 18;
     bde_write_reg E CMIC_MIIM_ADDRESS (reg AND 0x1f);
     let param = MIIM_PARAM_INTERNAL OR MIIM_PARAM_BUS_ID bus_id OR MIIM_PARAM_PHY phy_addr OR MIIM_PARAM_DATA data;
     bde_write_reg E CMIC_MIIM_PARAM param;
     bde_write_reg E CMIC_MIIM_CTRL 0x91;
     done \<leftarrow> miim_poll E MIIM_POLL_MAX ctrl;
     if done then do { bde_write_reg E CMIC_MIIM_CTRL 18; return 0 }
     else do { bde_write_reg E CMIC_MIIM_CTRL 17; return (- EIO) }
   }"

definition miim_read :: "env \<Rightarrow> int \<Rightarrow> int \<Rightarrow> u32 \<Rightarrow> u16 \<Rightarrow> ('z bde_state_scheme, int \<times> u16) state" where
  "miim_read E phy_addr bus_id reg data = do {
     ctrl \<leftarrow> indeterminate E;
     val \<leftarrow> indeterminate E;
     bde_write_reg E CMIC_MIIM_CTRL 16;
     bde_write_reg E CMIC_MIIM_CTRL 18;
     bde_write_reg E CMIC_MIIM_ADDRESS (reg AND 0x1f);
     let param = MIIM_PARAM_INTERNAL OR MIIM_PARAM_BUS_ID bus_id OR MIIM_PARAM_PHY phy_addr;
     bde_write_reg E CMIC_MIIM_PARAM param;
     bde_write_reg E CMIC_MIIM_CTRL 0x90;
     done \<leftarrow> miim_poll E MIIM_POLL_MAX ctrl;
     if done then do {
       (_, val) \<leftarrow> bde_read_reg E CMIC_MIIM_READ_DATA val;
       bde_write_reg E CMIC_MIIM_CTRL 18;
       return (0, ucast (val AND 0xffff))
     } else do { bde_write_reg E CMIC_MIIM_CTRL 16; return (- EIO, data) }
   }"

section \<open>WARPcore registers\<close>

definition wc_read :: "env \<Rightarrow> int \<Rightarrow> int \<Rightarrow> int \<Rightarrow> u16 \<Rightarrow> u16 \<Rightarrow> ('z bde_state_scheme, int \<times> u16) state" where
  "wc_read E phy lane bus addr val = do {
     let block = addr AND 0xFFF0;
     let off = (ucast (addr AND 0xF) :: u32);
     rc \<leftarrow> miim_write E phy bus WC_REG_AER_BLK WC_AER_BROADCAST;
     if rc \<noteq> 0 then return (- EIO, val)
     else do {
       rc \<leftarrow> miim_write E phy bus WC_REG_AER_LANE (word_of_int lane AND 0x3);
       if rc \<noteq> 0 then return (- EIO, val)
       else do {
         rc \<leftarrow> miim_write E phy bus WC_REG_AER_BLK block;
         if rc \<noteq> 0 then return (- EIO, val)
         else miim_read E phy bus (0x10 + off) val
       }
     }
   }"

definition wc_write :: "env \<Rightarrow> int \<Rightarrow> int \<Rightarrow> int \<Rightarrow> u16 \<Rightarrow> u16 \<Rightarrow> ('z bde_state_scheme, int) state" where
  "wc_write E phy lane bus addr val = do {
     let block = addr AND 0xFFF0;
     let off = (ucast (addr AND 0xF) :: u32);
     rc \<leftarrow> miim_write E phy bus WC_REG_AER_BLK WC_AER_BROADCAST;
     if rc \<noteq> 0 then return (- EIO)
     else do {
       rc \<leftarrow> miim_write E phy bus WC_REG_AER_LANE (word_of_int lane AND 0x3);
       if rc \<noteq> 0 then return (- EIO)
       else do {
         rc \<leftarrow> miim_write E phy bus WC_REG_AER_BLK block;
         if rc \<noteq> 0 then return (- EIO)
         else miim_write E phy bus (0x10 + off) val
       }
     }
   }"

definition wc_cl45_read :: "env \<Rightarrow> int \<Rightarrow> int \<Rightarrow> int \<Rightarrow> u16 \<Rightarrow> u16 \<Rightarrow> ('z bde_state_scheme, int \<times> u16) state" where
  "wc_cl45_read E phy bus devad reg val = do {
     miim_write E phy bus WC_REG_AER_BLK WC_AER_BROADCAST;
     miim_write E phy bus WC_REG_AER_LANE 0;
     miim_write E phy bus WC_REG_AER_BLK 0x0000;
     miim_write E phy bus 13 (word_of_int devad AND 0x1f);
     miim_write E phy bus 14 reg;
     miim_write E phy bus 13 (0x4000 OR (word_of_int devad AND 0x1f));
     miim_read E phy bus 14 val
   }"

section \<open>Maps of the ports\<close>

definition port_to_xlport_base :: "int \<Rightarrow> u32" where
  "port_to_xlport_base port =
     (if port = 49 then 0x40600000 else if port = 50 then 0x40500000
      else if port = 51 then 0x40900000 else if port = 52 then 0x40800000 else 0)"

definition phy_map_0 :: "int list" where "phy_map_0 = [1, 5, 9, 13, 17, 21, 31]"
definition phy_map_2 :: "int list" where "phy_map_2 = [1, 9, 13, 17, 21, 31]"

text \<open>The PHY address, the bus and the lane of a port; \<open>None\<close> is the result \<open>-EINVAL\<close>.\<close>

definition port_to_phy_bus :: "int \<Rightarrow> (int \<times> int \<times> int) option" where
  "port_to_phy_bus port =
     (if port = 49 then Some (13, 1, 0)
      else if port = 50 then Some (17, 1, 0)
      else if port = 51 then Some (31, 1, 0)
      else if port = 52 then Some (31, 1, 1)
      else if port \<ge> 1 \<and> port \<le> 48 then
        (let xe = port - 1; block = xe div 4; lane = xe mod 4 in
         if block < 7 then Some (phy_map_0 ! nat block, 0, lane)
         else (let idx = block - 7 in
           if idx \<ge> 6 then None else Some (phy_map_2 ! nat idx, 2, lane)))
      else None)"

definition port_to_retimer_bus :: "int \<Rightarrow> int" where
  "port_to_retimer_bus port =
     (if port = 49 then 10 else if port = 50 then 11 else if port = 51 then 12
      else if port = 52 then 13 else - 1)"

section \<open>I2C and the retimers\<close>

definition i2c_read_reg :: "env \<Rightarrow> int \<Rightarrow> int \<Rightarrow> int \<Rightarrow> int \<Rightarrow> ('z io_scheme, int \<times> int) state" where
  "i2c_read_reg E bus addr reg val = do {
     fd \<leftarrow> os E sys_open [bus];
     if fd < 0 then return (- 1, val)
     else do {
       r \<leftarrow> os E sys_ioctl [fd, 0x0703, addr];
       if r < 0 then do { os E sys_close [fd]; return (- 1, val) }
       else do {
         n \<leftarrow> os E sys_write [fd, reg];
         if n \<noteq> 1 then do { os E sys_close [fd]; return (- 1, val) }
         else do {
           n \<leftarrow> os E sys_read [fd, 1];
           if n \<noteq> 1 then do { os E sys_close [fd]; return (- 1, val) }
           else do {
             v \<leftarrow> os E sys_read_data [fd];
             os E sys_close [fd];
             return (0, v)
           }
         }
       }
     }
   }"

definition i2c_write_reg :: "env \<Rightarrow> int \<Rightarrow> int \<Rightarrow> int \<Rightarrow> int \<Rightarrow> ('z io_scheme, int) state" where
  "i2c_write_reg E bus addr reg val = do {
     fd \<leftarrow> os E sys_open [bus];
     if fd < 0 then return (- 1)
     else do {
       r \<leftarrow> os E sys_ioctl [fd, 0x0703, addr];
       if r < 0 then do { os E sys_close [fd]; return (- 1) }
       else do {
         n \<leftarrow> os E sys_write [fd, reg, val];
         if n \<noteq> 2 then do { os E sys_close [fd]; return (- 1) }
         else do { os E sys_close [fd]; return 0 }
       }
     }
   }"

definition retimer_unmute :: "env \<Rightarrow> int \<Rightarrow> ('z io_scheme, unit) state" where
  "retimer_unmute E port = do {
     let bus = port_to_retimer_bus port;
     if bus < 0 then return ()
     else do {
       r \<leftarrow> i2c_write_reg E bus 0x27 0xFF 0x0C;
       if r < 0 then return ()
       else do {
         i2c_read_reg E bus 0x27 0x1E 0;
         i2c_write_reg E bus 0x27 0x1E 0x00;
         return ()
       }
     }
   }"

definition miim_divider_init :: "env \<Rightarrow> ('z bde_state_scheme, unit) state" where
  "miim_divider_init E = do {
     bde_write_reg E CMIC_MIIM_INT_SEL_MAP (push_bit 16 1 OR 99);
     bde_write_reg E CMIC_MIIM_EXT_SEL_MAP (push_bit 16 1 OR 396);
     return ()
   }"

section \<open>Transactions\<close>

text \<open>What the MIIM master is asked to do, read off a history: at each trigger (read 0x90, write
  0x91) the parameter and address registers as last written. Oldest first.\<close>

fun miim_log :: "io_event list \<Rightarrow> (u32 \<times> u32 option \<times> u32 option) list" where
  "miim_log [] = []"
| "miim_log (IoWr a v # tr) =
     (if a = CMIC_MIIM_CTRL \<and> (v = 0x90 \<or> v = 0x91)
      then miim_log tr @ [(v, last_wr CMIC_MIIM_PARAM tr, last_wr CMIC_MIIM_ADDRESS tr)] else miim_log tr)"
| "miim_log (_ # tr) = miim_log tr"

definition miim_write_param :: "int \<Rightarrow> int \<Rightarrow> u16 \<Rightarrow> u32" where
  "miim_write_param phy_addr bus_id data =
     MIIM_PARAM_INTERNAL OR MIIM_PARAM_BUS_ID bus_id OR MIIM_PARAM_PHY phy_addr OR MIIM_PARAM_DATA data"

text \<open>The services a register access relies on: the copies between user and kernel space.\<close>

definition copies_ok :: "env \<Rightarrow> bool" where
  "copies_ok E \<longleftrightarrow> (\<forall>h. os_answer E h sys_copy_from_user [] = 0 \<and> os_answer E h sys_copy_to_user [] = 0)"

definition miim_done :: "env \<Rightarrow> bool" where
  "miim_done E \<longleftrightarrow> (\<forall>h. bar0_answer E h CMIC_MIIM_CTRL AND CMIC_MIIM_CTRL_DONE \<noteq> 0)"

lemma miim_log_silent: "list_all silent evs \<Longrightarrow> miim_log (evs @ tr) = miim_log tr"
  by (induction evs rule: miim_log.induct) auto

lemma bde_ready_frame [simp]: "bde_ready (s\<lparr>trace := tr\<rparr>) = bde_ready s"
  by (simp add: bde_ready_def)

lemma run_bde_write_reg:
  assumes "copies_ok E" and "bde_ready s" and "off < 0x40000"
  shows "run_state (bde_write_reg E off v) s
           = (0, s\<lparr>trace := IoWr off v # OsCall sys_copy_from_user [] 0 # trace s\<rparr>)"
  using assms by (auto simp: bde_write_reg_def ioctl_def nos_bde_ioctl_def nos_bde_get_bar0_def
      copies_ok_def bde_ready_def Let_def not_le)

lemma run_bde_read_reg:
  assumes "copies_ok E" and "bde_ready s" and "off < 0x40000"
  shows "run_state (bde_read_reg E off x) s =
    (let v = bar0_answer E (OsCall sys_copy_from_user [] 0 # trace s) off in
     ((0, v), s\<lparr>trace := OsCall sys_copy_to_user [] 0 # IoRd off v # OsCall sys_copy_from_user [] 0 # trace s\<rparr>))"
  using assms by (auto simp: bde_read_reg_def ioctl_def nos_bde_ioctl_def nos_bde_get_bar0_def
      copies_ok_def bde_ready_def Let_def not_le)

lemma emits_read_reg_silent: "emits silent (bde_read_reg E off x)"
  unfolding bde_read_reg_def ioctl_def nos_bde_ioctl_def nos_bde_get_bar0_def bde_request.case
    nos_bde_reg.select_convs
  by (intro emits_rules) simp_all

lemma emits_miim_poll: "emits silent (miim_poll E n c)"
  by (induction n arbitrary: c) (auto intro!: emits_rules emits_read_reg_silent)

lemma miim_poll_done:
  assumes "copies_ok E" and "bde_ready s" and "miim_done E"
  shows "result (miim_poll E (Suc n) c) s"
proof -
  have "CMIC_MIIM_CTRL < 0x40000" by (simp add: CMIC_MIIM_CTRL_def)
  then show ?thesis
    using assms(3) run_bde_read_reg[OF assms(1,2), of CMIC_MIIM_CTRL c] by (simp add: miim_done_def Let_def)
qed

lemma miim_regs_small:
  "CMIC_MIIM_CTRL < 0x40000" "CMIC_MIIM_PARAM < 0x40000" "CMIC_MIIM_ADDRESS < 0x40000"
  "CMIC_MIIM_PARAM \<noteq> CMIC_MIIM_CTRL" "CMIC_MIIM_ADDRESS \<noteq> CMIC_MIIM_CTRL" "CMIC_MIIM_PARAM \<noteq> CMIC_MIIM_ADDRESS"
  by (simp_all add: miim_regs)

lemma miim_write_log:
  assumes E: "copies_ok E" and s: "bde_ready s"
  shows "\<exists>tr. exec (miim_write E phy bus reg data) s = s\<lparr>trace := tr\<rparr> \<and>
     miim_log tr = miim_log (trace s) @ [(0x91, Some (miim_write_param phy bus data), Some (reg AND 0x1f))] \<and>
     result (miim_write E phy bus reg data) s \<in> {0, - EIO} \<and>
     (miim_done E \<longrightarrow> result (miim_write E phy bus reg data) s = 0)"
proof -
  let ?cf = "OsCall sys_copy_from_user [] 0"
  define s1 where "s1 = s\<lparr>trace := IoWr CMIC_MIIM_CTRL 0x91 # ?cf # IoWr CMIC_MIIM_PARAM (miim_write_param phy bus data) # ?cf
     # IoWr CMIC_MIIM_ADDRESS (reg AND 0x1f) # ?cf # IoWr CMIC_MIIM_CTRL 18 # ?cf # IoWr CMIC_MIIM_CTRL 17 # ?cf # trace s\<rparr>"
  let ?c = "indet E (trace s)"
  obtain evs where p: "exec (miim_poll E MIIM_POLL_MAX ?c) s1 = s1\<lparr>trace := evs @ trace s1\<rparr>" "list_all silent evs"
    by (rule emitsE[OF emits_miim_poll])
  let ?done = "result (miim_poll E MIIM_POLL_MAX ?c) s1"
  have r1: "bde_ready s1" using s by (simp add: s1_def)
  have run: "run_state (miim_write E phy bus reg data) s =
     (if ?done then 0 else - EIO, s1\<lparr>trace := IoWr CMIC_MIIM_CTRL (if ?done then 18 else 17) # ?cf # evs @ trace s1\<rparr>)"
    using s r1 p(1) by (cases "run_state (miim_poll E MIIM_POLL_MAX ?c) s1")
      (simp add: miim_write_def run_bde_write_reg[OF E] miim_regs_small miim_write_param_def[symmetric] s1_def[symmetric] Let_def)
  have log: "miim_log (trace s1) = miim_log (trace s) @ [(0x91, Some (miim_write_param phy bus data), Some (reg AND 0x1f))]"
    by (simp add: s1_def miim_regs_small)
  have d: "?done" if "miim_done E"
    using miim_poll_done[OF E r1 that, of 1999 ?c] by (simp del: miim_poll.simps)
  show ?thesis
    by (intro exI[of _ "IoWr CMIC_MIIM_CTRL (if ?done then 18 else 17) # ?cf # evs @ trace s1"])
      (use run log d p(2) in \<open>simp add: miim_log_silent s1_def del: miim_poll.simps\<close>)
qed


lemma miim_write_ready: "copies_ok E \<Longrightarrow> bde_ready s \<Longrightarrow> bde_ready (exec (miim_write E phy bus reg data) s)"
  using miim_write_log[of E s phy bus reg data] by auto

definition wc_write_log :: "int \<Rightarrow> int \<Rightarrow> int \<Rightarrow> u16 \<Rightarrow> u16 \<Rightarrow> (u32 \<times> u32 option \<times> u32 option) list" where
  "wc_write_log phy lane bus addr val =
     [(0x91, Some (miim_write_param phy bus 0xffd0), Some 0x1f),
      (0x91, Some (miim_write_param phy bus (word_of_int lane AND 3)), Some 0x1e),
      (0x91, Some (miim_write_param phy bus (addr AND 0xFFF0)), Some 0x1f),
      (0x91, Some (miim_write_param phy bus val), Some ((0x10 + ucast (addr AND 0xF)) AND 0x1f))]"

lemma wc_write_requests:
  assumes E: "copies_ok E" and s: "bde_ready s"
  shows "\<exists>k. 1 \<le> k \<and> k \<le> 4 \<and>
     miim_log (trace (exec (wc_write E phy lane bus addr val) s))
       = miim_log (trace s) @ take k (wc_write_log phy lane bus addr val) \<and>
     result (wc_write E phy lane bus addr val) s \<in> (if k = 4 then {0, - EIO} else {- EIO}) \<and>
     (miim_done E \<longrightarrow> result (wc_write E phy lane bus addr val) s = 0)"
proof -
  let ?m = "\<lambda>reg data. miim_write E phy bus reg data"
  define s1 where "s1 = exec (?m 0x1f 0xffd0) s"
  define s2 where "s2 = exec (?m 0x1e (word_of_int lane AND 3)) s1"
  define s3 where "s3 = exec (?m 0x1f (addr AND 0xFFF0)) s2"
  let ?off = "0x10 + ucast (addr AND 0xF) :: u32"
  have r: "bde_ready s1" "bde_ready s2" "bde_ready s3"
    using s by (simp_all add: s1_def s2_def s3_def miim_write_ready[OF E])
  note L = miim_write_log[OF E s, of phy bus "0x1f" "0xffd0", folded s1_def]
    miim_write_log[OF E r(1), of phy bus "0x1e" "word_of_int lane AND 3", folded s2_def]
    miim_write_log[OF E r(2), of phy bus "0x1f" "addr AND 0xFFF0", folded s3_def]
    miim_write_log[OF E r(3), of phy bus ?off val]
  have run: "run_state (wc_write E phy lane bus addr val) s =
     (if result (?m 0x1f 0xffd0) s \<noteq> 0 then (- EIO, s1)
      else if result (?m 0x1e (word_of_int lane AND 3)) s1 \<noteq> 0 then (- EIO, s2)
      else if result (?m 0x1f (addr AND 0xFFF0)) s2 \<noteq> 0 then (- EIO, s3)
      else run_state (?m ?off val) s3)"
    by (simp add: wc_write_def split_beta s1_def s2_def s3_def)
  consider (1) "result (?m 0x1f 0xffd0) s \<noteq> 0"
    | (2) "result (?m 0x1f 0xffd0) s = 0" "result (?m 0x1e (word_of_int lane AND 3)) s1 \<noteq> 0"
    | (3) "result (?m 0x1f 0xffd0) s = 0" "result (?m 0x1e (word_of_int lane AND 3)) s1 = 0"
          "result (?m 0x1f (addr AND 0xFFF0)) s2 \<noteq> 0"
    | (4) "result (?m 0x1f 0xffd0) s = 0" "result (?m 0x1e (word_of_int lane AND 3)) s1 = 0"
          "result (?m 0x1f (addr AND 0xFFF0)) s2 = 0"
    by blast
  then show ?thesis
  proof cases
    case 1
    then show ?thesis using L(1) unfolding run by (intro exI[of _ 1]) (auto simp: wc_write_log_def)
  next
    case 2
    then show ?thesis using L(1,2) unfolding run by (intro exI[of _ 2]) (auto simp: wc_write_log_def)
  next
    case 3
    then show ?thesis using L(1-3) unfolding run by (intro exI[of _ 3]) (auto simp: wc_write_log_def numeral_3_eq_3)
  next
    case 4
    then show ?thesis using L unfolding run by (intro exI[of _ 4]) (auto simp: wc_write_log_def)
  qed
qed

text \<open>A WARPcore register write is the four MDIO writes of AER addressing, in order: broadcast
  select and lane into registers 0x1f and 0x1e, then the block of the register address into 0x1f
  and the value into register 0x10 plus the low nibble. Whatever the chip answers, the requests
  made are a nonempty prefix of these four and nothing else; the call returns 0 only when all four
  completed, otherwise -EIO; and with an MDIO master that reports DONE it returns 0.\<close>

theorem wc_write_transactions:
  assumes E: "copies_ok E" and s: "bde_ready s"
  shows "\<exists>k. 1 \<le> k \<and> k \<le> 4 \<and>
     miim_log (trace (exec (wc_write E phy lane bus addr val) s))
       = miim_log (trace s) @ take k (wc_write_log phy lane bus addr val) \<and>
     result (wc_write E phy lane bus addr val) s \<in> (if k = 4 then {0, - EIO} else {- EIO}) \<and>
     (miim_done E \<longrightarrow> result (wc_write E phy lane bus addr val) s = 0)"
  by (rule wc_write_requests[OF E s])

definition miim_env :: env where
  "miim_env = \<lparr>bar0_answer = (\<lambda>h off. if off = CMIC_MIIM_CTRL then CMIC_MIIM_CTRL_DONE else 0),
     os_answer = (\<lambda>_ _ _. 0), indet = (\<lambda>_. 0)\<rparr>"

lemma miim_env_ok: "copies_ok miim_env" "miim_done miim_env"
  by (simp_all add: copies_ok_def miim_done_def miim_env_def)

theorem wc_write_transactions_witness:
  "result (wc_write miim_env 31 1 1 0x8345 0xC000) bde0 = 0 \<and>
   (\<exists>k\<le>4. miim_log (trace (exec (wc_write miim_env 31 1 1 0x8345 0xC000) bde0))
      = miim_log (trace bde0) @ take k (wc_write_log 31 1 1 0x8345 0xC000))"
  using wc_write_transactions[OF miim_env_ok(1), of bde0 31 1 1 "0x8345" "0xC000"] miim_env_ok(2) bde0_ok
  by (auto simp: table_ok_def)

section \<open>The ports\<close>

text \<open>The port map: each of the ports 1 to 52 has a WARPcore lane of its own (MDIO bus below 3,
  PHY address below 32, lane below 4, no two ports alike), and every other port number is
  refused.\<close>

theorem port_to_phy_bus_injective:
  "inj_on port_to_phy_bus {1..52} \<and>
   (\<forall>port. 1 \<le> port \<and> port \<le> 52 \<or> port_to_phy_bus port = None) \<and>
   list_all (\<lambda>port. case port_to_phy_bus port of None \<Rightarrow> False
      | Some (phy, bus, lane) \<Rightarrow> 1 \<le> phy \<and> phy < 32 \<and> 0 \<le> bus \<and> bus < 3 \<and> 0 \<le> lane \<and> lane < 4) [1..52]"
proof (intro conjI)
  have "distinct (map port_to_phy_bus [1..52])" by code_simp
  then show "inj_on port_to_phy_bus {1..52}" by (simp add: distinct_map)
qed (auto simp: port_to_phy_bus_def, code_simp)

end
