(* ===== verification/Serdes.thy ===== *)
theory Serdes
  imports Miim
begin

text \<open>
  \<^verbatim>\<open>sdk/src/serdes.c\<close>, second part: the download of the WARPcore firmware, the initialisation
  of a WARPcore (once each, remembered in \<open>phy_inited\<close>), the 10G configuration of a lane
  and the link status. The firmware \<^verbatim>\<open>wc40_ucode_b0_bin\<close> (a blob in \<^verbatim>\<open>wc_ucode_b0.c\<close>) is the
  argument \<open>fw\<close>. Values that are read only to be printed are read and dropped.
\<close>

section \<open>Registers and state\<close>

abbreviation (input) "WC_XGXSCONTROL \<equiv> (0x8000::u16)"
abbreviation (input) "WC_XGXSSTATUS \<equiv> (0x8001::u16)"
abbreviation (input) "WC_LANEPRBS \<equiv> (0x8015::u16)"
abbreviation (input) "WC_MISC1 \<equiv> (0x8308::u16)"
abbreviation (input) "WC_MISC2 \<equiv> (0x830D::u16)"
abbreviation (input) "WC_SERDESID0 \<equiv> (0x8310::u16)"
abbreviation (input) "WC_MISC3 \<equiv> (0x833C::u16)"
abbreviation (input) "WC_MISC6 \<equiv> (0x8345::u16)"
abbreviation (input) "WC_CL49_CTRL1 \<equiv> (0x8360::u16)"
abbreviation (input) "WC_FW_VERSION \<equiv> (0x81F0::u16)"
abbreviation (input) "WC_FW_MODE \<equiv> (0x81F2::u16)"
abbreviation (input) "WC_FW_CRC \<equiv> (0x81FE::u16)"
abbreviation (input) "WC_UC_RAMWORD \<equiv> (0xFFC0::u16)"
abbreviation (input) "WC_UC_ADDRESS \<equiv> (0xFFC1::u16)"
abbreviation (input) "WC_UC_COMMAND \<equiv> (0xFFC2::u16)"
abbreviation (input) "WC_UC_WRDATA \<equiv> (0xFFC3::u16)"
abbreviation (input) "WC_UC_DL_STATUS \<equiv> (0xFFC5::u16)"
abbreviation (input) "WC_UC_COMMAND2 \<equiv> (0xFFCA::u16)"
abbreviation (input) "WC_ANARXSTATUS \<equiv> (0x80B0::u16)"
abbreviation (input) "WC_CONTROL1000X1 \<equiv> (0x8300::u16)"
abbreviation (input) "WC_CONTROL1000X3 \<equiv> (0x8302::u16)"
abbreviation (input) "WC_MISC4 \<equiv> (0x833D::u16)"
abbreviation (input) "WC_RX66_CTRL \<equiv> (0x83C0::u16)"
abbreviation (input) "WC_RX66_SCW0 \<equiv> (0x83C2::u16)"
abbreviation (input) "WC_RX66_SCW1 \<equiv> (0x83C3::u16)"
abbreviation (input) "WC_RX66_SCW2 \<equiv> (0x83C4::u16)"
abbreviation (input) "WC_RX66_SCW3 \<equiv> (0x83C5::u16)"
abbreviation (input) "WC_RX66_SCW0_MASK \<equiv> (0x83C6::u16)"
abbreviation (input) "WC_RX66_SCW1_MASK \<equiv> (0x83C7::u16)"
abbreviation (input) "WC_RX66_SCW2_MASK \<equiv> (0x83C8::u16)"
abbreviation (input) "WC_RX66_SCW3_MASK \<equiv> (0x83C9::u16)"
abbreviation (input) "WC_CL49_HG2_MASK \<equiv> (0x077c::u16)"

text \<open>One bit of a 16-bit register, as \<open>1u << n\<close>.\<close>

abbreviation (input) bit16 :: "nat \<Rightarrow> u16" where "bit16 n \<equiv> push_bit n 1"

record serdes_state = bde_state +
  phy_inited :: "u32 list"

definition usleep :: "nat \<Rightarrow> ('z io_scheme, unit) state" where
  "usleep us = emit (Delay us)"

definition fresh16 :: "env \<Rightarrow> ('z io_scheme, u16) state" where
  "fresh16 E = do { v \<leftarrow> indeterminate E; return (ucast v) }"

lemma wp_usleep [wp_rules]: "Q () (s\<lparr>trace := Delay n # trace s\<rparr>) \<Longrightarrow> wp (usleep n) Q s"
  by (simp add: usleep_def wp_def)

lemma run_usleep [simp]: "run_state (usleep n) s = ((), s\<lparr>trace := Delay n # trace s\<rparr>)"
  by (simp add: usleep_def)

lemma emits_usleep [emits_rules]: "P (Delay n) \<Longrightarrow> emits P (usleep n)"
  unfolding usleep_def udelay_def[symmetric] by (rule emits_udelay)

lemma emits_fresh16 [emits_rules]: "emits P (fresh16 E)"
  unfolding fresh16_def by (intro emits_rules)

section \<open>The firmware download\<close>

text \<open>The size of the blob is far below 2^32, so the rounding does not wrap.\<close>

definition fw_size_aligned :: "u8 list \<Rightarrow> nat" where
  "fw_size_aligned fw = (length fw + 15) div 16 * 16"

text \<open>The 16-bit word that starts at byte \<open>idx\<close>; bytes past the end are zero.\<close>

definition fw_word :: "u8 list \<Rightarrow> nat \<Rightarrow> u16" where
  "fw_word fw idx =
     (let data = (if idx < length fw then ucast (fw ! idx) else 0)
      in if idx + 1 < length fw then data OR push_bit 8 (ucast (fw ! (idx + 1))) else data)"

definition fw_indices :: "u8 list \<Rightarrow> nat list" where
  "fw_indices fw = map (\<lambda>k. 2 * k) [0..<fw_size_aligned fw div 2]"

text \<open>The two poll loops: up to \<open>n\<close> reads of a register, a millisecond apart, until
  \<open>ok\<close> holds of the value; the last value read is the result.\<close>

fun wc_poll :: "env \<Rightarrow> int \<Rightarrow> int \<Rightarrow> u16 \<Rightarrow> (u16 \<Rightarrow> bool) \<Rightarrow> nat \<Rightarrow> u16 \<Rightarrow> ('z bde_state_scheme, u16) state" where
  "wc_poll E phy bus addr ok 0 val = return val"
| "wc_poll E phy bus addr ok (Suc n) val = do {
     (_, val) \<leftarrow> wc_read E phy 0 bus addr val;
     if ok val then return val else do { usleep 1000; wc_poll E phy bus addr ok n val }
   }"

definition wc_firmware_download :: "env \<Rightarrow> u8 list \<Rightarrow> int \<Rightarrow> int \<Rightarrow> ('z bde_state_scheme, int) state" where
  "wc_firmware_download E fw phy bus = do {
     wc_write E phy 0 bus WC_UC_COMMAND 0x0002;
     usleep 1000;
     wc_write E phy 0 bus WC_UC_COMMAND 0x0000;
     usleep 10000;
     wc_write E phy 0 bus WC_UC_DL_STATUS 0x0000;
     wc_write E phy 0 bus WC_UC_COMMAND 0x8000;
     val \<leftarrow> wc_poll E phy bus WC_UC_DL_STATUS (\<lambda>v. v AND 0x8000 \<noteq> 0) 500 0;
     if val AND 0x8000 = 0 then return (- ETIMEDOUT)
     else do {
       (_, val) \<leftarrow> wc_read E phy 0 bus WC_UC_COMMAND2 val;
       wc_write E phy 0 bus WC_UC_COMMAND2 (val OR 0x0020);
       wc_write E phy 0 bus WC_UC_RAMWORD (of_nat (fw_size_aligned fw) - 1);
       wc_write E phy 0 bus WC_UC_ADDRESS 0x0000;
       wc_write E phy 0 bus WC_UC_COMMAND 0x0009;
       for_each (fw_indices fw) (\<lambda>idx. wc_write E phy 0 bus WC_UC_WRDATA (fw_word fw idx));
       wc_write E phy 0 bus WC_UC_COMMAND 0x0002;
       (_, val) \<leftarrow> wc_read E phy 0 bus WC_UC_DL_STATUS val;
       if val AND 0x0003 \<noteq> 0 then return (- EIO)
       else do {
         wc_write E phy 0 bus WC_FW_CRC 0x0001;
         wc_write E phy 0 bus WC_UC_COMMAND 0x0010;
         wc_poll E phy bus WC_FW_VERSION (\<lambda>v. v \<noteq> 0) 500 0;
         return 0
       }
     }
   }"

section \<open>One WARPcore\<close>

definition wc_init_stage2 :: "env \<Rightarrow> int \<Rightarrow> int \<Rightarrow> ('z bde_state_scheme, unit) state" where
  "wc_init_stage2 E phy bus = do {
     let rd = wc_read E phy 0 bus;
     let wr = wc_write E phy 0 bus;
     val \<leftarrow> fresh16 E;
     (_, val) \<leftarrow> rd WC_RX66_CTRL val;
     wr WC_RX66_CTRL (val OR bit16 13 OR bit16 14);
     wr WC_RX66_SCW0 0xe070;
     wr WC_RX66_SCW1 0xc0d0;
     wr WC_RX66_SCW2 0xa0b0;
     wr WC_RX66_SCW3 0x8090;
     wr WC_RX66_SCW0_MASK 0xf0f0;
     wr WC_RX66_SCW1_MASK 0xf0f0;
     wr WC_RX66_SCW2_MASK 0xf0f0;
     wr WC_RX66_SCW3_MASK 0xf0f0;
     (_, val) \<leftarrow> rd WC_MISC4 val;
     wr WC_MISC4 (val OR bit16 15);
     (_, val) \<leftarrow> rd WC_MISC2 val;
     wr WC_MISC2 (val AND NOT (bit16 5));
     (_, val) \<leftarrow> rd WC_CONTROL1000X1 val;
     let val = (val OR bit16 6) AND NOT (bit16 4);
     wr WC_CONTROL1000X1 val;
     (_, val) \<leftarrow> rd WC_CONTROL1000X3 val;
     wr WC_CONTROL1000X3 (((val AND NOT (push_bit 1 3)) OR push_bit 1 2) OR bit16 13);
     return ()
   }"

definition wc_phy_init :: "env \<Rightarrow> u8 list \<Rightarrow> int \<Rightarrow> int \<Rightarrow> ('z bde_state_scheme, int) state" where
  "wc_phy_init E fw phy bus = do {
     let rd = wc_read E phy 0 bus;
     let wr = wc_write E phy 0 bus;
     val \<leftarrow> fresh16 E;
     (_, val) \<leftarrow> rd WC_SERDESID0 val;
     (_, val) \<leftarrow> rd WC_XGXSCONTROL val;
     (if val AND bit16 13 \<noteq> 0 then do { wr WC_XGXSCONTROL (val AND NOT (bit16 13)); usleep 1000 } else return ());
     wr WC_LANEPRBS 0x0000;
     (_, val) \<leftarrow> rd WC_MISC1 val;
     let val = (val AND NOT 0x1F00) OR (push_bit 8 2 OR bit16 12);
     wr WC_MISC1 val;
     (_, val) \<leftarrow> rd WC_FW_VERSION val;
     (if val = 0x0101 then return () else do { wc_firmware_download E fw phy bus; return () });
     (_, val) \<leftarrow> rd WC_XGXSCONTROL val;
     wr WC_XGXSCONTROL (val OR bit16 13);
     val \<leftarrow> wc_poll E phy bus WC_XGXSSTATUS (\<lambda>v. v AND bit16 11 \<noteq> 0) 200 val;
     (_, val) \<leftarrow> rd WC_UC_COMMAND2 val;
     wr WC_UC_COMMAND2 (val OR 0x0020);
     wr WC_UC_COMMAND 0x8010;
     val \<leftarrow> wc_poll E phy bus WC_FW_VERSION (\<lambda>v. v \<noteq> 0) 500 0;
     rd WC_UC_COMMAND val;
     miim_write E phy bus WC_REG_AER_BLK 0;
     return 0
   }"

section \<open>One lane\<close>

text \<open>The read-modify-write steps, on the local variable \<open>val\<close> that a failed read leaves as it
  was: \<open>rmw\<close> does the write in any case, \<open>rmw_ok\<close> only when the read succeeded, and
  \<open>rmw_set\<close> also assigns the value it writes to \<open>val\<close>.\<close>

definition rmw :: "env \<Rightarrow> int \<Rightarrow> int \<Rightarrow> int \<Rightarrow> u16 \<Rightarrow> (u16 \<Rightarrow> u16) \<Rightarrow> u16 \<Rightarrow> ('z bde_state_scheme, u16) state" where
  "rmw E phy lane bus addr f val = do {
     (_, val) \<leftarrow> wc_read E phy lane bus addr val;
     wc_write E phy lane bus addr (f val);
     return val
   }"

definition rmw_ok :: "env \<Rightarrow> int \<Rightarrow> int \<Rightarrow> int \<Rightarrow> u16 \<Rightarrow> (u16 \<Rightarrow> u16) \<Rightarrow> u16 \<Rightarrow> ('z bde_state_scheme, u16) state" where
  "rmw_ok E phy lane bus addr f val = do {
     (rc, val) \<leftarrow> wc_read E phy lane bus addr val;
     if rc = 0 then do { wc_write E phy lane bus addr (f val); return val } else return val
   }"

definition rmw_set :: "env \<Rightarrow> int \<Rightarrow> int \<Rightarrow> int \<Rightarrow> u16 \<Rightarrow> (u16 \<Rightarrow> u16) \<Rightarrow> u16 \<Rightarrow> ('z bde_state_scheme, u16) state" where
  "rmw_set E phy lane bus addr f val = do {
     (rc, val) \<leftarrow> wc_read E phy lane bus addr val;
     if rc = 0 then do { wc_write E phy lane bus addr (f val); return (f val) } else return val
   }"

text \<open>At most five looks at the block lock of the lane.\<close>

fun cl49_poll :: "env \<Rightarrow> int \<Rightarrow> int \<Rightarrow> int \<Rightarrow> nat \<Rightarrow> u16 \<Rightarrow> ('z bde_state_scheme, unit) state" where
  "cl49_poll E phy lane bus 0 cl49_status = return ()"
| "cl49_poll E phy lane bus (Suc n) cl49_status = do {
     (_, cl49_status) \<leftarrow> wc_read E phy lane bus 0x8367 cl49_status;
     wc_read E phy lane bus 0x8368 0;
     wc_cl45_read E phy bus 3 0x0001 0;
     wc_cl45_read E phy bus 3 0x0001 0;
     if drop_bit 15 cl49_status AND 1 \<noteq> 0 then return ()
     else do { usleep 200000; cl49_poll E phy lane bus n cl49_status }
   }"

definition lane_diagnostics :: "env \<Rightarrow> int \<Rightarrow> int \<Rightarrow> int \<Rightarrow> ('z bde_state_scheme, unit) state" where
  "lane_diagnostics E phy lane bus = do {
     usleep 500000;
     for_each [WC_ANARXSTATUS, WC_MISC1, WC_MISC3, WC_RX66_CTRL, WC_CL49_CTRL1, WC_RX66_SCW0, WC_RX66_SCW0_MASK]
       (\<lambda>a. wc_read E phy lane bus a 0);
     st \<leftarrow> fresh16 E;
     cl49_poll E phy lane bus 5 st
   }"

definition lane_configure :: "env \<Rightarrow> int \<Rightarrow> int \<Rightarrow> int \<Rightarrow> u16 \<Rightarrow> ('z bde_state_scheme, unit) state" where
  "lane_configure E phy lane bus val = do {
     let wr = wc_write E phy lane bus;
     val \<leftarrow> rmw E phy lane bus WC_MISC6 (\<lambda>v. v OR 0xC000) val;
     (_, val) \<leftarrow> wc_read E phy 0 bus WC_FW_MODE val;
     let val = (val AND NOT (push_bit (4 * nat lane) 0xF)) OR push_bit (4 * nat lane) 2;
     wc_write E phy 0 bus WC_FW_MODE val;
     val \<leftarrow> rmw_ok E phy lane bus 0x8400 (\<lambda>v. v AND NOT 0x0005) val;
     val \<leftarrow> rmw_ok E phy lane bus 0x8402 (\<lambda>v. v OR bit16 7) val;
     (rc, val) \<leftarrow> wc_read E phy lane bus WC_CL49_CTRL1 val;
     (if rc = 0 \<and> val AND WC_CL49_HG2_MASK \<noteq> 0 then do { wr WC_CL49_CTRL1 (val AND NOT WC_CL49_HG2_MASK); return () }
      else return ());
     val \<leftarrow> rmw_ok E phy lane bus WC_MISC1 (\<lambda>v. (v AND NOT 0x001F) OR 0x09) val;
     val \<leftarrow> rmw_set E phy lane bus WC_MISC3 (\<lambda>v. (v OR (bit16 7 OR bit16 15)) AND NOT (bit16 6)) val;
     val \<leftarrow> rmw E phy lane bus WC_MISC6 (\<lambda>v. v AND NOT 0xC000) val;
     val \<leftarrow> rmw_ok E phy lane bus WC_RX66_CTRL (\<lambda>v. v OR bit16 13 OR bit16 14) val;
     wr WC_RX66_SCW0 0xe070;
     wr WC_RX66_SCW1 0xc0d0;
     wr WC_RX66_SCW2 0xa0b0;
     wr WC_RX66_SCW3 0x8090;
     wr WC_RX66_SCW0_MASK 0xf0f0;
     wr WC_RX66_SCW1_MASK 0xf0f0;
     wr WC_RX66_SCW2_MASK 0xf0f0;
     wr WC_RX66_SCW3_MASK 0xf0f0;
     val \<leftarrow> rmw_ok E phy lane bus WC_MISC2 (\<lambda>v. (v OR 0x0001) AND NOT (bit16 5)) val;
     val \<leftarrow> rmw_set E phy lane bus WC_CONTROL1000X1 (\<lambda>v. (v OR bit16 6) AND NOT (bit16 4)) val;
     rmw_set E phy lane bus WC_CONTROL1000X3 (\<lambda>v. ((v AND NOT (push_bit 1 3)) OR push_bit 1 2) OR bit16 13) val;
     return ()
   }"

definition bcm56846_serdes_init_10g :: "env \<Rightarrow> u8 list \<Rightarrow> int \<Rightarrow> ('z serdes_state_scheme, int) state" where
  "bcm56846_serdes_init_10g E fw port =
     (case port_to_phy_bus port of
        None \<Rightarrow> return (- EINVAL)
      | Some (phy, bus, lane) \<Rightarrow> do {
          val \<leftarrow> fresh16 E;
          miim_divider_init E;
          inited \<leftarrow> gets phy_inited;
          (if bus < 3 \<and> inited ! nat bus AND push_bit (nat phy) 1 = 0 then do {
             wc_phy_init E fw phy bus;
             modify (\<lambda>s. s\<lparr>phy_inited := (phy_inited s)[nat bus := (phy_inited s ! nat bus) OR push_bit (nat phy) 1]\<rparr>)
           } else return ());
          lane_configure E phy lane bus val;
          (if port \<ge> 49 \<and> port \<le> 52 then retimer_unmute E port else return ());
          (if port \<ge> 49 \<and> port \<le> 52 then lane_diagnostics E phy lane bus else return ());
          miim_write E phy bus WC_REG_AER_BLK 0;
          return 0
        })"

definition bcm56846_serdes_link_get :: "env \<Rightarrow> int \<Rightarrow> int option \<Rightarrow> ('z bde_state_scheme, int \<times> int option) state" where
  "bcm56846_serdes_link_get E port link_up =
     (case link_up of None \<Rightarrow> return (- EINVAL, None) | Some _ \<Rightarrow>
       (case port_to_phy_bus port of
          None \<Rightarrow> return (- EINVAL, Some 0)
        | Some (phy, bus, lane) \<Rightarrow> do {
            pcs_status \<leftarrow> fresh16 E;
            miim_divider_init E;
            (rc, pcs_status) \<leftarrow> wc_cl45_read E phy bus 3 0x0001 pcs_status;
            if rc \<noteq> 0 then return (- EIO, Some 0)
            else do {
              (rc, pcs_status) \<leftarrow> wc_cl45_read E phy bus 3 0x0001 pcs_status;
              if rc \<noteq> 0 then return (- EIO, Some 0)
              else do {
                miim_write E phy bus WC_REG_AER_BLK 0;
                return (0, Some (uint (drop_bit 2 pcs_status AND 1)))
              }
            }
          }))"


section \<open>Frames\<close>

lemma emits_miim_poll_bar0 [emits_rules]: "emits in_bar0 (miim_poll E n c)"
  by (induction n arbitrary: c) (auto intro!: emits_rules)

lemma emits_miim_write [emits_rules]: "emits in_bar0 (miim_write E phy bus reg data)"
  unfolding miim_write_def by (intro emits_rules)

lemma emits_miim_read [emits_rules]: "emits in_bar0 (miim_read E phy bus reg data)"
  unfolding miim_read_def by (intro emits_rules)

lemma emits_wc_write [emits_rules]: "emits in_bar0 (wc_write E phy lane bus addr val)"
  unfolding wc_write_def by (intro emits_rules)

lemma emits_wc_read [emits_rules]: "emits in_bar0 (wc_read E phy lane bus addr val)"
  unfolding wc_read_def by (intro emits_rules)

lemma emits_wc_cl45_read [emits_rules]: "emits in_bar0 (wc_cl45_read E phy bus devad reg val)"
  unfolding wc_cl45_read_def by (intro emits_rules)

lemma emits_miim_divider_init [emits_rules]: "emits in_bar0 (miim_divider_init E)"
  unfolding miim_divider_init_def by (intro emits_rules)

lemma emits_wc_poll [emits_rules]: "emits in_bar0 (wc_poll E phy bus addr ok n val)"
  by (induction n arbitrary: val) (auto intro!: emits_rules)

lemma emits_cl49_poll [emits_rules]: "emits in_bar0 (cl49_poll E phy lane bus n val)"
  by (induction n arbitrary: val) (auto intro!: emits_rules)

lemma emits_wc_firmware_download [emits_rules]: "emits in_bar0 (wc_firmware_download E fw phy bus)"
  unfolding wc_firmware_download_def by (intro emits_rules) simp_all

lemma emits_wc_init_stage2 [emits_rules]: "emits in_bar0 (wc_init_stage2 E phy bus)"
  unfolding wc_init_stage2_def Let_def by (intro emits_rules)

lemma emits_wc_phy_init [emits_rules]: "emits in_bar0 (wc_phy_init E fw phy bus)"
  unfolding wc_phy_init_def Let_def by (intro emits_rules) simp_all

lemma emits_rmw [emits_rules]:
  "emits in_bar0 (rmw E phy lane bus addr f val)" "emits in_bar0 (rmw_ok E phy lane bus addr f val)"
  "emits in_bar0 (rmw_set E phy lane bus addr f val)"
  unfolding rmw_def rmw_ok_def rmw_set_def by (intro emits_rules)+

lemma emits_lane_configure [emits_rules]: "emits in_bar0 (lane_configure E phy lane bus val)"
  unfolding lane_configure_def Let_def by (intro emits_rules)

lemma emits_lane_diagnostics [emits_rules]: "emits in_bar0 (lane_diagnostics E phy lane bus)"
  unfolding lane_diagnostics_def by (intro emits_rules) simp_all

lemma emits_retimer_unmute [emits_rules]: "emits in_bar0 (retimer_unmute E port)"
  unfolding retimer_unmute_def i2c_read_reg_def i2c_write_reg_def by (intro emits_rules) simp_all

section \<open>Initialisation happens once\<close>

lemma wp_keep:
  assumes "emits P m" and "\<And>a evs. list_all P evs \<Longrightarrow> Q a (s\<lparr>trace := evs @ trace s\<rparr>)"
  shows "wp m Q s"
proof -
  obtain evs where "exec m s = s\<lparr>trace := evs @ trace s\<rparr>" "list_all P evs" by (rule emitsE[OF assms(1)])
  then show ?thesis using assms(2) by (simp add: wp_def)
qed

lemma emits_keep:
  assumes "emits P m" and "result m t = r"
  shows "wp m (\<lambda>rc s'. rc = r \<and> (\<exists>evs. s' = t\<lparr>trace := evs @ trace t\<rparr> \<and> list_all P evs)) t"
proof -
  obtain evs where "exec m t = t\<lparr>trace := evs @ trace t\<rparr>" "list_all P evs" by (rule emitsE[OF assms(1)])
  then show ?thesis using assms(2) by (auto simp: wp_def)
qed

definition mark_phy :: "u32 list \<Rightarrow> int \<Rightarrow> int \<Rightarrow> u32 list" where
  "mark_phy l bus phy = l[nat bus := (l ! nat bus) OR push_bit (nat phy) 1]"

lemma mark_phy_again:
  assumes "nat phy < 32" and "l ! nat bus AND push_bit (nat phy) 1 \<noteq> 0"
  shows "mark_phy l bus phy = l"
proof -
  have "bit (l ! nat bus) (nat phy)"
    using assms(2) by (metis and_exp_eq_0_iff_not_bit push_bit_of_1)
  then have "l ! nat bus OR push_bit (nat phy) 1 = l ! nat bus"
    by (intro bit_eqI) (auto simp: word_bits)
  then show ?thesis unfolding mark_phy_def by (metis list_update_id)
qed

lemma port_to_phy_bus_range:
  "port_to_phy_bus port = Some (phy, bus, lane) \<Longrightarrow> 0 \<le> bus \<and> bus < 3 \<and> 0 \<le> phy \<and> phy < 32 \<and> 0 \<le> lane \<and> lane < 4"
proof -
  assume p: "port_to_phy_bus port = Some (phy, bus, lane)"
  then have "port \<in> set [1..52]" by (auto simp: port_to_phy_bus_def split: if_splits)
  moreover have "list_all (\<lambda>port. case port_to_phy_bus port of None \<Rightarrow> False
      | Some (phy, bus, lane) \<Rightarrow> 0 \<le> bus \<and> bus < 3 \<and> 0 \<le> phy \<and> phy < 32 \<and> 0 \<le> lane \<and> lane < 4) [1..52]"
    by code_simp
  ultimately show ?thesis using p unfolding list_all_iff by fastforce
qed

lemma wp_serdes_init:
  assumes p: "port_to_phy_bus port = Some (phy, bus, lane)"
  shows "wp (bcm56846_serdes_init_10g E fw port)
           (\<lambda>rc s'. rc = 0 \<and> (\<exists>evs. s' = s\<lparr>phy_inited := mark_phy (phy_inited s) bus phy, trace := evs @ trace s\<rparr> \<and> list_all in_bar0 evs)) s"
proof -
  note rng = port_to_phy_bus_range[OF p]
  have tail: "wp (do {
          lane_configure E phy lane bus val;
          (if port \<ge> 49 \<and> port \<le> 52 then retimer_unmute E port else return ());
          (if port \<ge> 49 \<and> port \<le> 52 then lane_diagnostics E phy lane bus else return ());
          miim_write E phy bus WC_REG_AER_BLK 0;
          return 0 }) (\<lambda>rc s'. rc = (0::int) \<and> (\<exists>evs. s' = t\<lparr>trace := evs @ trace t\<rparr> \<and> list_all in_bar0 evs)) t" for val and t :: "'a serdes_state_scheme"
    by (rule emits_keep, intro emits_rules) (simp add: split_beta)
  show ?thesis
    unfolding bcm56846_serdes_init_10g_def p option.case prod.case
    apply (intro wp_bind)
    apply (rule wp_keep[where P = in_bar0], rule emits_rules)
    apply (rule wp_bind, rule wp_keep[where P = in_bar0], rule emits_rules)
    apply (intro wp_bind wp_gets wp_if)
     apply (rule wp_keep[where P = in_bar0], rule emits_rules)
     apply (rule wp_modify)
     apply (rule wp_mono, rule tail)
     apply (auto simp: mark_phy_def append_assoc[symmetric] simp del: append_assoc)[1]
    apply (rule wp_return)
    apply (rule wp_mono, rule tail)
    using rng apply (auto simp: mark_phy_again append_assoc[symmetric] simp del: append_assoc)
    done
qed



section \<open>The firmware stream\<close>

lemma concat_pairs: "concat (map (\<lambda>k. [f (2 * k), f (2 * k + 1)]) [0..<n]) = map f [0..<2 * n]"
  by (induction n) simp_all

lemma fw_word_bytes:
  "ucast (fw_word fw idx) = (if idx < length fw then fw ! idx else (0::u8))"
  "ucast (drop_bit 8 (fw_word fw idx)) = (if idx + 1 < length fw then fw ! (idx + 1) else (0::u8))"
  by (rule bit_eqI; auto simp: fw_word_def Let_def word_bits dest: bit_word_len)+

text \<open>The firmware words carry the firmware: split again into low and high bytes, the words
  sent are the blob byte for byte, padded with fewer than 16 zero bytes to a multiple of 16.\<close>

theorem firmware_words_roundtrip:
  "concat (map (\<lambda>idx. [ucast (fw_word fw idx), ucast (drop_bit 8 (fw_word fw idx))]) (fw_indices fw))
     = fw @ replicate (fw_size_aligned fw - length fw) (0::u8) \<and>
   16 dvd fw_size_aligned fw \<and> length fw \<le> fw_size_aligned fw \<and> fw_size_aligned fw < length fw + 16"
proof (intro conjI)
  let ?n = "fw_size_aligned fw"
  show d: "16 dvd ?n" by (simp add: fw_size_aligned_def)
  show le: "length fw \<le> ?n" and "?n < length fw + 16"
    unfolding fw_size_aligned_def by (simp_all add: minus_mod_eq_div_mult[symmetric])
  let ?f = "\<lambda>i. if i < length fw then fw ! i else (0::u8)"
  have "concat (map (\<lambda>idx. [ucast (fw_word fw idx), ucast (drop_bit 8 (fw_word fw idx))]) (fw_indices fw))
      = map ?f [0..<2 * (?n div 2)]"
    using concat_pairs[of ?f "?n div 2"] by (simp add: fw_indices_def fw_word_bytes comp_def)
  also have "2 * (?n div 2) = ?n" using d by auto
  also have "map ?f [0..<?n] = fw @ replicate (?n - length fw) 0"
    using le by (intro nth_equalityI) (auto simp: nth_append)
  finally show "concat (map (\<lambda>idx. [ucast (fw_word fw idx), ucast (drop_bit 8 (fw_word fw idx))]) (fw_indices fw))
     = fw @ replicate (?n - length fw) (0::u8)" .
qed

lemma miim_log_extends: "\<exists>ys. miim_log (evs @ tr) = miim_log tr @ ys"
  by (induction evs rule: miim_log.induct) auto

definition log_after :: "(u32 \<times> u32 option \<times> u32 option) list \<Rightarrow> 'z bde_state_scheme \<Rightarrow> bool" where
  "log_after L s \<longleftrightarrow> bde_ready s \<and> (\<exists>ys. miim_log (trace s) = L @ ys)"

lemma wp_log_after:
  assumes "emits P m" and "log_after L s" and "\<And>a s'. log_after L s' \<Longrightarrow> Q a s'"
  shows "wp m Q s"
proof (rule wp_mono[where P = "\<lambda>_. log_after L"])
  obtain evs where "exec m s = s\<lparr>trace := evs @ trace s\<rparr>" using assms(1) by (rule emitsE)
  then show "wp m (\<lambda>_. log_after L) s"
    using assms(2) miim_log_extends[of evs "trace s"] by (auto simp: wp_def log_after_def)
qed (rule assms(3))

lemma wp_bind_log:
  assumes "emits P m" and "log_after L s" and "\<And>a s'. log_after L s' \<Longrightarrow> wp (f a) Q s'"
  shows "wp (Monad_Syntax.bind m f) Q s"
  by (rule wp_bind, rule wp_log_after[OF assms(1,2)], rule assms(3))

lemmas wp_log_steps =
  wp_bind_log[OF emits_wc_write] wp_bind_log[OF emits_wc_read] wp_bind_log[OF emits_wc_poll]
  wp_bind_log[OF emits_usleep[of in_bar0, OF in_bar0_simps(3)]]

text \<open>The requests of the download loop, one register write per word.\<close>

definition fw_stream :: "u8 list \<Rightarrow> int \<Rightarrow> int \<Rightarrow> (u32 \<times> u32 option \<times> u32 option) list" where
  "fw_stream fw phy bus = concat (map (\<lambda>idx. wc_write_log phy 0 bus WC_UC_WRDATA (fw_word fw idx)) (fw_indices fw))"

lemma wc_write_done:
  assumes "copies_ok E" and "miim_done E" and "bde_ready s"
  shows "miim_log (trace (exec (wc_write E phy lane bus addr val) s)) = miim_log (trace s) @ wc_write_log phy lane bus addr val \<and>
    bde_ready (exec (wc_write E phy lane bus addr val) s)"
proof
  have r: "bde_ready (exec (wc_write E phy lane bus addr val) s)"
    using bus_frame[OF emits_wc_write, of E phy lane bus addr val s] assms(3) by auto
  then show "bde_ready (exec (wc_write E phy lane bus addr val) s)" .
  show "miim_log (trace (exec (wc_write E phy lane bus addr val) s)) = miim_log (trace s) @ wc_write_log phy lane bus addr val"
    using wc_write_requests[OF assms(1,3), of phy lane bus addr val] assms(2)
    by (auto simp: wc_write_log_def split: if_splits)
qed

lemma wp_fw_loop:
  assumes E: "copies_ok E" "miim_done E"
  shows "bde_ready s \<Longrightarrow> wp (for_each is (\<lambda>idx. wc_write E phy 0 bus WC_UC_WRDATA (fw_word fw idx)))
     (\<lambda>_ s'. bde_ready s' \<and> miim_log (trace s') = miim_log (trace s)
        @ concat (map (\<lambda>idx. wc_write_log phy 0 bus WC_UC_WRDATA (fw_word fw idx)) is)) s"
proof (induction "is" arbitrary: s)
  case (Cons i js)
  show ?case
    using Cons.IH[of "exec (wc_write E phy 0 bus WC_UC_WRDATA (fw_word fw i)) s"]
      wc_write_done[OF E Cons.prems, of phy 0 bus WC_UC_WRDATA "fw_word fw i"]
    by (simp add: wp_def split_beta)
qed (simp add: wp_def)


definition download_env :: env where
  "download_env = \<lparr>bar0_answer = (\<lambda>h off. if off = CMIC_MIIM_CTRL then CMIC_MIIM_CTRL_DONE else 0x8000),
     os_answer = (\<lambda>_ _ _. 0), indet = (\<lambda>_. 0)\<rparr>"

lemma download_env_ok: "copies_ok download_env" "miim_done download_env"
  by (simp_all add: copies_ok_def miim_done_def download_env_def)

lemma bde0_ready: "bde_ready bde0"
  by (simp add: bde_ready_def bde0_def)

lemma miim_read_download:
  assumes "bde_ready s"
  shows "result (miim_read download_env phy bus reg data) s = (0, 0x8000)"
proof -
  have poll: "run_state (miim_poll download_env (Suc n) c) t = (True, t\<lparr>trace := OsCall sys_copy_to_user [] 0
      # IoRd CMIC_MIIM_CTRL CMIC_MIIM_CTRL_DONE # OsCall sys_copy_from_user [] 0 # trace t\<rparr>)"
    if "bde_ready t" for c n and t :: "'a bde_state_scheme"
    using that run_bde_read_reg[OF download_env_ok(1), of t CMIC_MIIM_CTRL c]
    by (simp add: miim_regs_small Let_def) (simp add: download_env_def)
  note poll = poll[of _ 1999, simplified Suc_numeral, simplified]
  have small: "CMIC_MIIM_READ_DATA < 0x40000" by (simp add: miim_regs)
  show ?thesis
    using assms by (simp add: miim_read_def run_bde_write_reg[OF download_env_ok(1)]
      run_bde_read_reg[OF download_env_ok(1)] miim_regs_small small poll Let_def del: miim_poll.simps)
      (simp add: download_env_def miim_regs)
qed

lemma wc_read_download:
  assumes "bde_ready s"
  shows "result (wc_read download_env phy lane bus addr val) s = (0, 0x8000)"
proof -
  have w: "wp (Monad_Syntax.bind (miim_write download_env phy bus reg data) f) Q t"
    if "bde_ready t" "\<And>t'. bde_ready t' \<Longrightarrow> wp (f 0) Q t'" for reg data f Q and t :: "'a bde_state_scheme"
    using miim_write_log[OF download_env_ok(1) that(1), of phy bus reg data] download_env_ok(2) that
    by (auto simp: wp_def split_beta)
  have r: "wp (miim_read download_env phy bus reg data) (\<lambda>r _. r = (0, 0x8000)) t"
    if "bde_ready t" for reg data and t :: "'a bde_state_scheme"
    using miim_read_download[OF that] by (simp add: wp_def)
  have "wp (wc_read download_env phy lane bus addr val) (\<lambda>r _. r = (0, 0x8000)) s"
    unfolding wc_read_def Let_def
    by (intro w assms wp_if r | simp)+
  then show ?thesis by (auto dest: wpD)
qed

lemma wc_poll_download:
  "bde_ready s \<Longrightarrow> result (wc_poll download_env phy bus addr (\<lambda>v. v AND 0x8000 \<noteq> 0) (Suc n) val) s = 0x8000"
  using wc_read_download[of s phy 0 bus addr val] by (simp add: split_beta)

lemma wp_poll_download:
  assumes "log_after L s" and "\<And>s'. log_after L s' \<Longrightarrow> wp (f 0x8000) Q s'"
  shows "wp (Monad_Syntax.bind (wc_poll download_env phy bus addr (\<lambda>v. v AND 0x8000 \<noteq> 0) 500 val) f) Q s"
proof -
  have "wp (wc_poll download_env phy bus addr (\<lambda>v. v AND 0x8000 \<noteq> 0) 500 val) (\<lambda>_. log_after L) s"
    by (rule wp_log_after[OF emits_wc_poll assms(1)])
  moreover have "result (wc_poll download_env phy bus addr (\<lambda>v. v AND 0x8000 \<noteq> 0) 500 val) s = 0x8000"
    using wc_poll_download[of s phy bus addr 499 val, unfolded Suc_numeral, simplified] assms(1) by (simp add: log_after_def)
  ultimately show ?thesis using assms(2) by (simp add: wp_def split_beta)
qed

lemma wp_anyway: "(\<And>a s'. wp (f a) Q s') \<Longrightarrow> wp (Monad_Syntax.bind m f) Q s"
  by (simp add: wp_def split_beta)

lemma download_env_result: "result (wc_firmware_download download_env fw phy bus) bde0 \<noteq> - ETIMEDOUT"
proof -
  have "log_after [] bde0" by (simp add: log_after_def bde0_ready)
  then have "wp (wc_firmware_download download_env fw phy bus) (\<lambda>rc _. rc \<noteq> - ETIMEDOUT) bde0"
    unfolding wc_firmware_download_def
    apply -
    apply (rule wp_log_steps, assumption, rule wp_log_steps, assumption, rule wp_log_steps, assumption,
        rule wp_log_steps, assumption, rule wp_log_steps, assumption, rule wp_log_steps, assumption)
    apply (erule wp_poll_download)
    apply (simp add: wp_anyway split_beta wp_return)
    done
  then show ?thesis by (auto dest: wpD)
qed


end
