(* ===== verification/Sbus_Log.thy ===== *)
theory Sbus_Log
  imports Device_Model
begin

text \<open>
  The chip as the sequence of SBUS operations it was asked to do: each START of the history is
  decoded into the operation its message asks for. Under the contract \<open>sbus_device\<close> every
  accessor of \<^verbatim>\<open>sbus.c\<close> succeeds and appends one operation, so the effect of the long
  initialisation sequences is computed as a list.
\<close>

section \<open>Operations\<close>

datatype sbus_op =
    RegWrite u32 u32 "u32 list"    \<comment> \<open>block, address, words\<close>
  | MemWrite u32 u32 "u32 list"
  | SbusRead u32 u32

definition sbus_decode :: "io_event list \<Rightarrow> sbus_op" where
  "sbus_decode h =
     (let ws = map (\<lambda>i. msg_word h (2 + i)) [0..<(unat (msg_bytes h) + 3) div 4]
      in if msg_opcode h = SCHAN_WRITE_REG_CMD then RegWrite (msg_block h) (msg_word h 1) ws
         else if msg_opcode h = SCHAN_WRITE_MEM_CMD then MemWrite (msg_block h) (msg_word h 1) ws
         else SbusRead (msg_block h) (msg_word h 1))"

text \<open>The operations of a history, oldest first.\<close>

definition sbus_log :: "'z io_scheme \<Rightarrow> sbus_op list" where
  "sbus_log s = rev (map sbus_decode (schan_starts (trace s)))"

lemma sbus_log_start:
  "schan_starts tr = h # schan_starts (trace s) \<Longrightarrow> sbus_log (s\<lparr>trace := tr\<rparr>) = sbus_log s @ [sbus_decode h]"
  by (simp add: sbus_log_def)

text \<open>\<open>appends m s r ops\<close>: from \<open>s\<close>, \<open>m\<close> ends with \<open>r\<close>, changes nothing but the
  history and appends \<open>ops\<close> to the operations.\<close>

definition appends :: "('z bde_state_scheme, 'a) state \<Rightarrow> 'z bde_state_scheme \<Rightarrow> 'a \<Rightarrow> sbus_op list \<Rightarrow> bool" where
  "appends m s r ops \<longleftrightarrow> (\<exists>tr. run_state m s = (r, s\<lparr>trace := tr\<rparr>) \<and> sbus_log (s\<lparr>trace := tr\<rparr>) = sbus_log s @ ops)"

lemma ready_trace [simp]: "bde_ready (s\<lparr>trace := tr\<rparr>) = bde_ready s"
  by (simp add: bde_ready_def)

lemma appends_return: "appends (return x) s x []"
  unfolding appends_def by (rule exI[of _ "trace s"]) simp

lemma appends_bind:
  assumes "appends m s r ops" and "\<And>tr. appends (f r) (s\<lparr>trace := tr\<rparr>) r' ops'"
  shows "appends (Monad_Syntax.bind m f) s r' (ops @ ops')"
proof -
  obtain tr where 1: "run_state m s = (r, s\<lparr>trace := tr\<rparr>)" "sbus_log (s\<lparr>trace := tr\<rparr>) = sbus_log s @ ops"
    using assms(1) unfolding appends_def by blast
  obtain tr' where "run_state (f r) (s\<lparr>trace := tr\<rparr>) = (r', s\<lparr>trace := tr'\<rparr>)"
      "sbus_log (s\<lparr>trace := tr'\<rparr>) = sbus_log (s\<lparr>trace := tr\<rparr>) @ ops'"
    using assms(2)[of tr] unfolding appends_def by auto
  then show ?thesis using 1 unfolding appends_def by auto
qed

lemma appends_run:
  "appends m s r ops \<Longrightarrow> result m s = r \<and> sbus_log (exec m s) = sbus_log s @ ops \<and> (\<exists>tr. exec m s = s\<lparr>trace := tr\<rparr>)"
  unfolding appends_def by auto

lemma appends_silent:
  assumes "emits silent m" and "result m s = r"
  shows "appends m s r []"
proof -
  obtain evs where e: "exec m s = s\<lparr>trace := evs @ trace s\<rparr>" "list_all silent evs" by (rule emitsE[OF assms(1)])
  have "sbus_log (s\<lparr>trace := evs @ trace s\<rparr>) = sbus_log s"
    using e(2) by (simp add: sbus_log_def schan_starts_silent)
  then show ?thesis using e(1) assms(2) unfolding appends_def
    by (intro exI[of _ "evs @ trace s"]) (auto simp: prod_eq_iff)
qed

lemma appends_for_each:
  assumes "\<And>i tr. i \<in> set is \<Longrightarrow> \<exists>r. appends (f i) (s\<lparr>trace := tr\<rparr>) r (ops i)"
  shows "appends (for_each is f) s () (concat (map ops is))"
  using assms
proof (induction "is" arbitrary: s)
  case Nil
  then show ?case by (simp add: appends_return)
next
  case (Cons i js)
  obtain r where r: "appends (f i) s r (ops i)"
    using Cons.prems[of i "trace s"] by auto
  have "appends (for_each js f) (s\<lparr>trace := tr\<rparr>) () (concat (map ops js))" for tr
    using Cons.prems by (intro Cons.IH) simp
  then have "appends (Monad_Syntax.bind (f i) (\<lambda>_. for_each js f)) s () (ops i @ concat (map ops js))"
    by (intro appends_bind[OF r])
  then show ?case by simp
qed

lemma appends_udelay: "appends (udelay n) s () []"
  by (rule appends_silent) (simp_all add: emits_udelay)

section \<open>The accessors\<close>

lemma start_decode:
  assumes m: "\<And>i. i < length cmd \<Longrightarrow> msg_word h i = (if i = 7 \<and> 7 < length cmd then x else cmd ! i)"
    and c: "cmd = [schan_header opcode blk (of_nat w), addr] @ ws" "unat opcode < 64" "unat blk < 64" "w < 32"
    and l: "opcode = SCHAN_WRITE_REG_CMD \<or> opcode = SCHAN_WRITE_MEM_CMD \<Longrightarrow> length ws = w"
  shows "sbus_decode h = (if opcode = SCHAN_WRITE_REG_CMD then RegWrite blk addr (ws[5 := if 5 < w then x else ws ! 5])
     else if opcode = SCHAN_WRITE_MEM_CMD then MemWrite blk addr (ws[5 := if 5 < w then x else ws ! 5])
     else SbusRead blk addr)"
proof -
  have w: "unat (of_nat w :: u32) = w" using c(4) by (simp add: unat_of_nat take_bit_nat_eq_self)
  have m0: "msg_word h 0 = schan_header opcode blk (of_nat w)" and m1: "msg_word h 1 = addr"
    using m[of 0] m[of 1] by (simp_all add: c(1))
  have f: "msg_opcode h = opcode" "msg_block h = blk" "msg_bytes h = 4 * of_nat w"
    unfolding msg_opcode_def msg_block_def msg_bytes_def m0
    using header_fields_of[OF c(2,3), of "of_nat w"] w c(4) by simp_all
  have "4 * of_nat w = (of_nat (4 * w) :: u32)" by simp
  then have b: "(unat (msg_bytes h) + 3) div 4 = w"
    unfolding f(3) using c(4) by (simp add: unat_of_nat take_bit_nat_eq_self del: of_nat_mult)
  have ws: "map (\<lambda>i. msg_word h (2 + i)) [0..<w] = ws[5 := if 5 < w then x else ws ! 5]" if "length ws = w"
  proof (rule nth_equalityI)
    show "map (\<lambda>i. msg_word h (2 + i)) [0..<w] ! i = ws[5 := if 5 < w then x else ws ! 5] ! i"
      if i: "i < length (map (\<lambda>i. msg_word h (2 + i)) [0..<w])" for i
      using i m[of "2 + i"] \<open>length ws = w\<close> by (auto simp: c(1) nth_list_update)
  qed (simp add: that)
  show ?thesis using ws l f b by (auto simp: sbus_decode_def m1 simp del: One_nat_def)
qed

lemma unat_block: "unat (cdk_addr_to_block addr) < 64"
proof -
  have "unat (cdk_addr_to_block addr) < 2 ^ 6"
    by (rule bit_boundD) (auto simp: cdk_addr_to_block_def word_bits mask_lits bit_and_mask_iff)
  then show ?thesis by simp
qed

lemma bde_schan_op_appends:
  assumes E: "sbus_device E" and s: "bde_ready s"
    and cmd: "cmd = [schan_header opcode blk (of_nat w), addr] @ ws" "unat opcode < 64" "unat blk < 64" "w \<le> 14"
    and len: "length ws \<le> 14" "n = 2 + int (length ws)"
    and l: "opcode = SCHAN_WRITE_REG_CMD \<or> opcode = SCHAN_WRITE_MEM_CMD \<Longrightarrow> length ws = w"
    and k: "\<And>x. d = Some x \<Longrightarrow> 0 < k \<and> k \<le> 16 \<and> length x \<ge> nat k"
  obtains ws' tr where "run_state (bde_schan_op E cmd n d k st0) s
        = ((0, map_option (\<lambda>x. copy_words x ws' (nat k)) d, 0), s\<lparr>trace := tr\<rparr>)" and
      "length ws' = 16" and
      "sbus_log (s\<lparr>trace := tr\<rparr>) = sbus_log s @
         [if opcode = SCHAN_WRITE_REG_CMD then RegWrite blk addr (ws[5 := if 5 < w then misc_at E (after_copy_in s) else ws ! 5])
          else if opcode = SCHAN_WRITE_MEM_CMD then MemWrite blk addr (ws[5 := if 5 < w then misc_at E (after_copy_in s) else ws ! 5])
          else SbusRead blk addr]" and
      "\<forall>i<16. i \<noteq> 7 \<longrightarrow> ws' ! i = sbus_response (schan_starts tr) i"
proof -
  obtain ws' tr pad where op: "run_state (bde_schan_op E cmd n d k st0) s
        = ((0, map_option (\<lambda>x. copy_words x ws' (nat k)) d, 0), s\<lparr>trace := tr\<rparr>)" "length ws' = 16"
      "schan_starts tr = start_history E (cmd @ pad) n (after_copy_in s) # schan_starts (trace s)"
      "\<forall>i<16. i \<noteq> 7 \<longrightarrow> ws' ! i = sbus_response (schan_starts tr) i"
    by (rule bde_schan_op_device_opt[OF E s, of n cmd d k st0]) (use cmd len k in auto)
  define h where "h = start_history E (cmd @ pad) n (after_copy_in s)"
  have "msg_word h i = (if i = 7 \<and> 7 < length cmd then misc_at E (after_copy_in s) else cmd ! i)" if "i < length cmd" for i
    using that len cmd(1) unfolding h_def by (subst msg_word_start) auto
  then have "sbus_decode h = (if opcode = SCHAN_WRITE_REG_CMD then RegWrite blk addr (ws[5 := if 5 < w then misc_at E (after_copy_in s) else ws ! 5])
          else if opcode = SCHAN_WRITE_MEM_CMD then MemWrite blk addr (ws[5 := if 5 < w then misc_at E (after_copy_in s) else ws ! 5])
          else SbusRead blk addr)"
    using cmd l by (intro start_decode) auto
  then show ?thesis
    using that[OF op(1,2) _ op(4)] sbus_log_start[OF op(3)] by (simp add: h_def)
qed

text \<open>The first word of a register, read off the operations.\<close>

fun reg_write_to :: "u32 \<Rightarrow> u32 \<Rightarrow> sbus_op \<Rightarrow> u32 list" where
  "reg_write_to b a (RegWrite b' a' ws) = (if b' = b \<and> a' = a then take 1 ws else [])"
| "reg_write_to b a _ = []"

definition reg_of :: "sbus_op list \<Rightarrow> u32 \<Rightarrow> u32" where
  "reg_of ops a = last (0 # concat (map (reg_write_to (cdk_addr_to_block a) a) ops))"

lemma reg_of_append:
  "reg_of (xs @ ys) a = (let ws = concat (map (reg_write_to (cdk_addr_to_block a) a) ys)
     in if ws = [] then reg_of xs a else last ws)"
  by (simp add: reg_of_def Let_def last_append)

lemma reg_word_log: "reg_word (schan_starts (trace s)) (cdk_addr_to_block a) a 0 = reg_of (sbus_log s) a"
proof -
  have "reg_word hs b a 0 = last (0 # concat (map (reg_write_to b a) (rev (map sbus_decode hs))))" for hs b
  proof (induction hs)
    case (Cons h hs)
    have "reg_write_to b a (sbus_decode h) = (if msg_opcode h = SCHAN_WRITE_REG_CMD \<and> msg_block h = b
        \<and> msg_word h 1 = a \<and> 0 < unat (msg_bytes h) then [msg_word h 2] else [])"
    proof (cases "unat (msg_bytes h) = 0")
      case False
      then have "[0..<(unat (msg_bytes h) + 3) div 4] = 0 # [1..<(unat (msg_bytes h) + 3) div 4]"
        by (subst upt_conv_Cons) auto
      then show ?thesis using False by (auto simp: sbus_decode_def Let_def numeral_2_eq_2)
    qed (simp add: sbus_decode_def)
    then show ?case using Cons.IH by (auto simp: last_append)
  qed simp
  then show ?thesis by (simp add: reg_of_def sbus_log_def)
qed

lemma appends_reg_write:
  assumes "sbus_device E" and "bde_ready s"
  shows "appends (sbus_reg_write E a v) s 0 [RegWrite (cdk_addr_to_block a) a [v]]"
proof -
  obtain ws' tr where "run_state (bde_schan_op E [schan_header SCHAN_WRITE_REG_CMD (cdk_addr_to_block a) 1, a, v] 3 None 0 (- 1)) s
        = ((0, None, 0), s\<lparr>trace := tr\<rparr>)"
      "sbus_log (s\<lparr>trace := tr\<rparr>) = sbus_log s @ [RegWrite (cdk_addr_to_block a) a [v]]"
    by (rule bde_schan_op_appends[OF assms, of "[schan_header SCHAN_WRITE_REG_CMD (cdk_addr_to_block a) 1, a, v]"
          SCHAN_WRITE_REG_CMD "cdk_addr_to_block a" 1 a "[v]" 3 None 0 "- 1"]) (auto simp: unat_block)
  then show ?thesis unfolding appends_def sbus_reg_write_def by (intro exI[of _ tr]) simp
qed

lemma appends_reg_write64:
  assumes "sbus_device E" and "bde_ready s"
  shows "appends (sbus_reg_write64 E a [v, w]) s 0 [RegWrite (cdk_addr_to_block a) a [v, w]]"
proof -
  obtain ws' tr where "run_state (bde_schan_op E [schan_header SCHAN_WRITE_REG_CMD (cdk_addr_to_block a) 2, a, v, w] 4 None 0 (- 1)) s
        = ((0, None, 0), s\<lparr>trace := tr\<rparr>)"
      "sbus_log (s\<lparr>trace := tr\<rparr>) = sbus_log s @ [RegWrite (cdk_addr_to_block a) a [v, w]]"
    by (rule bde_schan_op_appends[OF assms, of "[schan_header SCHAN_WRITE_REG_CMD (cdk_addr_to_block a) 2, a, v, w]"
          SCHAN_WRITE_REG_CMD "cdk_addr_to_block a" 2 a "[v, w]" 4 None 0 "- 1"]) (auto simp: unat_block)
  then show ?thesis unfolding appends_def sbus_reg_write64_def by (intro exI[of _ tr]) simp
qed

lemma read_word:
  assumes "schan_starts tr = h # schan_starts (trace s)" and "sbus_decode h = SbusRead (cdk_addr_to_block a) a"
    and "msg_opcode h = SCHAN_READ_REG_CMD"
  shows "sbus_response (schan_starts tr) 1 = reg_of (sbus_log s) a"
  using assms reg_word_log[of s a] by (auto simp: sbus_decode_def Let_def split: if_splits)

lemma appends_reg_read:
  assumes E: "sbus_device E" "bde_ready s"
  shows "appends (sbus_reg_read E a x) s (0, reg_of (sbus_log s) a) [SbusRead (cdk_addr_to_block a) a]"
proof -
  let ?cmd = "[schan_header SCHAN_READ_REG_CMD (cdk_addr_to_block a) 1, a]"
  obtain ws' tr pad where op: "run_state (bde_schan_op E ?cmd 2 (Some [0, 0]) 2 (- 1)) s
        = ((0, map_option (\<lambda>x. copy_words x ws' (nat 2)) (Some [0, 0]), 0), s\<lparr>trace := tr\<rparr>)" "length ws' = 16"
      "schan_starts tr = start_history E (?cmd @ pad) 2 (after_copy_in s) # schan_starts (trace s)"
      "\<forall>i<16. i \<noteq> 7 \<longrightarrow> ws' ! i = sbus_response (schan_starts tr) i"
    by (rule bde_schan_op_device_opt[OF E, of 2 ?cmd "Some [0, 0]" 2 "- 1"]) auto
  define h where "h = start_history E (?cmd @ pad) 2 (after_copy_in s)"
  have mw: "msg_word h i = ?cmd ! i" if "i < 2" for i
    using that unfolding h_def by (subst msg_word_start) auto
  have "msg_opcode h = SCHAN_READ_REG_CMD" "msg_block h = cdk_addr_to_block a" "msg_word h 1 = a"
    using header_fields[of h SCHAN_READ_REG_CMD a 1] mw[of 0] mw[of 1] by simp_all
  then have d: "sbus_decode h = SbusRead (cdk_addr_to_block a) a" "msg_opcode h = SCHAN_READ_REG_CMD"
    by (simp_all add: sbus_decode_def)
  have st: "schan_starts tr = h # schan_starts (trace s)" using op(3) by (simp only: h_def)
  have "ws' ! 1 = reg_of (sbus_log s) a"
    using op(4)[rule_format, of 1] read_word[OF st d] by simp
  moreover have "copy_words [0, 0] ws' 2 ! 1 = ws' ! 1"
    using op(2) by (simp add: nth_copy_words)
  ultimately show ?thesis
    using op(1) sbus_log_start[OF st] d unfolding appends_def sbus_reg_read_def
    by (intro exI[of _ tr]) simp
qed

lemma appends_reg_modify:
  assumes E: "sbus_device E" and s: "bde_ready s"
  shows "appends (sbus_reg_modify E a msk v) s 0
    [SbusRead (cdk_addr_to_block a) a, RegWrite (cdk_addr_to_block a) a [(reg_of (sbus_log s) a AND NOT msk) OR (v AND msk)]]"
proof -
  have "appends (Monad_Syntax.bind (sbus_reg_read E a 0)
      (\<lambda>(rc, cur). if rc < 0 then return (- 1) else sbus_reg_write E a ((cur AND NOT msk) OR (v AND msk)))) s 0
      ([SbusRead (cdk_addr_to_block a) a] @
       [RegWrite (cdk_addr_to_block a) a [(reg_of (sbus_log s) a AND NOT msk) OR (v AND msk)]])"
    using s by (intro appends_bind[OF appends_reg_read[OF E s]]) (simp add: appends_reg_write[OF E])
  then show ?thesis by (simp add: sbus_reg_modify_def)
qed

lemma appends_mem_write:
  assumes E: "sbus_device E" and s: "bde_ready s" and d: "length d = w" "0 < w" "w \<le> 14"
  shows "appends (sbus_mem_write E a idx d (int w)) s 0
    [MemWrite (cdk_addr_to_block a) (a + word_of_int idx) (d[5 := if 5 < w then misc_at E (after_copy_in s) else d ! 5])]"
proof -
  let ?cmd = "[schan_header SCHAN_WRITE_MEM_CMD (cdk_addr_to_block a) (of_nat w), a + word_of_int idx] @ map ((!) d) [0..<w]"
  have dm: "map ((!) d) [0..<w] = d" using d(1) by (metis map_nth)
  obtain ws' tr where op: "run_state (bde_schan_op E ?cmd (2 + int w) (Some [0, 0]) 1 (- 1)) s
        = ((0, map_option (\<lambda>x. copy_words x ws' (nat 1)) (Some [0, 0]), 0), s\<lparr>trace := tr\<rparr>)" "length ws' = 16"
      "sbus_log (s\<lparr>trace := tr\<rparr>) = sbus_log s @ [MemWrite (cdk_addr_to_block a) (a + word_of_int idx)
          (d[5 := if 5 < w then misc_at E (after_copy_in s) else d ! 5])]"
      "\<forall>i<16. i \<noteq> 7 \<longrightarrow> ws' ! i = sbus_response (schan_starts tr) i"
    by (rule bde_schan_op_appends[OF E s, of ?cmd SCHAN_WRITE_MEM_CMD "cdk_addr_to_block a" w "a + word_of_int idx"
          "map ((!) d) [0..<w]" "2 + int w" "Some [0, 0]" 1 "- 1"]) (use d in \<open>auto simp: unat_block dm\<close>)
  have "ws' ! 0 = 0"
  proof -
    have "sbus_response (schan_starts tr) 0 = 0" by (cases "schan_starts tr") simp_all
    then show ?thesis using op(4)[rule_format, of 0] by simp
  qed
  then show ?thesis
    using op(1,2) d unfolding appends_def sbus_mem_write_def Let_def
    by (intro exI[of _ tr]) (use op(3) in \<open>simp add: copy_words_def take_Suc_conv_app_nth\<close>)
qed

text \<open>Word \<open>i\<close> of a register of the chip.\<close>

definition chip_reg :: "'z io_scheme \<Rightarrow> u32 \<Rightarrow> nat \<Rightarrow> u32" where
  "chip_reg s a i = reg_word (schan_starts (trace s)) (cdk_addr_to_block a) a i"

lemma reg_read64_value:
  assumes E: "sbus_device E" "bde_ready s"
  shows "result (sbus_reg_read64 E a x) s = (0, [chip_reg s a 0, chip_reg s a 1])"
proof -
  let ?cmd = "[schan_header SCHAN_READ_REG_CMD (cdk_addr_to_block a) 2, a]"
  obtain ws' tr pad where op: "run_state (bde_schan_op E ?cmd 2 (Some [0, 0, 0]) 3 (- 1)) s
        = ((0, map_option (\<lambda>x. copy_words x ws' (nat 3)) (Some [0, 0, 0]), 0), s\<lparr>trace := tr\<rparr>)" "length ws' = 16"
      "schan_starts tr = start_history E (?cmd @ pad) 2 (after_copy_in s) # schan_starts (trace s)"
      "\<forall>i<16. i \<noteq> 7 \<longrightarrow> ws' ! i = sbus_response (schan_starts tr) i"
    by (rule bde_schan_op_device_opt[OF E, of 2 ?cmd "Some [0, 0, 0]" 3 "- 1"]) auto
  define h where "h = start_history E (?cmd @ pad) 2 (after_copy_in s)"
  have mw: "msg_word h i = ?cmd ! i" if "i < 2" for i
    using that unfolding h_def by (subst msg_word_start) auto
  have h: "msg_opcode h = SCHAN_READ_REG_CMD" "msg_block h = cdk_addr_to_block a" "msg_word h 1 = a"
    using header_fields[of h SCHAN_READ_REG_CMD a 2] mw[of 0] mw[of 1] by simp_all
  have st: "schan_starts tr = h # schan_starts (trace s)" using op(3) by (simp only: h_def)
  have "ws' ! 1 = chip_reg s a 0" "ws' ! 2 = chip_reg s a 1"
    using op(4)[rule_format, of 1] op(4)[rule_format, of 2] h by (simp_all add: st chip_reg_def)
  then show ?thesis
    using op(1,2) by (simp add: sbus_reg_read64_def nth_copy_words)
qed


lemma appends_reg_read64:
  assumes E: "sbus_device E" "bde_ready s"
  shows "\<exists>v. appends (sbus_reg_read64 E a x) s v [SbusRead (cdk_addr_to_block a) a]"
proof -
  let ?cmd = "[schan_header SCHAN_READ_REG_CMD (cdk_addr_to_block a) 2, a]"
  obtain ws' tr where "run_state (bde_schan_op E ?cmd 2 (Some [0, 0, 0]) 3 (- 1)) s
        = ((0, map_option (\<lambda>x. copy_words x ws' (nat 3)) (Some [0, 0, 0]), 0), s\<lparr>trace := tr\<rparr>)"
      "sbus_log (s\<lparr>trace := tr\<rparr>) = sbus_log s @ [SbusRead (cdk_addr_to_block a) a]"
    by (rule bde_schan_op_appends[OF E, of ?cmd SCHAN_READ_REG_CMD "cdk_addr_to_block a" 2 a "[]" 2 "Some [0, 0, 0]" 3 "- 1"])
      (auto simp: unat_block)
  then show ?thesis unfolding appends_def sbus_reg_read64_def by auto
qed

end
