(* ===== verification/Port.thy ===== *)
theory Port
  imports Serdes Sbus_Log
begin

text \<open>
  Ports: \<^verbatim>\<open>sdk/src/port.c\<close> (enable, speed, link status), \<^verbatim>\<open>sdk/src/stats.c\<close> (counters) and
  the address helper \<^verbatim>\<open>xlport_reg_addr\<close> of \<^verbatim>\<open>init_datapath.c\<close>. The three files hold three
  copies of the map from ports to XLPORT blocks and lanes; the locale \<open>lane_map\<close> states what a
  copy has to provide and is interpreted on each of them.
\<close>

section \<open>The maps\<close>

text \<open>\<open>blocks\<close> of port.c: the base address of each block.\<close>

definition xlport_blocks :: "u32 list" where
  "xlport_blocks = [0x40a00000, 0x40b00000, 0x00b00000, 0x00c00000, 0x00d00000, 0x00e00000, 0x00f00000, 0x40000000,
     0x40100000, 0x40200000, 0x40300000, 0x40400000, 0x40600000, 0x40500000, 0x40900000, 0x40800000]"

definition permute_20_23 :: "int list" where "permute_20_23 = [1, 0, 3, 2]"

text \<open>Block base, lane and block index of an xe port; \<open>None\<close> is the result -1.\<close>

definition xe_to_block_lane :: "int \<Rightarrow> (u32 \<times> int \<times> int) option" where
  "xe_to_block_lane xe =
     (if xe < 0 \<or> xe > 51 then None
      else if xe \<le> 3 then Some (xlport_blocks ! 0, xe, 0)
      else if xe \<le> 7 then Some (xlport_blocks ! 1, xe - 4, 1)
      else if xe \<le> 11 then Some (xlport_blocks ! 2, xe - 8, 2)
      else if xe \<le> 15 then Some (xlport_blocks ! 3, xe - 12, 3)
      else if xe \<le> 19 then Some (xlport_blocks ! 4, xe - 16, 4)
      else if xe \<le> 23 then Some (xlport_blocks ! 5, permute_20_23 ! nat (xe - 20), 5)
      else if xe \<le> 27 then Some (xlport_blocks ! 6, permute_20_23 ! nat (xe - 24), 6)
      else if xe \<le> 31 then Some (xlport_blocks ! 7, xe - 28, 7)
      else if xe \<le> 35 then Some (xlport_blocks ! 8, xe - 32, 8)
      else if xe \<le> 39 then Some (xlport_blocks ! 9, xe - 36, 9)
      else if xe \<le> 43 then Some (xlport_blocks ! 10, xe - 40, 10)
      else if xe \<le> 47 then Some (xlport_blocks ! 11, xe - 44, 11)
      else if xe = 48 then Some (xlport_blocks ! 12, 0, 12)
      else if xe = 49 then Some (xlport_blocks ! 13, 0, 13)
      else if xe = 50 then Some (xlport_blocks ! 14, 0, 14)
      else Some (xlport_blocks ! 15, 0, 15))"

text \<open>init_datapath.c\<close>

definition xlport_base_table :: "u32 list" where
  "xlport_base_table = [0x40a00000, 0x40b00000, 0x00b00000, 0x00c00000, 0x00d00000, 0x00e00000, 0x00f00000, 0x40000000,
     0x40100000, 0x40200000, 0x40300000, 0x40400000, 0x40600000, 0x40500000, 0x40900000, 0x40800000]"

definition xlport_permute :: "int list" where "xlport_permute = [1, 0, 3, 2]"

definition xlport_reg_addr :: "int \<Rightarrow> int \<Rightarrow> u32" where
  "xlport_reg_addr xe off =
     (if xe < 0 \<or> xe > 51 then 0
      else let (blk, lane) =
        (if xe < 48 then
           (let blk = xe div 4; lane = xe mod 4
            in (blk, if blk = 5 \<or> blk = 6 then xlport_permute ! nat lane else lane))
         else (12 + (xe - 48), 0))
      in xlport_base_table ! nat blk + word_of_int lane * 0x1000 + word_of_int off)"

text \<open>stats.c\<close>

record xlport_stat =
  stat_block_id :: u32
  stat_base_xe :: int
  stat_lane :: "int list"

definition stat_blocks :: "xlport_stat list" where
  "stat_blocks = map (\<lambda>(b, x, l). \<lparr>stat_block_id = b, stat_base_xe = x, stat_lane = l\<rparr>)
     [(0x40a, 0, [0, 1, 2, 3]), (0x40b, 4, [0, 1, 2, 3]), (0x00b, 8, [0, 1, 2, 3]), (0x00c, 12, [0, 1, 2, 3]),
      (0x00d, 16, [0, 1, 2, 3]), (0x00e, 20, [1, 0, 3, 2]), (0x00f, 24, [1, 0, 3, 2]), (0x400, 28, [0, 1, 2, 3]),
      (0x401, 32, [0, 1, 2, 3]), (0x402, 36, [0, 1, 2, 3]), (0x403, 40, [0, 1, 2, 3]), (0x404, 44, [0, 1, 2, 3]),
      (0x406, 48, [0, 0, 0, 0]), (0x405, 49, [0, 0, 0, 0]), (0x409, 50, [0, 0, 0, 0]), (0x408, 51, [0, 0, 0, 0])]"

fun stat_scan :: "xlport_stat list \<Rightarrow> int \<Rightarrow> u32 \<Rightarrow> u32 option" where
  "stat_scan [] xcport off = None"
| "stat_scan (b # bs) xcport off =
     (let base = stat_base_xe b; span = (if base \<ge> 48 then 1 else 4)
      in if xcport < base \<or> xcport \<ge> base + span then stat_scan bs xcport off
         else Some (push_bit 20 (stat_block_id b) OR push_bit 12 (word_of_int (stat_lane b ! nat (xcport - base))) OR off))"

definition stat_reg_addr :: "int \<Rightarrow> u32 \<Rightarrow> u32 option" where
  "stat_reg_addr xcport off = stat_scan stat_blocks xcport off"

section \<open>Port enable, speed and link\<close>

record port_state = serdes_state +
  xlport_enable_shadow :: "u32 list"

abbreviation (input) "XLPORT_PORT_ENABLE_OFF \<equiv> (0x80000 + 0x22a :: u32)"
abbreviation (input) "MAC_MODE_OFF \<equiv> (0x511 :: u32)"

definition set_enable_bit :: "int \<Rightarrow> int \<Rightarrow> bool \<Rightarrow> u32 list \<Rightarrow> u32 list" where
  "set_enable_bit block_idx lane enable sh =
     (let i = nat block_idx; m = push_bit (nat lane) 1
      in sh[i := (if enable then sh ! i OR m else sh ! i AND NOT m)])"

definition bcm56846_port_enable_set :: "env \<Rightarrow> u8 list \<Rightarrow> int \<Rightarrow> int \<Rightarrow> ('z port_state_scheme, int) state" where
  "bcm56846_port_enable_set E fw port enable = do {
     let xe = port - 1;
     if port \<le> 0 \<or> port > 52 then return (- EINVAL)
     else (case xe_to_block_lane xe of None \<Rightarrow> return (- EINVAL)
       | Some (base, lane, block_idx) \<Rightarrow> do {
           modify (\<lambda>s. s\<lparr>xlport_enable_shadow := set_enable_bit block_idx lane (enable \<noteq> 0) (xlport_enable_shadow s)\<rparr>);
           val \<leftarrow> gets (\<lambda>s. xlport_enable_shadow s ! nat block_idx);
           rc \<leftarrow> sbus_reg_write E (base + XLPORT_PORT_ENABLE_OFF) val;
           if rc \<noteq> 0 then return (- EIO)
           else if enable \<noteq> 0 then do { bcm56846_serdes_init_10g E fw port; return 0 }
           else return 0
         })
   }"

definition bcm56846_port_speed_set :: "int \<Rightarrow> int" where
  "bcm56846_port_speed_set speed_mbps = (if speed_mbps = 10000 then 0 else - ENOTSUP)"

text \<open>\<open>link_up\<close> is the out-parameter, \<open>None\<close> a null pointer; it is returned as left.\<close>

definition bcm56846_port_link_status_get :: "env \<Rightarrow> int \<Rightarrow> int option \<Rightarrow> ('z port_state_scheme, int \<times> int option) state" where
  "bcm56846_port_link_status_get E port link_up =
     (case link_up of None \<Rightarrow> return (- EINVAL, None)
      | Some _ \<Rightarrow>
        if port \<le> 0 \<or> port > 52 then return (- EINVAL, Some 0)
        else if port \<ge> 49 then bcm56846_serdes_link_get E port (Some 0)
        else (case xe_to_block_lane (port - 1) of None \<Rightarrow> return (- EINVAL, Some 0)
          | Some (base, lane, block_idx) \<Rightarrow> do {
              (rc, val) \<leftarrow> sbus_reg_read E (base + word_of_int lane * 0x1000 + MAC_MODE_OFF) 0;
              if rc \<noteq> 0 then do {
                sh \<leftarrow> gets xlport_enable_shadow;
                return (0, Some (if sh ! nat block_idx AND push_bit (nat lane) 1 \<noteq> 0 then 1 else 0))
              } else return (0, Some (if drop_bit 5 val AND 1 \<noteq> 0 then 1 else 0))
            }))"

section \<open>Counters\<close>

datatype bcm56846_stat_t = BCM56846_STAT_RPKT | BCM56846_STAT_RBYT | BCM56846_STAT_TPKT | BCM56846_STAT_TBYT

fun stat_reg :: "bcm56846_stat_t \<Rightarrow> u32" where
  "stat_reg BCM56846_STAT_RPKT = 0x0b"
| "stat_reg BCM56846_STAT_RBYT = 0x34"
| "stat_reg BCM56846_STAT_TPKT = 0x45"
| "stat_reg BCM56846_STAT_TBYT = 0x64"

text \<open>\<open>stat\<close> is \<open>None\<close> for an integer that is no counter; \<open>value\<close> as \<open>link_up\<close> above.\<close>

definition bcm56846_stat_get ::
  "env \<Rightarrow> int \<Rightarrow> bcm56846_stat_t option \<Rightarrow> u64 option \<Rightarrow> ('z bde_state_scheme, int \<times> u64 option) state" where
  "bcm56846_stat_get E port stat value =
     (if value = None \<or> port \<le> 0 \<or> port > 52 then return (- EINVAL, value)
      else case stat of None \<Rightarrow> return (- EINVAL, value)
      | Some st \<Rightarrow> (case stat_reg_addr (port - 1) (stat_reg st) of None \<Rightarrow> return (- EINVAL, value)
        | Some addr \<Rightarrow> do {
            (rc, words) \<leftarrow> sbus_reg_read64 E addr [0, 0];
            if rc \<noteq> 0 then return (- EIO, value)
            else return (0, Some (push_bit 32 (ucast (words ! 0)) OR ucast (words ! 1)))
          }))"

section \<open>What a map has to provide\<close>

locale lane_map =
  fixes lane_base :: "int \<Rightarrow> u32"
  assumes lane_base_aligned: "0 \<le> xe \<Longrightarrow> xe \<le> 51 \<Longrightarrow> lane_base xe AND mask 12 = 0"
    and lane_base_inj: "inj_on lane_base {0..51}"
begin

lemma lane_base_bit: "0 \<le> xe \<Longrightarrow> xe \<le> 51 \<Longrightarrow> bit (lane_base xe) k \<Longrightarrow> 12 \<le> k"
  using arg_cong[OF lane_base_aligned[of xe], of "\<lambda>w. bit w k"] by (simp add: bit_and_mask_iff)

text \<open>Two ports never share a register, whatever the register offsets below 0x1000.\<close>

lemma registers_disjoint:
  assumes "0 \<le> xe" "xe \<le> 51" "0 \<le> xe'" "xe' \<le> 51" and "off < 0x1000" "off' < 0x1000"
    and eq: "lane_base xe OR off = lane_base xe' OR off'"
  shows "xe = xe' \<and> off = off'"
proof -
  have o: "bit off k \<Longrightarrow> k < 12" "bit off' k \<Longrightarrow> k < 12" for k
    using assms(5,6) bit_below[of off 12 k] bit_below[of off' 12 k] by (simp_all add: word_less_nat_alt)
  have e: "bit (lane_base xe) k \<or> bit off k \<longleftrightarrow> bit (lane_base xe') k \<or> bit off' k" for k
    using arg_cong[OF eq, of "\<lambda>w. bit w k"] by (simp add: bit_or_iff)
  have b: "bit (lane_base xe) k \<Longrightarrow> 12 \<le> k" "bit (lane_base xe') k \<Longrightarrow> 12 \<le> k" for k
    using assms(1-4) lane_base_bit by blast+
  have "off = off'" using o e b by (intro bit_eqI) (metis not_le)
  moreover have "lane_base xe = lane_base xe'" using o e b by (intro bit_eqI) (metis not_le)
  then have "xe = xe'" using lane_base_inj assms(1-4) by (auto dest: inj_onD)
  ultimately show ?thesis by simp
qed

end

definition port_lane_base :: "int \<Rightarrow> u32" where
  "port_lane_base xe = (case xe_to_block_lane xe of None \<Rightarrow> 0 | Some (base, lane, _) \<Rightarrow> base + word_of_int lane * 0x1000)"

definition stat_lane_base :: "int \<Rightarrow> u32" where
  "stat_lane_base xe = (case stat_reg_addr xe 0 of None \<Rightarrow> 0 | Some a \<Rightarrow> a)"

lemma lane_map_by_table:
  assumes "list_all (\<lambda>xe. f xe AND mask 12 = 0) [0..51]" and "distinct (map f [0..51])"
  shows "lane_map f"
  using assms by unfold_locales (auto simp: list_all_iff distinct_map)

interpretation port_lanes: lane_map port_lane_base
  by (rule lane_map_by_table; code_simp)

interpretation xlport_lanes: lane_map "\<lambda>xe. xlport_reg_addr xe 0"
  by (rule lane_map_by_table; code_simp)

interpretation stat_lanes: lane_map stat_lane_base
  by (rule lane_map_by_table; code_simp)

lemma stat_scan_off: "stat_scan bs xe off = map_option (\<lambda>a. a OR off) (stat_scan bs xe 0)"
  by (induction bs) (simp_all add: Let_def or.assoc)

lemma or_off:
  assumes "0 \<le> xe" "xe \<le> 51" "off < 0x1000"
  shows "port_lane_base xe OR off = port_lane_base xe + off"
proof -
  have o: "bit off k \<Longrightarrow> k < 12" for k
    using assms(3) bit_below[of off 12 k] by (simp add: word_less_nat_alt)
  have "port_lane_base xe AND off = 0"
  proof (rule bit_eqI)
    show "bit (port_lane_base xe AND off) k = bit 0 k" for k
      using port_lanes.lane_base_bit[OF assms(1,2), of k] o[of k] by (auto simp: bit_and_iff)
  qed
  then show ?thesis by (simp add: disjunctive_add_eq_or)
qed

lemma xlport_reg_addr_off:
  "0 \<le> xe \<Longrightarrow> xe \<le> 51 \<Longrightarrow> xlport_reg_addr xe off = xlport_reg_addr xe 0 + word_of_int off"
  by (simp add: xlport_reg_addr_def Let_def split: prod.split)

lemma maps_agree_0:
  "list_all (\<lambda>xe. xlport_reg_addr xe 0 = port_lane_base xe \<and> stat_reg_addr xe 0 = Some (port_lane_base xe)) [0..51]"
  by code_simp

lemma port_maps:
  assumes "0 \<le> xe" "xe \<le> 51" and "off < 0x1000"
  shows "xlport_reg_addr xe (uint off) = port_lane_base xe + off \<and>
         stat_reg_addr xe off = Some (port_lane_base xe + off) \<and>
         (\<forall>xe' off'. 0 \<le> xe' \<and> xe' \<le> 51 \<and> off' < 0x1000 \<and> port_lane_base xe' + off' = port_lane_base xe + off
            \<longrightarrow> xe' = xe \<and> off' = off)"
proof (intro conjI allI impI)
  have a: "xlport_reg_addr xe 0 = port_lane_base xe" "stat_reg_addr xe 0 = Some (port_lane_base xe)"
    using maps_agree_0 assms(1,2) unfolding list_all_iff by auto
  show "xlport_reg_addr xe (uint off) = port_lane_base xe + off"
    using xlport_reg_addr_off[OF assms(1,2), of "uint off"] a(1) by simp
  show "stat_reg_addr xe off = Some (port_lane_base xe + off)"
    using stat_scan_off[of stat_blocks xe off] a(2) or_off[OF assms] by (simp add: stat_reg_addr_def)
  fix xe' off'
  assume p: "0 \<le> xe' \<and> xe' \<le> 51 \<and> off' < 0x1000 \<and> port_lane_base xe' + off' = port_lane_base xe + off"
  then have "port_lane_base xe' OR off' = port_lane_base xe OR off"
    using or_off[of xe' off'] or_off[OF assms] by simp
  then show "xe' = xe" "off' = off"
    using port_lanes.registers_disjoint[of xe' xe off' off] assms p by auto
qed

lemma port_maps_agree_addr:
  "0 \<le> xe \<Longrightarrow> xe \<le> 51 \<Longrightarrow> off < 0x1000 \<Longrightarrow> stat_reg_addr xe off = Some (port_lane_base xe + off)"
  using port_maps by blast

text \<open>C20. The three port maps agree: for every port and every register offset below 0x1000, the
  address helper of the datapath initialisation and the one of the counters give the register of
  the block and lane that port.c uses, and this address belongs to no other port and offset.\<close>

theorem port_maps_agree:
  assumes "0 \<le> xe" "xe \<le> 51" and "off < 0x1000"
  shows "xlport_reg_addr xe (uint off) = port_lane_base xe + off \<and>
         stat_reg_addr xe off = Some (port_lane_base xe + off) \<and>
         (\<forall>xe' off'. 0 \<le> xe' \<and> xe' \<le> 51 \<and> off' < 0x1000 \<and> port_lane_base xe' + off' = port_lane_base xe + off
            \<longrightarrow> xe' = xe \<and> off' = off)"
  by (rule port_maps[OF assms])

theorem port_maps_agree_witness:
  "stat_reg_addr 21 0x45 = Some (port_lane_base 21 + 0x45) \<and> xlport_reg_addr 21 0x45 = port_lane_base 21 + (0x45::u32)"
  using port_maps_agree[of 21 "0x45"] by simp

section \<open>The set of enabled ports\<close>

lemma port_to_phy_bus_total: "1 \<le> port \<Longrightarrow> port \<le> 52 \<Longrightarrow> port_to_phy_bus port \<noteq> None"
proof -
  have "list_all (\<lambda>p. port_to_phy_bus p \<noteq> None) [1..52]" by code_simp
  then show "1 \<le> port \<Longrightarrow> port \<le> 52 \<Longrightarrow> port_to_phy_bus port \<noteq> None" by (simp add: list_all_iff)
qed

definition enabled_ports :: "u32 list \<Rightarrow> int set" where
  "enabled_ports sh = {port. 1 \<le> port \<and> port \<le> 52 \<and>
     (case xe_to_block_lane (port - 1) of None \<Rightarrow> False
      | Some (_, lane, block_idx) \<Rightarrow> bit (sh ! nat block_idx) (nat lane))}"

abbreviation port_enabled :: "'z port_state_scheme \<Rightarrow> int set" where
  "port_enabled s \<equiv> enabled_ports (xlport_enable_shadow s)"

lemma block_lane_range:
  assumes "1 \<le> port" "port \<le> 52"
  obtains base lane block_idx where "xe_to_block_lane (port - 1) = Some (base, lane, block_idx)"
    "0 \<le> lane" "lane < 4" "0 \<le> block_idx" "block_idx < 16"
proof -
  have "list_all (\<lambda>xe. case xe_to_block_lane xe of None \<Rightarrow> False
      | Some (base, lane, i) \<Rightarrow> 0 \<le> lane \<and> lane < 4 \<and> 0 \<le> i \<and> i < 16) [0..51]" by code_simp
  moreover have "port - 1 \<in> set [0..51]" using assms by simp
  ultimately show ?thesis using that unfolding list_all_iff by (fastforce split: option.splits)
qed

lemma block_lane_inj:
  assumes "1 \<le> p" "p \<le> 52" "1 \<le> q" "q \<le> 52"
    and "xe_to_block_lane (p - 1) = Some (b, l, i)" "xe_to_block_lane (q - 1) = Some (b', l, i)"
  shows "p = q"
proof -
  have "distinct (map (\<lambda>xe. map_option snd (xe_to_block_lane xe)) [0..51])" by code_simp
  then have "inj_on (\<lambda>xe. map_option snd (xe_to_block_lane xe)) {0..51}" by (simp add: distinct_map)
  then show ?thesis using inj_onD[of _ "{0..51}" "p - 1" "q - 1"] assms by fastforce
qed

lemma set_enable_bit_enabled:
  assumes p: "1 \<le> port" "port \<le> 52" "xe_to_block_lane (port - 1) = Some (base, lane, block_idx)"
    and l: "length sh = 16"
  shows "enabled_ports (set_enable_bit block_idx lane en sh)
    = (if en then insert port (enabled_ports sh) else enabled_ports sh - {port})"
proof -
  have r: "0 \<le> lane" "lane < 4" "0 \<le> block_idx" "block_idx < 16"
    using block_lane_range[OF p(1,2)] p(3) by auto
  have "(q \<in> enabled_ports (set_enable_bit block_idx lane en sh))
      = (q \<in> (if en then insert port (enabled_ports sh) else enabled_ports sh - {port}))" for q
  proof (cases "1 \<le> q \<and> q \<le> 52")
    case True
    then obtain b l i where q: "xe_to_block_lane (q - 1) = Some (b, l, i)" "0 \<le> l" "l < 4" "0 \<le> i" "i < 16"
      using block_lane_range by blast
    have eq: "q = port \<longleftrightarrow> nat l = nat lane \<and> nat i = nat block_idx"
    proof
      assume "nat l = nat lane \<and> nat i = nat block_idx"
      then have "l = lane" "i = block_idx" using q r by (simp_all add: eq_nat_nat_iff)
      then show "q = port" using block_lane_inj[of q port b l i base] True p q(1) by simp
    qed (use p(3) q(1) in simp)
    have n: "nat i < 16" "nat block_idx < 16" "nat l < 32" "nat lane < 32" using q r by auto
    have "bit (set_enable_bit block_idx lane en sh ! nat i) (nat l) = (if q = port then en else bit (sh ! nat i) (nat l))"
    proof (cases "nat i = nat block_idx")
      case True
      then have "q = port \<longleftrightarrow> nat l = nat lane" using eq by blast
      moreover have "bit (set_enable_bit block_idx lane en sh ! nat i) (nat l)
          = (if nat l = nat lane then en else bit (sh ! nat i) (nat l))"
        using n l by (simp add: set_enable_bit_def Let_def True word_bits)
      ultimately show ?thesis by simp
    next
      case False
      then show ?thesis using eq l n by (simp add: set_enable_bit_def Let_def nth_list_update)
    qed
    moreover have "q \<in> enabled_ports sh' \<longleftrightarrow> bit (sh' ! nat i) (nat l)" for sh'
      using True q(1) by (simp add: enabled_ports_def)
    ultimately show ?thesis by auto
  qed (use p in \<open>auto simp: enabled_ports_def\<close>)
  then show ?thesis by blast
qed

lemma starts_extend: "\<exists>ys. schan_starts (evs @ tr) = ys @ schan_starts tr"
  by (induction evs rule: schan_starts.induct) auto

lemma emits_log_extends:
  assumes "emits P m"
  shows "\<exists>ops. sbus_log (exec m s) = sbus_log s @ ops"
proof -
  obtain evs where "exec m s = s\<lparr>trace := evs @ trace s\<rparr>" using assms by (rule emitsE)
  then show ?thesis using starts_extend[of evs "trace s"] by (auto simp: sbus_log_def)
qed


lemma emits_serdes_init_valid:
  "port_to_phy_bus port = Some (phy, bus, lane) \<Longrightarrow>
   \<exists>evs l. exec (bcm56846_serdes_init_10g E fw port) s = s\<lparr>phy_inited := l, trace := evs @ trace s\<rparr>"
  using wpD[OF wp_serdes_init[of port phy bus lane E fw s]] by auto

lemma port_enable_set_run:
  assumes E: "sbus_device E" and s: "bde_ready s" and l: "length (xlport_enable_shadow s) = 16"
  shows "if 1 \<le> port \<and> port \<le> 52 then
      result (bcm56846_port_enable_set E fw port enable) s = 0 \<and>
      port_enabled (exec (bcm56846_port_enable_set E fw port enable) s)
        = (if enable \<noteq> 0 then insert port (port_enabled s) else port_enabled s - {port}) \<and>
      (case xe_to_block_lane (port - 1) of None \<Rightarrow> False | Some (base, lane, block_idx) \<Rightarrow>
         \<exists>ops. sbus_log (exec (bcm56846_port_enable_set E fw port enable) s) = sbus_log s @
           RegWrite (cdk_addr_to_block (base + 0x8022a)) (base + 0x8022a)
             [xlport_enable_shadow (exec (bcm56846_port_enable_set E fw port enable) s) ! nat block_idx] # ops)
    else run_state (bcm56846_port_enable_set E fw port enable) s = (- EINVAL, s)"
proof (cases "1 \<le> port \<and> port \<le> 52")
  case True
  obtain base lane i where b: "xe_to_block_lane (port - 1) = Some (base, lane, i)"
    using block_lane_range True by blast
  define sh where "sh = set_enable_bit i lane (enable \<noteq> 0) (xlport_enable_shadow s)"
  let ?s1 = "s\<lparr>xlport_enable_shadow := sh\<rparr>"
  let ?w = "RegWrite (cdk_addr_to_block (base + 0x8022a)) (base + 0x8022a) [sh ! nat i]"
  obtain tr where w: "run_state (sbus_reg_write E (base + (0x80000 + 0x22a)) (sh ! nat i)) ?s1 = (0, ?s1\<lparr>trace := tr\<rparr>)"
      "sbus_log (?s1\<lparr>trace := tr\<rparr>) = sbus_log s @ [?w]"
    using appends_reg_write[OF E, of ?s1 "base + (0x80000 + 0x22a)" "sh ! nat i"] s
    unfolding appends_def by (auto simp: bde_ready_def sbus_log_def)
  let ?s2 = "?s1\<lparr>trace := tr\<rparr>"
  have run: "run_state (bcm56846_port_enable_set E fw port enable) s =
      (0, if enable \<noteq> 0 then exec (bcm56846_serdes_init_10g E fw port) ?s2 else ?s2)"
    using True b w(1) by (simp add: bcm56846_port_enable_set_def split_beta sh_def)
  obtain phy bus pl where "port_to_phy_bus port = Some (phy, bus, pl)"
    using port_to_phy_bus_total True by fastforce
  then obtain evs il where e: "exec (bcm56846_serdes_init_10g E fw port) ?s2 = ?s2\<lparr>phy_inited := il, trace := evs @ tr\<rparr>"
    using emits_serdes_init_valid[of port phy bus pl E fw ?s2] by auto
  have en: "enabled_ports sh = (if enable \<noteq> 0 then insert port (port_enabled s) else port_enabled s - {port})"
    unfolding sh_def using True b l by (intro set_enable_bit_enabled) auto
  obtain ys where "schan_starts (evs @ tr) = ys @ schan_starts tr" using starts_extend by blast
  then have "\<exists>ops. sbus_log (?s2\<lparr>phy_inited := il, trace := evs @ tr\<rparr>) = sbus_log s @ ?w # ops"
    using w(2) by (auto simp: sbus_log_def)
  moreover obtain s' where s': "exec (bcm56846_port_enable_set E fw port enable) s = s'"
      "s' = ?s2 \<or> s' = ?s2\<lparr>phy_inited := il, trace := evs @ tr\<rparr>"
    using run e by auto
  moreover have "xlport_enable_shadow s' = sh"
    using s'(2) by auto
  moreover have "\<exists>ops. sbus_log s' = sbus_log s @ ?w # ops"
    using s'(2) w(2) calculation(1) by auto
  ultimately show ?thesis
    using True b run en by simp
next
  case False
  then show ?thesis by (auto simp: bcm56846_port_enable_set_def Let_def)
qed

text \<open>C21. The enable shadow is the set of enabled ports: enabling (disabling) a valid port adds it
  to (removes it from) that set and changes no other port; the first thing the chip is asked is
  to write the whole shadow word of its block, all lanes, to the enable register of the block;
  the call returns 0. Any other port number is -EINVAL without effect.\<close>

theorem port_enable_set_effect:
  assumes E: "sbus_device E" and s: "bde_ready s" and l: "length (xlport_enable_shadow s) = 16"
  shows "if 1 \<le> port \<and> port \<le> 52 then
      result (bcm56846_port_enable_set E fw port enable) s = 0 \<and>
      port_enabled (exec (bcm56846_port_enable_set E fw port enable) s)
        = (if enable \<noteq> 0 then insert port (port_enabled s) else port_enabled s - {port}) \<and>
      (case xe_to_block_lane (port - 1) of None \<Rightarrow> False | Some (base, lane, block_idx) \<Rightarrow>
         \<exists>ops. sbus_log (exec (bcm56846_port_enable_set E fw port enable) s) = sbus_log s @
           RegWrite (cdk_addr_to_block (base + 0x8022a)) (base + 0x8022a)
             [xlport_enable_shadow (exec (bcm56846_port_enable_set E fw port enable) s) ! nat block_idx] # ops)
    else run_state (bcm56846_port_enable_set E fw port enable) s = (- EINVAL, s)"
  by (rule port_enable_set_run[OF assms])

definition port0 :: port_state where
  "port0 = \<lparr>trace = [], bde_priv = bde_priv bde0, bde_fd = 3, bde_dma_base = - 1, bde_dma_size = 0,
     phy_inited = [0, 0, 0], xlport_enable_shadow = replicate 16 0\<rparr>"

theorem port_enable_set_effect_witness:
  "result (bcm56846_port_enable_set chip_env [] 22 1) port0 = 0 \<and>
   port_enabled (exec (bcm56846_port_enable_set chip_env [] 22 1) port0) = insert 22 (port_enabled port0)"
  using port_enable_set_effect[OF chip_env_device, of port0 22 "[]" 1]
  by (simp add: port0_def bde0_def bde_ready_def)

section \<open>Link status and counters\<close>

lemma serdes_link_get_result:
  assumes "49 \<le> port" "port \<le> 52"
  shows "wp (bcm56846_serdes_link_get E port (Some 0))
     (\<lambda>(rc, v) _. (rc = 0 \<and> (v = Some 0 \<or> v = Some 1)) \<or> (rc = - EIO \<and> v = Some 0)) s"
proof -
  obtain phy bus lane where "port_to_phy_bus port = Some (phy, bus, lane)"
    using port_to_phy_bus_total assms by fastforce
  then show ?thesis
    by (simp add: bcm56846_serdes_link_get_def wp_def split_beta uint_drop_bit_and_1)
qed

text \<open>The link status is always well defined: for whatever the chip answers, the out-parameter
  ends as 0 or 1, and as 0 whenever the call fails; the call fails with -EINVAL exactly for port
  numbers outside 1 to 52, with -EIO only for the SFP+ ports 49 to 52 (a failed register read of
  the other ports falls back to the enable shadow), and without an out-parameter always.\<close>

theorem port_link_status_defined:
  "result (bcm56846_port_link_status_get E port None) s = (- EINVAL, None) \<and>
   (let (rc, v) = result (bcm56846_port_link_status_get E port (Some x)) s in
      (v = Some 0 \<or> v = Some 1 \<and> rc = 0) \<and>
      rc \<in> (if port < 1 \<or> 52 < port then {- EINVAL} else if 49 \<le> port then {0, - EIO} else {0}))"
proof (cases "1 \<le> port \<and> port \<le> 52")
  case True
  show ?thesis
  proof (cases "49 \<le> port")
    case True
    then show ?thesis
      using \<open>1 \<le> port \<and> port \<le> 52\<close> wpD[OF serdes_link_get_result[of port E s]]
      by (auto simp: bcm56846_port_link_status_get_def split: prod.splits)
  next
    case False
    obtain base lane i where "xe_to_block_lane (port - 1) = Some (base, lane, i)"
      using block_lane_range True by blast
    then show ?thesis
      using True False by (auto simp: bcm56846_port_link_status_get_def split_beta Let_def)
  qed
qed (auto simp: bcm56846_port_link_status_get_def Let_def)

text \<open>A counter is read from the register of the port's block and lane: under the SBUS
  contract the value is the two register words with the FIRST as the high half (init_datapath.c
  writes 64-bit registers with the first word as the low half).\<close>

theorem stat_get_value:
  assumes E: "sbus_device E" and s: "bde_ready s" and p: "1 \<le> port" "port \<le> 52"
  shows "result (bcm56846_stat_get E port (Some st) (Some v)) s =
    (0, Some (push_bit 32 (ucast (chip_reg s (port_lane_base (port - 1) + stat_reg st) 0))
              OR ucast (chip_reg s (port_lane_base (port - 1) + stat_reg st) 1)))"
proof -
  have "stat_reg st < 0x1000" by (cases st) simp_all
  then have "stat_reg_addr (port - 1) (stat_reg st) = Some (port_lane_base (port - 1) + stat_reg st)"
    using p by (intro port_maps_agree_addr) auto
  then show ?thesis
    using p reg_read64_value[OF E s, of "port_lane_base (port - 1) + stat_reg st" "[0, 0]"]
    by (simp add: bcm56846_stat_get_def split_beta)
qed

theorem stat_get_value_witness:
  "result (bcm56846_stat_get chip_env 1 (Some BCM56846_STAT_RPKT) (Some 7)) bde0 =
    (0, Some (push_bit 32 (ucast (chip_reg bde0 0x40a0000b 0)) OR ucast (chip_reg bde0 0x40a0000b 1)))"
proof -
  have "port_lane_base 0 + stat_reg BCM56846_STAT_RPKT = 0x40a0000b" by code_simp
  then show ?thesis
    using stat_get_value[OF chip_env_device, of bde0 1 BCM56846_STAT_RPKT 7] by (simp add: bde0_def bde_ready_def)
qed

end
