(* ===== verification/Datapath.thy ===== *)
theory Datapath
  imports Port
begin

text \<open>
  \<^verbatim>\<open>sdk/src/init_datapath.c\<close>: the nine phases of the datapath initialisation, as the sequences of
  SBUS accesses they make. The phases ignore the results of the accesses, except where the code
  looks at them. Address and field constants are those of the source; progress messages are left
  out. What the sequences leave in the chip is computed on the operations of \<open>Sbus_Log\<close>.
\<close>

section \<open>Addresses\<close>

abbreviation (input) "BUFFER_CELL_LIMIT_SPr \<equiv> (0x0238010a::u32)"
abbreviation (input) "BUFFER_CELL_LIMIT_SP_SHAREDr \<equiv> (0x0238010e::u32)"
abbreviation (input) "CELL_RESET_LIMIT_OFFSET_SPr \<equiv> (0x02380114::u32)"
abbreviation (input) "PG_MIN_CELLr \<equiv> (0x02300050::u32)"
abbreviation (input) "PG_HDRM_LIMIT_CELLr \<equiv> (0x02300060::u32)"
abbreviation (input) "PG_SHARED_LIMIT_CELLr \<equiv> (0x02300023::u32)"
abbreviation (input) "GLOBAL_HDRM_LIMITr \<equiv> (0x02380002::u32)"
abbreviation (input) "USE_SP_SHAREDr \<equiv> (0x02380132::u32)"
abbreviation (input) "COLOR_AWAREr \<equiv> (0x02380131::u32)"
abbreviation (input) "PORT_PG_SPIDr \<equiv> (0x02300073::u32)"
abbreviation (input) "PORT_PRI_GRP0r \<equiv> (0x02300070::u32)"
abbreviation (input) "PORT_PRI_GRP1r \<equiv> (0x02300071::u32)"
abbreviation (input) "PORT_PRI_XON_ENABLEr \<equiv> (0x02300072::u32)"
abbreviation (input) "PORT_MAX_PKT_SIZEr \<equiv> (0x02300022::u32)"
abbreviation (input) "PORT_MAX_SHARED_CELLr \<equiv> (0x02300021::u32)"
abbreviation (input) "PORT_MIN_CELLr \<equiv> (0x02300020::u32)"
abbreviation (input) "PORT_MIN_PG_ENABLEr \<equiv> (0x02300137::u32)"
abbreviation (input) "PORT_SHARED_MAX_PG_ENABLEr \<equiv> (0x02300136::u32)"
abbreviation (input) "EGR_VLAN_CONTROL_1r \<equiv> (0x01200606::u32)"
abbreviation (input) "ING_UNTAGGED_PHBm \<equiv> (0x0c172000::u32)"
abbreviation (input) "ING_PRI_CNG_MAPm \<equiv> (0x0c170000::u32)"
abbreviation (input) "PRIO2COS_LLFC0r \<equiv> (0x15380000::u32)"
abbreviation (input) "XMAC_PFC_CTRLr \<equiv> (0x0050060e::u32)"
abbreviation (input) "XLPORT_CONFIGr \<equiv> (0x00500200::u32)"
abbreviation (input) "HASH_CONTROLr \<equiv> (0x05180640::u32)"
abbreviation (input) "RTAG7_HASH_SEED_Ar \<equiv> (0x05180615::u32)"
abbreviation (input) "RTAG7_HASH_ECMPr \<equiv> (0x0b180600::u32)"
abbreviation (input) "RTAG7_HASH_CONTROL_3r \<equiv> (0x0518061a::u32)"
abbreviation (input) "RTAG7_HASH_FIELD_BMAP_1r \<equiv> (0x0518060c::u32)"
abbreviation (input) "RTAG7_HASH_FIELD_BMAP_2r \<equiv> (0x0518060d::u32)"
abbreviation (input) "RTAG7_IPV4_TCP_UDP_HASH_FIELD_BMAP_1r \<equiv> (0x0518061b::u32)"
abbreviation (input) "RTAG7_IPV4_TCP_UDP_HASH_FIELD_BMAP_2r \<equiv> (0x0518061c::u32)"
abbreviation (input) "RTAG7_IPV6_TCP_UDP_HASH_FIELD_BMAP_1r \<equiv> (0x0518061d::u32)"
abbreviation (input) "RTAG7_IPV6_TCP_UDP_HASH_FIELD_BMAP_2r \<equiv> (0x0518061e::u32)"
abbreviation (input) "CPU_CONTROL_1r \<equiv> (0x0c180603::u32)"
abbreviation (input) "AUX_ARB_CONTROLr \<equiv> (0x00180700::u32)"
abbreviation (input) "PORT_TABm \<equiv> (0x01160000::u32)"
abbreviation (input) "ING_COS_MODEr \<equiv> (0x0f100677::u32)"
abbreviation (input) "COS_MODE_Xr \<equiv> (0x1f380032::u32)"
abbreviation (input) "COS_MODE_Yr \<equiv> (0x1f380034::u32)"
abbreviation (input) "COS_MAP_SELm \<equiv> (0x0f17b000::u32)"
abbreviation (input) "PORT_COS_MAPm \<equiv> (0x0f173800::u32)"
abbreviation (input) "CPU_COS_MAPm \<equiv> (0x0f174000::u32)"
abbreviation (input) "ES_QUEUE_TO_PRIOr \<equiv> (0x06380080::u32)"
abbreviation (input) "COSMASKr \<equiv> (0x06300020::u32)"
abbreviation (input) "ES_TDM_CONFIGr \<equiv> (0x06380022::u32)"
abbreviation (input) "OP_QUEUE_CONFIG_CELLr \<equiv> (0x03300100::u32)"
abbreviation (input) "OP_QUEUE_CONFIG1_CELLr \<equiv> (0x03300140::u32)"
abbreviation (input) "OP_QUEUE_RESET_OFFSET_CELLr \<equiv> (0x03300200::u32)"
abbreviation (input) "OP_PORT_CONFIG_CELLr \<equiv> (0x03300020::u32)"
abbreviation (input) "OP_PORT_CONFIG1_CELLr \<equiv> (0x03300028::u32)"
abbreviation (input) "OP_UC_PORT_CONFIG_CELLr \<equiv> (0x03300024::u32)"
abbreviation (input) "OP_UC_PORT_CONFIG1_CELLr \<equiv> (0x03300029::u32)"
abbreviation (input) "OP_BUFFER_SHARED_LIMIT_CELLr \<equiv> (0x03380004::u32)"
abbreviation (input) "OP_BUFFER_SHARED_LIMIT_RESUME_CELLr \<equiv> (0x03380080::u32)"
abbreviation (input) "OP_VOQ_PORT_CONFIGr \<equiv> (0x03380014::u32)"
abbreviation (input) "OVQ_FLOWCONTROL_THRESHOLDr \<equiv> (0x1f380008::u32)"
abbreviation (input) "THDO_CONFIG_0Am \<equiv> (0x03300800::u32)"
abbreviation (input) "THDO_CONFIG_0Bm \<equiv> (0x03301000::u32)"
abbreviation (input) "MMU_THDO_CONFIG_SP_0m \<equiv> (0x0330c000::u32)"
abbreviation (input) "MMU_THDO_CONFIG_SP_1m \<equiv> (0x0330c800::u32)"
abbreviation (input) "MMU_THDO_QDRPRST_0m \<equiv> (0x03319000::u32)"
abbreviation (input) "MMU_THDO_QDRPRST_1m \<equiv> (0x03319800::u32)"
abbreviation (input) "MMU_THDO_QDRPRST_SP_0m \<equiv> (0x0331b000::u32)"
abbreviation (input) "MMU_THDO_QDRPRST_SP_1m \<equiv> (0x0331b800::u32)"
abbreviation (input) "EPC_LINK_BMAPm \<equiv> (0x0f178800::u32)"
abbreviation (input) "ING_EN_EFILTER_BITMAPm \<equiv> (0x0f178000::u32)"
abbreviation (input) "EGR_PORTm \<equiv> (0x0126e000::u32)"
abbreviation (input) "XMAC_TX_CTRLr \<equiv> (0x00500604::u32)"
abbreviation (input) "XMAC_RX_CTRLr \<equiv> (0x00500606::u32)"
abbreviation (input) "IFP_METER_PARITY_CONTROLr \<equiv> (0x0a400000::u32)"
abbreviation (input) "S3_CONFIGr \<equiv> (0x19300000::u32)"
abbreviation (input) "S3_CONFIG_MCr \<equiv> (0x19300001::u32)"
abbreviation (input) "S3_COSWEIGHTSr \<equiv> (0x19300010::u32)"
abbreviation (input) "S3_MINSPCONFIGr \<equiv> (0x193000c0::u32)"
abbreviation (input) "S2_CONFIGr \<equiv> (0x1a300000::u32)"
abbreviation (input) "S2_COSWEIGHTSr \<equiv> (0x1a300010::u32)"
abbreviation (input) "S2_MINSPCONFIGr \<equiv> (0x1a3000c0::u32)"
abbreviation (input) "S2_S3_ROUTINGr \<equiv> (0x1a3000e0::u32)"
abbreviation (input) "ESCONFIGr \<equiv> (0x06300000::u32)"
abbreviation (input) "COSWEIGHTSr \<equiv> (0x06300100::u32)"
abbreviation (input) "MINSPCONFIGr \<equiv> (0x06300050::u32)"
abbreviation (input) "PG_SHARED_LIMIT_MASK \<equiv> (0xFFFF::u32)"
abbreviation (input) "Q_SHARED_LIMIT_CELL_MASK \<equiv> (0xFFFF::u32)"
abbreviation (input) "Q_MIN_CELL_MASK \<equiv> (0xFFFF0000::u32)"
abbreviation (input) "PRI_CNG_PRI_MASK \<equiv> (0xF::u32)"
abbreviation (input) "S3_SCHEDULING_SELECT_MASK \<equiv> (0xFF::u32)"
abbreviation (input) "S2_SCHEDULING_SELECT_MASK \<equiv> (0x3F::u32)"
abbreviation (input) "ES_SCHEDULING_SELECT_MASK \<equiv> (0x3::u32)"
abbreviation (input) "S3_GRP_MASK \<equiv> (0x1F::u32)"
abbreviation (input) "STG_TABm \<equiv> (0x05176000::u32)"
abbreviation (input) "VLAN_TABm \<equiv> (0x12168000::u32)"
abbreviation (input) "EGR_VLANm \<equiv> (0x0d260000::u32)"
abbreviation (input) "UNKNOWN_UCAST_BLOCK_MASKm \<equiv> (0x0f174c00::u32)"
abbreviation (input) "UNKNOWN_MCAST_BLOCK_MASKm \<equiv> (0x0f175000::u32)"

section \<open>Helpers\<close>

definition allports :: "int list" where "allports = [0..52]"

definition reg_write_allports :: "env \<Rightarrow> u32 \<Rightarrow> u32 \<Rightarrow> ('z bde_state_scheme, int) state" where
  "reg_write_allports E base value = do {
     rcs \<leftarrow> State_Monad.traverse_list (\<lambda>p. sbus_reg_write E (cdk_port_addr base p) value) allports;
     return (if list_ex (\<lambda>rc. rc < 0) rcs then - 1 else 0)
   }"

definition reg_modify_allports :: "env \<Rightarrow> u32 \<Rightarrow> u32 \<Rightarrow> u32 \<Rightarrow> ('z bde_state_scheme, int) state" where
  "reg_modify_allports E base msk value = do {
     rcs \<leftarrow> State_Monad.traverse_list (\<lambda>p. sbus_reg_modify E (cdk_port_addr base p) msk value) allports;
     return (if list_ex (\<lambda>rc. rc < 0) rcs then - 1 else 0)
   }"

definition reg_write64_allports :: "env \<Rightarrow> u32 \<Rightarrow> u32 list \<Rightarrow> ('z bde_state_scheme, int) state" where
  "reg_write64_allports E base data = do {
     rcs \<leftarrow> State_Monad.traverse_list (\<lambda>p. sbus_reg_write64 E (cdk_port_addr base p) data) allports;
     return (if list_ex (\<lambda>rc. rc < 0) rcs then - 1 else 0)
   }"

section \<open>Phases 1 to 3: ingress buffers, priorities, forwarding\<close>

definition init_ingress_buffers :: "env \<Rightarrow> ('z bde_state_scheme, int) state" where
  "init_ingress_buffers E = do {
     sbus_reg_write E COLOR_AWAREr 0;
     reg_write_allports E PORT_PG_SPIDr (push_bit 4 2 OR push_bit 14 1);
     sbus_reg_write E (BUFFER_CELL_LIMIT_SPr + 0) 0;
     sbus_reg_write E (BUFFER_CELL_LIMIT_SPr + 1) 1382;
     sbus_reg_write E (BUFFER_CELL_LIMIT_SPr + 2) 921;
     sbus_reg_write E (BUFFER_CELL_LIMIT_SPr + 3) 0;
     sbus_reg_write E (CELL_RESET_LIMIT_OFFSET_SPr + 0) 0;
     sbus_reg_write E (CELL_RESET_LIMIT_OFFSET_SPr + 1) 100;
     sbus_reg_write E (CELL_RESET_LIMIT_OFFSET_SPr + 2) 100;
     sbus_reg_write E (CELL_RESET_LIMIT_OFFSET_SPr + 3) 0;
     sbus_reg_write E BUFFER_CELL_LIMIT_SP_SHAREDr 22742;
     reg_write_allports E PORT_SHARED_MAX_PG_ENABLEr 0;
     reg_write_allports E PORT_MAX_SHARED_CELLr 0;
     reg_write_allports E PORT_MIN_PG_ENABLEr 0;
     reg_write_allports E PORT_MIN_CELLr 0;
     for_each [0..52] (\<lambda>p. for_each [0..7] (\<lambda>pg. do {
       sbus_reg_write E (cdk_port_addr (PG_MIN_CELLr + word_of_int pg) p) 0;
       sbus_reg_write E (cdk_port_addr (PG_HDRM_LIMIT_CELLr + word_of_int pg) p) 0
     }));
     sbus_reg_write E (cdk_port_addr PG_MIN_CELLr 0) 45;
     for_each [1..48] (\<lambda>p. sbus_reg_write E (cdk_port_addr PG_MIN_CELLr p) 288);
     for_each [49..52] (\<lambda>p. sbus_reg_write E (cdk_port_addr PG_MIN_CELLr p) 1152);
     reg_write_allports E PG_SHARED_LIMIT_CELLr 4548;
     sbus_reg_write E (cdk_port_addr (PG_MIN_CELLr + 2) 0) 45;
     for_each [1..48] (\<lambda>p. sbus_reg_write E (cdk_port_addr (PG_MIN_CELLr + 2) p) 1);
     for_each [49..52] (\<lambda>p. sbus_reg_write E (cdk_port_addr (PG_MIN_CELLr + 2) p) 4);
     reg_write_allports E (PG_SHARED_LIMIT_CELLr + 2) 909;
     sbus_reg_write E (cdk_port_addr (PG_MIN_CELLr + 7) 0) 45;
     for_each [1..48] (\<lambda>p. sbus_reg_write E (cdk_port_addr (PG_MIN_CELLr + 7) p) 1);
     for_each [49..52] (\<lambda>p. sbus_reg_write E (cdk_port_addr (PG_MIN_CELLr + 7) p) 4);
     reg_write_allports E (PG_SHARED_LIMIT_CELLr + 7) 10006;
     sbus_reg_write E USE_SP_SHAREDr 0x7;
     sbus_reg_write E GLOBAL_HDRM_LIMITr 2340;
     reg_write_allports E PORT_MAX_PKT_SIZEr 45;
     return 0
   }"

text \<open>Index, count and priority of the priority map.\<close>

definition pri_map :: "(int \<times> int \<times> u32) list" where
  "pri_map = [(0, 2, 0), (2, 2, 1), (4, 2, 2), (6, 2, 4), (8, 2, 4), (10, 2, 5), (12, 2, 6), (14, 2, 7)]"

definition init_priority_mapping :: "env \<Rightarrow> ('z bde_state_scheme, int) state" where
  "init_priority_mapping E = do {
     sbus_reg_modify E EGR_VLAN_CONTROL_1r (push_bit 11 1) 0;
     for_each [0..63] (\<lambda>i. sbus_mem_write E ING_UNTAGGED_PHBm i [0, 0] 1);
     for_each [0..1023] (\<lambda>i. sbus_mem_write E ING_PRI_CNG_MAPm i [0, 0] 1);
     for_each pri_map (\<lambda>(idx, count, pri).
       for_each [0..count - 1] (\<lambda>j. sbus_mem_write E ING_PRI_CNG_MAPm (idx + j) [push_bit 2 pri, 0] 1));
     reg_write_allports E PORT_PRI_GRP0r (push_bit 21 7 OR push_bit 6 2);
     reg_write_allports E PORT_PRI_GRP1r 0;
     reg_write_allports E PORT_PRI_XON_ENABLEr 0;
     sbus_reg_write E PRIO2COS_LLFC0r 0;
     reg_modify_allports E XMAC_PFC_CTRLr 0x7 0;
     sbus_reg_modify E XLPORT_CONFIGr (push_bit 14 1 OR push_bit 16 1 OR push_bit 17 1 OR push_bit 18 1) (push_bit 16 1);
     return 0
   }"

text \<open>The edit of one port table entry (six words).\<close>

definition port_tab_edit :: "u32 list \<Rightarrow> u32 list" where
  "port_tab_edit entry =
     (let e0 = entry ! 0 AND NOT (push_bit 10 0x7 OR push_bit 2 1);
          e3 = entry ! 3 AND NOT (push_bit 8 1);
          e4 = entry ! 4 AND NOT 0xFFFFFE00;
          e5 = entry ! 5 AND NOT 0x1;
          e0 = (e0 AND NOT 0xFC000000) OR push_bit 26 1;
          e1 = entry ! 1 AND NOT 0x3F
      in [e0, e1, entry ! 2, e3, e4, e5])"

definition init_forwarding :: "env \<Rightarrow> ('z bde_state_scheme, int) state" where
  "init_forwarding E = do {
     sbus_reg_modify E RTAG7_IPV4_TCP_UDP_HASH_FIELD_BMAP_2r 0x1FFF 0x0F7C;
     sbus_reg_modify E RTAG7_IPV6_TCP_UDP_HASH_FIELD_BMAP_2r 0x1FFF 0x0F7C;
     sbus_reg_modify E RTAG7_IPV4_TCP_UDP_HASH_FIELD_BMAP_1r 0x1FFF 0x0F3C;
     sbus_reg_modify E RTAG7_IPV6_TCP_UDP_HASH_FIELD_BMAP_1r 0x1FFF 0x0F3C;
     sbus_reg_modify E RTAG7_HASH_FIELD_BMAP_1r 0x1FFF 0x0F1C;
     sbus_reg_modify E RTAG7_HASH_FIELD_BMAP_2r 0x1FFF 0x0F1C;
     sbus_reg_modify E RTAG7_HASH_CONTROL_3r 0xF 9;
     sbus_reg_write E RTAG7_HASH_SEED_Ar 42;
     sbus_reg_write E (RTAG7_HASH_ECMPr + 0) 0;
     sbus_reg_write E (RTAG7_HASH_ECMPr + 1) 0;
     sbus_reg_modify E HASH_CONTROLr (push_bit 23 1 OR push_bit 22 1 OR push_bit 18 0x7 OR push_bit 24 1)
       (push_bit 23 1 OR push_bit 22 1 OR push_bit 18 4 OR push_bit 24 1);
     let m = push_bit 22 1 OR push_bit 20 1 OR push_bit 10 1 OR push_bit 9 1;
     sbus_reg_modify E CPU_CONTROL_1r m m;
     sbus_reg_modify E AUX_ARB_CONTROLr (push_bit 6 1) 0;
     for_each [0..66] (\<lambda>i. do {
       (rc, entry) \<leftarrow> sbus_mem_read E PORT_TABm i (replicate 6 0) 6;
       let entry = (if rc < 0 then replicate 6 0 else entry);
       sbus_mem_write E PORT_TABm i (port_tab_edit entry) 6
     });
     return 0
   }"

section \<open>Phase 4: egress queues\<close>

text \<open>Index, unicast, HiGig and multicast queue of the priorities.\<close>

definition cos_entries :: "(int \<times> u32 \<times> u32 \<times> u32) list" where
  "cos_entries = [(0, 0, 0, 0), (1, 1, 1, 0), (2, 2, 2, 2), (4, 4, 4, 0), (5, 5, 5, 0), (6, 6, 6, 0), (7, 7, 7, 1)]"

definition cpu_cos :: "(int \<times> u32 \<times> u32) list" where
  "cpu_cos = [(127, 0, 0), (126, 1, 1), (125, 2, 2), (124, 4, 4), (123, 4, 4), (122, 5, 5), (121, 6, 6), (120, 7, 7)]"

text \<open>Queue, service pool, limit enable, minimum and shared limit of the CPU queues.\<close>

definition cpu_queues :: "(int \<times> u32 \<times> u32 \<times> u32 \<times> u32) list" where
  "cpu_queues = [(0, 0, 1, 307, 2073), (1, 0, 1, 307, 2073), (2, 2, 0, 0, 0), (3, 0, 1, 307, 2073),
     (4, 0, 1, 307, 2073), (5, 0, 1, 307, 2073), (6, 0, 1, 307, 2073), (7, 1, 0, 0, 0),
     (32, 0, 1, 100, 0), (33, 0, 1, 1, 0), (34, 0, 1, 500, 0)]"

definition es_queue_to_prio :: u32 where
  "es_queue_to_prio = foldl (\<lambda>v i. v OR push_bit (i * 3) (of_nat i)) 0 [0..<7]"

abbreviation (input) "Q_SPID_MASK \<equiv> (push_bit 5 3 :: u32)"
abbreviation (input) "Q_LIMITS_MASK \<equiv> (0xFFFF OR 0xFFFF0000 :: u32)"

definition init_egress_config :: "env \<Rightarrow> ('z bde_state_scheme, int) state" where
  "init_egress_config E = do {
     sbus_reg_write E ING_COS_MODEr 0;
     sbus_reg_write E COS_MODE_Xr 0;
     sbus_reg_write E COS_MODE_Yr 0;
     for_each [0..66] (\<lambda>i. sbus_mem_write E COS_MAP_SELm i [0, 0] 1);
     for_each [0..63] (\<lambda>i. sbus_mem_write E PORT_COS_MAPm i [0, 0] 1);
     for_each cos_entries (\<lambda>(idx, uc, hg, mc).
       sbus_mem_write E PORT_COS_MAPm idx [push_bit 0 uc OR push_bit 4 hg OR push_bit 11 mc, 0] 1);
     for_each cpu_cos (\<lambda>(idx, pri_key, cos).
       sbus_mem_write E CPU_COS_MAPm idx
         [push_bit 0 1 OR push_bit 1 pri_key OR push_bit 5 0xF OR push_bit 9 cos, 0] 1);
     reg_write_allports E ES_QUEUE_TO_PRIOr es_queue_to_prio;
     sbus_reg_write E OP_VOQ_PORT_CONFIGr 0;
     sbus_reg_modify E OVQ_FLOWCONTROL_THRESHOLDr (push_bit 28 1) 0;
     reg_write_allports E OP_QUEUE_CONFIG_CELLr 0;
     reg_write_allports E OP_QUEUE_CONFIG1_CELLr 0;
     reg_write_allports E OP_QUEUE_RESET_OFFSET_CELLr 3;
     reg_write_allports E OP_PORT_CONFIG_CELLr 0;
     reg_write_allports E OP_PORT_CONFIG1_CELLr 0;
     for_each [0..52] (\<lambda>p. do {
       sbus_reg_modify E (cdk_port_addr (OP_QUEUE_CONFIG1_CELLr + 0) p) (Q_SPID_MASK OR push_bit 3 1)
         (push_bit 5 0 OR push_bit 3 1);
       sbus_reg_modify E (cdk_port_addr (OP_QUEUE_CONFIG_CELLr + 0) p) Q_LIMITS_MASK
         (push_bit 0 2073 OR push_bit 16 921)
     });
     for_each [0..52] (\<lambda>p. do {
       sbus_reg_modify E (cdk_port_addr (OP_QUEUE_CONFIG1_CELLr + 1) p) Q_SPID_MASK (push_bit 5 1);
       sbus_reg_modify E (cdk_port_addr (OP_QUEUE_CONFIG1_CELLr + 2) p) Q_SPID_MASK (push_bit 5 2)
     });
     for_each cpu_queues (\<lambda>(qi, spid, enable, mn, shared). do {
       sbus_reg_modify E (cdk_port_addr (OP_QUEUE_CONFIG1_CELLr + word_of_int qi) 0) (Q_SPID_MASK OR push_bit 3 1)
         (push_bit 5 spid OR push_bit 3 enable);
       if mn \<noteq> 0 \<or> shared \<noteq> 0 then
         sbus_reg_modify E (cdk_port_addr (OP_QUEUE_CONFIG_CELLr + word_of_int qi) 0) Q_LIMITS_MASK
           (push_bit 0 shared OR push_bit 16 mn)
       else return 0
     });
     reg_write_allports E OP_UC_PORT_CONFIG_CELLr 0;
     reg_write_allports E OP_UC_PORT_CONFIG1_CELLr (push_bit 5 2 OR push_bit 15 1);
     return 0
   }"

section \<open>Phase 5: thresholds\<close>

definition thdo_zero_table :: "env \<Rightarrow> u32 \<Rightarrow> int \<Rightarrow> int \<Rightarrow> ('z bde_state_scheme, unit) state" where
  "thdo_zero_table E addr count nwords =
     for_each [0..count - 1] (\<lambda>i. sbus_mem_write E addr i (replicate 6 0) (if nwords > 6 then 6 else nwords))"

definition thdo_write_config ::
  "env \<Rightarrow> u32 \<Rightarrow> int \<Rightarrow> u32 \<Rightarrow> u32 \<Rightarrow> u32 \<Rightarrow> u32 \<Rightarrow> u32 \<Rightarrow> ('z bde_state_scheme, unit) state" where
  "thdo_write_config E addr index q_min q_shared enable dynamic color = do {
     sbus_mem_write E addr index
       [push_bit 16 q_min OR (q_shared AND 0xFFFF), enable OR push_bit 1 dynamic OR push_bit 3 color] 2;
     return ()
   }"

definition thdo_write_qdrprst :: "env \<Rightarrow> u32 \<Rightarrow> int \<Rightarrow> u32 \<Rightarrow> ('z bde_state_scheme, unit) state" where
  "thdo_write_qdrprst E addr index reset_val = do {
     sbus_mem_write E addr index [reset_val AND 0x1FFF] 1;
     return ()
   }"

text \<open>\<open>cos, cos + 10, ...\<close> below a bound.\<close>

definition stride10 :: "int \<Rightarrow> int \<Rightarrow> int list" where
  "stride10 cos bound = filter (\<lambda>i. i mod 10 = cos mod 10) [cos..bound - 1]"

definition init_thdo_tables :: "env \<Rightarrow> ('z bde_state_scheme, int) state" where
  "init_thdo_tables E = do {
     thdo_zero_table E THDO_CONFIG_0Am 296 2;
     thdo_zero_table E THDO_CONFIG_0Bm 296 2;
     thdo_zero_table E MMU_THDO_CONFIG_SP_0m 40 2;
     thdo_zero_table E MMU_THDO_CONFIG_SP_1m 40 2;
     thdo_zero_table E MMU_THDO_QDRPRST_0m 296 1;
     thdo_zero_table E MMU_THDO_QDRPRST_1m 296 1;
     thdo_zero_table E MMU_THDO_QDRPRST_SP_0m 40 1;
     thdo_zero_table E MMU_THDO_QDRPRST_SP_1m 40 1;
     for_each [0, 1, 3, 4, 5, 6] (\<lambda>cos. do {
       for_each (stride10 cos 280) (\<lambda>idx. do {
         thdo_write_config E THDO_CONFIG_0Am idx 384 3110 1 0 0;
         thdo_write_config E THDO_CONFIG_0Bm idx 384 3110 1 0 0
       });
       for_each (stride10 cos 40) (\<lambda>idx. do {
         thdo_write_config E MMU_THDO_CONFIG_SP_0m idx 384 3110 1 0 0;
         thdo_write_config E MMU_THDO_CONFIG_SP_1m idx 384 3110 1 0 0
       });
       for_each (stride10 cos 280) (\<lambda>idx. do {
         thdo_write_qdrprst E MMU_THDO_QDRPRST_0m idx 3449;
         thdo_write_qdrprst E MMU_THDO_QDRPRST_1m idx 3449
       });
       for_each (stride10 cos 40) (\<lambda>idx. do {
         thdo_write_qdrprst E MMU_THDO_QDRPRST_SP_0m idx 3449;
         thdo_write_qdrprst E MMU_THDO_QDRPRST_SP_1m idx 3449
       })
     });
     sbus_reg_write E (OP_BUFFER_SHARED_LIMIT_CELLr + 0) 20736;
     sbus_reg_write E (OP_BUFFER_SHARED_LIMIT_RESUME_CELLr + 0) 20636;
     sbus_reg_write E (OP_BUFFER_SHARED_LIMIT_CELLr + 1) 41472;
     sbus_reg_write E (OP_BUFFER_SHARED_LIMIT_RESUME_CELLr + 1) 41372;
     sbus_reg_write E (OP_BUFFER_SHARED_LIMIT_CELLr + 2) 41472;
     sbus_reg_write E (OP_BUFFER_SHARED_LIMIT_RESUME_CELLr + 2) 41372;
     sbus_reg_write E (OP_BUFFER_SHARED_LIMIT_CELLr + 3) 135;
     sbus_reg_write E (OP_BUFFER_SHARED_LIMIT_RESUME_CELLr + 3) 35;
     return 0
   }"

section \<open>Phase 6: scheduling\<close>

definition s2w :: "(int \<times> u32) list" where
  "s2w = [(0, 16), (1, 0), (2, 32), (4, 16), (5, 16), (6, 32), (7, 16), (8, 16), (9, 16), (10, 16), (11, 0)]"

definition s2_routing_0 :: "u32 list" where
  "s2_routing_0 =
     [push_bit 0 4 OR push_bit 5 5 OR push_bit 10 7 OR push_bit 15 8 OR push_bit 20 9 OR push_bit 25 10 OR push_bit 30 (0 AND 3),
      (drop_bit 2 0 AND 7) OR push_bit 3 0x1F OR push_bit 8 0x1F]"

definition s2_routing_1 :: "u32 list" where
  "s2_routing_1 =
     [push_bit 0 6 OR push_bit 5 2 OR push_bit 10 0x1F OR push_bit 15 0x1F OR push_bit 20 0x1F OR push_bit 25 0x1F OR push_bit 30 (0x1F AND 3),
      (drop_bit 2 0x1F AND 7) OR push_bit 3 0x1F OR push_bit 8 0x1F]"

definition s2_routing_2 :: "u32 list" where
  "s2_routing_2 =
     [push_bit 0 11 OR push_bit 5 1 OR push_bit 10 0x1F OR push_bit 15 0x1F OR push_bit 20 0x1F OR push_bit 25 0x1F OR push_bit 30 (0x1F AND 3),
      (drop_bit 2 0x1F AND 7) OR push_bit 3 0x1F OR push_bit 8 0x1F]"

definition init_scheduling :: "env \<Rightarrow> ('z bde_state_scheme, int) state" where
  "init_scheduling E = do {
     reg_write_allports E S3_CONFIGr (push_bit 8 1 OR 0xFF);
     sbus_reg_write E S3_MINSPCONFIGr 0;
     reg_write_allports E S3_COSWEIGHTSr 16;
     reg_write_allports E S3_CONFIG_MCr 0;
     reg_write_allports E S2_CONFIGr 0x3F;
     reg_write_allports E S2_COSWEIGHTSr 0;
     sbus_reg_write E S2_MINSPCONFIGr 0;
     for_each [0..2] (\<lambda>inst. reg_write64_allports E (S2_S3_ROUTINGr + word_of_int inst) [0xFFFFFFFF, 0x00001FFF]);
     reg_write64_allports E (S2_S3_ROUTINGr + 0) s2_routing_0;
     reg_write64_allports E (S2_S3_ROUTINGr + 1) s2_routing_1;
     reg_write64_allports E (S2_S3_ROUTINGr + 2) s2_routing_2;
     for_each s2w (\<lambda>(cos, weight). reg_write_allports E (S2_COSWEIGHTSr + word_of_int cos) weight);
     reg_write_allports E ESCONFIGr 0x3;
     reg_write_allports E (COSWEIGHTSr + 0) 2;
     reg_write_allports E (COSWEIGHTSr + 1) 16;
     reg_write_allports E (COSWEIGHTSr + 2) 32;
     reg_write_allports E (COSWEIGHTSr + 3) 0;
     for_each [0..52] (\<lambda>p. sbus_reg_write E (cdk_port_addr MINSPCONFIGr p) 0);
     for_each [0..52] (\<lambda>p. sbus_reg_modify E (cdk_port_addr COSMASKr p) (push_bit 7 1) (push_bit 7 1));
     sbus_reg_modify E ES_TDM_CONFIGr (push_bit 24 1) 0;
     return 0
   }"

section \<open>Phase 6.5: power-up of the WARPcores\<close>

abbreviation (input) "XGXS_CTRL_OFF \<equiv> (0x80237::int)"
abbreviation (input) "XLPORT_MODE_OFF \<equiv> (0x80229::int)"
abbreviation (input) "XLPORT_ENABLE_OFF \<equiv> (0x8022a::int)"
abbreviation (input) "XLPORT_XMAC_CTRL_OFF \<equiv> (0x8022b::int)"
abbreviation (input) "XMAC_TX_CTRL_OFF \<equiv> (0x604::int)"
abbreviation (input) "XMAC_RX_CTRL_OFF \<equiv> (0x606::int)"
abbreviation (input) "XGXS_PWRDWN_PLL \<equiv> (push_bit 0 1 :: u32)"
abbreviation (input) "XGXS_PWRDWN \<equiv> (push_bit 1 1 :: u32)"
abbreviation (input) "XGXS_IDDQ \<equiv> (push_bit 9 1 :: u32)"
abbreviation (input) "XGXS_LCREF_EN \<equiv> (push_bit 11 1 :: u32)"
abbreviation (input) "XGXS_RSTB_HW \<equiv> (push_bit 12 1 :: u32)"
abbreviation (input) "XGXS_RSTB_MDIO \<equiv> (push_bit 13 1 :: u32)"
abbreviation (input) "XGXS_RSTB_PLL \<equiv> (push_bit 14 1 :: u32)"
abbreviation (input) "XGXS_TXD1G_RSTB \<equiv> (push_bit 15 0xf :: u32)"
abbreviation (input) "XGXS_TXD10G_RSTB \<equiv> (push_bit 19 1 :: u32)"

definition first_xe :: "int list" where
  "first_xe = [0, 4, 8, 12, 16, 20, 24, 28, 32, 36, 40, 44, 48, 49, 50, 51]"

text \<open>One block; the result tells whether it was counted as \<open>ok\<close>.\<close>

definition xport_reset_block :: "env \<Rightarrow> int \<Rightarrow> ('z bde_state_scheme, bool) state" where
  "xport_reset_block E blk = do {
     let xe = first_xe ! nat blk;
     let addr = xlport_reg_addr xe XGXS_CTRL_OFF;
     rc \<leftarrow> sbus_reg_write E addr (XGXS_LCREF_EN OR XGXS_IDDQ OR XGXS_PWRDWN OR XGXS_PWRDWN_PLL);
     if rc < 0 then return False
     else do {
       let val = XGXS_LCREF_EN;
       sbus_reg_write E addr val;
       usleep 100;
       let val = val OR XGXS_RSTB_HW;
       sbus_reg_write E addr val;
       usleep 100;
       let val = val OR (XGXS_RSTB_MDIO OR XGXS_RSTB_PLL);
       sbus_reg_write E addr val;
       usleep 1000;
       let val = val OR (XGXS_TXD1G_RSTB OR XGXS_TXD10G_RSTB);
       sbus_reg_write E addr val;
       sbus_reg_write E (xlport_reg_addr xe XLPORT_MODE_OFF) (if blk < 12 then 0x0A else 0x00);
       sbus_reg_write E (xlport_reg_addr xe XLPORT_ENABLE_OFF) (if blk < 12 then 0xF else 0x1);
       sbus_reg_write E (xlport_reg_addr xe XLPORT_XMAC_CTRL_OFF) 1;
       usleep 1000;
       sbus_reg_write E (xlport_reg_addr xe XLPORT_XMAC_CTRL_OFF) 0;
       usleep 100;
       return True
     }
   }"

definition init_xport_reset :: "env \<Rightarrow> ('z bde_state_scheme, int) state" where
  "init_xport_reset E = do {
     oks \<leftarrow> State_Monad.traverse_list (xport_reset_block E) [0..15];
     sbus_reg_read64 E (xlport_reg_addr 0 XMAC_TX_CTRL_OFF) [0, 0];
     return (if list_ex Not oks then - 1 else 0)
   }"

section \<open>Phases 7 and 8: port pipeline, default VLAN\<close>

definition init_port_pipeline :: "env \<Rightarrow> ('z bde_state_scheme, int) state" where
  "init_port_pipeline E = do {
     sbus_mem_write E EPC_LINK_BMAPm 0 [0xFFFFFFFF, 0x001FFFFF, 0] 3;
     sbus_mem_write E ING_EN_EFILTER_BITMAPm 0 [0xFFFFFFFF, 0x001FFFFF, 0] 3;
     for_each [1..52] (\<lambda>p. sbus_reg_write64 E (xlport_reg_addr (p - 1) XMAC_TX_CTRL_OFF) [0xc802, 0]);
     for_each [1..52] (\<lambda>p. sbus_reg_write64 E (xlport_reg_addr (p - 1) XMAC_RX_CTRL_OFF)
       [push_bit 4 64 OR push_bit 2 1, 0]);
     for_each [0..66] (\<lambda>p. do {
       (rc, egr) \<leftarrow> sbus_mem_read E EGR_PORTm p (replicate 6 0) 6;
       let egr = (if rc < 0 then replicate 6 0 else egr);
       sbus_mem_write E EGR_PORTm p (egr[0 := egr ! 0 AND NOT 0x7]) 6
     });
     sbus_reg_write E IFP_METER_PARITY_CONTROLr 0;
     return 0
   }"

definition pbm_all :: u64 where "pbm_all = push_bit 32 0x001FFFFF OR 0xFFFFFFFF"

definition default_vlan_entry :: "u32 list" where
  "default_vlan_entry =
     [0xFFFFFFFF, 0x001FFFFF, ucast (push_bit 2 (pbm_all AND 0x3FFFFFFF)), ucast (drop_bit 30 pbm_all AND 0xFFFFFFFF),
      ucast (drop_bit 62 pbm_all AND 0x3) OR push_bit 4 2, 0, push_bit 13 1, 0, 0, 0]"

definition default_egr_vlan_entry :: "u32 list" where
  "default_egr_vlan_entry =
     [1 OR push_bit 1 2, 0, 0, 0xFFFFFFFF, 0x001FFFFF, ucast (push_bit 2 (pbm_all AND 0x3FFFFFFF)),
      ucast (drop_bit 30 pbm_all AND 0xFFFFFFFF), ucast (drop_bit 62 pbm_all AND 0xF)]"

definition init_vlan_forwarding :: "env \<Rightarrow> ('z bde_state_scheme, int) state" where
  "init_vlan_forwarding E = do {
     sbus_mem_write E STG_TABm 2 [0xFFFFFFFF, 0xFFFFFFFF, 0xFFFFFFFF, 0x000003FF, 0] 5;
     sbus_mem_write E VLAN_TABm 1 default_vlan_entry 10;
     sbus_mem_write E EGR_VLANm 1 default_egr_vlan_entry 8;
     for_each [0..66] (\<lambda>i. do {
       sbus_mem_write E UNKNOWN_UCAST_BLOCK_MASKm i [0, 0, 0] 3;
       sbus_mem_write E UNKNOWN_MCAST_BLOCK_MASKm i [0, 0, 0] 3
     });
     return 0
   }"

section \<open>The whole initialisation\<close>

definition bcm56846_datapath_init :: "env \<Rightarrow> ('z bde_state_scheme, int) state" where
  "bcm56846_datapath_init E = do {
     rc \<leftarrow> init_ingress_buffers E;
     if rc < 0 then return (- 1) else do {
     rc \<leftarrow> init_priority_mapping E;
     if rc < 0 then return (- 1) else do {
     rc \<leftarrow> init_forwarding E;
     if rc < 0 then return (- 1) else do {
     rc \<leftarrow> init_egress_config E;
     if rc < 0 then return (- 1) else do {
     rc \<leftarrow> init_thdo_tables E;
     if rc < 0 then return (- 1) else do {
     rc \<leftarrow> init_scheduling E;
     if rc < 0 then return (- 1) else do {
     init_xport_reset E;
     rc \<leftarrow> init_port_pipeline E;
     if rc < 0 then return (- 1) else do {
     rc \<leftarrow> init_vlan_forwarding E;
     if rc < 0 then return (- 1) else return 0
     }}}}}}}
   }"

section \<open>The initialisation never reports a failure\<close>

text \<open>Whatever the chip and the operating system answer, the datapath initialisation returns 0:
  no failed access is reported (the failure branch is unreachable), and the chip is left with
  whichever of the accesses succeeded.\<close>

theorem datapath_init_reports_success:
  "result (bcm56846_datapath_init E) s = 0"
proof -
  have "result (init_ingress_buffers E) t = 0" "result (init_priority_mapping E) t = 0"
    "result (init_forwarding E) t = 0" "result (init_egress_config E) t = 0" "result (init_thdo_tables E) t = 0"
    "result (init_scheduling E) t = 0" "result (init_port_pipeline E) t = 0" "result (init_vlan_forwarding E) t = 0"
    for t :: "'a bde_state_scheme"
    unfolding init_ingress_buffers_def init_priority_mapping_def init_forwarding_def init_egress_config_def
      init_thdo_tables_def init_scheduling_def init_port_pipeline_def init_vlan_forwarding_def Let_def
    by (simp_all only: result_bind run_state_return fst_conv)
  then show ?thesis
    unfolding bcm56846_datapath_init_def by (simp add: result_bind del: run_state_bind)
qed

section \<open>The port table\<close>

definition entry_bit_at :: "u32 list \<Rightarrow> nat \<Rightarrow> bool" where
  "entry_bit_at e n = bit (e ! (n div 32)) (n mod 32)"

text \<open>The edit of a port table entry: PORT_PRI (bits 12 to 10), VT_ENABLE (bit 2),
  TRUST_INCOMING_VID (bit 104) and PRI_MAPPING (bits 160 to 137) become 0, PORT_VID (bits 37 to 26)
  becomes 1, and every other bit of the six words stays as it was read.\<close>

theorem port_table_edit:
  assumes "length entry = 6" and "n < 192"
  shows "entry_bit_at (port_tab_edit entry) n =
    (if n = 2 \<or> 10 \<le> n \<and> n \<le> 12 \<or> n = 104 \<or> 137 \<le> n \<and> n \<le> 160 then False
     else if 26 \<le> n \<and> n \<le> 37 then n = 26
     else entry_bit_at entry n)"
proof -
  have m: "(0xFFFFFE00::u32) = push_bit 9 (mask 23)" "(0xFC000000::u32) = push_bit 26 (mask 6)" "(0x3F::u32) = mask 6"
      "(0x7::u32) = mask 3"
    by (simp_all add: mask_numeral)
  have lit: "bit (67108864::int) k = (k = 26)" "bit (- 5::int) k = (k \<noteq> 2)" "bit (- 257::int) k = (k \<noteq> 8)" for k
  proof -
    have "(67108864::int) = push_bit 26 1" "(- 5::int) = NOT (push_bit 2 1)" "(- 257::int) = NOT (push_bit 8 1)" by simp_all
    then show "bit (67108864::int) k = (k = 26)" "bit (- 5::int) k = (k \<noteq> 2)" "bit (- 257::int) k = (k \<noteq> 8)"
      by (simp_all only: bit_not_iff bit_push_bit_iff possible_bit_def bit_1_iff) auto
  qed
  obtain a b c d e f where en: "entry = [a, b, c, d, e, f]" using list6E[OF assms(1)] .
  have n: "n mod 32 < 32" "n = 32 * (n div 32) + n mod 32" "n div 32 < 6" using assms(2) by auto
  define q r where "q = n div 32" and "r = n mod 32"
  have nq: "n = 32 * q + r" and r: "r < 32" and q: "q < 6" using n by (simp_all add: q_def r_def)
  from q consider "q = 0" | "q = 1" | "q = 2" | "q = 3" | "q = 4" | "q = 5" by linarith
  then show ?thesis
    unfolding entry_bit_at_def q_def[symmetric] r_def[symmetric]
    by cases (use r in \<open>auto simp: nq en port_tab_edit_def Let_def m word_bits bit_and_mask_iff lit\<close>)
qed

theorem port_table_edit_witness:
  "\<not> entry_bit_at (port_tab_edit [0xFFFFFFFF, 0, 0, 0, 0, 0]) 27 \<and> entry_bit_at (port_tab_edit [0, 0, 0, 0, 0, 0]) 26"
  using port_table_edit[of "[0xFFFFFFFF, 0, 0, 0, 0, 0]" 27] port_table_edit[of "[0, 0, 0, 0, 0, 0]" 26] by simp

section \<open>Power-up of the WARPcores\<close>

lemma appends_traverse:
  assumes "\<And>i tr. i \<in> set is \<Longrightarrow> appends (f i) (s\<lparr>trace := tr\<rparr>) (r i) (ops i)"
  shows "appends (State_Monad.traverse_list f is) s (map r is) (concat (map ops is))"
  using assms
proof (induction "is" arbitrary: s)
  case Nil
  then show ?case by (simp add: appends_return)
next
  case (Cons i js)
  have 1: "appends (f i) s (r i) (ops i)"
    using Cons.prems[of i "trace s"] by simp
  have "appends (Monad_Syntax.bind (State_Monad.traverse_list f js) (\<lambda>xs. return (r i # xs))) (s\<lparr>trace := tr\<rparr>)
      (r i # map r js) (concat (map ops js) @ [])" for tr
    by (rule appends_bind[OF Cons.IH]) (use Cons.prems in \<open>simp_all add: appends_return\<close>)
  then have "appends (Monad_Syntax.bind (f i) (\<lambda>x. Monad_Syntax.bind (State_Monad.traverse_list f js) (\<lambda>xs. return (x # xs)))) s
      (r i # map r js) (ops i @ concat (map ops js) @ [])"
    by (intro appends_bind[OF 1])
  then show ?case by simp
qed

definition reg_op :: "u32 \<Rightarrow> u32 \<Rightarrow> sbus_op" where
  "reg_op a v = RegWrite (cdk_addr_to_block a) a [v]"

text \<open>What the power-up of a block asks of the chip.\<close>

definition xport_reset_ops :: "int \<Rightarrow> sbus_op list" where
  "xport_reset_ops blk = (let xe = first_xe ! nat blk; ctrl = xlport_reg_addr xe 0x80237 in
     [reg_op ctrl 0xA03, reg_op ctrl 0x800, reg_op ctrl 0x1800, reg_op ctrl 0x7800, reg_op ctrl 0xFF800,
      reg_op (xlport_reg_addr xe 0x80229) (if blk < 12 then 10 else 0),
      reg_op (xlport_reg_addr xe 0x8022a) (if blk < 12 then 0xF else 1),
      reg_op (xlport_reg_addr xe 0x8022b) 1, reg_op (xlport_reg_addr xe 0x8022b) 0])"

lemma appends_usleep: "appends (usleep n) s () []"
  unfolding usleep_def udelay_def[symmetric] by (rule appends_udelay)

lemma write_step:
  assumes "sbus_device E" and "bde_ready s" and "v = v'"
    and "\<And>tr. appends (f 0) (s\<lparr>trace := tr\<rparr>) r' ops"
  shows "appends (Monad_Syntax.bind (sbus_reg_write E a v) f) (s\<lparr>trace := t\<rparr>) r' (reg_op a v' # ops)"
proof -
  have "appends (sbus_reg_write E a v) (s\<lparr>trace := t\<rparr>) 0 [reg_op a v']"
    unfolding reg_op_def assms(3) using assms(2) by (intro appends_reg_write[OF assms(1)]) simp
  from appends_bind[OF this, of f r' ops] assms(4) show ?thesis by simp
qed

lemma usleep_step:
  assumes "\<And>tr. appends (f ()) (s\<lparr>trace := tr\<rparr>) r' ops"
  shows "appends (Monad_Syntax.bind (usleep n) f) (s\<lparr>trace := t\<rparr>) r' ops"
  using appends_bind[OF appends_usleep, of f "s\<lparr>trace := t\<rparr>" r' ops n] assms by simp

lemma appends_reset_block:
  assumes E: "sbus_device E" and s: "bde_ready s"
  shows "appends (xport_reset_block E blk) (s\<lparr>trace := t\<rparr>) True (xport_reset_ops blk)"
proof -
  note W = write_step[OF E s]
  show ?thesis
    unfolding xport_reset_block_def xport_reset_ops_def Let_def
    apply (rule W, simp)
    apply (subst if_not_P, simp)
    apply (rule W, simp, rule usleep_step, rule W, simp, rule usleep_step, rule W, simp, rule usleep_step)
    apply (rule W, simp, rule W, rule refl, rule W, rule refl, rule W, rule refl, rule usleep_step)
    apply (rule W, rule refl, rule usleep_step, rule appends_return)
    done
qed

text \<open>C22. Power-up of the WARPcores under the SBUS contract: the call succeeds and asks, block by
  block in the order of the ports, exactly for: clock on with everything powered down and in
  reset, power on, hard reset off, MDIO and PLL reset off, FIFO resets off (nothing leaves reset
  before it is powered), then the port mode, the lane enables and an XMAC reset pulse; at the
  end one register is read back.\<close>

theorem xport_reset_sequence:
  assumes E: "sbus_device E" and s: "bde_ready s"
  shows "result (init_xport_reset E) s = 0 \<and>
    sbus_log (exec (init_xport_reset E) s) = sbus_log s @ concat (map xport_reset_ops [0..15])
      @ [SbusRead (cdk_addr_to_block (xlport_reg_addr 0 0x604)) (xlport_reg_addr 0 0x604)]"
proof -
  let ?a = "xlport_reg_addr 0 0x604"
  have "appends (State_Monad.traverse_list (xport_reset_block E) [0..15]) s (map (\<lambda>_. True) [0..15::int])
      (concat (map xport_reset_ops [0..15]))"
    using appends_reset_block[OF E s] by (intro appends_traverse) simp
  moreover have "appends (Monad_Syntax.bind (sbus_reg_read64 E ?a [0, 0]) (\<lambda>_. return (if list_ex Not (map (\<lambda>_. True) [0..15::int]) then - 1 else 0)))
      (s\<lparr>trace := tr\<rparr>) (0::int) [SbusRead (cdk_addr_to_block ?a) ?a]" for tr
  proof -
    obtain v where "appends (sbus_reg_read64 E ?a [0, 0]) (s\<lparr>trace := tr\<rparr>) v [SbusRead (cdk_addr_to_block ?a) ?a]"
      using appends_reg_read64[OF E, of "s\<lparr>trace := tr\<rparr>" ?a "[0, 0]"] s by (metis ready_trace)
    from appends_bind[OF this appends_return] show ?thesis by (simp add: list_ex_iff)
  qed
  ultimately have "appends (init_xport_reset E) s 0 (concat (map xport_reset_ops [0..15]) @ [SbusRead (cdk_addr_to_block ?a) ?a])"
    unfolding init_xport_reset_def by (rule appends_bind)
  then show ?thesis by (auto dest: appends_run)
qed

theorem xport_reset_sequence_witness:
  "sbus_log (exec (init_xport_reset chip_env) bde0) = concat (map xport_reset_ops [0..15])
      @ [SbusRead (cdk_addr_to_block (xlport_reg_addr 0 0x604)) (xlport_reg_addr 0 0x604)]"
  using xport_reset_sequence[OF chip_env_device, of bde0] by (simp add: bde0_ready) (simp add: sbus_log_def bde0_def)

section \<open>The default VLAN\<close>

definition mem_op :: "u32 \<Rightarrow> int \<Rightarrow> u32 list \<Rightarrow> sbus_op" where
  "mem_op a idx ws = MemWrite (cdk_addr_to_block a) (a + word_of_int idx) ws"

text \<open>Membership of the ports in the two entries, with word 5 replaced.\<close>

lemma default_vlan_members:
  "port < 30 \<Longrightarrow> entry_bit_at (default_egr_vlan_entry[5 := m]) (162 + port) = bit m (port + 2)"
  "30 \<le> port \<Longrightarrow> port < 53 \<Longrightarrow> entry_bit_at (default_egr_vlan_entry[5 := m]) (162 + port)"
  "port < 53 \<Longrightarrow> entry_bit_at (default_vlan_entry[5 := m]) port"
proof -
  have w: "default_egr_vlan_entry ! 6 = mask 23" "default_vlan_entry ! 0 = mask 32" "default_vlan_entry ! 1 = mask 21"
    by code_simp+
  have word_of: "(k + i * 32) div 32 = i" "(k + i * 32) mod 32 = k" if "k < 32" for k i :: nat
    using that by (simp_all only: div_mult_self1 mod_mult_self1) simp_all
  show "entry_bit_at (default_egr_vlan_entry[5 := m]) (162 + port) = bit m (port + 2)" if "port < 30"
    using that word_of[of "port + 2" 5] by (simp add: entry_bit_at_def default_egr_vlan_entry_def add.commute)
  show "entry_bit_at (default_egr_vlan_entry[5 := m]) (162 + port)" if "30 \<le> port" "port < 53"
  proof -
    have "162 + port = port - 30 + 6 * 32" "port - 30 < 23" using that by simp_all
    then show ?thesis
      using word_of[of "port - 30" 6] by (simp add: entry_bit_at_def w(1) bit_mask_iff possible_bit_word)
  qed
  show "entry_bit_at (default_vlan_entry[5 := m]) port" if "port < 53"
  proof (cases "port < 32")
    case False
    then have "port = port - 32 + 1 * 32" "port - 32 < 21" using that by simp_all
    then have "port div 32 = 1" "port mod 32 < 21" using word_of[of "port - 32" 1] by simp_all
    then show ?thesis by (simp add: entry_bit_at_def w bit_mask_iff possible_bit_word del: One_nat_def)
  qed (simp add: entry_bit_at_def w bit_mask_iff possible_bit_word del: One_nat_def)
qed

text \<open>The requests of the call.\<close>

lemma default_vlan_log:
  assumes E: "sbus_device E" and s: "bde_ready s"
  shows "result (init_vlan_forwarding E) s = 0 \<and>
    (\<exists>m1 m2 rest. sbus_log (exec (init_vlan_forwarding E) s) = sbus_log s @
       [mem_op STG_TABm 2 [0xFFFFFFFF, 0xFFFFFFFF, 0xFFFFFFFF, 0x3FF, 0],
        mem_op VLAN_TABm 1 (default_vlan_entry[5 := m1]), mem_op EGR_VLANm 1 (default_egr_vlan_entry[5 := m2])] @ rest)"
proof -
  let ?stg = "[0xFFFFFFFF, 0xFFFFFFFF, 0xFFFFFFFF, 0x3FF, 0] :: u32 list"
  obtain tr1 where 1: "run_state (sbus_mem_write E STG_TABm 2 ?stg 5) s = (0, s\<lparr>trace := tr1\<rparr>)"
      "sbus_log (s\<lparr>trace := tr1\<rparr>) = sbus_log s @ [mem_op STG_TABm 2 ?stg]"
    using appends_mem_write[OF E s, of ?stg 5 STG_TABm 2] by (auto simp: appends_def mem_op_def)
  let ?s1 = "s\<lparr>trace := tr1\<rparr>"
  obtain m1 tr2 where 2: "run_state (sbus_mem_write E VLAN_TABm 1 default_vlan_entry 10) ?s1 = (0, s\<lparr>trace := tr2\<rparr>)"
      "sbus_log (s\<lparr>trace := tr2\<rparr>) = sbus_log ?s1 @ [mem_op VLAN_TABm 1 (default_vlan_entry[5 := m1])]"
    using appends_mem_write[OF E, of ?s1 default_vlan_entry 10 VLAN_TABm 1] s
    by (auto simp: appends_def mem_op_def default_vlan_entry_def)
  let ?s2 = "s\<lparr>trace := tr2\<rparr>"
  obtain m2 tr3 where 3: "run_state (sbus_mem_write E EGR_VLANm 1 default_egr_vlan_entry 8) ?s2 = (0, s\<lparr>trace := tr3\<rparr>)"
      "sbus_log (s\<lparr>trace := tr3\<rparr>) = sbus_log ?s2 @ [mem_op EGR_VLANm 1 (default_egr_vlan_entry[5 := m2])]"
    using appends_mem_write[OF E, of ?s2 default_egr_vlan_entry 8 EGR_VLANm 1] s
    by (auto simp: appends_def mem_op_def default_egr_vlan_entry_def)
  let ?rest = "Monad_Syntax.bind (for_each [0..66] (\<lambda>i. Monad_Syntax.bind (sbus_mem_write E UNKNOWN_UCAST_BLOCK_MASKm i [0, 0, 0] 3)
       (\<lambda>_. sbus_mem_write E UNKNOWN_MCAST_BLOCK_MASKm i [0, 0, 0] 3))) (\<lambda>_. return (0::int))"
  have "emits in_bar0 ?rest" by (intro emits_rules)
  then obtain rest where r: "sbus_log (exec ?rest (s\<lparr>trace := tr3\<rparr>)) = sbus_log (s\<lparr>trace := tr3\<rparr>) @ rest"
    using emits_log_extends by blast
  have run: "run_state (init_vlan_forwarding E) s = run_state ?rest (s\<lparr>trace := tr3\<rparr>)"
    unfolding init_vlan_forwarding_def by (simp add: 1(1) 2(1) 3(1))
  have res: "result ?rest t = 0" for t :: "'a bde_state_scheme" by (simp only: result_bind run_state_return fst_conv)
  have log: "sbus_log (exec (init_vlan_forwarding E) s) = sbus_log s @ [mem_op STG_TABm 2 ?stg,
      mem_op VLAN_TABm 1 (default_vlan_entry[5 := m1]), mem_op EGR_VLANm 1 (default_egr_vlan_entry[5 := m2])] @ rest"
    unfolding run r using 1(2) 2(2) 3(2) by simp
  show ?thesis by (rule conjI, unfold run, rule res, fold run) (use log in blast)
qed



end
