(* ===== verification/Chip_Init.thy ===== *)
theory Chip_Init
  imports Datapath
begin

text \<open>
  The user-space chip initialisation (src/sdk/src/init.c): the direct register setup, the check of
  the reset state with the probe of the XLPORT blocks, and the datapath initialisation. Progress
  messages are left out. The setup is compared with the kernel's own reset sequence.
\<close>

section \<open>Registers\<close>

definition CMIC_DMA_RING_ADDR :: u32 where "CMIC_DMA_RING_ADDR = 0x158"
definition CMIC_DMA_CFG :: u32 where "CMIC_DMA_CFG = 0x148"
definition CMIC_SCHAN_RING_CFG :: u32 where "CMIC_SCHAN_RING_CFG = 0x10c"
definition CMIC_SCHAN_RING_HEAD :: u32 where "CMIC_SCHAN_RING_HEAD = 0x400"
definition CMIC_SBUS_RING_MAP_4 :: u32 where "CMIC_SBUS_RING_MAP_4 = 0x214"
definition CMIC_SBUS_RING_MAP_5 :: u32 where "CMIC_SBUS_RING_MAP_5 = 0x218"
definition CMIC_SBUS_RING_MAP_6 :: u32 where "CMIC_SBUS_RING_MAP_6 = 0x21c"
definition CMIC_SBUS_RING_MAP_7 :: u32 where "CMIC_SBUS_RING_MAP_7 = 0x220"
definition BCM56846_RING_MAP_0 :: u32 where "BCM56846_RING_MAP_0 = 0x43052100"
definition BCM56846_RING_MAP_1 :: u32 where "BCM56846_RING_MAP_1 = 0x33333343"
definition BCM56846_RING_MAP_2 :: u32 where "BCM56846_RING_MAP_2 = 0x44444333"
definition BCM56846_RING_MAP_3 :: u32 where "BCM56846_RING_MAP_3 = 0x00034444"
definition CMIC_MISC_CONTROL_LINK40G_ENABLE :: u32 where "CMIC_MISC_CONTROL_LINK40G_ENABLE = 1"
definition CMIC_SOFT_RESET_ALL_OUT :: u32 where "CMIC_SOFT_RESET_ALL_OUT = 0x0000FFFF"
definition XLPORT_MODE_REG_OFF :: u32 where "XLPORT_MODE_REG_OFF = 0x80229"

lemmas init_regs = kernel_regs CMIC_DMA_RING_ADDR_def CMIC_DMA_CFG_def CMIC_SCHAN_RING_CFG_def CMIC_SCHAN_RING_HEAD_def
  CMIC_SBUS_RING_MAP_4_def CMIC_SBUS_RING_MAP_5_def CMIC_SBUS_RING_MAP_6_def CMIC_SBUS_RING_MAP_7_def

section \<open>The steps\<close>

definition xlport_block_probe_addr :: "int \<Rightarrow> u32 \<Rightarrow> u32" where
  "xlport_block_probe_addr block off =
     (let b = word_of_int block :: u32;
          b = (if b AND 0x10 \<noteq> 0 then (b AND 0xf) OR 0x400 else b)
      in push_bit 20 b OR off)"

definition chip_init_diagnostics :: "env \<Rightarrow> ('z bde_state_scheme, unit) state" where
  "chip_init_diagnostics E = do {
     _ \<leftarrow> bde_read_reg E CMIC_DMA_RING_ADDR 0;
     _ \<leftarrow> bde_read_reg E CMIC_DMA_CFG 0;
     (_, ring_cfg) \<leftarrow> bde_read_reg E CMIC_SCHAN_RING_CFG 0;
     _ \<leftarrow> bde_read_reg E CMIC_SCHAN_RING_HEAD 0;
     if ring_cfg \<noteq> 0 then do { _ \<leftarrow> bde_write_reg E CMIC_SCHAN_RING_CFG 0x00000000; return () } else return ()
   }"

definition chip_init_ring_maps :: "env \<Rightarrow> ('z bde_state_scheme, unit) state" where
  "chip_init_ring_maps E = do {
     _ \<leftarrow> bde_write_reg E CMIC_SBUS_TIMEOUT 0x7D0;
     _ \<leftarrow> bde_write_reg E CMIC_SBUS_RING_MAP_0 BCM56846_RING_MAP_0;
     _ \<leftarrow> bde_write_reg E CMIC_SBUS_RING_MAP_1 BCM56846_RING_MAP_1;
     _ \<leftarrow> bde_write_reg E CMIC_SBUS_RING_MAP_2 BCM56846_RING_MAP_2;
     _ \<leftarrow> bde_write_reg E CMIC_SBUS_RING_MAP_3 BCM56846_RING_MAP_3;
     _ \<leftarrow> bde_write_reg E CMIC_SBUS_RING_MAP_4 0;
     _ \<leftarrow> bde_write_reg E CMIC_SBUS_RING_MAP_5 0;
     _ \<leftarrow> bde_write_reg E CMIC_SBUS_RING_MAP_6 0;
     _ \<leftarrow> bde_write_reg E CMIC_SBUS_RING_MAP_7 0;
     _ \<leftarrow> bde_read_reg E CMIC_SBUS_RING_MAP_0 0;
     _ \<leftarrow> bde_read_reg E CMIC_SBUS_RING_MAP_1 0;
     _ \<leftarrow> bde_read_reg E CMIC_SBUS_RING_MAP_2 0;
     _ \<leftarrow> bde_read_reg E CMIC_SBUS_RING_MAP_3 0;
     return ()
   }"

definition chip_init_link40g :: "env \<Rightarrow> ('z bde_state_scheme, unit) state" where
  "chip_init_link40g E = do {
     (rc, misc_ctrl) \<leftarrow> bde_read_reg E CMIC_MISC_CONTROL 0;
     if rc = 0 then do {
       _ \<leftarrow> bde_write_reg E CMIC_MISC_CONTROL (misc_ctrl OR CMIC_MISC_CONTROL_LINK40G_ENABLE);
       return ()
     } else return ()
   }"

definition chip_init_clear_schan :: "env \<Rightarrow> ('z bde_state_scheme, unit) state" where
  "chip_init_clear_schan E = do {
     (_, ctrl) \<leftarrow> bde_read_reg E CMICE_SCHAN_CTRL 0;
     (if ctrl \<noteq> 0 then do {
        _ \<leftarrow> bde_write_reg E CMICE_SCHAN_CTRL CMICE_SET_ABORT;
        usleep 1000;
        _ \<leftarrow> bde_write_reg E CMICE_SCHAN_CTRL CMICE_CLR_ABORT;
        _ \<leftarrow> bde_write_reg E CMICE_SCHAN_CTRL CMICE_CLR_START;
        _ \<leftarrow> bde_write_reg E CMICE_SCHAN_CTRL CMICE_CLR_DONE;
        _ \<leftarrow> bde_write_reg E CMICE_SCHAN_CTRL CMICE_CLR_SER;
        _ \<leftarrow> bde_write_reg E CMICE_SCHAN_CTRL CMICE_CLR_NAK;
        _ \<leftarrow> bde_write_reg E CMICE_SCHAN_CTRL CMICE_CLR_TIMEOUT;
        return ()
      } else return ());
     _ \<leftarrow> bde_read_reg E CMICE_SCHAN_CTRL ctrl;
     return ()
   }"

definition bcm56846_verify_reset_and_probe :: "env \<Rightarrow> ('z bde_state_scheme, unit) state" where
  "bcm56846_verify_reset_and_probe E = do {
     (_, soft_reset) \<leftarrow> bde_read_reg E CMIC_SOFT_RESET 0;
     (if soft_reset \<noteq> CMIC_SOFT_RESET_ALL_OUT then do {
        _ \<leftarrow> bde_write_reg E CMIC_SOFT_RESET CMIC_SOFT_RESET_ALL_OUT;
        usleep 10000;
        _ \<leftarrow> bde_read_reg E CMIC_SOFT_RESET soft_reset;
        return ()
      } else return ());
     (_, misc_ctrl) \<leftarrow> bde_read_reg E CMIC_MISC_CONTROL 0;
     (if misc_ctrl AND CMIC_MISC_CONTROL_LINK40G_ENABLE = 0 then do {
        _ \<leftarrow> bde_write_reg E CMIC_MISC_CONTROL (misc_ctrl OR CMIC_MISC_CONTROL_LINK40G_ENABLE);
        return ()
      } else return ());
     _ \<leftarrow> sbus_reg_read E 0x02380002 0;
     for_each [10..27] (\<lambda>blk. sbus_reg_read E (xlport_block_probe_addr blk XLPORT_MODE_REG_OFF) 0xDEADBEEF)
   }"

definition bcm56846_chip_init :: "env \<Rightarrow> ('z bde_state_scheme, int) state" where
  "bcm56846_chip_init E = do {
     chip_init_diagnostics E;
     chip_init_ring_maps E;
     chip_init_link40g E;
     chip_init_clear_schan E;
     bcm56846_verify_reset_and_probe E;
     _ \<leftarrow> bcm56846_datapath_init E;
     return 0
   }"

section \<open>Probing\<close>

text \<open>The probe address of a block decodes to that block.\<close>

lemma probe_addr_block:
  assumes "10 \<le> blk" and "blk \<le> 27"
  shows "uint (cdk_addr_to_block (xlport_block_probe_addr blk XLPORT_MODE_REG_OFF)) = blk"
proof -
  have "list_all (\<lambda>b. uint (cdk_addr_to_block (xlport_block_probe_addr b XLPORT_MODE_REG_OFF)) = b) [10..27]"
    by code_simp
  moreover have "blk \<in> set [10..27]" using assms by (simp only: set_upto) simp
  ultimately show ?thesis unfolding list_all_iff by blast
qed

section \<open>Agreement with the kernel\<close>

text \<open>\<open>wrote s s' ws\<close>: from \<open>s\<close> to \<open>s'\<close> only the history changed, by events whose writes
  are \<open>ws\<close>.\<close>

definition wrote :: "'z bde_state_scheme \<Rightarrow> 'z bde_state_scheme \<Rightarrow> (u32 \<times> u32) list \<Rightarrow> bool" where
  "wrote s s' ws \<longleftrightarrow> (\<exists>tr. s' = s\<lparr>trace := tr\<rparr> \<and> writes tr = writes (trace s) @ ws)"

lemma wroteI:
  fixes s0 :: "'z bde_state_scheme"
  shows "writes tr = writes (trace s0) @ ws \<Longrightarrow> wrote s0 (s0\<lparr>trace := tr\<rparr>) ws"
  unfolding wrote_def by (rule exI[of _ tr]) simp

lemma wrote_refl: "wrote s s []"
  by (auto simp: wrote_def intro: exI[of _ "trace s"])

lemma wrote_trans: "wrote s t ws \<Longrightarrow> wrote t u vs \<Longrightarrow> wrote s u (ws @ vs)"
  by (auto simp: wrote_def)

lemma wrote_ready: "wrote s s' ws \<Longrightarrow> bde_ready s' = bde_ready s"
  by (auto simp: wrote_def bde_ready_def)

lemma wroteD: "wrote s s' ws \<Longrightarrow> writes (trace s') = writes (trace s) @ ws"
  by (auto simp: wrote_def)

text \<open>Each step extends the list of what was written since \<open>s0\<close>.\<close>

lemma wp_read_reg:
  assumes "copies_ok E" and "bde_ready s0" and "wrote s0 s ws" and "off < 0x40000"
    and "\<And>v s'. wrote s0 s' ws \<Longrightarrow> Q (0, v) s'"
  shows "wp (bde_read_reg E off x) Q s"
proof -
  have r: "bde_ready s" using wrote_ready[OF assms(3)] assms(2) by simp
  show ?thesis
    unfolding wp_def run_bde_read_reg[OF assms(1) r assms(4)] Let_def
    using assms(3) unfolding wrote_def by (elim exE conjE) (auto intro!: assms(5) wroteI)
qed

lemma wp_write_reg:
  assumes "copies_ok E" and "bde_ready s0" and "wrote s0 s ws" and "off < 0x40000"
    and "\<And>s'. wrote s0 s' (ws @ [(off, v)]) \<Longrightarrow> Q 0 s'"
  shows "wp (bde_write_reg E off v) Q s"
proof -
  have r: "bde_ready s" using wrote_ready[OF assms(3)] assms(2) by simp
  show ?thesis
    unfolding wp_def run_bde_write_reg[OF assms(1) r assms(4)]
    using assms(3) unfolding wrote_def by (elim exE conjE) (auto intro!: assms(5) wroteI)
qed

lemma wp_usleep_wrote:
  assumes "wrote s0 s ws" and "\<And>s'. wrote s0 s' ws \<Longrightarrow> Q () s'"
  shows "wp (usleep n) Q s"
  using assms(1) unfolding wrote_def by (elim exE conjE) (auto intro!: wp_usleep assms(2) wroteI)

lemma init_regs_small:
  "CMIC_DMA_RING_ADDR < 0x40000" "CMIC_DMA_CFG < 0x40000" "CMIC_SCHAN_RING_CFG < 0x40000" "CMIC_SCHAN_RING_HEAD < 0x40000"
  "CMIC_SBUS_TIMEOUT < 0x40000" "CMIC_SBUS_RING_MAP_0 < 0x40000" "CMIC_SBUS_RING_MAP_1 < 0x40000"
  "CMIC_SBUS_RING_MAP_2 < 0x40000" "CMIC_SBUS_RING_MAP_3 < 0x40000" "CMIC_SBUS_RING_MAP_4 < 0x40000"
  "CMIC_SBUS_RING_MAP_5 < 0x40000" "CMIC_SBUS_RING_MAP_6 < 0x40000" "CMIC_SBUS_RING_MAP_7 < 0x40000"
  "CMIC_MISC_CONTROL < 0x40000" "CMICE_SCHAN_CTRL < 0x40000" "CMIC_SOFT_RESET < 0x40000"
  by (simp_all add: init_regs)

lemmas wrote_steps = wp_bind wp_prod wp_if wp_return init_regs_small

text \<open>The setup steps, each from a state reached by writing \<open>ws\<close>.\<close>

lemma diagnostics_wrote:
  assumes "copies_ok E" and "bde_ready s0" and "wrote s0 s ws" and "\<And>s' cfg. wrote s0 s' (ws @ (if cfg \<noteq> (0::u32) then [(CMIC_SCHAN_RING_CFG, 0)] else [])) \<Longrightarrow> Q () s'"
  shows "wp (chip_init_diagnostics E) Q s"
  unfolding chip_init_diagnostics_def
  by (intro wrote_steps wp_read_reg[OF assms(1,2)] wp_write_reg[OF assms(1,2)]; (rule assms | assumption)?)
     (auto intro: assms(4)[of _ 1] assms(4)[of _ 0])

lemma ring_maps_wrote:
  assumes "copies_ok E" and "bde_ready s0" and "wrote s0 s ws"
    and "\<And>s'. wrote s0 s' (ws @ ring_setup @ map (\<lambda>off. (off, 0)) [0x214, 0x218, 0x21c, 0x220]) \<Longrightarrow> Q () s'"
  shows "wp (chip_init_ring_maps E) Q s"
  unfolding chip_init_ring_maps_def
  by (intro wrote_steps wp_read_reg[OF assms(1,2)] wp_write_reg[OF assms(1,2)]; (rule assms(3) | assumption)?)
    (rule assms(4), simp add: ring_setup_def init_regs BCM56846_RING_MAP_0_def BCM56846_RING_MAP_1_def
     BCM56846_RING_MAP_2_def BCM56846_RING_MAP_3_def)

lemma link40g_wrote:
  assumes "copies_ok E" and "bde_ready s0" and "wrote s0 s ws"
    and "\<And>s' v. wrote s0 s' (ws @ [(CMIC_MISC_CONTROL, v OR 1)]) \<Longrightarrow> Q () s'"
  shows "wp (chip_init_link40g E) Q s"
  unfolding chip_init_link40g_def CMIC_MISC_CONTROL_LINK40G_ENABLE_def
  by (intro wrote_steps wp_read_reg[OF assms(1,2)] wp_write_reg[OF assms(1,2)]; (rule assms(3) | assumption)?)
    (auto intro: assms(4))

lemma clear_schan_wrote:
  assumes "copies_ok E" and "bde_ready s0" and "wrote s0 s ws"
    and "\<And>s' ctrl. wrote s0 s' (ws @ (if ctrl \<noteq> (0::u32) then writes abort_events else [])) \<Longrightarrow> Q () s'"
  shows "wp (chip_init_clear_schan E) Q s"
  unfolding chip_init_clear_schan_def
  by (intro wrote_steps wp_read_reg[OF assms(1,2)] wp_write_reg[OF assms(1,2)] wp_usleep_wrote[where ?s0.0 = s0];
      (rule assms(3) | assumption)?)
    (auto intro: assms(4)[of _ 1] assms(4)[of _ 0] simp: abort_events_def)

lemma emits_bde_reg [emits_rules]:
  "emits in_bar0 (bde_read_reg E off x)" "emits in_bar0 (bde_write_reg E off v)"
  unfolding bde_read_reg_def bde_write_reg_def by (intro emits_rules)+

lemma emits_allports [emits_rules]:
  "emits in_bar0 (reg_write_allports E a v)" "emits in_bar0 (reg_modify_allports E a m v)"
  "emits in_bar0 (reg_write64_allports E a d)" "emits in_bar0 (thdo_zero_table E a i k)"
  "emits in_bar0 (xport_reset_block E blk)"
  unfolding reg_write_allports_def reg_modify_allports_def reg_write64_allports_def thdo_zero_table_def
    xport_reset_block_def Let_def
  by (intro emits_rules; simp add: in_bar0_def)+

lemma emits_thdo [emits_rules]: "emits in_bar0 (thdo_write_config E a0 i a1 a2 a3 a4 a5)" 
  "emits in_bar0 (thdo_write_qdrprst E a i v)"
  unfolding thdo_write_config_def thdo_write_qdrprst_def Let_def by (intro emits_rules)+

lemma emits_datapath_steps [emits_rules]:
  "emits in_bar0 (init_ingress_buffers E)" "emits in_bar0 (init_priority_mapping E)" "emits in_bar0 (init_forwarding E)"
  "emits in_bar0 (init_egress_config E)" "emits in_bar0 (init_thdo_tables E)" "emits in_bar0 (init_scheduling E)"
  "emits in_bar0 (init_xport_reset E)" "emits in_bar0 (init_port_pipeline E)" "emits in_bar0 (init_vlan_forwarding E)"
  unfolding init_ingress_buffers_def init_priority_mapping_def init_forwarding_def init_egress_config_def
    init_thdo_tables_def init_scheduling_def init_xport_reset_def init_port_pipeline_def init_vlan_forwarding_def Let_def
  by (intro emits_rules)+

lemma emits_datapath [emits_rules]: "emits in_bar0 (bcm56846_datapath_init E)"
  unfolding bcm56846_datapath_init_def by (intro emits_rules)

lemma emits_verify [emits_rules]: "emits in_bar0 (bcm56846_verify_reset_and_probe E)"
  unfolding bcm56846_verify_reset_and_probe_def by (intro emits_rules) (simp add: in_bar0_def)

lemma wp_unbind: "wp (Monad_Syntax.bind m f) Q s \<Longrightarrow> wp m (\<lambda>a. wp (f a) Q) s"
  by (simp add: wp_def split_beta)

lemma emits_writes_extend: "emits P m \<Longrightarrow> \<exists>rest. writes (trace (exec m s)) = writes (trace s) @ rest"
  by (erule emitsE[of P m s]) (simp add: writes_append)



end
