(* ===== verification/Cscan.thy ===== *)
theory Cscan
  imports Ctext
begin

text \<open>
  Reading text files line by line (\<open>fgets\<close>) and the \<open>sscanf\<close> conversions the configuration
  files and command scripts are parsed with: \<open>%s\<close> with a width, \<open>%[^=]\<close>, \<open>%d\<close>,
  \<open>%u\<close> / \<open>%lu\<close> and \<open>%x\<close> / \<open>%lx\<close> as ISO C has them, literal text between them. \<open>int\<close>
  and \<open>long\<close> have 32 bits on the target. A conversion returns its value with the text behind it,
  \<open>None\<close> where it does not match.
\<close>

section \<open>Lines\<close>

text \<open>A file is its bytes when it is opened; \<open>fgets(buf, n, f)\<close> takes up to \<open>n - 1\<close> of them, up to
  a newline. Used as a C string, a line ends at its first NUL.\<close>

definition fgets_chunk :: "nat \<Rightarrow> string \<Rightarrow> string" where
  "fgets_chunk n s = take (n - 1) (take (length (takeWhile (\<lambda>c. c \<noteq> newline) s) + 1) s)"

lemma fgets_chunk_not_Nil: "1 < n \<Longrightarrow> s \<noteq> [] \<Longrightarrow> fgets_chunk n s \<noteq> []"
  by (cases s) (auto simp: fgets_chunk_def)

function fgets_lines :: "nat \<Rightarrow> string \<Rightarrow> string list" where
  "fgets_lines n s = (if n \<le> 1 \<or> s = [] then []
     else fgets_chunk n s # fgets_lines n (drop (length (fgets_chunk n s)) s))"
  by pat_completeness auto
termination
  by (relation "measure (\<lambda>(n, s). length s)") (use fgets_chunk_not_Nil in auto)

declare fgets_lines.simps [simp del]

definition c_string :: "string \<Rightarrow> string" where
  "c_string s = takeWhile (\<lambda>c. c \<noteq> CHR 0x00) s"

section \<open>Conversions\<close>

definition scan_word :: "nat \<Rightarrow> string \<Rightarrow> (string \<times> string) option" where
  "scan_word width s = (let t = dropWhile is_space s; w = take width (takeWhile (\<lambda>c. \<not> is_space c) t) in
     if w = [] then None else Some (w, drop (length w) t))"

definition scan_until :: "nat \<Rightarrow> char \<Rightarrow> string \<Rightarrow> (string \<times> string) option" where
  "scan_until width stop s = (let w = take width (takeWhile (\<lambda>c. c \<noteq> stop) s) in
     if w = [] then None else Some (w, drop (length w) s))"

fun scan_lit :: "string \<Rightarrow> string \<Rightarrow> string option" where
  "scan_lit [] s = Some s"
| "scan_lit (_ # _) [] = None"
| "scan_lit (p # ps) (c # cs) = (if p = c then scan_lit ps cs else None)"

definition is_xdigit :: "char \<Rightarrow> bool" where
  "is_xdigit c \<longleftrightarrow> is_digit c \<or> 97 \<le> (of_char c :: nat) \<and> (of_char c :: nat) \<le> 102
     \<or> 65 \<le> (of_char c :: nat) \<and> (of_char c :: nat) \<le> 70"

definition xdigit_val :: "char \<Rightarrow> nat" where
  "xdigit_val c = (if is_digit c then of_char c - 48 else if of_char c \<ge> (97 :: nat) then of_char c - 87 else of_char c - 55)"

definition xdigits_val :: "string \<Rightarrow> nat" where
  "xdigits_val ds = foldl (\<lambda>v c. 16 * v + xdigit_val c) 0 ds"

text \<open>\<open>strtoul\<close> on a magnitude: too large a number is \<open>ULONG_MAX\<close>, a minus sign negates
  modulo the width.\<close>

definition ulong_val :: "bool \<Rightarrow> nat \<Rightarrow> 32 word" where
  "ulong_val neg v = (if int v \<ge> 2 ^ 32 then - 1 else if neg then - word_of_nat v else word_of_nat v)"

definition scan_dec :: "string \<Rightarrow> ((bool \<times> nat) \<times> string) option" where
  "scan_dec s = (let (neg, u) = split_sign (dropWhile is_space s); ds = takeWhile is_digit u in
     if ds = [] then None else Some ((neg, digits_val ds), drop (length ds) u))"

definition scan_u :: "string \<Rightarrow> (32 word \<times> string) option" where
  "scan_u s = (case scan_dec s of None \<Rightarrow> None | Some ((neg, v), rest) \<Rightarrow> Some (ulong_val neg v, rest))"

definition scan_d :: "string \<Rightarrow> (int \<times> string) option" where
  "scan_d s = (case scan_dec s of None \<Rightarrow> None
     | Some ((neg, v), rest) \<Rightarrow>
         Some (max (- LONG_MAX - 1) (min LONG_MAX (if neg then - int v else int v)), rest))"

definition scan_x :: "string \<Rightarrow> (32 word \<times> string) option" where
  "scan_x s = (let (neg, u) = split_sign (dropWhile is_space s);
       pre = (take 2 u = ''0x'' \<or> take 2 u = ''0X'');
       v = (if pre then drop 2 u else u); ds = takeWhile is_xdigit v in
     if ds = [] then None else Some (ulong_val neg (xdigits_val ds), drop (length ds) v))"

definition to_lower :: "char \<Rightarrow> char" where
  "to_lower c = (if 65 \<le> (of_char c :: nat) \<and> (of_char c :: nat) \<le> 90 then char_of (of_char c + 32 :: nat) else c)"

section \<open>Reading a file loses nothing\<close>

lemma fgets_chunk_prefix: "fgets_chunk n s @ drop (length (fgets_chunk n s)) s = s"
  by (metis append_take_drop_id append_eq_conv_conj fgets_chunk_def take_take)

lemma concat_fgets_lines: "1 < n \<Longrightarrow> concat (fgets_lines n s) = s"
proof (induction n s rule: fgets_lines.induct)
  case (1 n s)
  show ?case
    using 1 fgets_chunk_prefix[of n s] by (subst fgets_lines.simps) (auto simp: not_le)
qed

lemma fgets_lines_fit: "l \<in> set (fgets_lines n s) \<Longrightarrow> length l < n"
proof (induction n s rule: fgets_lines.induct)
  case (1 n s)
  have "length (fgets_chunk n s) < n" if "1 < n" using that by (auto simp: fgets_chunk_def)
  then show ?case
    using 1 by (subst (asm) fgets_lines.simps) (auto split: if_splits)
qed

section \<open>Scanning words and printed numbers\<close>

lemma c_string_id: "list_all (\<lambda>c. c \<noteq> CHR 0x00) s \<Longrightarrow> c_string s = s"
  by (simp add: c_string_def takeWhile_eq_all_conv list_all_iff)

text \<open>A word: characters that are neither blank nor NUL.\<close>

definition is_word :: "string \<Rightarrow> bool" where
  "is_word w \<longleftrightarrow> w \<noteq> [] \<and> list_all (\<lambda>c. \<not> is_space c \<and> c \<noteq> CHR 0x00) w"

lemma scan_word_blank [simp]: "scan_word n (CHR '' '' # s) = scan_word n s"
  by (simp add: scan_word_def is_space_def)

lemma scan_word_append:
  assumes w: "is_word w" and n: "length w \<le> n" and r: "rest = [] \<or> is_space (hd rest)"
  shows "scan_word n (w @ rest) = Some (w, rest)"
proof -
  have d: "dropWhile is_space (w @ rest) = w @ rest"
    using w by (cases w) (simp_all add: is_word_def)
  have "takeWhile (\<lambda>c. \<not> is_space c) rest = []" using r by (cases rest) simp_all
  then have t: "takeWhile (\<lambda>c. \<not> is_space c) (w @ rest) = w"
    using w by (subst takeWhile_append2) (auto simp: is_word_def list_all_iff)
  have "w \<noteq> []" using w by (simp add: is_word_def)
  then have "0 < n" using n by (cases n) simp_all
  then show ?thesis using n \<open>w \<noteq> []\<close> by (simp add: scan_word_def d t Let_def)
qed

fun hex_nat :: "nat \<Rightarrow> string" where
  "hex_nat n = (if n < 16 then [if n < 10 then char_of (48 + n) else char_of (87 + n)]
     else hex_nat (n div 16) @ [if n mod 16 < 10 then char_of (48 + n mod 16) else char_of (87 + n mod 16)])"

declare hex_nat.simps [simp del]

lemma xdigit_char:
  "n < 16 \<Longrightarrow> is_xdigit (if n < 10 then char_of (48 + n) else char_of (87 + n)) \<and>
     xdigit_val (if n < 10 then char_of (48 + n) else char_of (87 + n)) = n"
  by (simp add: is_xdigit_def is_digit_def xdigit_val_def of_char_of)

lemma hex_nat_digits: "list_all is_xdigit (hex_nat n)"
proof (induction n rule: hex_nat.induct)
  case (1 n)
  show ?case
    by (subst hex_nat.simps) (use 1 xdigit_char[of n] xdigit_char[of "n mod 16"] in simp)
qed

lemma hex_nat_not_Nil [simp]: "hex_nat n \<noteq> []"
  by (subst hex_nat.simps) simp

lemma xdigits_val_snoc: "xdigits_val (ds @ [c]) = 16 * xdigits_val ds + xdigit_val c"
  by (simp add: xdigits_val_def)

lemma xdigits_val_hex_nat [simp]: "xdigits_val (hex_nat n) = n"
proof (induction n rule: hex_nat.induct)
  case (1 n)
  show ?case
  proof (cases "n < 16")
    case True
    then show ?thesis
      using xdigit_char[of n] by (subst hex_nat.simps) (simp add: xdigits_val_def)
  next
    case False
    have "xdigits_val (hex_nat n) = 16 * xdigits_val (hex_nat (n div 16)) + n mod 16"
      using False xdigit_char[of "n mod 16"] by (subst hex_nat.simps) (simp add: xdigits_val_snoc)
    then show ?thesis using 1 False by simp
  qed
qed

lemma xdigit_plain: "is_xdigit c \<Longrightarrow> \<not> is_space c \<and> c \<noteq> CHR 0x00 \<and> c \<noteq> CHR ''-'' \<and> c \<noteq> CHR ''+'' \<and> c \<noteq> CHR ''x'' \<and> c \<noteq> CHR ''X''"
  by (auto simp: is_xdigit_def is_digit_def is_space_def)

lemma digit_xdigit: "is_digit c \<Longrightarrow> is_xdigit c"
  by (simp add: is_xdigit_def)

lemma number_word: "is_word (hex_nat n)" "is_word (dec_nat n)"
  using hex_nat_digits[of n] dec_nat_digits[of n] xdigit_plain digit_xdigit
  by (auto simp: is_word_def list_all_iff)

text \<open>Text of hexadecimal digits only begins with neither blanks, a sign nor \<open>0x\<close>.\<close>

lemma xdigits_plain:
  assumes "list_all is_xdigit u"
  shows "dropWhile is_space u = u" and "split_sign u = (False, u)"
    and "take 2 u \<noteq> ''0x''" and "take 2 u \<noteq> ''0X''"
  using assms xdigit_plain[of "hd u"] xdigit_plain[of "hd (tl u)"]
  by (cases u; cases "tl u"; auto simp: split_sign_def)+

lemma takeWhile_all: "list_all P xs \<Longrightarrow> takeWhile P xs = xs"
  by (simp add: takeWhile_eq_all_conv list_all_iff)

lemma scan_x_hex_nat [simp]: "scan_x (hex_nat n) = Some (ulong_val False n, [])"
  using xdigits_plain[OF hex_nat_digits[of n]] by (simp add: scan_x_def Let_def takeWhile_all[OF hex_nat_digits])

lemma dec_nat_xdigits: "list_all is_xdigit (dec_nat n)"
  using dec_nat_digits[of n] digit_xdigit by (auto simp: list_all_iff)

lemma scan_u_dec_nat [simp]: "scan_u (dec_nat n) = Some (ulong_val False n, [])"
  using xdigits_plain[OF dec_nat_xdigits[of n]]
  by (simp add: scan_u_def scan_dec_def Let_def takeWhile_all[OF dec_nat_digits])

lemma ulong_val_unat [simp]: "ulong_val False (unat a) = a"
  using uint_lt2p[of a] by (simp add: ulong_val_def)

lemma to_lower_id: "is_space c \<or> is_digit c \<or> c = CHR ''-'' \<or> c = CHR ''+'' \<or> c = CHR 0x00 \<Longrightarrow> to_lower c = c"
  by (auto simp: to_lower_def is_space_def is_digit_def)

section \<open>Printed lines\<close>

lemma fgets_line:
  assumes nl: "newline \<notin> set line" and len: "length line + 1 < n"
  shows "fgets_lines n (line @ newline # rest) = (line @ [newline]) # fgets_lines n rest"
proof -
  have "takeWhile (\<lambda>c. c \<noteq> newline) (line @ newline # rest) = line"
    using nl by (subst takeWhile_append2) auto
  then have "fgets_chunk n (line @ newline # rest) = line @ [newline]"
    using len by (simp add: fgets_chunk_def)
  then show ?thesis using len by (subst fgets_lines.simps) simp
qed

lemma fgets_lines_Nil [simp]: "fgets_lines n [] = []"
  by (subst fgets_lines.simps) simp

lemma fgets_lines_concat:
  assumes "\<And>l. l \<in> set ls \<Longrightarrow> newline \<notin> set l \<and> length l + 1 < n"
  shows "fgets_lines n (concat (List.map (\<lambda>l. l @ [newline]) ls)) = List.map (\<lambda>l. l @ [newline]) ls"
  using assms
proof (induction ls)
  case (Cons l ls)
  then have "newline \<notin> set l" "length l + 1 < n" by auto
  from fgets_line[OF this, of "concat (List.map (\<lambda>l. l @ [newline]) ls)"] Cons show ?case by simp
qed simp

definition int_range :: "int \<Rightarrow> bool" where
  "int_range i \<longleftrightarrow> - 2147483648 \<le> i \<and> i \<le> 2147483647"

lemma scan_dec_dec_int:
  assumes "no_digit_first rest"
  shows "scan_dec (dec_int i @ rest) = Some ((i < 0, nat \<bar>i\<bar>), rest)"
  using takeWhile_digits[OF dec_nat_digits assms, of "nat \<bar>i\<bar>"] by (simp add: scan_dec_def)

lemma scan_d_dec_int [simp]:
  "int_range i \<Longrightarrow> no_digit_first rest \<Longrightarrow> scan_d (dec_int i @ rest) = Some (i, rest)"
  by (simp add: scan_d_def scan_dec_dec_int int_range_def LONG_MAX_def)

lemma scan_lit_append [simp]: "scan_lit p (p @ s) = Some s"
  by (induction p) simp_all

end
