(* ===== verification/Soc.thy ===== *)
theory Soc
  imports Chip_Init Cscan
begin

text \<open>
  The command script runner (src/sdk/src/soc.c): \<open>rc.soc\<close> and the scripts it loads. A line is
  parsed into a command (\<open>soc_line\<close>), and the commands of a script are run in order; \<open>rcload\<close>
  runs another script, at most \<open>RCLOAD_MAX_DEPTH\<close> deep. Which files there are and what is in them
  when they are opened is a parameter \<open>F\<close>. The recursion is bounded by fuel, whose exhaustion is
  the result None; it is shown never to happen. Messages on stderr are left out.
\<close>

section \<open>State\<close>

record soc_state = bde_state +
  rcload_depth :: int

type_synonym files = "io_event list \<Rightarrow> string \<Rightarrow> string option"

abbreviation (input) "RCLOAD_MAX_DEPTH \<equiv> (8::int)"

definition CMIC_BAR0_SIZE :: u32 where "CMIC_BAR0_SIZE = 0x40000"

section \<open>Registers\<close>

definition soc_write_reg :: "env \<Rightarrow> u32 \<Rightarrow> u32 \<Rightarrow> ('z bde_state_scheme, int) state" where
  "soc_write_reg E addr value =
     (if addr < CMIC_BAR0_SIZE then bde_write_reg E addr value else sbus_reg_write E addr value)"

definition soc_read_reg :: "env \<Rightarrow> u32 \<Rightarrow> u32 \<Rightarrow> ('z bde_state_scheme, int \<times> u32) state" where
  "soc_read_reg E addr value =
     (if addr < CMIC_BAR0_SIZE then bde_read_reg E addr value else sbus_reg_read E addr value)"

record field_entry =
  fe_reg_name :: string
  fe_field_name :: string
  fe_shift :: nat
  fe_mask :: u32

definition field_table :: "field_entry list" where
  "field_table = [\<lparr>fe_reg_name = ''cmic_misc_control'', fe_field_name = ''link40g_enable'', fe_shift = 0, fe_mask = 1\<rparr>]"

definition reg_table :: "(string \<times> u32) list" where
  "reg_table = [
     (''rdbgc0_select'', 0x06500380), (''rdbgc3_select'', 0x065003a0), (''rdbgc4_select'', 0x065003a4),
     (''rdbgc5_select'', 0x065003a8), (''rdbgc6_select'', 0x065003ac), (''tdbgc6_select'', 0x04b00200),
     (''ifp_meter_parity_control'', 0x0a400000), (''xmac_tx_ctrl'', 0x40a0082c),
     (''rtag7_hash_seed_a'', 0x05e00180), (''rtag7_hash_ecmp'', 0x05e00200),
     (''cmic_misc_control'', 0x0000001c)]"

definition lower63 :: "string \<Rightarrow> string" where
  "lower63 name = List.map to_lower (take 63 name)"

definition reg_lookup :: "string \<Rightarrow> u32" where
  "reg_lookup name = (case map_of reg_table (lower63 name) of None \<Rightarrow> 0 | Some addr \<Rightarrow> addr)"

definition field_lookup :: "string \<Rightarrow> string \<Rightarrow> field_entry option" where
  "field_lookup reg field =
     find (\<lambda>fe. lower63 reg = fe_reg_name fe \<and> lower63 field = fe_field_name fe) field_table"

section \<open>Commands\<close>

datatype soc_cmd =
    Skip                              \<comment> \<open>blank, comment, ignored or unknown\<close>
  | Init_all
  | Rcload string
  | Setreg u32 u32
  | Getreg u32
  | Modify u32 field_entry u32

definition skip_blanks :: "string \<Rightarrow> string" where
  "skip_blanks = dropWhile (\<lambda>c. c = CHR '' '' \<or> c = CHR 0x09)"

text \<open>An address: \<open>"0x%x"\<close>, else \<open>"%u"\<close>. A value is 0 when neither matches.\<close>

definition scan_addr :: "string \<Rightarrow> u32 option" where
  "scan_addr arg = (case Option.bind (scan_lit ''0x'' arg) scan_x of Some (v, _) \<Rightarrow> Some v
     | None \<Rightarrow> map_option fst (scan_u arg))"

definition scan_value :: "string \<Rightarrow> u32" where
  "scan_value arg = (case scan_addr arg of None \<Rightarrow> 0 | Some v \<Rightarrow> v)"

definition parse_setreg :: "string \<Rightarrow> string \<Rightarrow> soc_cmd" where
  "parse_setreg arg1 arg2 = (case scan_addr arg1 of Some addr \<Rightarrow> Setreg addr (scan_value arg2)
     | None \<Rightarrow> let reg = reg_lookup arg1; val = scan_value arg2 in
         if reg \<noteq> 0 then Setreg reg val else Skip)"

definition scan_field_value :: "string \<Rightarrow> (string \<times> u32) option" where
  "scan_field_value arg2 = (case scan_until 63 (CHR ''='') arg2 of None \<Rightarrow> None
     | Some (field, rest) \<Rightarrow>
         (case Option.bind (scan_lit ''=0x'' rest) scan_x of Some (v, _) \<Rightarrow> Some (field, v)
          | None \<Rightarrow> (case Option.bind (scan_lit ''=0X'' rest) scan_x of Some (v, _) \<Rightarrow> Some (field, v)
          | None \<Rightarrow> (case Option.bind (scan_lit ''='' rest) scan_u of Some (v, _) \<Rightarrow> Some (field, v)
          | None \<Rightarrow> None))))"

definition parse_m :: "string \<Rightarrow> string \<Rightarrow> soc_cmd" where
  "parse_m arg1 arg2 = (let reg_addr = reg_lookup arg1 in
     if reg_addr = 0 then Skip
     else case scan_field_value arg2 of None \<Rightarrow> Skip
     | Some (field_name, field_val) \<Rightarrow>
         (case field_lookup arg1 field_name of None \<Rightarrow> Skip
          | Some fe \<Rightarrow> Modify reg_addr fe field_val))"

text \<open>The words of a command: \<open>sscanf(p, "%63s %127s %63s", ...)\<close>.\<close>

definition scan_args :: "string \<Rightarrow> string list" where
  "scan_args p = (case scan_word 63 p of None \<Rightarrow> []
     | Some (cmd, r) \<Rightarrow> cmd # (case scan_word 127 r of None \<Rightarrow> []
       | Some (arg1, r) \<Rightarrow> arg1 # (case scan_word 63 r of None \<Rightarrow> [] | Some (arg2, _) \<Rightarrow> [arg2])))"

definition parse_args :: "string list \<Rightarrow> soc_cmd" where
  "parse_args args = (let nargs = length args; cmd = args ! 0; arg1 = args ! 1; arg2 = args ! 2 in
     if nargs < 1 then Skip
     else if cmd \<in> {''debug'', ''attach'', ''setenv'', ''modreg'', ''s''} then Skip
     else if cmd = ''init'' \<and> nargs \<ge> 2 \<and> arg1 = ''all'' then Init_all
     else if cmd = ''rcload'' \<and> nargs \<ge> 2 then Rcload arg1
     else if cmd = ''setreg'' \<and> nargs \<ge> 3 then parse_setreg arg1 arg2
     else if cmd = ''getreg'' \<and> nargs \<ge> 2 then (case scan_addr arg1 of None \<Rightarrow> Skip | Some addr \<Rightarrow> Getreg addr)
     else if cmd = ''m'' \<and> nargs \<ge> 3 then parse_m arg1 arg2
     else Skip)"

definition soc_line :: "string \<Rightarrow> soc_cmd" where
  "soc_line line = (let p = skip_blanks (c_string line) in
     if p = [] \<or> p ! 0 \<in> {CHR ''#'', newline, CHR 0x0D} then Skip
     else if is_digit (p ! 0) \<and> take 1 (drop 1 p) = '':'' then
       (let p = skip_blanks (drop 2 p) in
        if p = [] \<or> p ! 0 = newline then Skip else parse_args (scan_args p))
     else parse_args (scan_args p))"

section \<open>Running a script\<close>

definition soc_modify :: "env \<Rightarrow> u32 \<Rightarrow> field_entry \<Rightarrow> u32 \<Rightarrow> ('z bde_state_scheme, unit) state" where
  "soc_modify E reg_addr fe field_val = do {
     (_, cur) \<leftarrow> soc_read_reg E reg_addr 0;
     let cur = (cur AND NOT (push_bit (fe_shift fe) (fe_mask fe)))
               OR push_bit (fe_shift fe) (field_val AND fe_mask fe);
     _ \<leftarrow> soc_write_reg E reg_addr cur;
     return ()
   }"

text \<open>\<open>run\<close> runs a nested script; None is the exhausted fuel.\<close>

fun soc_exec :: "env \<Rightarrow> (string \<Rightarrow> ('z soc_state_scheme, int option) state) \<Rightarrow> soc_cmd \<Rightarrow>
    ('z soc_state_scheme, unit option) state" where
  "soc_exec E run Skip = return (Some ())"
| "soc_exec E run Init_all = do { _ \<leftarrow> bcm56846_chip_init E; return (Some ()) }"
| "soc_exec E run (Rcload path) = do {
     depth \<leftarrow> gets rcload_depth;
     if depth < RCLOAD_MAX_DEPTH then do {
       modify (\<lambda>s. s\<lparr>rcload_depth := rcload_depth s + 1\<rparr>);
       r \<leftarrow> run path;
       modify (\<lambda>s. s\<lparr>rcload_depth := rcload_depth s - 1\<rparr>);
       return (map_option (\<lambda>_. ()) r)
     } else return (Some ())
   }"
| "soc_exec E run (Setreg addr val) = do { _ \<leftarrow> soc_write_reg E addr val; return (Some ()) }"
| "soc_exec E run (Getreg addr) = do {
     read_val \<leftarrow> indeterminate E;
     _ \<leftarrow> soc_read_reg E addr read_val;
     return (Some ())
   }"
| "soc_exec E run (Modify reg_addr fe field_val) = do { soc_modify E reg_addr fe field_val; return (Some ()) }"

fun soc_lines :: "env \<Rightarrow> (string \<Rightarrow> ('z soc_state_scheme, int option) state) \<Rightarrow> string list \<Rightarrow>
    ('z soc_state_scheme, unit option) state" where
  "soc_lines E run [] = return (Some ())"
| "soc_lines E run (line # lines) = do {
     r \<leftarrow> soc_exec E run (soc_line line);
     (case r of None \<Rightarrow> return None | Some _ \<Rightarrow> soc_lines E run lines)
   }"

primrec soc_run_internal :: "nat \<Rightarrow> env \<Rightarrow> files \<Rightarrow> string \<Rightarrow> ('z soc_state_scheme, int option) state" where
  "soc_run_internal 0 E F script_path = return None"
| "soc_run_internal (Suc fuel) E F script_path = do {
     h \<leftarrow> gets trace;
     (case F h script_path of
       None \<Rightarrow> do { emit (OsCall sys_fopen [] 0); return (Some (- 1)) }
     | Some text \<Rightarrow> do {
         emit (OsCall sys_fopen [] 1);
         r \<leftarrow> soc_lines E (soc_run_internal fuel E F) (fgets_lines 512 text);
         (case r of None \<Rightarrow> return None
          | Some _ \<Rightarrow> do { emit (OsCall sys_fclose [] 0); return (Some 0) })
       })
   }"

text \<open>The entry point: the depth is 0, and nine levels of fuel are enough.\<close>

definition bcm56846_soc_run :: "env \<Rightarrow> files \<Rightarrow> string \<Rightarrow> ('z soc_state_scheme, int option) state" where
  "bcm56846_soc_run E F script_path = do {
     modify (\<lambda>s. s\<lparr>rcload_depth := 0\<rparr>);
     soc_run_internal 9 E F script_path
   }"

section \<open>Scripts end\<close>

lemma emits_chip_init [emits_rules]: "emits in_bar0 (bcm56846_chip_init E)"
proof -
  have small: "v \<le> w \<Longrightarrow> w < 0x40000 \<Longrightarrow> v < 0x40000" for v w :: u32 by (rule le_less_trans)
  show ?thesis
    unfolding bcm56846_chip_init_def chip_init_diagnostics_def chip_init_ring_maps_def chip_init_link40g_def
      chip_init_clear_schan_def
    by (intro emits_rules) simp_all
qed

lemma emits_soc_reg [emits_rules]:
  "emits in_bar0 (soc_write_reg E a v)" "emits in_bar0 (soc_read_reg E a v)"
  unfolding soc_write_reg_def soc_read_reg_def by (intro emits_rules)+

lemma emits_soc_modify [emits_rules]: "emits in_bar0 (soc_modify E a fe v)"
  unfolding soc_modify_def Let_def by (intro emits_rules)

lemma emits_depth:
  fixes s :: "'z soc_state_scheme"
  assumes "emits P m"
  shows "rcload_depth (exec m s) = rcload_depth s"
  by (rule emitsE[OF assms, of s]) simp

text \<open>A command keeps the depth when a nested script does, one level deeper.\<close>

lemma soc_exec_depth:
  assumes run: "\<And>path t. rcload_depth t = d + 1 \<Longrightarrow> d < 8 \<Longrightarrow> wp (run path) (\<lambda>r t'. r \<noteq> None \<and> rcload_depth t' = d + 1) t"
    and d: "rcload_depth s = d"
  shows "wp (soc_exec E run cmd) (\<lambda>r s'. r \<noteq> None \<and> rcload_depth s' = d) s"
proof (cases cmd)
  case (Rcload path)
  have "wp (run path) (\<lambda>r t'. wp (do { modify (\<lambda>s. s\<lparr>rcload_depth := rcload_depth s - 1\<rparr>); return (map_option (\<lambda>_. ()) r) })
      (\<lambda>r s'. r \<noteq> None \<and> rcload_depth s' = d) t') (s\<lparr>rcload_depth := d + 1\<rparr>)" if "d < 8"
    by (rule wp_mono[OF run]) (use that in \<open>auto simp: wp_def\<close>)
  then show ?thesis
    using d unfolding Rcload soc_exec.simps by (intro wp_bind wp_gets wp_if wp_modify wp_return) auto
next
  case (Setreg a v)
  then show ?thesis using d emits_depth[OF emits_soc_reg(1), of E a v s] by (simp add: wp_def split_beta)
next
  case (Getreg a)
  then show ?thesis using d emits_depth[OF emits_soc_reg(2), of E a _ s] by (simp add: wp_def split_beta)
next
  case (Modify a fe v)
  then show ?thesis using d emits_depth[OF emits_soc_modify, of E a fe v s] by (simp add: wp_def split_beta)
next
  case Init_all
  then show ?thesis using d emits_depth[OF emits_chip_init, of E s] by (simp add: wp_def split_beta)
qed (simp add: wp_def d)

lemma soc_lines_depth:
  assumes run: "\<And>path t. rcload_depth t = d + 1 \<Longrightarrow> d < 8 \<Longrightarrow> wp (run path) (\<lambda>r t'. r \<noteq> None \<and> rcload_depth t' = d + 1) t"
    and d: "rcload_depth s = d"
  shows "wp (soc_lines E run ls) (\<lambda>r s'. r \<noteq> None \<and> rcload_depth s' = d) s"
  using d
proof (induction ls arbitrary: s)
  case (Cons l ls)
  have "wp (soc_exec E run (soc_line l)) (\<lambda>r s'. r \<noteq> None \<and> rcload_depth s' = d) s"
    by (rule soc_exec_depth) (fact run Cons.prems)+
  moreover have "wp (case r of None \<Rightarrow> return None | Some _ \<Rightarrow> soc_lines E run ls) (\<lambda>r s'. r \<noteq> None \<and> rcload_depth s' = d) t"
    if "r \<noteq> None \<and> rcload_depth t = d" for r t
    using Cons.IH[of t] that by (cases r) simp_all
  ultimately show ?case
    unfolding soc_lines.simps by (rule wp_bind[OF wp_mono])
qed (simp add: wp_def)

definition soc_rc :: "string option \<Rightarrow> int" where
  "soc_rc text = (case text of None \<Rightarrow> - 1 | Some _ \<Rightarrow> 0)"

lemma soc_run_ends:
  assumes "0 \<le> rcload_depth s" and "rcload_depth s \<le> 8" and "nat (9 - rcload_depth s) \<le> fuel"
  shows "wp (soc_run_internal fuel E F path)
           (\<lambda>r s'. r = Some (soc_rc (F (trace s) path)) \<and> rcload_depth s' = rcload_depth s) s"
  using assms
proof (induction fuel arbitrary: s path)
  case (Suc fuel)
  have run: "wp (soc_run_internal fuel E F p) (\<lambda>r t'. r \<noteq> None \<and> rcload_depth t' = rcload_depth s + 1) t"
    if "rcload_depth t = rcload_depth s + 1" and "rcload_depth s < 8" for p :: string and t :: "'a soc_state_scheme"
    by (rule wp_mono[OF Suc.IH]) (use that Suc.prems in auto)
  show ?case
  proof (cases "F (trace s) path")
    case None
    then show ?thesis by (simp add: wp_def soc_rc_def)
  next
    case (Some body)
    let ?s = "s\<lparr>trace := OsCall sys_fopen [] 1 # trace s\<rparr>"
    have "wp (soc_lines E (soc_run_internal fuel E F) (fgets_lines 512 body))
        (\<lambda>r s'. r \<noteq> None \<and> rcload_depth s' = rcload_depth s) ?s"
      by (rule soc_lines_depth[where d = "rcload_depth s"]) (use run in auto)
    then show ?thesis
      by (auto simp: wp_def Some soc_rc_def split_beta split: option.splits)
  qed
qed simp

text \<open>More fuel changes nothing once a run has ended.\<close>

definition extends_run ::
  "(string \<Rightarrow> ('s, 'a option) state) \<Rightarrow> (string \<Rightarrow> ('s, 'a option) state) \<Rightarrow> bool" where
  "extends_run run' run \<longleftrightarrow> (\<forall>p s. result (run p) s \<noteq> None \<longrightarrow> run_state (run' p) s = run_state (run p) s)"

lemma extends_runD: "extends_run run' run \<Longrightarrow> run_state (run p) s = (Some r, t) \<Longrightarrow> run_state (run' p) s = (Some r, t)"
  by (auto simp: extends_run_def)

lemma soc_exec_extends:
  assumes "extends_run run' run" and "run_state (soc_exec E run cmd) s = (Some r, t)"
  shows "run_state (soc_exec E run' cmd) s = (Some r, t)"
proof (cases cmd)
  case (Rcload p)
  obtain q u where "run_state (run p) (s\<lparr>rcload_depth := rcload_depth s + 1\<rparr>) = (q, u)" by (meson surj_pair)
  with assms(2) extends_runD[OF assms(1)] show ?thesis
    by (cases q) (auto simp: Rcload split: if_splits)
qed (use assms in simp_all)

lemma soc_lines_extends:
  assumes "extends_run run' run" and "run_state (soc_lines E run ls) s = (Some r, t)"
  shows "run_state (soc_lines E run' ls) s = (Some r, t)"
  using assms(2)
proof (induction ls arbitrary: s)
  case (Cons l ls)
  obtain q u where q: "run_state (soc_exec E run (soc_line l)) s = (q, u)" by (meson surj_pair)
  then show ?case
    using Cons soc_exec_extends[OF assms(1), of E "soc_line l" s] by (cases q) auto
qed simp

lemma soc_run_step:
  "run_state (soc_run_internal (Suc n) E F p) s = (case F (trace s) p of
      None \<Rightarrow> (Some (- 1), s\<lparr>trace := OsCall sys_fopen [] 0 # trace s\<rparr>)
    | Some body \<Rightarrow> (case run_state (soc_lines E (soc_run_internal n E F) (fgets_lines 512 body))
                       (s\<lparr>trace := OsCall sys_fopen [] 1 # trace s\<rparr>) of
          (None, t) \<Rightarrow> (None, t)
        | (Some _, t) \<Rightarrow> (Some 0, t\<lparr>trace := OsCall sys_fclose [] 0 # trace t\<rparr>)))"
  by (auto simp: split_beta split: option.split)

lemma soc_run_extends:
  "extends_run (soc_run_internal (Suc n) E F :: string \<Rightarrow> ('z soc_state_scheme, int option) state) (soc_run_internal n E F)"
proof (induction n)
  case (Suc n)
  show ?case
    unfolding extends_run_def
  proof (intro allI impI)
    fix p and s :: "'z soc_state_scheme"
    assume r: "result (soc_run_internal (Suc n) E F p) s \<noteq> None"
    let ?s = "s\<lparr>trace := OsCall sys_fopen [] 1 # trace s\<rparr>"
    show "run_state (soc_run_internal (Suc (Suc n)) E F p) s = run_state (soc_run_internal (Suc n) E F p) s"
    proof (cases "F (trace s) p")
      case (Some body)
      obtain q u where q: "run_state (soc_lines E (soc_run_internal n E F) (fgets_lines 512 body)) ?s = (q, u)"
        by (meson surj_pair)
      have "q \<noteq> None" using r unfolding soc_run_step Some by (cases q) (simp_all add: q)
      then obtain v where v: "q = Some v" by blast
      from soc_lines_extends[OF Suc q[unfolded v]]
      show ?thesis unfolding soc_run_step[of "Suc n"] soc_run_step[of n] Some by (simp add: q v del: soc_run_internal.simps)
    qed (simp add: soc_run_step del: soc_run_internal.simps)
  qed
qed (simp add: extends_run_def)

lemma soc_run_more_fuel:
  "n \<le> k \<Longrightarrow> result (soc_run_internal n E F p) s \<noteq> None \<Longrightarrow>
   run_state (soc_run_internal k E F p) s = run_state (soc_run_internal n E F p) s"
proof (induction k rule: dec_induct)
  case (step k)
  then show ?case using soc_run_extends[of k E F] unfolding extends_run_def by (metis (no_types))
qed simp

text \<open>C31. Every script run ends: whatever the files contain, scripts that load themselves or each
  other included, the run returns -1 exactly if the script cannot be opened and 0 otherwise, the
  depth counter is back at 0, and no more fuel would have changed the run.\<close>

theorem soc_run_returns:
  "result (bcm56846_soc_run E F path) s = Some (soc_rc (F (trace s) path)) \<and>
   rcload_depth (exec (bcm56846_soc_run E F path) s) = 0 \<and>
   run_state (bcm56846_soc_run E F path) s =
     run_state (soc_run_internal (9 + extra) E F path) (s\<lparr>rcload_depth := 0\<rparr>)"
proof -
  let ?s = "s\<lparr>rcload_depth := 0\<rparr>"
  have ends: "wp (soc_run_internal 9 E F path) (\<lambda>r s'. r = Some (soc_rc (F (trace s) path)) \<and> rcload_depth s' = 0) ?s"
    using soc_run_ends[of ?s 9 E F path] by (simp del: soc_run_internal.simps)
  then have "run_state (soc_run_internal (9 + extra) E F path) ?s = run_state (soc_run_internal 9 E F path) ?s"
    by (intro soc_run_more_fuel) (simp_all add: wp_def del: soc_run_internal.simps)
  moreover have "run_state (bcm56846_soc_run E F path) s = run_state (soc_run_internal 9 E F path) ?s"
    unfolding bcm56846_soc_run_def by (simp del: soc_run_internal.simps)
  ultimately show ?thesis using ends by (simp add: wp_def del: soc_run_internal.simps)
qed

section \<open>Register lines\<close>

lemma scan_args_setreg:
  assumes "is_word a" and "length a \<le> 127" and "is_word v" and "length v \<le> 63" and "rest = [] \<or> is_space (hd rest)"
  shows "scan_args (''setreg '' @ a @ CHR '' '' # v @ rest) = [''setreg'', a, v]"
proof -
  have "scan_word 63 (''setreg'' @ CHR '' '' # a @ CHR '' '' # v @ rest) = Some (''setreg'', CHR '' '' # a @ CHR '' '' # v @ rest)"
    by (rule scan_word_append) (simp_all add: is_word_def is_space_def)
  moreover have "scan_word 127 (a @ CHR '' '' # v @ rest) = Some (a, CHR '' '' # v @ rest)"
    by (rule scan_word_append[OF assms(1,2)]) (simp add: is_space_def)
  moreover have "scan_word 63 (v @ rest) = Some (v, rest)"
    by (rule scan_word_append[OF assms(3-5)])
  ultimately show ?thesis by (simp add: scan_args_def)
qed

lemma soc_line_setreg:
  assumes w: "is_word a" "length a \<le> 127" "is_word v" "length v \<le> 63"
    and b: "list_all (\<lambda>c. c = CHR '' '' \<or> c = CHR 0x09) blanks"
  shows "soc_line (blanks @ ''setreg '' @ a @ '' '' @ v @ [newline]) = parse_setreg a v"
proof -
  let ?p = "''setreg '' @ a @ CHR '' '' # v @ [newline]"
  have "list_all (\<lambda>c. c \<noteq> CHR 0x00) a" "list_all (\<lambda>c. c \<noteq> CHR 0x00) v"
    using w(1,3) unfolding is_word_def list_all_iff by blast+
  moreover have "list_all (\<lambda>c. c \<noteq> CHR 0x00) blanks"
    using b by (rule list.pred_mono_strong) auto
  ultimately have "c_string (blanks @ ?p) = blanks @ ?p"
    by (intro c_string_id) (simp add: newline_def)
  moreover have "skip_blanks (blanks @ ?p) = ?p"
    using b by (induction blanks) (auto simp: skip_blanks_def)
  moreover have "scan_args ?p = [''setreg'', a, v]"
    by (rule scan_args_setreg[OF w]) (simp add: newline_def is_space_def)
  ultimately show ?thesis
    by (simp add: soc_line_def parse_args_def newline_def is_digit_def Let_def)
qed

lemma xdigits_no_0x: "list_all is_xdigit u \<Longrightarrow> scan_lit ''0x'' u = None"
  using xdigit_plain[of "hd (tl u)"] by (cases u; cases "tl u"; auto)

lemma scan_addr_printed [simp]:
  "scan_addr (''0x'' @ hex_nat (unat a)) = Some a" "scan_addr (dec_nat (unat a)) = Some a"
  using xdigits_no_0x[OF dec_nat_xdigits, of "unat a"] by (simp_all add: scan_addr_def)

lemma hex_nat_length: "n < 16 ^ k \<Longrightarrow> 0 < k \<Longrightarrow> length (hex_nat n) \<le> k"
proof (induction n arbitrary: k rule: hex_nat.induct)
  case (1 n)
  show ?case
  proof (cases "n < 16")
    case True
    then show ?thesis using 1 by (subst hex_nat.simps) simp
  next
    case False
    then obtain j where j: "k = Suc j" "0 < j" using 1 by (cases k; cases "k - 1") auto
    then have "length (hex_nat (n div 16)) \<le> j" using 1 False by (auto simp: less_mult_imp_div_less mult.commute)
    then show ?thesis using False j by (subst hex_nat.simps) simp
  qed
qed

lemma dec_nat_length: "n < 10 ^ k \<Longrightarrow> 0 < k \<Longrightarrow> length (dec_nat n) \<le> k"
proof (induction n arbitrary: k rule: dec_nat.induct)
  case (1 n)
  show ?case
  proof (cases "n < 10")
    case True
    then show ?thesis using 1 by (subst dec_nat.simps) simp
  next
    case False
    then obtain j where j: "k = Suc j" "0 < j" using 1 by (cases k; cases "k - 1") auto
    then have "length (dec_nat (n div 10)) \<le> j" using 1 False by (auto simp: less_mult_imp_div_less mult.commute)
    then show ?thesis using False j by (subst dec_nat.simps) simp
  qed
qed

lemma word_text_length: "length (hex_nat (unat (a :: u32))) \<le> 8" "length (dec_nat (unat a)) \<le> 10"
proof -
  have "unat a < 4294967296" using unsigned_less[of a, where ?'a = nat] by simp
  then have "unat a < 16 ^ 8" "unat a < 10 ^ 10" by simp_all
  then show "length (hex_nat (unat a)) \<le> 8" "length (dec_nat (unat a)) \<le> 10"
    using hex_nat_length[of "unat a" 8] dec_nat_length[of "unat a" 10] by simp_all
qed

lemma hex_word: "is_word (''0x'' @ hex_nat n)"
  using number_word(1)[of n] by (auto simp: is_word_def is_space_def)

text \<open>A register name in any case: what it lowers to, no character of it being special.\<close>

definition special_char :: "char \<Rightarrow> bool" where
  "special_char c \<longleftrightarrow> is_space c \<or> is_digit c \<or> c = CHR ''-'' \<or> c = CHR ''+'' \<or> c = CHR 0x00"

lemma reg_table_names:
  "(name, addr) \<in> set reg_table \<Longrightarrow> name \<noteq> [] \<and> length name < 63 \<and> list_all (\<lambda>c. \<not> is_space c \<and> c \<noteq> CHR 0x00) name
     \<and> \<not> special_char (hd name) \<and> map_of reg_table name = Some addr \<and> addr \<noteq> 0"
proof -
  have "list_all (\<lambda>(name, addr). name \<noteq> [] \<and> length name < 63 \<and> list_all (\<lambda>c. \<not> is_space c \<and> c \<noteq> CHR 0x00) name
     \<and> \<not> special_char (hd name) \<and> map_of reg_table name = Some addr \<and> addr \<noteq> 0) reg_table"
    by code_simp
  then show "(name, addr) \<in> set reg_table \<Longrightarrow> ?thesis" unfolding list_all_iff by fast
qed

lemma named_register:
  assumes m: "(name, addr) \<in> set reg_table" and nm: "List.map to_lower nm = name"
  shows "is_word nm" and "length nm \<le> 127" and "scan_addr nm = None" and "reg_lookup nm = addr" and "addr \<noteq> 0"
proof -
  note n = reg_table_names[OF m]
  have len: "length nm < 63" using n nm by (metis length_map)
  have ne: "nm \<noteq> []" using n nm by auto
  have plain: "\<not> is_space c \<and> c \<noteq> CHR 0x00" if "c \<in> set nm" for c
  proof -
    have "to_lower c \<in> set name" using that nm by auto
    then have "\<not> is_space (to_lower c) \<and> to_lower c \<noteq> CHR 0x00" using n by (auto simp: list_all_iff)
    then show ?thesis using to_lower_id[of c] by metis
  qed
  then show "is_word nm" using ne by (auto simp: is_word_def list_all_iff)
  show "length nm \<le> 127" using len by simp
  have "to_lower (hd nm) = hd name" using nm ne by (metis hd_map)
  then have hd: "\<not> special_char (hd nm)" using n to_lower_id[of "hd nm"] unfolding special_char_def by metis
  have zero: "special_char (CHR ''0'')" by code_simp
  have "scan_lit ''0x'' nm = None" using hd zero by (cases nm) auto
  moreover have "scan_u nm = None"
    using hd by (cases nm) (auto simp: special_char_def scan_u_def scan_dec_def split_sign_def Let_def)
  ultimately show "scan_addr nm = None" by (simp add: scan_addr_def)
  show "reg_lookup nm = addr" using n nm len by (simp add: reg_lookup_def lower63_def)
  show "addr \<noteq> 0" using n by simp
qed

definition number_texts :: "u32 \<Rightarrow> string set" where
  "number_texts w = {''0x'' @ hex_nat (unat w), dec_nat (unat w)}"

lemma number_texts_word:
  assumes "t \<in> number_texts w"
  shows "is_word t" and "length t \<le> 63" and "length t \<le> 127" and "scan_addr t = Some w"
  using assms word_text_length[of w] hex_word[of "unat w"] number_word(2)[of "unat w"] scan_addr_printed[of w]
  by (auto simp: number_texts_def)

text \<open>C32. The register lines of a script are read as written: behind any blanks, \<open>setreg\<close> with
  an address and a value, each printed in hexadecimal or in decimal, is the write of exactly
  that value to exactly that address, for all 32-bit addresses and values; with a register of the
  table, in upper or lower case, it is the write to the register's address.\<close>

theorem soc_setreg_lines:
  assumes b: "list_all (\<lambda>c. c = CHR '' '' \<or> c = CHR 0x09) blanks" and tv: "tv \<in> number_texts v"
  shows "(\<forall>a. \<forall>ta \<in> number_texts a. soc_line (blanks @ ''setreg '' @ ta @ '' '' @ tv @ [newline]) = Setreg a v) \<and>
    (\<forall>nm addr. (List.map to_lower nm, addr) \<in> set reg_table \<longrightarrow>
       soc_line (blanks @ ''setreg '' @ nm @ '' '' @ tv @ [newline]) = Setreg addr v)"
proof (intro conjI allI ballI impI)
  note v = number_texts_word[OF tv]
  have val: "scan_value tv = v" using v(4) by (simp add: scan_value_def)
  show "soc_line (blanks @ ''setreg '' @ ta @ '' '' @ tv @ [newline]) = Setreg a v" if "ta \<in> number_texts a" for a ta
    unfolding soc_line_setreg[OF number_texts_word(1,3)[OF that] v(1,2) b]
    using number_texts_word(4)[OF that] val by (simp add: parse_setreg_def)
  fix nm addr assume m: "(List.map to_lower nm, addr) \<in> set reg_table"
  show "soc_line (blanks @ ''setreg '' @ nm @ '' '' @ tv @ [newline]) = Setreg addr v"
    unfolding soc_line_setreg[OF named_register(1,2)[OF m refl] v(1,2) b]
    using named_register(3-5)[OF m refl] val by (simp add: parse_setreg_def)
qed

theorem soc_setreg_lines_witness:
  "soc_line (''  '' @ ''setreg '' @ ''RTAG7_HASH_ECMP'' @ '' '' @ dec_nat (unat (0x7D0 :: u32)) @ [newline]) = Setreg 0x05e00200 0x7D0"
proof -
  have "list_all (\<lambda>c. c = CHR '' '' \<or> c = CHR 0x09) ''  ''" by code_simp
  moreover have "dec_nat (unat (0x7D0 :: u32)) \<in> number_texts 0x7D0" unfolding number_texts_def by (rule insertI2) (rule singletonI)
  moreover have "(List.map to_lower ''RTAG7_HASH_ECMP'', 0x05e00200 :: u32) \<in> set reg_table" by code_simp
  ultimately show ?thesis by (rule soc_setreg_lines[THEN conjunct2, rule_format])
qed

text \<open>An address with an upper case prefix is not taken as hexadecimal: the write goes to
  address 0. A prefix of capital letters is accepted by the field values of \<open>m\<close>.\<close>

lemma setreg_upper_prefix:
  "soc_line (''setreg 0X200 0x1'') = Setreg 0 1" "soc_line (''setreg 0x200 0x1'') = Setreg 0x200 1"
  "soc_line (''m CMIC_MISC_CONTROL LINK40G_ENABLE=0X1'') = Modify 0x1c (field_table ! 0) 1"
  by code_simp+

end
