(* ===== verification/Config.thy ===== *)
theory Config
  imports Soc
begin

text \<open>
  The configuration file \<open>config.bcm\<close> (src/sdk/src/config.c) and the entry points that bring the
  SDK up and down (src/sdk/src/attach.c): attach opens the device and maps the DMA pool, init loads
  the configuration, initialises the chip and runs the command scripts, detach closes the device.
\<close>

section \<open>State\<close>

text \<open>An entry of the port map is its lane and its speed.\<close>

record init_state = soc_state +
  portmap :: "(int \<times> int) list"
  portmap_count :: int
  attached :: bool

abbreviation (input) "MAX_PORTMAP \<equiv> (56::nat)"
abbreviation (input) "CONFIG_PATH_MAX \<equiv> (256::nat)"

section \<open>The configuration file\<close>

text \<open>\<open>None\<close> stands for the result -1, which leaves the out-parameters alone.\<close>

definition bcm56846_config_get_portmap :: "int \<Rightarrow> ('z init_state_scheme, (int \<times> int) option) state" where
  "bcm56846_config_get_portmap port_id = gets (\<lambda>s.
     if port_id < 0 \<or> port_id \<ge> portmap_count s then None else Some (portmap s ! nat port_id))"

definition bcm56846_config_get_port_count :: "('z init_state_scheme, int) state" where
  "bcm56846_config_get_port_count = gets portmap_count"

text \<open>\<open>sscanf(line, "portmap_%d<sep>%d:%d", ...) == 3\<close>\<close>

definition scan_portmap :: "string \<Rightarrow> string \<Rightarrow> (int \<times> int \<times> int) option" where
  "scan_portmap sep line =
     Option.bind (scan_lit ''portmap_'' line) (\<lambda>r.
     Option.bind (scan_d r) (\<lambda>(n, r).
     Option.bind (scan_lit sep r) (\<lambda>r.
     Option.bind (scan_d r) (\<lambda>(lane, r).
     Option.bind (scan_lit '':'' r) (\<lambda>r.
     Option.bind (scan_d r) (\<lambda>(speed, _). Some (n, lane, speed)))))))"

definition parse_portmap_line :: "string \<Rightarrow> ('z init_state_scheme, int) state" where
  "parse_portmap_line line =
     (case (case scan_portmap ''.0='' line of None \<Rightarrow> scan_portmap ''='' line | Some e \<Rightarrow> Some e) of
       None \<Rightarrow> return (- 1)
     | Some (n, lane, speed) \<Rightarrow> do {
         (if n \<ge> 0 \<and> n < int MAX_PORTMAP then modify (\<lambda>s. s\<lparr>
              portmap := (portmap s)[nat n := (lane, speed)],
              portmap_count := (if n \<ge> portmap_count s then n + 1 else portmap_count s)\<rparr>)
          else return ());
         return 0
       })"

text \<open>Only the end of the line is cut: the pointer to the first non-blank stays local.\<close>

definition trim :: "string \<Rightarrow> string" where
  "trim s = (let lead = takeWhile (\<lambda>c. c = CHR '' '' \<or> c = CHR 0x09) s;
       body = dropWhile (\<lambda>c. c = CHR '' '' \<or> c = CHR 0x09) s in
     lead @ rev (dropWhile (\<lambda>c. c = CHR '' '' \<or> c = CHR 0x09 \<or> c = newline \<or> c = CHR 0x0D) (rev body)))"

definition config_line :: "string \<Rightarrow> ('z init_state_scheme, unit) state" where
  "config_line buf = (let line = trim (c_string buf) in
     if line = [] \<or> line ! 0 = CHR ''#'' then return ()
     else do { _ \<leftarrow> parse_portmap_line line; return () })"

definition strstr :: "string \<Rightarrow> string \<Rightarrow> bool" where
  "strstr s p = list_ex (\<lambda>i. take (length p) (drop i s) = p) [0..<length s + 1]"

definition config_file :: "string \<Rightarrow> string" where
  "config_file path = snprintf_buf CONFIG_PATH_MAX
     (if strstr path ''.bcm'' then path
      else path @ (if path \<noteq> [] \<and> last path = CHR ''/'' then '''' else ''/'') @ ''config.bcm'')"

definition bcm56846_config_load :: "files \<Rightarrow> string option \<Rightarrow> ('z init_state_scheme, int) state" where
  "bcm56846_config_load F path = do {
     modify (\<lambda>s. s\<lparr>portmap_count := 0, portmap := replicate MAX_PORTMAP (0, 0)\<rparr>);
     (case path of None \<Rightarrow> return (- 1)
      | Some p \<Rightarrow> do {
          h \<leftarrow> gets trace;
          (case F h (config_file p) of
            None \<Rightarrow> do { emit (OsCall sys_fopen [] 0); return (- 1) }
          | Some body \<Rightarrow> do {
              emit (OsCall sys_fopen [] 1);
              for_each (fgets_lines 256 body) config_line;
              emit (OsCall sys_fclose [] 0);
              return 0
            })
        })
   }"

section \<open>Attach, detach and init\<close>

definition bcm56846_attach :: "env \<Rightarrow> ('z init_state_scheme, int) state" where
  "bcm56846_attach E = do {
     a \<leftarrow> gets attached;
     if a then return 0
     else do {
       rc \<leftarrow> bde_open E;
       if rc < 0 then return (- 1)
       else do {
         base \<leftarrow> bde_mmap_dma E;
         if base = 0 then do { bde_close E; return (- 1) }
         else do { modify (\<lambda>s. s\<lparr>attached := True\<rparr>); return 0 }
       }
     }
   }"

definition bcm56846_detach :: "env \<Rightarrow> ('z init_state_scheme, unit) state" where
  "bcm56846_detach E = do {
     bde_close E;
     modify (\<lambda>s. s\<lparr>attached := False\<rparr>)
   }"

text \<open>The directory of the scripts: the path without a final slash.\<close>

definition script_dir :: "string \<Rightarrow> string" where
  "script_dir config_path =
     (if config_path \<noteq> [] \<and> last config_path = CHR ''/'' then butlast config_path else config_path)"

definition bcm56846_init :: "env \<Rightarrow> files \<Rightarrow> string option \<Rightarrow> ('z init_state_scheme, int) state" where
  "bcm56846_init E F config_path = do {
     a \<leftarrow> gets attached;
     if \<not> a then return (- 1)
     else do {
       rc \<leftarrow> bcm56846_config_load F config_path;
       (case config_path of None \<Rightarrow> return (- 1)
        | Some path \<Rightarrow>
            if rc < 0 then return (- 1)
            else do {
              _ \<leftarrow> bcm56846_chip_init E;
              let dir = script_dir path;
              (if length dir > 0 then do {
                 _ \<leftarrow> bcm56846_soc_run E F (snprintf_buf 512 (dir @ ''/rc.soc''));
                 _ \<leftarrow> bcm56846_soc_run E F (snprintf_buf 512 (dir @ ''/rc.datapath_0''));
                 return ()
               } else return ());
              return 0
            })
     }
   }"

section \<open>Loading a printed configuration\<close>

fun entry_line :: "int \<times> int \<times> int \<Rightarrow> string" where
  "entry_line (n, lane, speed) =
     ''portmap_'' @ dec_int n @ ''.0='' @ dec_int lane @ '':'' @ dec_int speed"

fun entry_ok :: "int \<times> int \<times> int \<Rightarrow> bool" where
  "entry_ok (n, lane, speed) \<longleftrightarrow> 0 \<le> n \<and> n < 56 \<and> int_range lane \<and> int_range speed"

lemma int_range_small: "0 \<le> n \<Longrightarrow> n < 56 \<Longrightarrow> int_range n"
  by (simp add: int_range_def)

lemma scan_entry:
  assumes "entry_ok e"
  shows "scan_portmap ''.0='' (entry_line e) = Some e"
proof -
  obtain n lane speed where e: "e = (n, lane, speed)" by (cases e)
  have d: "scan_d (dec_int n @ ''.0='' @ r) = Some (n, ''.0='' @ r)" "scan_d (dec_int lane @ '':'' @ r) = Some (lane, '':'' @ r)"
    "scan_d (dec_int speed) = Some (speed, [])" for r
    using assms int_range_small[of n] scan_d_dec_int[of speed "[]"] by (auto intro!: scan_d_dec_int simp: e no_digit_first_def is_digit_def)
  show ?thesis
    unfolding scan_portmap_def e entry_line.simps scan_lit_append Option.bind.simps d(1) prod.case d(2)
    using d(3) by simp
qed

text \<open>The characters of a printed line are digits, signs and the text of the format.\<close>

lemma dec_int_chars: "c \<in> set (dec_int i) \<Longrightarrow> is_digit c \<or> c = CHR ''-''"
  using dec_nat_digits[of "nat i"] dec_nat_digits[of "nat (- i)"] by (auto simp: dec_int_def list_all_iff split: if_splits)

lemma dec_int_last: "dec_int i \<noteq> [] \<and> is_digit (last (dec_int i))"
  using dec_nat_digits[of "nat i"] dec_nat_digits[of "nat (- i)"] by (auto simp: dec_int_def list_all_iff)

lemma dec_int_length: "int_range i \<Longrightarrow> length (dec_int i) \<le> 11"
proof -
  assume r: "int_range i"
  then have "nat i < 10 ^ 10" "nat (- i) < 10 ^ 10" by (auto simp: int_range_def)
  then have "length (dec_nat (nat i)) \<le> 10" "length (dec_nat (nat (- i))) \<le> 10" by (auto intro: dec_nat_length)
  then show "length (dec_int i) \<le> 11" by (simp add: dec_int_def)
qed

lemma dec_int_plain: "newline \<notin> set (dec_int i)" "CHR 0x00 \<notin> set (dec_int i)"
  using dec_int_chars[of newline i] dec_int_chars[of "CHR 0x00" i] by (auto simp: newline_def is_digit_def)

lemma entry_line_plain: "newline \<notin> set (entry_line e)" "CHR 0x00 \<notin> set (entry_line e)"
  using dec_int_plain by (cases e; simp add: newline_def)+

lemma entry_line_length: "entry_ok e \<Longrightarrow> length (entry_line e) + 1 < 256"
proof (cases e)
  case (fields n lane speed)
  assume "entry_ok e"
  then have "length (dec_int n) \<le> 11" "length (dec_int lane) \<le> 11" "length (dec_int speed) \<le> 11"
    by (auto simp: fields intro!: dec_int_length int_range_small)
  then show ?thesis by (simp add: fields)
qed

lemma trim_entry: "trim (entry_line e @ [newline]) = entry_line e"
proof -
  obtain n lane speed where e: "e = (n, lane, speed)" by (cases e)
  obtain ds d where d: "dec_int speed = ds @ [d]" "is_digit d"
    using dec_int_last[of speed] by (metis append_butlast_last_id)
  then have "\<not> (d = CHR '' '' \<or> d = CHR 0x09 \<or> d = newline \<or> d = CHR 0x0D)" by (auto simp: is_digit_def newline_def)
  then show ?thesis by (simp add: trim_def e d Let_def)
qed

lemma run_config_line:
  assumes ok: "entry_ok (n, lane, speed)"
  shows "run_state (config_line (entry_line (n, lane, speed) @ [newline])) s = ((), s\<lparr>
           portmap := (portmap s)[nat n := (lane, speed)], portmap_count := max (portmap_count s) (n + 1)\<rparr>)"
proof -
  define line where "line = entry_line (n, lane, speed)"
  have c: "c_string (line @ [newline]) = line @ [newline]"
    by (rule c_string_id) (use entry_line_plain(2)[of "(n, lane, speed)"] in \<open>auto simp: line_def newline_def list_all_iff\<close>)
  have l: "line \<noteq> []" "line ! 0 \<noteq> CHR ''#''" by (simp_all add: line_def)
  have sc: "scan_portmap ''.0='' line = Some (n, lane, speed)" unfolding line_def by (rule scan_entry[OF ok])
  have t: "trim (line @ [newline]) = line" unfolding line_def by (rule trim_entry)
  show ?thesis
    unfolding line_def[symmetric] using ok l
    by (simp add: config_line_def Let_def c t parse_portmap_line_def sc max_def)
qed

text \<open>The port map after some entries: the last entry of a port wins, ports below the highest one
  that have none hold zeros.\<close>

definition entry_count :: "(int \<times> int \<times> int) list \<Rightarrow> int" where
  "entry_count es = foldl (\<lambda>m (n, _). max m (n + 1)) 0 es"

definition portmap_holds :: "(int \<times> int \<times> int) list \<Rightarrow> 'z init_state_scheme \<Rightarrow> bool" where
  "portmap_holds es s \<longleftrightarrow> length (portmap s) = 56 \<and> portmap_count s = entry_count es \<and>
     (\<forall>n < 56. portmap s ! n = (case map_of (rev es) (int n) of None \<Rightarrow> (0, 0) | Some e \<Rightarrow> e))"

lemma entry_count_snoc: "entry_count (es @ [(n, e)]) = max (entry_count es) (n + 1)"
  by (simp add: entry_count_def)

lemma entry_count_range: "list_all entry_ok es \<Longrightarrow> 0 \<le> entry_count es \<and> entry_count es \<le> 56"
proof (induction es rule: rev_induct)
  case (snoc e es)
  then show ?case by (cases e) (auto simp: entry_count_snoc)
qed (simp add: entry_count_def)

lemma portmap_holds_snoc:
  assumes "portmap_holds es s" and "entry_ok (n, lane, speed)"
  shows "portmap_holds (es @ [(n, lane, speed)]) (s\<lparr>portmap := (portmap s)[nat n := (lane, speed)],
     portmap_count := max (portmap_count s) (n + 1)\<rparr>)"
  using assms by (auto simp: portmap_holds_def entry_count_snoc nth_list_update)

lemma config_lines_hold:
  "portmap_holds done s \<Longrightarrow> list_all entry_ok es \<Longrightarrow>
   portmap_holds (done @ es) (exec (for_each (List.map (\<lambda>e. entry_line e @ [newline]) es) config_line) s)"
proof (induction es arbitrary: "done" s)
  case (Cons e es)
  obtain n lane speed where e: "e = (n, lane, speed)" by (cases e)
  from Cons.prems have ok: "entry_ok (n, lane, speed)" by (simp add: e)
  from Cons.IH[OF portmap_holds_snoc[OF Cons.prems(1) ok]] Cons.prems(2)
  show ?case by (simp add: e run_config_line[OF ok] del: entry_line.simps)
qed simp

text \<open>C33. Loading \<open>config.bcm\<close> reads back the port map it was printed from: for any entries
  (port below 56, lane and speed of any \<open>int\<close>), written one per line, the load succeeds, the
  number of ports is one more than the highest port, looking a port up yields its last entry, a
  port below the highest one without an entry yields lane 0 and speed 0, any other is refused.\<close>

theorem config_load_printed:
  fixes s :: "'z init_state_scheme"
  assumes es: "list_all entry_ok es"
    and body: "F (trace s) (config_file path) = Some (concat (List.map (\<lambda>e. entry_line e @ [newline]) es))"
  defines "s' \<equiv> exec (bcm56846_config_load F (Some path)) s"
  shows "result (bcm56846_config_load F (Some path)) s = 0 \<and>
    result bcm56846_config_get_port_count s' = entry_count es \<and>
    result (bcm56846_config_get_portmap n) s' =
      (if n < 0 \<or> n \<ge> entry_count es then None
       else Some (case map_of (rev es) n of None \<Rightarrow> (0, 0) | Some e \<Rightarrow> e))"
proof -
  let ?ls = "List.map entry_line es"
  let ?lines = "List.map (\<lambda>e. entry_line e @ [newline]) es"
  have "newline \<notin> set l \<and> length l + 1 < 256" if "l \<in> set ?ls" for l
    using that es entry_line_plain(1) entry_line_length by (auto simp: list_all_iff)
  from fgets_lines_concat[of ?ls 256, OF this]
  have lines: "fgets_lines 256 (concat ?lines) = ?lines" by (simp add: comp_def del: entry_line.simps)
  define s1 where "s1 = s\<lparr>portmap_count := 0, portmap := replicate MAX_PORTMAP (0, 0), trace := OsCall sys_fopen [] 1 # trace s\<rparr>"
  define s2 where "s2 = exec (for_each ?lines config_line) s1"
  have "portmap_holds [] s1" by (simp add: portmap_holds_def s1_def entry_count_def)
  from config_lines_hold[OF this es] have h: "portmap_holds es s2" by (simp add: s2_def)
  have "result (bcm56846_config_load F (Some path)) s = 0" and s': "s' = s2\<lparr>trace := OsCall sys_fclose [] 0 # trace s2\<rparr>"
    unfolding s'_def s2_def s1_def bcm56846_config_load_def
    by (simp_all add: body lines split_beta)
  moreover have "portmap s' = portmap s2" "portmap_count s' = portmap_count s2" by (simp_all add: s')
  moreover have "(case map_of (rev es) n of None \<Rightarrow> (0, 0) | Some e \<Rightarrow> e) = portmap s2 ! nat n" if "0 \<le> n" "n < entry_count es"
  proof -
    have "nat n < 56" using that entry_count_range[OF es] by simp
    with h that(1) show ?thesis unfolding portmap_holds_def by (metis int_nat_eq)
  qed
  ultimately show ?thesis
    using h by (simp add: bcm56846_config_get_port_count_def bcm56846_config_get_portmap_def portmap_holds_def)
qed

theorem config_load_printed_witness:
  "\<exists>F :: files. \<forall>s :: init_state.
     result (bcm56846_config_get_portmap 3) (exec (bcm56846_config_load F (Some ''/etc/nos'')) s) = Some (68, 10) \<and>
     result (bcm56846_config_get_portmap 1) (exec (bcm56846_config_load F (Some ''/etc/nos'')) s) = Some (0, 0) \<and>
     result (bcm56846_config_get_portmap 4) (exec (bcm56846_config_load F (Some ''/etc/nos'')) s) = None"
proof -
  define es where "es = [(3, 67, 10), (2, 66, 40), (3, 68, 10) :: int \<times> int \<times> int]"
  define F :: files where "F = (\<lambda>_ _. Some (concat (List.map (\<lambda>e. entry_line e @ [newline]) es)))"
  have ok: "list_all entry_ok es" by (simp add: es_def int_range_def)
  have F: "F h p = Some (concat (List.map (\<lambda>e. entry_line e @ [newline]) es))" for h p by (simp add: F_def)
  have n: "entry_count es = 4" "map_of (rev es) 3 = Some (68, 10)" "map_of (rev es) 1 = None"
    by (simp_all add: entry_count_def es_def)
  have "result (bcm56846_config_get_portmap k) (exec (bcm56846_config_load F (Some ''/etc/nos'')) s) =
      (if k < 0 \<or> k \<ge> 4 then None else Some (case map_of (rev es) k of None \<Rightarrow> (0, 0) | Some e \<Rightarrow> e))"
    for k and s :: init_state
    using config_load_printed[where s = s and path = "''/etc/nos''" and n = k and F = F, OF ok F] unfolding n(1) by blast
  then show ?thesis by (intro exI[of _ F]) (simp add: n)
qed

section \<open>Handles of the device\<close>

text \<open>What the history says is open and mapped.\<close>

fun open_handles :: "io_event list \<Rightarrow> int" where
  "open_handles [] = 0"
| "open_handles (OsCall sys_open args r # tr) = open_handles tr + (if r \<ge> 0 then 1 else 0)"
| "open_handles (OsCall sys_close args r # tr) = open_handles tr - 1"
| "open_handles (_ # tr) = open_handles tr"

fun mapped_pools :: "io_event list \<Rightarrow> int" where
  "mapped_pools [] = 0"
| "mapped_pools (OsCall sys_mmap args r # tr) = mapped_pools tr + (if r \<noteq> MAP_FAILED \<and> r \<noteq> 0 then 1 else 0)"
| "mapped_pools (OsCall sys_munmap args r # tr) = mapped_pools tr - 1"
| "mapped_pools (_ # tr) = mapped_pools tr"

definition pool_mapped :: "'z init_state_scheme \<Rightarrow> bool" where
  "pool_mapped s \<longleftrightarrow> bde_dma_base s \<noteq> MAP_FAILED \<and> bde_dma_base s \<noteq> 0"

definition handles_inv :: "'z init_state_scheme \<Rightarrow> bool" where
  "handles_inv s \<longleftrightarrow>
     open_handles (trace s) = (if bde_fd s \<ge> 0 then 1 else 0) \<and>
     mapped_pools (trace s) = (if pool_mapped s then 1 else 0) \<and> (pool_mapped s \<longrightarrow> bde_fd s \<ge> 0)"

lemmas handles_defs = handles_inv_def pool_mapped_def

lemma wp_bde_open:
  fixes s :: "'z init_state_scheme"
  shows "handles_inv s \<Longrightarrow> wp (bde_open E) (\<lambda>rc t. handles_inv t \<and> attached t = attached s \<and>
     (rc = 0 \<and> bde_fd t \<ge> 0 \<or> rc = - 1 \<and> bde_fd t < 0)) s"
  unfolding bde_open_def by (intro wp_rules) (auto simp: handles_defs)

lemma wp_bde_close:
  fixes s :: "'z init_state_scheme"
  shows "handles_inv s \<Longrightarrow> wp (bde_close E) (\<lambda>_ t. handles_inv t \<and> bde_fd t < 0 \<and> \<not> pool_mapped t \<and> attached t = attached s) s"
  unfolding bde_close_def by (intro wp_rules) (auto simp: handles_defs)

lemma emits_get_dma_info:
  "emits (\<lambda>e. \<exists>r. e = OsCall sys_copy_to_user [] r) (bde_get_dma_info E p n)"
  unfolding bde_get_dma_info_def ioctl_def nos_bde_ioctl_def nos_bde_get_dma_pbase_def nos_bde_get_dma_size_def
    nos_bde_get_bar0_def
  by (simp only: bde_request.case) (intro emits_rules; blast)

lemma wp_dma_info_handles:
  fixes s :: "'z init_state_scheme"
  assumes "handles_inv s"
  shows "wp (bde_get_dma_info E p n) (\<lambda>_ t. handles_inv t \<and> attached t = attached s \<and> bde_fd t = bde_fd s \<and> pool_mapped t = pool_mapped s) s"
proof (rule emitsE[OF emits_get_dma_info, of E p n s])
  fix evs
  assume t: "exec (bde_get_dma_info E p n) s = s\<lparr>trace := evs @ trace s\<rparr>"
    and evs: "list_all (\<lambda>e. \<exists>r. e = OsCall sys_copy_to_user [] r) evs"
  from evs have "open_handles (evs @ tr) = open_handles tr" "mapped_pools (evs @ tr) = mapped_pools tr" for tr
    by (induction evs) auto
  then show ?thesis using assms unfolding wp_def t by (simp add: handles_defs)
qed

lemma wp_bde_mmap:
  fixes s :: "'z init_state_scheme"
  assumes "handles_inv s"
  shows "wp (bde_mmap_dma E) (\<lambda>base t. handles_inv t \<and> attached t = attached s \<and> bde_fd t = bde_fd s \<and> (pool_mapped t \<longleftrightarrow> base \<noteq> 0)) s"
proof -
  have map: "wp (do { base \<leftarrow> mmap_bde E n; modify (\<lambda>s. s\<lparr>bde_dma_base := base\<rparr>);
        if base = MAP_FAILED then return 0 else do { modify (\<lambda>s. s\<lparr>bde_dma_size := m\<rparr>); return base } })
      (\<lambda>base t. handles_inv t \<and> attached t = attached s \<and> bde_fd t = bde_fd s \<and> (pool_mapped t \<longleftrightarrow> base \<noteq> 0)) u"
    if "handles_inv u" "\<not> pool_mapped u" "attached u = attached s" "bde_fd u = bde_fd s" "bde_fd s \<ge> 0" for u :: "'z init_state_scheme" and n m
    unfolding mmap_bde_def nos_bde_mmap_def nos_bde_get_dma_pbase_def nos_bde_get_dma_size_def nos_bde_get_bar0_def
    by (intro wp_rules) (use that in \<open>auto simp: handles_defs\<close>)
  show ?thesis
    unfolding bde_mmap_dma_def
  proof (intro wp_bind wp_gets wp_if wp_return)
    show "wp (bde_get_dma_info E 0 0) (\<lambda>a. wp (case a of (rc, pbase, sz) \<Rightarrow>
          if rc < 0 \<or> sz = 0 then return 0
          else do { base \<leftarrow> mmap_bde E (unat sz); modify (\<lambda>s. s\<lparr>bde_dma_base := base\<rparr>);
            if base = MAP_FAILED then return 0
            else do { modify (\<lambda>s. s\<lparr>bde_dma_size := unat sz\<rparr>); return base } })
        (\<lambda>base t. handles_inv t \<and> attached t = attached s \<and> bde_fd t = bde_fd s \<and> (pool_mapped t \<longleftrightarrow> base \<noteq> 0))) s"
      if "\<not> (bde_dma_base s \<noteq> MAP_FAILED \<and> bde_dma_base s \<noteq> 0)" and "\<not> bde_fd s < 0"
      by (rule wp_mono[OF wp_dma_info_handles[OF assms]], intro wp_prod wp_if wp_return map)
        (use that in \<open>auto simp: pool_mapped_def\<close>)
  qed (use assms in \<open>auto simp: handles_defs\<close>)
qed

text \<open>C34. Attach is all or nothing, and the handles balance: whatever the operating system and the
  driver answer, attach returns 0 or -1; after 0 the device is open exactly once and the DMA pool
  mapped exactly once, also when it was called again; after -1 no handle is left and nothing is
  mapped; detach brings both to none.\<close>

theorem attach_handles:
  fixes E :: env and s :: "'z init_state_scheme"
  assumes inv: "handles_inv s" and att: "attached s \<longrightarrow> pool_mapped s"
  defines "t \<equiv> exec (bcm56846_attach E) s" and "u \<equiv> exec (bcm56846_detach E) (exec (bcm56846_attach E) s)"
  shows "(result (bcm56846_attach E) s = 0 \<and> attached t \<and> open_handles (trace t) = 1 \<and> mapped_pools (trace t) = 1 \<or>
          result (bcm56846_attach E) s = - 1 \<and> \<not> attached t \<and> open_handles (trace t) = 0 \<and> mapped_pools (trace t) = 0) \<and>
         handles_inv t \<and> (\<not> attached t \<or> pool_mapped t) \<and>
         \<not> attached u \<and> handles_inv u \<and> open_handles (trace u) = 0 \<and> mapped_pools (trace u) = 0"
proof -
  let ?Q = "\<lambda>rc t. handles_inv t \<and> (attached t \<longrightarrow> pool_mapped t) \<and>
     (rc = 0 \<and> attached t \<or> rc = - (1::int) \<and> \<not> attached t \<and> bde_fd t < 0)"
  have "wp (bcm56846_attach E) ?Q s"
    unfolding bcm56846_attach_def
    apply (intro wp_bind wp_gets wp_if wp_return)
    subgoal using inv att by simp
    subgoal
      apply (rule wp_mono[OF wp_bde_open[OF inv]])
      apply (intro wp_bind wp_if wp_return)
      subgoal by (auto simp: handles_defs)
      subgoal
        apply (rule wp_mono[OF wp_bde_mmap], blast)
        apply (intro wp_bind wp_if wp_return wp_modify)
        subgoal by (rule wp_mono[OF wp_bde_close]) (auto intro!: wp_return)
        subgoal by (auto simp: handles_defs)
        done
      done
    done
  then have t: "?Q (result (bcm56846_attach E) s) t" unfolding wp_def t_def .
  have "wp (bcm56846_detach E) (\<lambda>_ u. handles_inv u \<and> \<not> attached u \<and> bde_fd u < 0 \<and> \<not> pool_mapped u) t"
    unfolding bcm56846_detach_def
    by (intro wp_bind) (rule wp_mono[OF wp_bde_close], use t in blast, auto intro!: wp_modify simp: handles_defs)
  then have "handles_inv u \<and> \<not> attached u \<and> bde_fd u < 0 \<and> \<not> pool_mapped u" unfolding wp_def u_def t_def .
  with t show ?thesis by (auto simp: handles_inv_def)
qed

definition init0 :: init_state where
  "init0 = \<lparr>trace = [], bde_priv = None, bde_fd = - 1, bde_dma_base = MAP_FAILED, bde_dma_size = 0,
     rcload_depth = 0, portmap = replicate MAX_PORTMAP (0, 0), portmap_count = 0, attached = False\<rparr>"

theorem attach_handles_witness:
  "\<not> attached (exec (bcm56846_detach miim_env) (exec (bcm56846_attach miim_env) init0)) \<and>
   open_handles (trace (exec (bcm56846_detach miim_env) (exec (bcm56846_attach miim_env) init0))) = 0"
proof -
  have "handles_inv init0" by (simp add: handles_defs init0_def)
  moreover have "attached init0 \<longrightarrow> pool_mapped init0" by (simp add: init0_def)
  ultimately show ?thesis using attach_handles[of init0 miim_env] by blast
qed

section \<open>Initialisation\<close>

lemma config_load_result:
  "result (bcm56846_config_load F cp) s = (case cp of None \<Rightarrow> - 1 | Some p \<Rightarrow> soc_rc (F (trace s) (config_file p)))"
  by (auto simp: bcm56846_config_load_def soc_rc_def split_beta split: option.splits)

lemma config_load_fails:
  "result (bcm56846_config_load F cp) s < 0 \<Longrightarrow> writes (trace (exec (bcm56846_config_load F cp) s)) = writes (trace s)"
  by (auto simp: bcm56846_config_load_def split_beta split: option.splits)

text \<open>The SDK comes up only with its configuration: whatever the chip answers and the scripts
  hold, init returns 0 exactly if the device is attached and \<open>config.bcm\<close> in the given directory
  can be opened, and -1 otherwise; in that case no register of the chip is written. Neither a
  failed chip initialisation nor a missing script is an error.\<close>

theorem init_needs_configuration:
  "result (bcm56846_init E F cp) s =
     (if attached s \<and> (\<exists>p. cp = Some p \<and> F (trace s) (config_file p) \<noteq> None) then 0 else - 1) \<and>
   (result (bcm56846_init E F cp) s = 0 \<or>
      writes (trace (exec (bcm56846_init E F cp) s)) = writes (trace s))"
proof (cases "attached s \<and> (\<exists>p. cp = Some p \<and> F (trace s) (config_file p) \<noteq> None)")
  case True
  then obtain p where p: "cp = Some p" "0 \<le> result (bcm56846_config_load F (Some p)) s" "attached s"
    by (auto simp: config_load_result soc_rc_def)
  then have "result (bcm56846_init E F cp) s = 0"
    unfolding bcm56846_init_def Let_def by (simp add: result_bind not_less del: run_state_bind)
  then show ?thesis using True by simp
next
  case False
  then have "result (bcm56846_init E F cp) s = - 1 \<and> writes (trace (exec (bcm56846_init E F cp) s)) = writes (trace s)"
    using config_load_result[of F cp s] config_load_fails[of F cp s]
    by (cases cp) (auto simp: bcm56846_init_def soc_rc_def split_beta)
  then show ?thesis using False by simp
qed

end
