(* ===== verification/Pktio.thy ===== *)
theory Pktio
  imports Serdes
begin

text \<open>
  Packet I/O over the CMIC DMA channels (src/sdk/src/pktio.c): the bump allocator on the mapped
  pool, transmission through one descriptor and one buffer, the receive ring. The pool is a
  byte memory indexed by virtual address, words stored big-endian as the CPU does; pointers are
  integers, 0 is \<open>NULL\<close>, \<open>uintptr_t\<close> has 32 bits. What the receive thread reads from a
  descriptor is an arbitrary function of the history (the chip writes there). \<open>None\<close> as the
  result of \<open>bcm56846_tx\<close> is a fault: an access through \<open>NULL\<close>.
\<close>

section \<open>State\<close>

definition DCB_WORDS :: nat where "DCB_WORDS = 16"
definition TX_BUF_MAX :: int where "TX_BUF_MAX = 2048"
definition RX_DCBS :: nat where "RX_DCBS = 64"
definition RX_BUF_SIZE :: int where "RX_BUF_SIZE = 2048"
definition CMIC_DMA_CTRL :: u32 where "CMIC_DMA_CTRL = 0x100"
definition CMIC_DMA_STAT :: u32 where "CMIC_DMA_STAT = 0x104"
definition CMIC_DMA_DESC :: "int \<Rightarrow> u32" where "CMIC_DMA_DESC ch = 0x110 + 4 * word_of_int ch"

record pktio_state = bde_state +
  pk_vbase :: int
  pk_pbase :: u64
  pk_size :: u32
  dma_off :: int
  dma_mem :: "int \<Rightarrow> u8"
  rx_cb :: int
  rx_cookie :: int
  rx_running :: bool
  tx_dcb :: int
  tx_buf :: int
  rx_ring :: int
  rx_bufs :: "int list"

section \<open>Memory\<close>

definition store_bytes :: "int \<Rightarrow> u8 list \<Rightarrow> (int \<Rightarrow> u8) \<Rightarrow> int \<Rightarrow> u8" where
  "store_bytes a bs m = (\<lambda>x. if a \<le> x \<and> x < a + int (length bs) then bs ! nat (x - a) else m x)"

definition word_bytes :: "u32 \<Rightarrow> u8 list" where
  "word_bytes w = [ucast (drop_bit 24 w), ucast (drop_bit 16 w), ucast (drop_bit 8 w), ucast w]"

definition load32 :: "(int \<Rightarrow> u8) \<Rightarrow> int \<Rightarrow> u32" where
  "load32 m a = push_bit 24 (ucast (m a)) OR push_bit 16 (ucast (m (a + 1)))
     OR push_bit 8 (ucast (m (a + 2))) OR ucast (m (a + 3))"

text \<open>\<open>dcb[i] = w\<close>, \<open>memcpy\<close> and \<open>memset\<close> to 0.\<close>

definition set_word :: "int \<Rightarrow> nat \<Rightarrow> u32 \<Rightarrow> ('z pktio_state_scheme, unit) state" where
  "set_word dcb i w = modify (\<lambda>s. s\<lparr>dma_mem := store_bytes (dcb + 4 * int i) (word_bytes w) (dma_mem s)\<rparr>)"

definition mem_copy :: "int \<Rightarrow> u8 list \<Rightarrow> ('z pktio_state_scheme, unit) state" where
  "mem_copy a bs = modify (\<lambda>s. s\<lparr>dma_mem := store_bytes a bs (dma_mem s)\<rparr>)"

section \<open>The allocator\<close>

definition uptr :: "int \<Rightarrow> int" where "uptr x = x mod 2 ^ 32"

definition dma_alloc :: "env \<Rightarrow> int \<Rightarrow> int \<Rightarrow> ('z pktio_state_scheme, int) state" where
  "dma_alloc E nbytes align = do {
     vb \<leftarrow> gets pk_vbase;
     mapped \<leftarrow> (if vb = 0 then do {
         vb \<leftarrow> bde_mmap_dma E;
         modify (\<lambda>s. s\<lparr>pk_vbase := vb\<rparr>);
         if vb = 0 then return False
         else do {
           pb \<leftarrow> gets pk_pbase;
           sz \<leftarrow> gets pk_size;
           (rc, pb, sz) \<leftarrow> bde_get_dma_info E pb sz;
           modify (\<lambda>s. s\<lparr>pk_pbase := pb, pk_size := sz\<rparr>);
           if rc \<noteq> 0 \<or> sz = 0 then return False
           else do {
             modify (\<lambda>s. if dma_off s < 4096 then s\<lparr>dma_off := 4096\<rparr> else s);
             return True
           }
         }
       } else return True);
     if \<not> mapped then return 0
     else do {
       vb \<leftarrow> gets pk_vbase;
       off \<leftarrow> gets dma_off;
       sz \<leftarrow> gets pk_size;
       let p = uptr (vb + off);
       let a = uptr (p + (align - 1)) AND NOT (align - 1);
       if uptr (a + nbytes) > uptr (vb + uint sz) then return 0
       else do {
         modify (\<lambda>s. s\<lparr>dma_off := uptr (a - vb + nbytes)\<rparr>);
         return a
       }
     }
   }"

definition dma_virt_to_phys32 :: "int \<Rightarrow> ('z pktio_state_scheme, u32) state" where
  "dma_virt_to_phys32 p = gets (\<lambda>s. word_of_int (uint (pk_pbase s) + (p - pk_vbase s)))"

definition cmic_dma_start :: "env \<Rightarrow> int \<Rightarrow> u32 \<Rightarrow> ('z pktio_state_scheme, int) state" where
  "cmic_dma_start E ch desc0_phys = do {
     rc \<leftarrow> bde_write_reg E (CMIC_DMA_DESC ch) desc0_phys;
     if rc \<noteq> 0 then return (-1)
     else do {
       rc \<leftarrow> bde_write_reg E CMIC_DMA_CTRL 1;
       return (if rc \<noteq> 0 then -1 else 0)
     }
   }"

section \<open>Transmission\<close>

definition tx_fill :: "int \<Rightarrow> u8 list \<Rightarrow> int \<Rightarrow> ('z pktio_state_scheme, unit) state" where
  "tx_fill port pkt len = do {
     dcb \<leftarrow> gets tx_dcb;
     buf \<leftarrow> gets tx_buf;
     mem_copy buf (take (nat len) pkt);
     mem_copy dcb (replicate (DCB_WORDS * 4) 0);
     buf_phys \<leftarrow> dma_virt_to_phys32 buf;
     set_word dcb 0 buf_phys;
     set_word dcb 1 (0x00180000 OR word_of_int len);
     set_word dcb 2 0xff000000;
     set_word dcb 3 0x00000100;
     set_word dcb 4 (0x03030300 OR (word_of_int port AND 0xff));
     set_word dcb 15 (0x80000000 OR word_of_int len)
   }"

fun tx_wait :: "env \<Rightarrow> nat \<Rightarrow> u32 \<Rightarrow> ('z pktio_state_scheme, unit) state" where
  "tx_wait E 0 stat = return ()"
| "tx_wait E (Suc tries) stat = do {
     (rc, stat) \<leftarrow> bde_read_reg E CMIC_DMA_STAT stat;
     if rc = 0 \<and> stat AND 1 \<noteq> 0 then return ()
     else do { usleep 10; tx_wait E tries stat }
   }"

text \<open>The buffers are allocated by the first call; later calls look only at the descriptor.\<close>

definition tx_setup :: "env \<Rightarrow> ('z pktio_state_scheme, bool) state" where
  "tx_setup E = do {
     dcb \<leftarrow> gets tx_dcb;
     if dcb = 0 then do {
       dcb \<leftarrow> dma_alloc E (int DCB_WORDS * 4) 64;
       modify (\<lambda>s. s\<lparr>tx_dcb := dcb\<rparr>);
       buf \<leftarrow> dma_alloc E TX_BUF_MAX 16;
       modify (\<lambda>s. s\<lparr>tx_buf := buf\<rparr>);
       return (dcb \<noteq> 0 \<and> buf \<noteq> 0)
     } else return True
   }"

definition bcm56846_tx ::
  "env \<Rightarrow> int \<Rightarrow> u8 list option \<Rightarrow> int \<Rightarrow> ('z pktio_state_scheme, int option) state" where
  "bcm56846_tx E port pkt len =
     (if pkt = None \<or> len \<le> 0 \<or> len > TX_BUF_MAX then return (Some (- EINVAL))
      else if port \<le> 0 \<or> port > 255 then return (Some (- EINVAL))
      else do {
        ok \<leftarrow> tx_setup E;
        buf \<leftarrow> gets tx_buf;
        if \<not> ok then return (Some (- ENOMEM))
        else if buf = 0 then return None
        else do {
          tx_fill port (the pkt) len;
          dcb \<leftarrow> gets tx_dcb;
          desc \<leftarrow> dma_virt_to_phys32 dcb;
          rc \<leftarrow> cmic_dma_start E 0 desc;
          if rc \<noteq> 0 then return (Some (- EIO))
          else do {
            stat \<leftarrow> indeterminate E;
            tx_wait E 5000 stat;
            return (Some 0)
          }
        }
      })"

section \<open>Reception\<close>

definition bcm56846_rx_register :: "int \<Rightarrow> int \<Rightarrow> ('z pktio_state_scheme, int) state" where
  "bcm56846_rx_register cb cookie = do {
     modify (\<lambda>s. s\<lparr>rx_cb := cb, rx_cookie := cookie\<rparr>);
     return 0
   }"

definition rx_arm :: "env \<Rightarrow> nat \<Rightarrow> ('z pktio_state_scheme, int option) state" where
  "rx_arm E i = do {
     ring \<leftarrow> gets rx_ring;
     let dcb = ring + 4 * int (i * DCB_WORDS);
     buf \<leftarrow> dma_alloc E RX_BUF_SIZE 16;
     modify (\<lambda>s. s\<lparr>rx_bufs := (rx_bufs s)[i := buf]\<rparr>);
     if buf = 0 then return (Some (- ENOMEM))
     else do {
       mem_copy buf (replicate (nat RX_BUF_SIZE) 0);
       phys \<leftarrow> dma_virt_to_phys32 buf;
       set_word dcb 0 phys;
       set_word dcb 1 (0x00180000 OR word_of_int RX_BUF_SIZE);
       set_word dcb 15 0;
       return None
     }
   }"

definition rx_alloc :: "env \<Rightarrow> ('z pktio_state_scheme, int option) state" where
  "rx_alloc E = do {
     ring \<leftarrow> gets rx_ring;
     if ring \<noteq> 0 then return None
     else do {
       ring \<leftarrow> dma_alloc E (int ((RX_DCBS + 1) * DCB_WORDS * 4)) 64;
       modify (\<lambda>s. s\<lparr>rx_ring := ring\<rparr>);
       if ring = 0 then return (Some (- ENOMEM))
       else do {
         mem_copy ring (replicate ((RX_DCBS + 1) * DCB_WORDS * 4) 0);
         for_ret [0..<RX_DCBS] (rx_arm E)
       }
     }
   }"

definition bcm56846_rx_start :: "env \<Rightarrow> ('z pktio_state_scheme, int) state" where
  "bcm56846_rx_start E = do {
     running \<leftarrow> gets rx_running;
     if running then return 0
     else do {
       r \<leftarrow> rx_alloc E;
       (case r of Some e \<Rightarrow> return e
        | None \<Rightarrow> do {
            ring \<leftarrow> gets rx_ring;
            desc \<leftarrow> dma_virt_to_phys32 ring;
            rc \<leftarrow> cmic_dma_start E 1 desc;
            if rc \<noteq> 0 then return (- EIO)
            else do {
              modify (\<lambda>s. s\<lparr>rx_running := True\<rparr>);
              rc \<leftarrow> os E sys_pthread_create [];
              if rc \<noteq> 0 then do {
                modify (\<lambda>s. s\<lparr>rx_running := False\<rparr>);
                return (- EIO)
              } else return 0
            }
          })
     }
   }"

definition bcm56846_rx_stop :: "env \<Rightarrow> ('z pktio_state_scheme, int) state" where
  "bcm56846_rx_stop E = do {
     running \<leftarrow> gets rx_running;
     if \<not> running then return 0
     else do {
       modify (\<lambda>s. s\<lparr>rx_running := False\<rparr>);
       _ \<leftarrow> os E sys_pthread_join [];
       return 0
     }
   }"

text \<open>One look at descriptor \<open>i\<close> by the receive thread. \<open>D\<close> gives the words the chip has
  left in memory; \<open>callback unit port pkt len cookie\<close> is what the registered pointer runs.\<close>

definition rx_poll_dcb ::
  "(io_event list \<Rightarrow> int \<Rightarrow> u32) \<Rightarrow> (int \<Rightarrow> int \<Rightarrow> int \<Rightarrow> int \<Rightarrow> int \<Rightarrow> ('z pktio_state_scheme, unit) state) \<Rightarrow>
   nat \<Rightarrow> ('z pktio_state_scheme, unit) state" where
  "rx_poll_dcb D callback i = do {
     s \<leftarrow> gets (\<lambda>s. s);
     let dcb = rx_ring s + 4 * int (i * DCB_WORDS);
     let st = D (trace s) (dcb + 60);
     if st AND 0x80000000 \<noteq> 0 then do {
       let len = uint (st AND 0x7fff);
       let port = uint (D (trace s) (dcb + 16) AND 0xff);
       (if len > 0 \<and> len \<le> RX_BUF_SIZE \<and> rx_cb s \<noteq> 0
        then callback 0 port (rx_bufs s ! i) len (rx_cookie s) else return ());
       set_word dcb 15 0
     } else return ()
   }"

definition rx_thread_pass ::
  "(io_event list \<Rightarrow> int \<Rightarrow> u32) \<Rightarrow> (int \<Rightarrow> int \<Rightarrow> int \<Rightarrow> int \<Rightarrow> int \<Rightarrow> ('z pktio_state_scheme, unit) state) \<Rightarrow>
   ('z pktio_state_scheme, unit) state" where
  "rx_thread_pass D callback = do {
     for_each [0..<RX_DCBS] (rx_poll_dcb D callback);
     usleep 1000
   }"

fun rx_thread_main ::
  "(io_event list \<Rightarrow> int \<Rightarrow> u32) \<Rightarrow> (int \<Rightarrow> int \<Rightarrow> int \<Rightarrow> int \<Rightarrow> int \<Rightarrow> ('z pktio_state_scheme, unit) state) \<Rightarrow>
   nat \<Rightarrow> ('z pktio_state_scheme, unit) state" where
  "rx_thread_main D callback 0 = return ()"
| "rx_thread_main D callback (Suc fuel) = do {
     running \<leftarrow> gets rx_running;
     if running then do { rx_thread_pass D callback; rx_thread_main D callback fuel } else return ()
   }"

section \<open>Alignment\<close>

lemma and_not_mask_int: "x AND NOT (mask k) = x - x mod 2 ^ k" for x :: int
proof -
  have "(x AND mask k) OR (x AND NOT (mask k)) = x"
    by (rule bit_eqI) (auto simp: bit_and_iff bit_or_iff bit_not_iff)
  moreover have "(x AND mask k) AND (x AND NOT (mask k)) = 0"
    by (rule bit_eqI) (auto simp: bit_and_iff bit_not_iff)
  moreover have "((x AND mask k) AND (x AND NOT (mask k))) + ((x AND mask k) OR (x AND NOT (mask k)))
      = (x AND mask k) + (x AND NOT (mask k))"
    by (rule plus_and_or)
  ultimately have "x = (x AND mask k) + (x AND NOT (mask k))" by simp
  then show ?thesis by (simp add: take_bit_eq_mod flip: take_bit_eq_mask)
qed

definition align_up :: "nat \<Rightarrow> int \<Rightarrow> int" where
  "align_up k x = (x + (2 ^ k - 1)) AND NOT (2 ^ k - 1)"

lemma align_up:
  "x \<le> align_up k x" "align_up k x < x + 2 ^ k" "2 ^ k dvd align_up k x"
proof -
  have e: "align_up k x = x + (2 ^ k - 1) - (x + (2 ^ k - 1)) mod 2 ^ k"
    using and_not_mask_int[of "x + (2 ^ k - 1)" k] by (simp add: align_up_def mask_eq_exp_minus_1)
  have "0 \<le> (x + (2 ^ k - 1)) mod 2 ^ k" "(x + (2 ^ k - 1)) mod 2 ^ k < 2 ^ k" by simp_all
  then show "x \<le> align_up k x" "align_up k x < x + 2 ^ k" using e by linarith+
  show "2 ^ k dvd align_up k x" unfolding e by (rule dvd_minus_mod)
qed

section \<open>The pool\<close>

text \<open>The pool is mapped, at least 128 KiB below the end of the address space.\<close>

definition pool_end :: "'z pktio_state_scheme \<Rightarrow> int" where
  "pool_end s = pk_vbase s + uint (pk_size s)"

definition pool_ok :: "'z pktio_state_scheme \<Rightarrow> bool" where
  "pool_ok s \<longleftrightarrow> 0 < pk_vbase s \<and> 4096 \<le> dma_off s \<and> dma_off s \<le> uint (pk_size s) \<and> pool_end s + 131072 \<le> 2 ^ 32"

lemma uptr_id: "0 \<le> x \<Longrightarrow> x < 2 ^ 32 \<Longrightarrow> uptr x = x"
  by (simp add: uptr_def)

lemma dma_alloc_run:
  assumes "pool_ok s" and "0 \<le> n" and "n \<le> 65536" and "k \<le> 12"
  shows "run_state (dma_alloc E n (2 ^ k)) s =
    (let a = align_up k (pk_vbase s + dma_off s) in
     if a + n > pool_end s then (0, s) else (a, s\<lparr>dma_off := a - pk_vbase s + n\<rparr>))"
proof -
  let ?p = "pk_vbase s + dma_off s"
  have k: "(2::int) ^ k \<le> 4096" "(1::int) \<le> 2 ^ k"
    using power_increasing[OF assms(4), of "2 :: int"] by simp_all
  have b: "0 < pk_vbase s" "4096 \<le> dma_off s" "?p \<le> pool_end s" "pool_end s + 131072 \<le> 2 ^ 32"
    using assms(1) by (auto simp: pool_ok_def pool_end_def)
  note al = align_up[where x = ?p and k = k]
  have "uptr ?p = ?p" using b by (intro uptr_id) linarith+
  moreover have "uptr (?p + (2 ^ k - 1)) = ?p + (2 ^ k - 1)" using b k by (intro uptr_id) linarith+
  moreover have "uptr (align_up k ?p + n) = align_up k ?p + n"
    using b k al assms(2,3) by (intro uptr_id) linarith+
  moreover have "uptr (pool_end s) = pool_end s" using b by (intro uptr_id) linarith+
  moreover have "uptr (align_up k ?p - pk_vbase s + n) = align_up k ?p - pk_vbase s + n"
    using b k al assms(2,3) by (intro uptr_id) linarith+
  ultimately show ?thesis
    using b(1) by (simp add: dma_alloc_def Let_def align_up_def pool_end_def)
qed

lemma dma_alloc_pool:
  assumes "pool_ok s" and "0 \<le> n" and "n \<le> 65536" and "k \<le> 12"
  shows "pool_ok (exec (dma_alloc E n (2 ^ k)) s) \<and> pk_vbase (exec (dma_alloc E n (2 ^ k)) s) = pk_vbase s \<and>
    pool_end (exec (dma_alloc E n (2 ^ k)) s) = pool_end s"
  using assms(1,2) align_up[where x = "pk_vbase s + dma_off s" and k = k]
  by (auto simp: dma_alloc_run[OF assms] Let_def pool_ok_def pool_end_def)

text \<open>Addresses given out for a list of requests (size and alignment exponent), 0 for a refused one:
  aligned, one after the other, between the two bounds.\<close>

fun regions_ok :: "int \<Rightarrow> int \<Rightarrow> (int \<times> nat) list \<Rightarrow> int list \<Rightarrow> bool" where
  "regions_ok lo hi [] [] = True"
| "regions_ok lo hi ((n, k) # reqs) (a # as) =
     (if a = 0 then regions_ok lo hi reqs as
      else lo \<le> a \<and> 2 ^ k dvd a \<and> a + n \<le> hi \<and> regions_ok (a + n) hi reqs as)"
| "regions_ok _ _ _ _ = False"

text \<open>C27. The DMA allocator never hands out overlapping memory: whatever sequence of requests of
  up to 64 KiB and alignments up to a page is made on a mapped pool, the regions it returns are
  aligned, disjoint (each begins at or after the end of the one before), start past the first
  page of the pool and end inside it.\<close>

theorem dma_regions_disjoint:
  assumes "pool_ok s" and "list_all (\<lambda>(n, k). 0 < n \<and> n \<le> 65536 \<and> k \<le> 12) reqs"
  shows "regions_ok (pk_vbase s + dma_off s) (pool_end s) reqs
    (result (State_Monad.traverse_list (\<lambda>(n, k). dma_alloc E n (2 ^ k)) reqs) s)"
  using assms
proof (induction reqs arbitrary: s)
  case (Cons r reqs)
  obtain n k where r: "r = (n, k)" by (cases r)
  have nk: "0 \<le> n" "n \<le> 65536" "k \<le> 12" and rest: "list_all (\<lambda>(n, k). 0 < n \<and> n \<le> 65536 \<and> k \<le> 12) reqs"
    using Cons.prems(2) r by auto
  define s' where "s' = exec (dma_alloc E n (2 ^ k)) s"
  have p: "pool_ok s'" "pk_vbase s' = pk_vbase s" "pool_end s' = pool_end s"
    using dma_alloc_pool[OF Cons.prems(1) nk, of E] by (simp_all add: s'_def)
  note IH = Cons.IH[OF p(1) rest, unfolded p(2,3)]
  let ?a = "align_up k (pk_vbase s + dma_off s)"
  have q: "0 < ?a" "pk_vbase s + dma_off s \<le> ?a" "2 ^ k dvd ?a"
    using align_up[where k = k and x = "pk_vbase s + dma_off s"] Cons.prems(1) by (auto simp: pool_ok_def)
  show ?case
  proof (cases "?a + n > pool_end s")
    case True
    then have run: "run_state (dma_alloc E n (2 ^ k)) s = (0, s)"
      using dma_alloc_run[OF Cons.prems(1) nk, of E] by (simp add: Let_def)
    then have "s' = s" by (simp add: s'_def)
    then show ?thesis using IH run by (simp add: r split_beta)
  next
    case False
    then have run: "run_state (dma_alloc E n (2 ^ k)) s = (?a, s\<lparr>dma_off := ?a - pk_vbase s + n\<rparr>)"
      using dma_alloc_run[OF Cons.prems(1) nk, of E] by (simp add: Let_def)
    then have s': "s' = s\<lparr>dma_off := ?a - pk_vbase s + n\<rparr>" by (simp add: s'_def)
    then have lo: "pk_vbase s + dma_off s' = ?a + n" by simp
    show ?thesis using IH[unfolded lo] run q False by (simp add: r split_beta s')
  qed
qed simp

section \<open>Words in memory\<close>

lemma length_word_bytes [simp]: "length (word_bytes w) = 4"
  by (simp add: word_bytes_def)

lemma load32_store_same [simp]: "load32 (store_bytes a (word_bytes w) m) a = w"
proof -
  have "load32 (store_bytes a (word_bytes w) m) a =
      push_bit 24 (ucast (ucast (drop_bit 24 w) :: u8)) OR push_bit 16 (ucast (ucast (drop_bit 16 w) :: u8))
      OR push_bit 8 (ucast (ucast (drop_bit 8 w) :: u8)) OR ucast (ucast w :: u8)"
    by (simp add: load32_def store_bytes_def word_bytes_def numeral_2_eq_2 numeral_3_eq_3)
  also have "\<dots> = w"
  proof (rule bit_eqI)
    fix n assume "possible_bit TYPE(32 word) n"
    then have "n < 32" by simp
    then have "n < 8 \<or> 8 \<le> n \<and> n < 16 \<or> 16 \<le> n \<and> n < 24 \<or> 24 \<le> n \<and> n < 32" by auto
    then show "bit (push_bit 24 (ucast (ucast (drop_bit 24 w) :: u8)) OR push_bit 16 (ucast (ucast (drop_bit 16 w) :: u8))
      OR push_bit 8 (ucast (ucast (drop_bit 8 w) :: u8)) OR ucast (ucast w :: u8) :: u32) n = bit w n"
      by (elim disjE conjE) (auto simp: word_bits)
  qed
  finally show ?thesis .
qed

lemma load32_store_other:
  "a + 4 \<le> b \<or> b + int (length bs) \<le> a \<Longrightarrow> load32 (store_bytes b bs m) a = load32 m a"
  by (auto simp: load32_def store_bytes_def)

lemma load32_store_zeros:
  "b \<le> a \<Longrightarrow> a + 4 \<le> b + int n \<Longrightarrow> load32 (store_bytes b (replicate n 0) m) a = 0"
  by (auto simp: load32_def store_bytes_def)

lemma store_bytes_inside: "i < length bs \<Longrightarrow> store_bytes a bs m (a + int i) = bs ! i"
  by (simp add: store_bytes_def)

lemma store_bytes_outside: "x < a \<or> a + int (length bs) \<le> x \<Longrightarrow> store_bytes a bs m x = m x"
  by (auto simp: store_bytes_def)

section \<open>What the DMA engine finds\<close>

definition tx_words :: "u32 \<Rightarrow> int \<Rightarrow> int \<Rightarrow> (nat \<times> u32) list" where
  "tx_words phys port len = [(0, phys), (1, 0x00180000 OR word_of_int len), (2, 0xff000000), (3, 0x00000100),
     (4, 0x03030300 OR (word_of_int port AND 0xff)), (15, 0x80000000 OR word_of_int len)]"

text \<open>A descriptor: the listed words, the others 0.\<close>

definition word_at :: "(nat \<times> u32) list \<Rightarrow> nat \<Rightarrow> u32" where
  "word_at ws i = (case map_of ws i of Some w \<Rightarrow> w | None \<Rightarrow> 0)"

definition phys32 :: "'z pktio_state_scheme \<Rightarrow> int \<Rightarrow> u32" where
  "phys32 s p = word_of_int (uint (pk_pbase s) + (p - pk_vbase s))"

lemma run_virt_to_phys [simp]: "run_state (dma_virt_to_phys32 p) s = (phys32 s p, s)"
  by (simp add: dma_virt_to_phys32_def phys32_def)

lemma phys32_mem [simp]: "phys32 (s\<lparr>dma_mem := m\<rparr>) p = phys32 s p"
  by (simp add: phys32_def)

definition tx_mem :: "'z pktio_state_scheme \<Rightarrow> int \<Rightarrow> u8 list \<Rightarrow> (int \<Rightarrow> u8)" where
  "tx_mem s port pkt = fold (\<lambda>(i, w). store_bytes (tx_dcb s + 4 * int i) (word_bytes w))
     (tx_words (phys32 s (tx_buf s)) port (int (length pkt)))
     (store_bytes (tx_dcb s) (replicate 64 0) (store_bytes (tx_buf s) pkt (dma_mem s)))"

lemma tx_fill_run:
  "run_state (tx_fill port pkt (int (length pkt))) s = ((), s\<lparr>dma_mem := tx_mem s port pkt\<rparr>)"
  by (simp add: tx_fill_def mem_copy_def set_word_def tx_mem_def tx_words_def
      DCB_WORDS_def)

definition tx_ready :: "'z pktio_state_scheme \<Rightarrow> bool" where
  "tx_ready s \<longleftrightarrow> tx_dcb s \<noteq> 0 \<and> tx_buf s \<noteq> 0 \<and> tx_dcb s + 64 \<le> tx_buf s"

lemma fold_store_word:
  assumes "distinct (map fst ws)" and "i < 16"
  shows "load32 (fold (\<lambda>(i, w). store_bytes (d + 4 * int i) (word_bytes w)) ws m) (d + 4 * int i) =
    (case map_of ws i of Some w \<Rightarrow> w | None \<Rightarrow> load32 m (d + 4 * int i))"
  using assms(1)
proof (induction ws arbitrary: m)
  case (Cons p ws)
  obtain j w where p: "p = (j, w)" by (cases p)
  show ?case
  proof (cases "j = i")
    case True
    then have "map_of ws i = None" using Cons.prems p by (simp add: map_of_eq_None_iff)
    then show ?thesis using Cons p True by simp
  next
    case False
    then have "load32 (store_bytes (d + 4 * int j) (word_bytes w) m) (d + 4 * int i) = load32 m (d + 4 * int i)"
      by (intro load32_store_other) (cases "i < j"; simp)
    then show ?thesis using Cons p False by (simp split: option.splits)
  qed
qed simp

lemma fold_store_outside:
  assumes "\<And>i. i \<in> fst ` set ws \<Longrightarrow> i < 16" and "x < d \<or> d + 64 \<le> x"
  shows "fold (\<lambda>(i, w). store_bytes (d + 4 * int i) (word_bytes w)) ws m x = m x"
  using assms(1)
proof (induction ws arbitrary: m)
  case (Cons p ws)
  obtain j w where p: "p = (j, w)" by (cases p)
  have "j < 16" using Cons.prems p by force
  then have "store_bytes (d + 4 * int j) (word_bytes w) m x = m x"
    using assms(2) by (intro store_bytes_outside) auto
  then show ?case using Cons p by simp
qed simp

lemma tx_mem_descriptor:
  assumes "i < 16"
  shows "load32 (tx_mem s port pkt) (tx_dcb s + 4 * int i) =
    word_at (tx_words (phys32 s (tx_buf s)) port (int (length pkt))) i"
proof -
  have "distinct (map fst (tx_words (phys32 s (tx_buf s)) port (int (length pkt))))" by (simp add: tx_words_def)
  from fold_store_word[OF this assms] show ?thesis
    using assms by (simp add: tx_mem_def word_at_def load32_store_zeros split: option.splits)
qed

lemma tx_mem_packet:
  assumes "tx_ready s" and "i < length pkt"
  shows "tx_mem s port pkt (tx_buf s + int i) = pkt ! i"
proof -
  have "tx_mem s port pkt (tx_buf s + int i) =
      store_bytes (tx_dcb s) (replicate 64 0) (store_bytes (tx_buf s) pkt (dma_mem s)) (tx_buf s + int i)"
    unfolding tx_mem_def
    by (rule fold_store_outside) (use assms in \<open>auto simp: tx_words_def tx_ready_def\<close>)
  also have "\<dots> = pkt ! i"
    using assms by (simp add: store_bytes_outside store_bytes_inside tx_ready_def)
  finally show ?thesis .
qed

lemma tx_wait_emits: "emits silent (tx_wait E n st)"
  by (induction n arbitrary: st) (auto intro!: emits_rules emits_read_reg_silent)

lemma dma_regs_small: "CMIC_DMA_DESC 0 < 0x40000" "CMIC_DMA_CTRL < 0x40000"
  by (simp_all add: CMIC_DMA_DESC_def CMIC_DMA_CTRL_def)

lemma bde_ready_pktio [simp]: "bde_ready (s\<lparr>dma_mem := m\<rparr>) = bde_ready s"
  by (simp add: bde_ready_def)

lemma cmic_dma_start_run:
  assumes "copies_ok E" and "bde_ready s"
  shows "result (cmic_dma_start E 0 d) s = 0"
    and "\<exists>tr. exec (cmic_dma_start E 0 d) s = s\<lparr>trace := tr\<rparr> \<and>
           writes tr = writes (trace s) @ [(CMIC_DMA_DESC 0, d), (CMIC_DMA_CTRL, 1)]"
proof -
  have run: "run_state (cmic_dma_start E 0 d) s = (0, s\<lparr>trace := IoWr CMIC_DMA_CTRL 1 # OsCall sys_copy_from_user [] 0
      # IoWr (CMIC_DMA_DESC 0) d # OsCall sys_copy_from_user [] 0 # trace s\<rparr>)"
    using assms by (simp add: cmic_dma_start_def run_bde_write_reg dma_regs_small)
  show "result (cmic_dma_start E 0 d) s = 0" by (simp add: run)
  show "\<exists>tr. exec (cmic_dma_start E 0 d) s = s\<lparr>trace := tr\<rparr> \<and>
      writes tr = writes (trace s) @ [(CMIC_DMA_DESC 0, d), (CMIC_DMA_CTRL, 1)]"
    by (rule exI[of _ "IoWr CMIC_DMA_CTRL 1 # OsCall sys_copy_from_user [] 0
      # IoWr (CMIC_DMA_DESC 0) d # OsCall sys_copy_from_user [] 0 # trace s"]) (simp add: run)
qed


section \<open>Failed allocations\<close>

lemma wp_get_dma_info:
  "(\<And>r tr. Q r (s\<lparr>trace := tr\<rparr>)) \<Longrightarrow> wp (bde_get_dma_info E pb sz) Q s"
  by (rule wp_bus[OF emits_bde_access(3)])

lemma wp_mmap_bde: "(\<And>r tr. Q r (s\<lparr>trace := tr\<rparr>)) \<Longrightarrow> wp (mmap_bde E len) Q s"
  by (rule wp_bus[where P = "\<lambda>_. True"])
    (auto simp: mmap_bde_def nos_bde_mmap_def nos_bde_get_bar0_def nos_bde_get_dma_pbase_def
      nos_bde_get_dma_size_def intro!: emits_rules)

lemma wp_mmap_dma:
  assumes "\<And>r tr b z. Q r (s\<lparr>trace := tr, bde_dma_base := b, bde_dma_size := z\<rparr>)"
  shows "wp (bde_mmap_dma E) Q s"
proof -
  have "Q r s" for r using assms[where r = r and tr = "trace s" and b = "bde_dma_base s" and z = "bde_dma_size s"] by simp
  moreover have "Q r (s\<lparr>trace := tr\<rparr>)" for r tr
    using assms[where r = r and tr = tr and b = "bde_dma_base s" and z = "bde_dma_size s"] by simp
  moreover have "Q r (s\<lparr>trace := tr, bde_dma_base := b\<rparr>)" for r tr b
    using assms[where r = r and tr = tr and b = b and z = "bde_dma_size s"] by simp
  ultimately show ?thesis
    unfolding bde_mmap_dma_def using assms
    by (intro wp_rules wp_get_dma_info wp_mmap_bde) simp_all
qed

lemma dma_alloc_frame:
  "tx_dcb (exec (dma_alloc E n al) s) = tx_dcb s \<and> rx_ring (exec (dma_alloc E n al) s) = rx_ring s"
proof -
  have "wp (dma_alloc E n al) (\<lambda>_ s'. tx_dcb s' = tx_dcb s \<and> rx_ring s' = rx_ring s) s"
    unfolding dma_alloc_def Let_def
    by (intro wp_rules wp_mmap_dma wp_get_dma_info) simp_all
  then show ?thesis by (rule wpD)
qed

lemma tx_setup_fails:
  "\<not> result (tx_setup E) s \<Longrightarrow> tx_dcb (exec (tx_setup E) s) = 0 \<or> tx_buf (exec (tx_setup E) s) = 0"
  using dma_alloc_frame[of E TX_BUF_MAX 16 "(exec (dma_alloc E 64 64) s)\<lparr>tx_dcb := result (dma_alloc E 64 64) s\<rparr>"]
  by (auto simp: tx_setup_def exec_bind result_bind DCB_WORDS_def simp del: run_state_bind split: if_splits)

lemma tx_result:
  assumes "pkt \<noteq> None" and "0 < len" and "len \<le> 2048" and "0 < port" and "port \<le> 255"
  shows "\<not> result (tx_setup E) s \<Longrightarrow>
      run_state (bcm56846_tx E port pkt len) s = (Some (- ENOMEM), exec (tx_setup E) s)"
    and "result (tx_setup E) s \<Longrightarrow> result (bcm56846_tx E port pkt len) s \<in> {None, Some 0, Some (- EIO)}"
  using assms by (auto simp: bcm56846_tx_def TX_BUF_MAX_def split_beta)

lemma tx_invalid:
  "\<not> (pkt \<noteq> None \<and> 0 < len \<and> len \<le> 2048 \<and> 0 < port \<and> port \<le> 255) \<Longrightarrow>
   run_state (bcm56846_tx E port pkt len) s = (Some (- EINVAL), s)"
  by (auto simp: bcm56846_tx_def TX_BUF_MAX_def)

text \<open>A failed transmission is not repeatable: when \<open>bcm56846_tx\<close> reports \<open>-ENOMEM\<close> but has
  obtained the descriptor, every later call with valid arguments skips the allocation and writes
  the packet through the \<open>NULL\<close> buffer pointer.\<close>

theorem tx_retry_faults:
  assumes "result (bcm56846_tx E port pkt len) s = Some (- ENOMEM)"
    and "tx_dcb (exec (bcm56846_tx E port pkt len) s) \<noteq> 0"
    and "0 < length pkt'" and "length pkt' \<le> 2048" and "0 < port'" and "port' \<le> 255"
  shows "result (bcm56846_tx E port' (Some pkt') (int (length pkt'))) (exec (bcm56846_tx E port pkt len) s) = None"
proof -
  have v: "pkt \<noteq> None \<and> 0 < len \<and> len \<le> 2048 \<and> 0 < port \<and> port \<le> 255"
    using tx_invalid[of pkt len port E s] assms(1) by (cases "pkt \<noteq> None \<and> 0 < len \<and> len \<le> 2048 \<and> 0 < port \<and> port \<le> 255") auto
  have f: "\<not> result (tx_setup E) s"
    using tx_result(2)[of pkt len port E s] v assms(1) by auto
  then have x: "exec (bcm56846_tx E port pkt len) s = exec (tx_setup E) s"
    using tx_result(1)[of pkt len port E s] v by simp
  have "tx_buf (exec (tx_setup E) s) = 0" "tx_dcb (exec (tx_setup E) s) \<noteq> 0"
    using tx_setup_fails[OF f] assms(2) unfolding x by auto
  then show ?thesis
    unfolding x using assms(3-6) by (simp add: bcm56846_tx_def tx_setup_def TX_BUF_MAX_def)
qed

section \<open>Instances\<close>

text \<open>A pool of 4 MiB mapped at \<open>0x40000000\<close>; and one with room for the descriptor only.\<close>

definition pktio0 :: pktio_state where
  "pktio0 = bde_state.extend bde0 \<lparr>pk_vbase = 0x40000000, pk_pbase = 0x10000000, pk_size = 0x400000, dma_off = 4096,
     dma_mem = \<lambda>_. 0, rx_cb = 0, rx_cookie = 0, rx_running = False, tx_dcb = 0x40001000, tx_buf = 0x40001040,
     rx_ring = 0, rx_bufs = replicate 64 0\<rparr>"

definition pktio_small :: pktio_state where
  "pktio_small = pktio0\<lparr>pk_size := 0x1100, tx_dcb := 0, tx_buf := 0\<rparr>"

theorem dma_regions_disjoint_witness:
  "regions_ok 0x40001000 0x40400000 [(64, 6), (2048, 4), (4160, 6)]
    (result (State_Monad.traverse_list (\<lambda>(n, k). dma_alloc chip_env n (2 ^ k)) [(64, 6), (2048, 4), (4160, 6)]) pktio0)"
  using dma_regions_disjoint[of pktio0 "[(64, 6), (2048, 4), (4160, 6)]" chip_env]
  by (simp add: pool_ok_def pool_end_def pktio0_def bde_state.defs)

lemma chip_env_copies: "copies_ok chip_env"
  by (simp add: copies_ok_def chip_env_def)


theorem tx_retry_faults_witness:
  "result (bcm56846_tx chip_env 7 (Some [1]) 1) (exec (bcm56846_tx chip_env 7 (Some [1]) 1) pktio_small) = None"
proof -
  have p: "pool_ok pktio_small" by (simp add: pool_ok_def pool_end_def pktio_small_def pktio0_def bde_state.defs)
  have a: "align_up 6 0x40001000 = 0x40001000" "align_up 4 0x40001040 = 0x40001040" by (simp_all add: align_up_def)
  have v: "pk_vbase pktio_small = 0x40000000" "dma_off pktio_small = 4096" "pool_end pktio_small = 0x40001100"
      "tx_dcb pktio_small = 0"
    by (simp_all add: pool_end_def pktio_small_def pktio0_def bde_state.defs)
  have r1: "run_state (dma_alloc chip_env 64 64) pktio_small = (0x40001000, pktio_small\<lparr>dma_off := 4160\<rparr>)"
    using dma_alloc_run[OF p, of 64 6 chip_env] by (simp add: a v Let_def)
  have p2: "pool_ok (pktio_small\<lparr>dma_off := 4160, tx_dcb := 0x40001000\<rparr>)"
    using p v by (simp add: pool_ok_def pool_end_def)
  have r2: "run_state (dma_alloc chip_env 2048 16) (pktio_small\<lparr>dma_off := 4160, tx_dcb := 0x40001000\<rparr>)
      = (0, pktio_small\<lparr>dma_off := 4160, tx_dcb := 0x40001000\<rparr>)"
    using dma_alloc_run[OF p2, of 2048 4 chip_env] v by (simp add: a Let_def pool_end_def)
  have r: "run_state (bcm56846_tx chip_env 7 (Some [1]) 1) pktio_small
      = (Some (- ENOMEM), pktio_small\<lparr>dma_off := 4160, tx_dcb := 0x40001000, tx_buf := 0\<rparr>)"
    using r1 r2 v by (simp add: bcm56846_tx_def tx_setup_def TX_BUF_MAX_def DCB_WORDS_def)
  show ?thesis
    by (rule tx_retry_faults[of chip_env 7 "Some [1]" 1 pktio_small "[1]" 7, simplified]) (simp_all add: r)
qed

end
