(* ===== verification/L2.thy ===== *)
theory L2
  imports Device_Model
begin

text \<open>
  \<^verbatim>\<open>sdk/src/l2.c\<close>: the L2 forwarding table (a hash table of 131072 entries of four words)
  and the user-defined L2 table (a TCAM of 512 entries of five words), over the memory access
  of \<open>Sbus\<close>. The \<open>unit\<close> argument is unused in the sources and left out.
\<close>

section \<open>Data\<close>

record l2_addr =
  l2_mac :: "u8 list"
  l2_vid :: u16
  l2_port :: int
  l2_static :: int

record l2_user_addr =
  u_mac :: "u8 list"
  u_vid :: u16
  u_port :: int
  u_key_type :: int
  u_copy_to_cpu :: int
  u_bpdu :: int
  u_mask :: u64

abbreviation (input) "L2_ENTRY_BASE \<equiv> (0x07120000::u32)"
abbreviation (input) "L2_ENTRY_ENTRIES \<equiv> (131072::int)"
abbreviation (input) "L2_ENTRY_WORDS \<equiv> (4::int)"
abbreviation (input) "KEY_TYPE_L2 \<equiv> 0"
abbreviation (input) "L2_USER_ENTRY_BASE \<equiv> (0x06168000::u32)"
abbreviation (input) "L2_USER_ENTRY_COUNT \<equiv> (512::int)"
abbreviation (input) "L2_USER_ENTRY_WORDS \<equiv> (5::int)"

section \<open>The hash table\<close>

definition l2_hash_key :: "u8 list \<Rightarrow> u16 \<Rightarrow> u64" where
  "l2_hash_key mac vid =
     (let mac48 = push_bit 40 (ucast (mac ! 0)) OR push_bit 32 (ucast (mac ! 1)) OR
                  push_bit 24 (ucast (mac ! 2)) OR push_bit 16 (ucast (mac ! 3)) OR
                  push_bit 8 (ucast (mac ! 4)) OR ucast (mac ! 5) :: u64
      in push_bit 16 mac48 OR push_bit 4 (ucast (vid AND 0xfff)) OR push_bit 1 KEY_TYPE_L2)"

definition l2_pack_entry :: "l2_addr \<Rightarrow> u32 list" where
  "l2_pack_entry addr =
     (let vd = l2_vid addr AND 0xfff;
          pt = word_of_int (l2_port addr) AND 0x7f :: u32;
          md = 0 :: u32;
          static_bit = (if l2_static addr \<noteq> 0 then 1 else 0) :: u32;
          w0 = 1 OR push_bit 1 KEY_TYPE_L2 OR push_bit 4 (ucast vd) OR
               push_bit 16 (push_bit 8 (ucast (l2_mac addr ! 0)) OR ucast (l2_mac addr ! 1));
          w1 = push_bit 24 (ucast (l2_mac addr ! 2)) OR push_bit 16 (ucast (l2_mac addr ! 3)) OR
               push_bit 8 (ucast (l2_mac addr ! 4)) OR ucast (l2_mac addr ! 5);
          w2 = pt OR push_bit 7 (md AND 0xff) OR push_bit 29 static_bit
      in [w0, w1, w2, 0])"

definition l2_unpack_entry :: "u32 list \<Rightarrow> l2_addr" where
  "l2_unpack_entry words =
     \<lparr>l2_mac = [ucast (drop_bit 24 (words ! 0)), ucast (drop_bit 16 (words ! 0)),
             ucast (drop_bit 24 (words ! 1)), ucast (drop_bit 16 (words ! 1)),
             ucast (drop_bit 8 (words ! 1)), ucast (words ! 1)],
      l2_vid = ucast (drop_bit 4 (words ! 0) AND 0xfff),
      l2_port = uint (words ! 2 AND 0x7f),
      l2_static = (if drop_bit 29 (words ! 2) AND 1 \<noteq> 0 then 1 else 0)\<rparr>"

definition l2_table_write :: "env \<Rightarrow> int \<Rightarrow> u32 list \<Rightarrow> ('z bde_state_scheme, int) state" where
  "l2_table_write E index words = sbus_mem_write E L2_ENTRY_BASE index words L2_ENTRY_WORDS"

definition l2_table_read :: "env \<Rightarrow> int \<Rightarrow> u32 list \<Rightarrow> ('z bde_state_scheme, int \<times> u32 list) state" where
  "l2_table_read E index words = sbus_mem_read E L2_ENTRY_BASE index words L2_ENTRY_WORDS"

definition l2_table_delete_at :: "env \<Rightarrow> int \<Rightarrow> ('z bde_state_scheme, int) state" where
  "l2_table_delete_at E index = l2_table_write E index [0, 0, 0, 0]"

text \<open>\<open>index\<close> is non-negative here, so the code's \<open>if (index < 0)\<close> never applies.\<close>

definition l2_hash_index :: "u8 list \<Rightarrow> u16 \<Rightarrow> int" where
  "l2_hash_index mac vid =
     (let index = uint (l2_hash_key mac vid) mod L2_ENTRY_ENTRIES
      in if index < 0 then index + L2_ENTRY_ENTRIES else index)"

definition bcm56846_l2_addr_add :: "env \<Rightarrow> l2_addr option \<Rightarrow> ('z bde_state_scheme, int) state" where
  "bcm56846_l2_addr_add E addr = (case addr of None \<Rightarrow> return (- EINVAL)
     | Some a \<Rightarrow> do {
         let words = l2_pack_entry a;
         let index = l2_hash_index (l2_mac a) (l2_vid a);
         r \<leftarrow> for_ret [0..5] (\<lambda>probe. do {
            rc \<leftarrow> l2_table_write E ((index + probe) mod L2_ENTRY_ENTRIES) words;
            return (if rc = 0 then Some 0 else None)
          });
         return (case r of Some rc \<Rightarrow> rc | None \<Rightarrow> - ENOSPC)
       })"

definition bcm56846_l2_addr_delete :: "env \<Rightarrow> u8 list option \<Rightarrow> u16 \<Rightarrow> ('z bde_state_scheme, int) state" where
  "bcm56846_l2_addr_delete E mac vid = (case mac of None \<Rightarrow> return (- EINVAL)
     | Some m \<Rightarrow> do {
         let index = l2_hash_index m vid;
         r \<leftarrow> for_ret [0..5] (\<lambda>probe. do {
            rc \<leftarrow> l2_table_delete_at E ((index + probe) mod L2_ENTRY_ENTRIES);
            return (if rc = 0 then Some 0 else None)
          });
         return (case r of Some rc \<Rightarrow> rc | None \<Rightarrow> 0)
       })"

definition l2_entry_matches :: "u32 list \<Rightarrow> u8 list \<Rightarrow> u16 \<Rightarrow> bool" where
  "l2_entry_matches words mac vid \<longleftrightarrow>
     words ! 0 AND 1 \<noteq> 0 \<and>
     drop_bit 4 (words ! 0) AND 0xfff = ucast (vid AND 0xfff) \<and>
     ucast (drop_bit 24 (words ! 0)) = mac ! 0 \<and> ucast (drop_bit 16 (words ! 0)) = mac ! 1 \<and>
     ucast (drop_bit 24 (words ! 1)) = mac ! 2 \<and> ucast (drop_bit 16 (words ! 1)) = mac ! 3 \<and>
     ucast (drop_bit 8 (words ! 1)) = mac ! 4 \<and> ucast (words ! 1) = mac ! 5"

definition bcm56846_l2_addr_get ::
  "env \<Rightarrow> u8 list option \<Rightarrow> u16 \<Rightarrow> l2_addr option \<Rightarrow> ('z bde_state_scheme, int \<times> l2_addr option) state" where
  "bcm56846_l2_addr_get E mac vid out = (case (mac, out) of
       (Some m, Some out0) \<Rightarrow> do {
         let index = l2_hash_index m vid;
         r \<leftarrow> for_ret [0..5] (\<lambda>probe. do {
            (rc, words) \<leftarrow> l2_table_read E ((index + probe) mod L2_ENTRY_ENTRIES) [0, 0, 0, 0];
            return (if rc \<noteq> 0 then None
              else if l2_entry_matches words m vid then Some (l2_unpack_entry words) else None)
          });
         return (case r of Some a \<Rightarrow> (0, Some a) | None \<Rightarrow> (- ENOENT, Some out0))
       }
     | _ \<Rightarrow> return (- EINVAL, out))"

section \<open>The user table\<close>

definition l2_user_table_write :: "env \<Rightarrow> int \<Rightarrow> u32 list \<Rightarrow> ('z bde_state_scheme, int) state" where
  "l2_user_table_write E index words = sbus_mem_write E L2_USER_ENTRY_BASE index words L2_USER_ENTRY_WORDS"

definition l2_user_table_read :: "env \<Rightarrow> int \<Rightarrow> u32 list \<Rightarrow> ('z bde_state_scheme, int \<times> u32 list) state" where
  "l2_user_table_read E index words = sbus_mem_read E L2_USER_ENTRY_BASE index words L2_USER_ENTRY_WORDS"

definition l2_user_pack :: "l2_user_addr \<Rightarrow> u32 list" where
  "l2_user_pack addr =
     (let mac48 = push_bit 40 (ucast (u_mac addr ! 0)) OR push_bit 32 (ucast (u_mac addr ! 1)) OR
                  push_bit 24 (ucast (u_mac addr ! 2)) OR push_bit 16 (ucast (u_mac addr ! 3)) OR
                  push_bit 8 (ucast (u_mac addr ! 4)) OR ucast (u_mac addr ! 5) :: u64;
          msk = u_mask addr;
          vd = u_vid addr AND 0xfff;
          pt = word_of_int (u_port addr) AND 0x7f :: u32
      in [1 OR push_bit 1 (ucast (mac48 AND 0x7fffffff)),
          ucast (drop_bit 31 mac48 AND 0x1ffff) OR push_bit 17 (ucast (vd AND 0xfff)) OR
            push_bit 29 (word_of_int (u_key_type addr) AND 1) OR push_bit 30 (ucast (msk AND 3)),
          ucast (drop_bit 2 msk AND 0xffffffff),
          ucast (drop_bit 34 msk AND 0x7fffffff),
          push_bit 1 (word_of_int (u_copy_to_cpu addr) AND 1) OR push_bit 3 (pt AND 0x7f) OR
            push_bit 26 (word_of_int (u_bpdu addr) AND 1)])"

text \<open>\<open>index_out\<close> is the value of the out-parameter, \<open>None\<close> for a NULL pointer.\<close>

definition bcm56846_l2_user_entry_add ::
  "env \<Rightarrow> l2_user_addr option \<Rightarrow> int option \<Rightarrow> ('z bde_state_scheme, int \<times> int option) state" where
  "bcm56846_l2_user_entry_add E addr index_out = (case addr of None \<Rightarrow> return (- EINVAL, index_out)
     | Some a \<Rightarrow> do {
         let words = l2_user_pack a;
         r \<leftarrow> for_ret [0..L2_USER_ENTRY_COUNT - 1] (\<lambda>i. do {
            (rc, read_back) \<leftarrow> l2_user_table_read E i [0, 0, 0, 0, 0];
            if rc \<noteq> 0 then return None
            else if read_back ! 0 AND 1 = 0 then do {
              rc \<leftarrow> l2_user_table_write E i words;
              return (Some (if rc \<noteq> 0 then (- EIO, index_out)
                else (0, case index_out of None \<Rightarrow> None | Some _ \<Rightarrow> Some i)))
            } else return None
          });
         return (case r of Some x \<Rightarrow> x | None \<Rightarrow> (- ENOSPC, index_out))
       })"

definition bcm56846_l2_user_entry_delete :: "env \<Rightarrow> int \<Rightarrow> ('z bde_state_scheme, int) state" where
  "bcm56846_l2_user_entry_delete E index =
     (if index < 0 \<or> index \<ge> L2_USER_ENTRY_COUNT then return (- EINVAL)
      else l2_user_table_write E index [0, 0, 0, 0, 0])"

section \<open>Entries\<close>

lemma l2_masks:
  "(0xfff :: 'a::len word) = mask 12" "(0x7f :: 'a::len word) = mask 7" "(0xff :: 'a::len word) = mask 8"
  by (simp_all add: mask_numeral)

lemma zeros: "replicate 4 (0::u32) = [0, 0, 0, 0]" "replicate 5 (0::u32) = [0, 0, 0, 0, 0]"
  by (simp_all add: numeral_eq_Suc)

text \<open>The interface of the two tables, on the code's own accessors.\<close>

interpretation l2t: sbus_table "l2_table_write E" "\<lambda>i. l2_table_read E i [0, 0, 0, 0]"
    "table_ok E" "table_cell L2_ENTRY_BASE 4" 4 L2_ENTRY_ENTRIES for E
  using sbus_table_laws[of 4 L2_ENTRY_ENTRIES E L2_ENTRY_BASE]
  by (simp add: l2_table_write_def[abs_def] l2_table_read_def zeros)

interpretation l2u: sbus_table "l2_user_table_write E" "\<lambda>i. l2_user_table_read E i [0, 0, 0, 0, 0]"
    "table_ok E" "table_cell L2_USER_ENTRY_BASE 5" 5 L2_USER_ENTRY_COUNT for E
  using sbus_table_laws[of 5 L2_USER_ENTRY_COUNT E L2_USER_ENTRY_BASE]
  by (simp add: l2_user_table_write_def[abs_def] l2_user_table_read_def zeros)

lemma length_l2_pack [simp]: "length (l2_pack_entry a) = 4"
  by (simp add: l2_pack_entry_def Let_def)

lemma l2_pack_nth:
  "l2_pack_entry a ! 0 = 1 OR push_bit 4 (ucast (l2_vid a AND mask 12)) OR
      push_bit 16 (push_bit 8 (ucast (l2_mac a ! 0)) OR ucast (l2_mac a ! 1))"
  "l2_pack_entry a ! 1 = push_bit 24 (ucast (l2_mac a ! 2)) OR push_bit 16 (ucast (l2_mac a ! 3)) OR
      push_bit 8 (ucast (l2_mac a ! 4)) OR ucast (l2_mac a ! 5)"
  "l2_pack_entry a ! 2 = (word_of_int (l2_port a) AND mask 7) OR push_bit 29 (if l2_static a \<noteq> 0 then 1 else 0)"
  by (simp_all add: l2_pack_entry_def Let_def l2_masks)

lemma l2_pack_fields:
  fixes a :: l2_addr
  defines "w \<equiv> l2_pack_entry a"
  shows "ucast (drop_bit 24 (w ! 0)) = l2_mac a ! 0" "ucast (drop_bit 16 (w ! 0)) = l2_mac a ! 1"
    "ucast (drop_bit 24 (w ! 1)) = l2_mac a ! 2" "ucast (drop_bit 16 (w ! 1)) = l2_mac a ! 3"
    "ucast (drop_bit 8 (w ! 1)) = l2_mac a ! 4" "ucast (w ! 1) = l2_mac a ! 5"
    "drop_bit 4 (w ! 0) AND 0xfff = ucast (l2_vid a AND 0xfff)"
    "w ! 2 AND 0x7f = word_of_int (l2_port a) AND 0x7f"
    "drop_bit 29 (w ! 2) AND 1 = (if l2_static a \<noteq> 0 then 1 else 0)"
    "w ! 0 AND 1 = 1"
  unfolding w_def l2_pack_nth l2_masks
  by (rule bit_eqI; auto simp: word_bits bit_and_mask_iff dest: bit_word_len)+

definition l2_normalise :: "l2_addr \<Rightarrow> l2_addr" where
  "l2_normalise a = \<lparr>l2_mac = l2_mac a, l2_vid = l2_vid a AND 0xfff, l2_port = l2_port a mod 128,
     l2_static = (if l2_static a \<noteq> 0 then 1 else 0)\<rparr>"

lemma l2_unpack_pack: "length (l2_mac a) = 6 \<Longrightarrow> l2_unpack_entry (l2_pack_entry a) = l2_normalise a"
  using uint_low_bits[of 7 "l2_port a", where 'a = 32, folded l2_masks(2)] list6[of "l2_mac a"]
  by (simp add: l2_unpack_entry_def l2_normalise_def l2_pack_fields ucast_narrow_widen del: One_nat_def)

text \<open>What the L2 table stores: packing an address and reading it back gives the same
  address with the VLAN cut to 12 bits, the port to 7 bits and the static flag to 0 or 1, and
  the entry is valid and answers to its own key.\<close>

theorem l2_entry_roundtrip:
  assumes "length (l2_mac a) = 6"
  shows "l2_unpack_entry (l2_pack_entry a) =
           \<lparr>l2_mac = l2_mac a, l2_vid = l2_vid a AND 0xfff, l2_port = l2_port a mod 128,
            l2_static = (if l2_static a \<noteq> 0 then 1 else 0)\<rparr> \<and>
         l2_entry_matches (l2_pack_entry a) (l2_mac a) (l2_vid a)"
  using l2_unpack_pack[OF assms]
  by (simp add: l2_normalise_def l2_entry_matches_def l2_pack_fields del: One_nat_def)

theorem l2_entry_roundtrip_witness:
  "l2_unpack_entry (l2_pack_entry \<lparr>l2_mac = [0, 0x1b, 0x21, 3, 4, 5], l2_vid = 100, l2_port = 7, l2_static = 1\<rparr>)
   = \<lparr>l2_mac = [0, 0x1b, 0x21, 3, 4, 5], l2_vid = 100, l2_port = 7, l2_static = 1\<rparr>"
  using l2_entry_roundtrip[of "\<lparr>l2_mac = [0, 0x1b, 0x21, 3, 4, 5], l2_vid = 100, l2_port = 7, l2_static = 1\<rparr>"]
  by simp

section \<open>Where entries go\<close>

text \<open>The hash keeps of the key only the VLAN and the lowest bit of the last MAC byte.\<close>

lemma l2_hash_index_eq:
  "l2_hash_index mac vid = 65536 * (uint (mac ! 5) mod 2) + 16 * (uint vid mod 4096)"
proof -
  let ?k = "l2_hash_key mac vid"
  have m: "(0xfff::u16) = mask 12" by (simp add: mask_numeral)
  have v: "(ucast (vid AND 0xfff) :: u64) = take_bit 12 (ucast vid)"
    unfolding m by (rule bit_eqI) (auto simp: word_bits bit_take_bit_iff)
  have k: "take_bit 17 ?k = push_bit 16 (take_bit 1 (ucast (mac ! 5))) OR push_bit 4 (take_bit 12 (ucast vid))"
    unfolding l2_hash_key_def Let_def v
    by (simp add: take_bit_push_bit) 
  have u: "take_bit 17 (uint ?k) = push_bit 16 (take_bit 1 (uint (mac ! 5))) OR push_bit 4 (take_bit 12 (uint vid))"
    using arg_cong[OF k, of uint]
    by (simp only: unsigned_or_eq unsigned_push_bit_eq unsigned_take_bit_eq take_bit_push_bit
          unsigned_ucast_eq take_bit_take_bit) (simp only: len_bit0 len_num1, simp add: take_bit_take_bit)
  have "take_bit 17 (uint ?k) = push_bit 16 (take_bit 1 (uint (mac ! 5))) + push_bit 4 (take_bit 12 (uint vid))"
    unfolding u by (rule disjunctive_add[symmetric]) (auto simp: bit_simps)
  then have "uint ?k mod 131072 = 65536 * (uint (mac ! 5) mod 2) + 16 * (uint vid mod 4096)"
    by (simp add: take_bit_eq_mod push_bit_eq_mult)
  then show ?thesis by (simp add: l2_hash_index_def Let_def)
qed

lemma l2_hash_index_bounds: "0 \<le> l2_hash_index m v" "l2_hash_index m v < 131072"
  by (simp_all add: l2_hash_index_def Let_def)

lemma l2_hash_index_aligned: "l2_hash_index m v mod 16 = 0" "l2_hash_index m v \<le> 131056"
  using pos_mod_bound[of 2 "uint (m ! 5)"] pos_mod_bound[of 4096 "uint v"] by (simp_all add: l2_hash_index_eq)

text \<open>The index of probe \<open>p\<close>: the search window of one key never reaches the home slot of
  another.\<close>

lemma l2_probe_index: "0 \<le> p \<Longrightarrow> p < 16 \<Longrightarrow> (l2_hash_index m v + p) mod 131072 = l2_hash_index m v + p"
  using l2_hash_index_aligned[of m v] l2_hash_index_bounds[of m v] by simp

section \<open>The table as a map\<close>

text \<open>The abstract table: at most one address per slot. \<open>l2_inv\<close>: the chip answers, and
  the slots no key hashes to hold no valid entry.\<close>

definition l2_cell :: "'z bde_state_scheme \<Rightarrow> int \<Rightarrow> u32 list" where
  "l2_cell = table_cell L2_ENTRY_BASE 4"

definition l2_abs :: "'z bde_state_scheme \<Rightarrow> int \<Rightarrow> l2_addr option" where
  "l2_abs s i = (if 0 \<le> i \<and> i < L2_ENTRY_ENTRIES \<and> l2_cell s i ! 0 AND 1 \<noteq> 0
                 then Some (l2_unpack_entry (l2_cell s i)) else None)"

definition l2_inv :: "env \<Rightarrow> 'z bde_state_scheme \<Rightarrow> bool" where
  "l2_inv E s \<longleftrightarrow> table_ok E s \<and> (\<forall>i. i mod 16 \<noteq> 0 \<longrightarrow> l2_abs s i = None)"

definition l2_key :: "l2_addr \<Rightarrow> u8 list \<times> u16" where
  "l2_key a = (l2_mac a, l2_vid a)"

lemma l2_matches_key:
  assumes "length m = 6"
  shows "l2_entry_matches w m v \<longleftrightarrow> w ! 0 AND 1 \<noteq> 0 \<and> l2_key (l2_unpack_entry w) = (m, v AND 0xfff)"
proof -
  obtain m0 m1 m2 m3 m4 m5 where m: "m = [m0, m1, m2, m3, m4, m5]" using assms by (rule list6E)
  have "drop_bit 4 (w ! 0) AND 0xfff = ucast (v AND 0xfff)
     \<longleftrightarrow> (ucast (drop_bit 4 (w ! 0) AND 0xfff) :: u16) = v AND 0xfff" (is "?x = ucast ?y \<longleftrightarrow> _")
  proof
    assume "?x = ucast ?y"
    then show "(ucast ?x :: u16) = ?y" by (simp add: ucast_narrow_widen)
  next
    assume e: "(ucast ?x :: u16) = ?y"
    have "ucast (ucast ?x :: u16) = ?x"
      unfolding l2_masks by (rule bit_eqI) (auto simp: word_bits bit_and_mask_iff)
    then show "?x = ucast ?y" by (simp only: e)
  qed
  then show ?thesis
    unfolding l2_entry_matches_def l2_key_def l2_unpack_entry_def m by auto
qed

lemma l2_abs_write:
  assumes "table_ok E s" and "0 \<le> i" "i < 131072" and "length w = 4"
  shows "result (l2_table_write E i w) s = 0" and "table_ok E (exec (l2_table_write E i w) s)"
    and "l2_abs (exec (l2_table_write E i w) s) =
           (l2_abs s)(i := if w ! 0 AND 1 \<noteq> 0 then Some (l2_unpack_entry w) else None)"
  using l2t.wr_result[OF assms] l2t.wr_ok[OF assms] l2t.wr_cell[OF assms] assms(2,3)
  by (auto simp: l2_abs_def l2_cell_def fun_eq_iff split: if_splits)

lemma upto_0_5: "[0..5] = (0::int) # [1..5]"
  by (simp add: upto_rec1)

lemma l2_add_run:
  assumes "table_ok E s"
  shows "run_state (bcm56846_l2_addr_add E (Some a)) s
    = (0, exec (l2_table_write E (l2_hash_index (l2_mac a) (l2_vid a)) (l2_pack_entry a)) s)"
proof -
  let ?i = "l2_hash_index (l2_mac a) (l2_vid a)"
  have "result (l2_table_write E ?i (l2_pack_entry a)) s = 0"
    using l2_abs_write(1)[OF assms l2_hash_index_bounds] by simp
  then show ?thesis
    using l2_probe_index[of 0 "l2_mac a" "l2_vid a"]
    by (simp add: bcm56846_l2_addr_add_def Let_def upto_0_5 for_ret_first split_beta del: for_ret.simps)
qed

lemma l2_delete_run:
  assumes "table_ok E s"
  shows "run_state (bcm56846_l2_addr_delete E (Some m) v) s
    = (0, exec (l2_table_write E (l2_hash_index m v) [0, 0, 0, 0]) s)"
proof -
  have "result (l2_table_write E (l2_hash_index m v) [0, 0, 0, 0]) s = 0"
    using l2_abs_write(1)[OF assms l2_hash_index_bounds] by simp
  then show ?thesis
    using l2_probe_index[of 0 m v]
    by (simp add: bcm56846_l2_addr_delete_def l2_table_delete_at_def Let_def upto_0_5 for_ret_first split_beta
        del: for_ret.simps)
qed

lemma l2_get_run:
  assumes inv: "l2_inv E s" and m: "length m = 6"
  shows "result (bcm56846_l2_addr_get E (Some m) v (Some out)) s =
      (case l2_abs s (l2_hash_index m v) of
         Some b \<Rightarrow> if l2_key b = (m, v AND 0xfff) then (0, Some b) else (- ENOENT, Some out)
       | None \<Rightarrow> (- ENOENT, Some out))"
    and "l2_abs (exec (bcm56846_l2_addr_get E (Some m) v (Some out)) s) = l2_abs s"
    and "table_ok E (exec (bcm56846_l2_addr_get E (Some m) v (Some out)) s)"
proof -
  let ?i = "l2_hash_index m v"
  let ?f = "\<lambda>w. if l2_entry_matches w m v then Some (l2_unpack_entry w) else None"
  let ?body = "\<lambda>probe. do { (rc, words) \<leftarrow> l2_table_read E ((?i + probe) mod L2_ENTRY_ENTRIES) [0, 0, 0, 0];
      return (if rc \<noteq> 0 then None else ?f words) }"
  have ok: "table_ok E s" using inv by (simp add: l2_inv_def)
  have rng: "0 \<le> (?i + p) mod 131072 \<and> (?i + p) mod 131072 < 131072" for p :: int by simp
  have scan: "result (for_ret [0..5] ?body) s = first_some (map (\<lambda>p. ?f (l2_cell s ((?i + p) mod 131072))) [0..5])"
    "table_ok E (exec (for_ret [0..5] ?body) s)"
    "l2_cell (exec (for_ret [0..5] ?body) s) j = l2_cell s j" for j
    unfolding l2_cell_def
    by (rule l2t.scan_reads[where g = "\<lambda>p. (?i + p) mod 131072" and f = "\<lambda>_. ?f", OF ok rng refl])+
  let ?c = "\<lambda>p. l2_cell s ((?i + p) mod 131072)"
  have f: "?f (l2_cell s j) = (case l2_abs s j of Some b \<Rightarrow> if l2_key b = (m, v AND 0xfff) then Some b else None
      | None \<Rightarrow> None)" if "0 \<le> j" "j < 131072" for j
    using that by (simp add: l2_abs_def l2_matches_key[OF m])
  have "?f (?c p) = None" if "p \<in> {1..5}" for p
  proof -
    have e: "(?i + p) mod 131072 = ?i + p" using that by (intro l2_probe_index) auto
    have "1 \<le> p" "p \<le> 5" using that by auto
    then have "(?i + p) mod 16 \<noteq> 0" using l2_hash_index_aligned(1)[of m v] by presburger
    then show ?thesis using inv f[of "(?i + p) mod 131072"] unfolding e l2_inv_def
      by (metis (no_types, lifting) e option.simps(4) rng)
  qed
  then have rest: "first_some (map (\<lambda>p. ?f (?c p)) [1..5]) = None"
    by (simp add: first_some_None)
  have "first_some (map (\<lambda>p. ?f (?c p)) [0..5]) = ?f (l2_cell s ?i)"
    using rest l2_probe_index[of 0 m v] by (simp add: upto_0_5 split: option.split)
  then show "result (bcm56846_l2_addr_get E (Some m) v (Some out)) s =
      (case l2_abs s (l2_hash_index m v) of
         Some b \<Rightarrow> if l2_key b = (m, v AND 0xfff) then (0, Some b) else (- ENOENT, Some out)
       | None \<Rightarrow> (- ENOENT, Some out))"
    using scan(1) f[of ?i] l2_hash_index_bounds[of m v]
    by (simp add: bcm56846_l2_addr_get_def Let_def result_bind split: option.split del: run_state_bind)
  show "l2_abs (exec (bcm56846_l2_addr_get E (Some m) v (Some out)) s) = l2_abs s"
    and "table_ok E (exec (bcm56846_l2_addr_get E (Some m) v (Some out)) s)"
    using scan(2,3)
    by (simp_all add: bcm56846_l2_addr_get_def Let_def exec_bind l2_abs_def fun_eq_iff split: option.split
        del: run_state_bind)
qed

text \<open>C5. The L2 table is a map with one address per hash slot. Over a chip that answers, adding
  an address succeeds and stores it (normalised) in its slot, deleting a key succeeds and empties
  its slot, and looking a key up answers the stored address exactly when the slot holds that very
  key. So a lookup after an add finds the address, a lookup after a delete does not, keys with
  different slots do not disturb each other, and a key with the same slot evicts.\<close>

theorem l2_refines_slot_map:
  assumes "l2_inv E s" and "length (l2_mac a) = 6" and "length m = 6"
  shows "(let s' = exec (bcm56846_l2_addr_add E (Some a)) s in
            result (bcm56846_l2_addr_add E (Some a)) s = 0 \<and> l2_inv E s' \<and>
            l2_abs s' = (l2_abs s)(l2_hash_index (l2_mac a) (l2_vid a) \<mapsto> l2_normalise a)) \<and>
         (let s' = exec (bcm56846_l2_addr_delete E (Some m) v) s in
            result (bcm56846_l2_addr_delete E (Some m) v) s = 0 \<and> l2_inv E s' \<and>
            l2_abs s' = (l2_abs s)(l2_hash_index m v := None)) \<and>
         (let s' = exec (bcm56846_l2_addr_get E (Some m) v (Some out)) s in
            result (bcm56846_l2_addr_get E (Some m) v (Some out)) s =
              (case l2_abs s (l2_hash_index m v) of
                 Some b \<Rightarrow> if l2_key b = (m, v AND 0xfff) then (0, Some b) else (- ENOENT, Some out)
               | None \<Rightarrow> (- ENOENT, Some out)) \<and>
            l2_inv E s' \<and> l2_abs s' = l2_abs s)"
proof -
  have ok: "table_ok E s" using assms(1) by (simp add: l2_inv_def)
  have v: "l2_pack_entry a ! 0 AND 1 \<noteq> 0" by (simp add: l2_pack_fields)
  note add = l2_abs_write[OF ok l2_hash_index_bounds, of "l2_pack_entry a" "l2_mac a" "l2_vid a"]
  note del = l2_abs_write[OF ok l2_hash_index_bounds, of "[0, 0, 0, 0]" m v]
  note get = l2_get_run[OF assms(1,3), of v out]
  show ?thesis
    using assms(1) add del get(1,2,3) v l2_hash_index_aligned(1)[of m v]
      l2_hash_index_aligned(1)[of "l2_mac a" "l2_vid a"]
    by (auto simp: l2_add_run[OF ok] l2_delete_run[OF ok] l2_unpack_pack[OF assms(2)] l2_inv_def Let_def)
qed

lemma bde0_l2_inv: "l2_inv chip_env bde0"
  using bde0_ok by (simp add: l2_inv_def l2_abs_def l2_cell_def table_cell_def bde0_def)

theorem l2_refines_slot_map_witness:
  "l2_abs (exec (bcm56846_l2_addr_add chip_env
      (Some \<lparr>l2_mac = [0, 0x1b, 0x21, 3, 4, 5], l2_vid = 100, l2_port = 7, l2_static = 1\<rparr>)) bde0) 67136
   = Some \<lparr>l2_mac = [0, 0x1b, 0x21, 3, 4, 5], l2_vid = 100, l2_port = 7, l2_static = 1\<rparr>"
  using l2_refines_slot_map[OF bde0_l2_inv,
      of "\<lparr>l2_mac = [0, 0x1b, 0x21, 3, 4, 5], l2_vid = 100, l2_port = 7, l2_static = 1\<rparr>" "[0, 0, 0, 0, 0, 0]" 0 undefined]
  by (simp add: l2_normalise_def l2_hash_index_eq Let_def)

text \<open>The user table hands out the lowest free index: over a chip that answers, adding an
  entry succeeds with the lowest index whose entry is not valid, writes that entry and no other;
  when all 512 entries are valid it fails with -ENOSPC and writes nothing.\<close>

theorem l2_user_add_lowest_free:
  assumes "table_ok E s"
  shows "let r = result (bcm56846_l2_user_entry_add E (Some a) (Some i0)) s;
             s' = exec (bcm56846_l2_user_entry_add E (Some a) (Some i0)) s;
             c = table_cell L2_USER_ENTRY_BASE 5
         in case find (\<lambda>i. c s i ! 0 AND 1 = 0) [0..511] of
              None \<Rightarrow> r = (- ENOSPC, Some i0) \<and> (\<forall>j \<in> {0..511}. c s' j = c s j)
            | Some i \<Rightarrow> r = (0, Some i) \<and> (\<forall>j \<in> {0..511}. c s' j = (if j = i then l2_user_pack a else c s j))"
proof -
  let ?free = "\<lambda>w. w ! 0 AND 1 = (0::u32)"
  let ?h = "\<lambda>(rc::int) i. if rc \<noteq> 0 then (- EIO, Some i0) else (0, Some i)"
  let ?body = "\<lambda>i. do { (rc, w) \<leftarrow> l2_user_table_read E i [0, 0, 0, 0, 0];
      if rc \<noteq> 0 then return None
      else if ?free w then do { rc \<leftarrow> l2_user_table_write E i (l2_user_pack a);
        return (Some (?h rc i)) } else return None }"
  have len: "length (l2_user_pack a) = 5" by (simp add: l2_user_pack_def Let_def)
  have r: "result (for_ret [0..511] ?body) s
      = map_option (?h 0) (find (\<lambda>i. ?free (table_cell L2_USER_ENTRY_BASE 5 s i)) [0..511])"
    by (rule l2u.scan_claim(1)[OF assms _ len, where free = ?free and h = ?h]) auto
  have c: "table_cell L2_USER_ENTRY_BASE 5 (exec (for_ret [0..511] ?body) s) j
      = (if find (\<lambda>i. ?free (table_cell L2_USER_ENTRY_BASE 5 s i)) [0..511] = Some j then l2_user_pack a
         else table_cell L2_USER_ENTRY_BASE 5 s j)" if "j \<in> {0..511}" for j
    by (rule l2u.scan_claim(3)[OF assms _ len, where free = ?free and h = ?h]) (use that in auto)
  show ?thesis
    unfolding bcm56846_l2_user_entry_add_def Let_def option.case using r c
    by (simp add: result_bind exec_bind split: option.split del: run_state_bind)
qed

theorem l2_user_add_lowest_free_witness:
  "result (bcm56846_l2_user_entry_add chip_env
      (Some \<lparr>u_mac = [1, 0x80, 0xc2, 0, 0, 0], u_vid = 0, u_port = 0, u_key_type = 0, u_copy_to_cpu = 1,
             u_bpdu = 1, u_mask = 0xffffffffffff\<rparr>) (Some 0)) bde0 = (0, Some 0)"
  using l2_user_add_lowest_free[OF bde0_ok,
      of "\<lparr>u_mac = [1, 0x80, 0xc2, 0, 0, 0], u_vid = 0, u_port = 0, u_key_type = 0, u_copy_to_cpu = 1,
             u_bpdu = 1, u_mask = 0xffffffffffff\<rparr>" 0]
  by (simp add: Let_def upto_rec1[of 0] table_cell_def bde0_def)

end
