(* ===== verification/L3.thy ===== *)
theory L3
  imports Device_Model Bitfield Id_Pool
begin

text \<open>
  \<^verbatim>\<open>sdk/src/l3.c\<close>: L3 interfaces, next hops (egress objects), routes and hosts. The
  static arrays of the file are the fields of \<open>l3_state\<close>, as functions of the index.
\<close>

section \<open>State\<close>

record l3_state = bde_state +
  intf_used :: "int \<Rightarrow> int"
  nhop_used :: "int \<Rightarrow> int"
  defip_used :: "int \<Rightarrow> int"
  defip_prefix :: "int \<Rightarrow> u32"
  defip_plen :: "int \<Rightarrow> int"

record l3_egress =
  eg_mac :: "u8 list"
  eg_vid :: u16
  eg_port :: int
  eg_intf_id :: int

record l3_route =
  rt_prefix :: u32
  rt_prefix6 :: "u32 list"
  rt_prefix_len :: int
  rt_egress_id :: int
  rt_is_ipv6 :: int

record l3_host =
  ho_addr :: "u32 list"
  ho_is_ipv6 :: int
  ho_egress_id :: int

abbreviation (input) "EGR_L3_INTF_BASE \<equiv> (0x01264000::u32)"
abbreviation (input) "EGR_L3_INTF_WORDS \<equiv> (4::int)"
abbreviation (input) "ING_L3_NEXT_HOP_BASE \<equiv> (0x0e17c000::u32)"
abbreviation (input) "ING_L3_NEXT_HOP_WORDS \<equiv> (2::int)"
abbreviation (input) "EGR_L3_NEXT_HOP_BASE \<equiv> (0x0c260000::u32)"
abbreviation (input) "EGR_L3_NEXT_HOP_WORDS \<equiv> (4::int)"
abbreviation (input) "L3_DEFIP_BASE \<equiv> (0x0a170000::u32)"
abbreviation (input) "L3_DEFIP_WORDS \<equiv> (8::int)"
abbreviation (input) "MAX_L3_INTF \<equiv> (4096::int)"
abbreviation (input) "MAX_L3_NHOP \<equiv> (16384::int)"
abbreviation (input) "MAX_L3_DEFIP \<equiv> (8192::int)"

section \<open>Helpers\<close>

text \<open>\<open>for (i = start; i < max; i++)\<close> up to the first unused index.\<close>

definition alloc_id :: "(int \<Rightarrow> int) \<Rightarrow> int \<Rightarrow> int \<Rightarrow> (int \<Rightarrow> int) \<times> int" where
  "alloc_id used limit start =
     (case find (\<lambda>i. used i = 0) [start..limit - 1] of
        Some i \<Rightarrow> (used(i := 1), i)
      | None \<Rightarrow> (used, - 1))"

definition free_id :: "(int \<Rightarrow> int) \<Rightarrow> int \<Rightarrow> int \<Rightarrow> (int \<Rightarrow> int)" where
  "free_id used limit idx = (if idx > 0 \<and> idx < limit then used(idx := 0) else used)"

definition set_bit_l3 :: "u32 list \<Rightarrow> int \<Rightarrow> int \<Rightarrow> int \<Rightarrow> u32 list" where
  "set_bit_l3 words num_words k value =
     (let wi = k div 32; bi = nat (k mod 32) in
      if wi < 0 \<or> wi \<ge> num_words then words
      else if value \<noteq> 0 then words[nat wi := words ! nat wi OR push_bit bi 1]
      else words[nat wi := words ! nat wi AND NOT (push_bit bi 1)])"

definition set_bits_u64_l3 :: "u32 list \<Rightarrow> int \<Rightarrow> int \<Rightarrow> int \<Rightarrow> u64 \<Rightarrow> u32 list" where
  "set_bits_u64_l3 words num_words start_bit width value =
     fold (\<lambda>i words. set_bit_l3 words num_words (start_bit + i)
            (uint (drop_bit (nat i) value AND 1))) [0..width - 1] words"

definition mac48_to_u64 :: "u8 list \<Rightarrow> u64" where
  "mac48_to_u64 mac =
     push_bit 40 (ucast (mac ! 0)) OR push_bit 32 (ucast (mac ! 1)) OR
     push_bit 24 (ucast (mac ! 2)) OR push_bit 16 (ucast (mac ! 3)) OR
     push_bit 8 (ucast (mac ! 4)) OR ucast (mac ! 5)"

text \<open>\<open>ntohl\<close> and \<open>htonl\<close> on the big-endian P2020: the identity.\<close>

definition ntohl :: "u32 \<Rightarrow> u32" where "ntohl x = x"
definition htonl :: "u32 \<Rightarrow> u32" where "htonl x = x"

definition egr_l3_intf_write :: "env \<Rightarrow> int \<Rightarrow> u32 list \<Rightarrow> ('z bde_state_scheme, int) state" where
  "egr_l3_intf_write E intf_id words = sbus_mem_write E EGR_L3_INTF_BASE intf_id words EGR_L3_INTF_WORDS"

definition ing_l3_nhop_write :: "env \<Rightarrow> int \<Rightarrow> u32 list \<Rightarrow> ('z bde_state_scheme, int) state" where
  "ing_l3_nhop_write E nhop_id words = sbus_mem_write E ING_L3_NEXT_HOP_BASE nhop_id words ING_L3_NEXT_HOP_WORDS"

definition egr_l3_nhop_write :: "env \<Rightarrow> int \<Rightarrow> u32 list \<Rightarrow> ('z bde_state_scheme, int) state" where
  "egr_l3_nhop_write E nhop_id words = sbus_mem_write E EGR_L3_NEXT_HOP_BASE nhop_id words EGR_L3_NEXT_HOP_WORDS"

definition l3_defip_write :: "env \<Rightarrow> int \<Rightarrow> u32 list \<Rightarrow> ('z bde_state_scheme, int) state" where
  "l3_defip_write E index words = sbus_mem_write E L3_DEFIP_BASE index words L3_DEFIP_WORDS"

section \<open>Interfaces\<close>

text \<open>A NULL argument is \<open>None\<close>; an out-parameter is given and returned as an option.\<close>

definition bcm56846_l3_intf_create ::
  "env \<Rightarrow> u8 list option \<Rightarrow> u16 \<Rightarrow> int option \<Rightarrow> ('z l3_state_scheme, int \<times> int option) state" where
  "bcm56846_l3_intf_create E mac vid intf_id =
     (case (mac, intf_id) of
        (Some m, Some _) \<Rightarrow> do {
          (used, id) \<leftarrow> gets (\<lambda>s. alloc_id (intf_used s) MAX_L3_INTF 1);
          modify (\<lambda>s. s\<lparr>intf_used := used\<rparr>);
          if id < 0 then return (- ENOSPC, intf_id)
          else do {
            let w = replicate 4 0;
            let w = set_bits_u64_l3 w EGR_L3_INTF_WORDS 13 12 (ucast (vid AND 0xfff));
            let w = set_bits_u64_l3 w EGR_L3_INTF_WORDS 33 48 (mac48_to_u64 m);
            rc \<leftarrow> egr_l3_intf_write E id w;
            if rc \<noteq> 0 then do {
              modify (\<lambda>s. s\<lparr>intf_used := free_id (intf_used s) MAX_L3_INTF id\<rparr>);
              return (- EIO, intf_id)
            } else return (0, Some id)
          }
        }
      | _ \<Rightarrow> return (- EINVAL, intf_id))"

definition bcm56846_l3_intf_destroy :: "env \<Rightarrow> int \<Rightarrow> ('z l3_state_scheme, int) state" where
  "bcm56846_l3_intf_destroy E intf_id =
     (if intf_id \<le> 0 \<or> intf_id \<ge> MAX_L3_INTF then return (- EINVAL)
      else do {
        egr_l3_intf_write E intf_id [0, 0, 0, 0];
        modify (\<lambda>s. s\<lparr>intf_used := free_id (intf_used s) MAX_L3_INTF intf_id\<rparr>);
        return 0
      })"

section \<open>Next hops\<close>

definition bcm56846_l3_egress_create ::
  "env \<Rightarrow> l3_egress option \<Rightarrow> int option \<Rightarrow> ('z l3_state_scheme, int \<times> int option) state" where
  "bcm56846_l3_egress_create E egress egress_id =
     (case (egress, egress_id) of
        (Some eg, Some _) \<Rightarrow>
          if eg_port eg \<le> 0 \<or> eg_port eg > 255 then return (- EINVAL, egress_id)
          else if eg_intf_id eg \<le> 0 \<or> eg_intf_id eg \<ge> MAX_L3_INTF then return (- EINVAL, egress_id)
          else do {
            (used, id) \<leftarrow> gets (\<lambda>s. alloc_id (nhop_used s) MAX_L3_NHOP 1);
            modify (\<lambda>s. s\<lparr>nhop_used := used\<rparr>);
            if id < 0 then return (- ENOSPC, egress_id)
            else do {
              let ingw = replicate 2 0;
              let ingw = set_bits_u64_l3 ingw ING_L3_NEXT_HOP_WORDS 0 2 0;
              let ingw = set_bits_u64_l3 ingw ING_L3_NEXT_HOP_WORDS 16 7 (word_of_int (eg_port eg) AND 0x7f);
              let egrw = replicate 4 0;
              let egrw = set_bits_u64_l3 egrw EGR_L3_NEXT_HOP_WORDS 0 2 0;
              let egrw = set_bits_u64_l3 egrw EGR_L3_NEXT_HOP_WORDS 3 12 (word_of_int (eg_intf_id eg) AND 0xfff);
              let egrw = set_bits_u64_l3 egrw EGR_L3_NEXT_HOP_WORDS 15 48 (mac48_to_u64 (eg_mac eg));
              rc \<leftarrow> ing_l3_nhop_write E id ingw;
              rc \<leftarrow> (if rc \<noteq> 0 then return rc else egr_l3_nhop_write E id egrw);
              if rc \<noteq> 0 then do {
                modify (\<lambda>s. s\<lparr>nhop_used := free_id (nhop_used s) MAX_L3_NHOP id\<rparr>);
                return (- EIO, egress_id)
              } else return (0, Some id)
            }
          }
      | _ \<Rightarrow> return (- EINVAL, egress_id))"

definition bcm56846_l3_egress_destroy :: "env \<Rightarrow> int \<Rightarrow> ('z l3_state_scheme, int) state" where
  "bcm56846_l3_egress_destroy E egress_id =
     (if egress_id \<le> 0 \<or> egress_id \<ge> MAX_L3_NHOP then return (- EINVAL)
      else do {
        ing_l3_nhop_write E egress_id [0, 0];
        egr_l3_nhop_write E egress_id [0, 0, 0, 0];
        modify (\<lambda>s. s\<lparr>nhop_used := free_id (nhop_used s) MAX_L3_NHOP egress_id\<rparr>);
        return 0
      })"

section \<open>Routes\<close>

definition defip_find :: "'z l3_state_scheme \<Rightarrow> u32 \<Rightarrow> int \<Rightarrow> int" where
  "defip_find s prefix plen =
     (case find (\<lambda>i. defip_used s i \<noteq> 0 \<and> defip_prefix s i = prefix \<and> defip_plen s i = plen)
             [0..MAX_L3_DEFIP - 1] of
        Some i \<Rightarrow> i | None \<Rightarrow> - 1)"

definition defip_pack_v4_ucast :: "u32 \<Rightarrow> int \<Rightarrow> int \<Rightarrow> u32 list" where
  "defip_pack_v4_ucast prefix_host plen nhop_index =
     (let ip_mask = (if plen \<le> 0 then 0 else push_bit (nat (32 - plen)) 0xffffffff) :: u32;
          key = push_bit 33 0 OR push_bit 1 (ucast prefix_host) OR 0 :: u64;
          msk = push_bit 33 0x3ff OR push_bit 1 (ucast ip_mask) OR 1 :: u64;
          w = replicate 8 0;
          w = set_bit_l3 w L3_DEFIP_WORDS 0 1;
          w = set_bits_u64_l3 w L3_DEFIP_WORDS 2 44 key;
          w = set_bits_u64_l3 w L3_DEFIP_WORDS 90 44 msk
      in set_bits_u64_l3 w L3_DEFIP_WORDS 207 14 (word_of_int nhop_index AND 0x3fff))"

definition bcm56846_l3_route_add :: "env \<Rightarrow> l3_route option \<Rightarrow> ('z l3_state_scheme, int) state" where
  "bcm56846_l3_route_add E route = (case route of None \<Rightarrow> return (- EINVAL)
     | Some rt \<Rightarrow>
         if rt_is_ipv6 rt \<noteq> 0 then return (- ENOTSUP)
         else if rt_prefix_len rt < 0 \<or> rt_prefix_len rt > 32 then return (- EINVAL)
         else if rt_egress_id rt \<le> 0 \<or> rt_egress_id rt \<ge> MAX_L3_NHOP then return (- EINVAL)
         else do {
           let prefix_host = ntohl (rt_prefix rt);
           idx \<leftarrow> gets (\<lambda>s. defip_find s prefix_host (rt_prefix_len rt));
           idx \<leftarrow> (if idx < 0 then do {
               (used, idx) \<leftarrow> gets (\<lambda>s. alloc_id (defip_used s) MAX_L3_DEFIP 0);
               modify (\<lambda>s. s\<lparr>defip_used := used\<rparr>);
               (if idx < 0 then return ()
                else modify (\<lambda>s. s\<lparr>defip_prefix := (defip_prefix s)(idx := prefix_host),
                               defip_plen := (defip_plen s)(idx := rt_prefix_len rt)\<rparr>));
               return idx
             } else return idx);
           if idx < 0 then return (- ENOSPC)
           else do {
             rc \<leftarrow> l3_defip_write E idx (defip_pack_v4_ucast prefix_host (rt_prefix_len rt) (rt_egress_id rt));
             return (if rc \<noteq> 0 then - EIO else 0)
           }
         })"

definition bcm56846_l3_route_delete :: "env \<Rightarrow> l3_route option \<Rightarrow> ('z l3_state_scheme, int) state" where
  "bcm56846_l3_route_delete E route = (case route of None \<Rightarrow> return (- EINVAL)
     | Some rt \<Rightarrow>
         if rt_is_ipv6 rt \<noteq> 0 then return (- ENOTSUP)
         else if rt_prefix_len rt < 0 \<or> rt_prefix_len rt > 32 then return (- EINVAL)
         else do {
           let prefix_host = ntohl (rt_prefix rt);
           idx \<leftarrow> gets (\<lambda>s. defip_find s prefix_host (rt_prefix_len rt));
           if idx < 0 then return 0
           else do {
             l3_defip_write E idx [0, 0, 0, 0, 0, 0, 0, 0];
             modify (\<lambda>s. s\<lparr>defip_used := (defip_used s)(idx := 0), defip_prefix := (defip_prefix s)(idx := 0),
                            defip_plen := (defip_plen s)(idx := 0)\<rparr>);
             return 0
           }
         })"

definition bcm56846_l3_host_add :: "env \<Rightarrow> l3_host option \<Rightarrow> ('z l3_state_scheme, int) state" where
  "bcm56846_l3_host_add E host = (case host of None \<Rightarrow> return (- EINVAL)
     | Some h \<Rightarrow>
         if ho_is_ipv6 h \<noteq> 0 then return (- ENOTSUP)
         else bcm56846_l3_route_add E (Some \<lparr>rt_prefix = htonl (ho_addr h ! 0), rt_prefix6 = [0, 0, 0, 0],
                rt_prefix_len = 32, rt_egress_id = ho_egress_id h, rt_is_ipv6 = 0\<rparr>))"

section \<open>The shared interfaces\<close>

interpretation l3f: field_writer set_bit_l3 set_bits_u64_l3
  by (rule field_writer_by_words) (simp_all add: set_bit_l3_def set_bits_u64_l3_def)

lemma alloc_id_pool:
  assumes "0 \<le> lo" "lo \<le> hi"
    and "\<And>u i. lo \<le> i \<Longrightarrow> i < hi \<Longrightarrow> rel u i = u(i := 0)"
  shows "id_pool (\<lambda>u. alloc_id u hi lo) rel (ids_taken lo hi) (\<lambda>_. True) lo hi"
proof
  fix p p' :: "int \<Rightarrow> int" and i :: int
  assume a: "alloc_id p hi lo = (p', i)"
  show "lo \<le> i \<and> i < hi \<and> i \<notin> ids_taken lo hi p \<and> ids_taken lo hi p' = insert i (ids_taken lo hi p) \<and> True"
    if "0 \<le> i"
    using a that by (auto simp: alloc_id_def ids_taken_def split: option.splits if_splits dest!: find_upto_Some)
  show "p' = p \<and> {lo..<hi} \<subseteq> ids_taken lo hi p" if "i < 0"
    using a that assms(1)
    by (auto simp: alloc_id_def ids_taken_def find_upto_None split: option.splits dest!: find_upto_Some)
next
  show "ids_taken lo hi (rel p i) = ids_taken lo hi p - {i} \<and> True" if "lo \<le> i" "i < hi" for p i
    using assms(3)[OF that] by (auto simp: ids_taken_def)
qed (use assms in auto)

interpretation intf_pool: id_pool "\<lambda>u. alloc_id u MAX_L3_INTF 1" "\<lambda>u i. free_id u MAX_L3_INTF i"
    "ids_taken 1 MAX_L3_INTF" "\<lambda>_. True" 1 MAX_L3_INTF
  by (rule alloc_id_pool) (auto simp: free_id_def)

interpretation nhop_pool: id_pool "\<lambda>u. alloc_id u MAX_L3_NHOP 1" "\<lambda>u i. free_id u MAX_L3_NHOP i"
    "ids_taken 1 MAX_L3_NHOP" "\<lambda>_. True" 1 MAX_L3_NHOP
  by (rule alloc_id_pool) (auto simp: free_id_def)

interpretation defip_pool: id_pool "\<lambda>u. alloc_id u MAX_L3_DEFIP 0" "\<lambda>u i. u(i := 0)"
    "ids_taken 0 MAX_L3_DEFIP" "\<lambda>_. True" 0 MAX_L3_DEFIP
  by (rule alloc_id_pool) auto

section \<open>What the entries say\<close>

definition defip_key :: "u32 \<Rightarrow> u64" where
  "defip_key p = push_bit 1 (ucast p)"

definition ip_mask :: "int \<Rightarrow> u32" where
  "ip_mask plen = (if plen \<le> 0 then 0 else push_bit (nat (32 - plen)) 0xffffffff)"

definition defip_mask :: "int \<Rightarrow> u64" where
  "defip_mask plen = push_bit 33 0x3ff OR push_bit 1 (ucast (ip_mask plen)) OR 1"

lemma entry_bit_zeros: "j < 32 * n \<Longrightarrow> \<not> entry_bit (replicate n 0) j"
  by (simp add: entry_bit_def)

lemma length_defip_pack [simp]: "length (defip_pack_v4_ucast p l nh) = 8"
  by (simp add: defip_pack_v4_ucast_def Let_def l3f.setn_length l3f.set1_length del: push_bit_numeral)

lemma defip_pack_bit:
  assumes "j < 256"
  shows "entry_bit (defip_pack_v4_ucast p l nh) j =
    (if 207 \<le> j \<and> j < 221 then bit (word_of_int nh AND 0x3fff :: u64) (j - 207)
     else if 90 \<le> j \<and> j < 134 then bit (defip_mask l) (j - 90)
     else if 2 \<le> j \<and> j < 46 then bit (defip_key p) (j - 2) else j = 0)"
proof -
  define key where "key = (push_bit 33 0 OR push_bit 1 (ucast p) OR 0 :: u64)"
  define msk where "msk = (push_bit 33 0x3ff OR push_bit 1 (ucast (if l \<le> 0 then 0 else push_bit (nat (32 - l)) 0xffffffff :: u32)) OR 1 :: u64)"
  have k: "key = defip_key p" by (simp add: key_def defip_key_def)
  have m: "msk = defip_mask l" by (simp add: msk_def defip_mask_def ip_mask_def)
  have "defip_pack_v4_ucast p l nh = set_bits_u64_l3 (set_bits_u64_l3 (set_bits_u64_l3
      (set_bit_l3 (replicate 8 0) 8 0 1) 8 2 44 key) 8 90 44 msk) 8 207 14 (word_of_int nh AND 0x3fff)"
    unfolding defip_pack_v4_ucast_def Let_def key_def msk_def ..
  then show ?thesis
    using assms by (simp add: l3f.setn_bit l3f.set1_bit l3f.setn_length l3f.set1_length entry_bit_zeros k m nat_diff_distrib)
qed

text \<open>The TCAM comparison of an entry with an IPv4 address in VRF 0: every key bit whose mask bit
  is set must agree with the search key.\<close>

definition defip_matches :: "u32 list \<Rightarrow> u32 \<Rightarrow> bool" where
  "defip_matches w addr \<longleftrightarrow>
     list_all (\<lambda>i. entry_bit w (90 + i) \<longrightarrow> entry_bit w (2 + i) = bit (push_bit 1 (ucast addr) :: u64) i) [0..<44]"

lemma bit_ip_mask: "0 \<le> l \<Longrightarrow> l \<le> 32 \<Longrightarrow> bit (ip_mask l) k \<longleftrightarrow> k < 32 \<and> nat (32 - l) \<le> k"
proof -
  assume l: "0 \<le> l" "l \<le> 32"
  have m: "(0xffffffff :: u32) = mask 32" by (simp add: mask_numeral)
  show ?thesis
    using l unfolding ip_mask_def m by (auto simp: word_bits)
qed

lemma bit_defip_mask:
  assumes "0 \<le> l" and "l \<le> 32"
  shows "bit (defip_mask l) i \<longleftrightarrow> i = 0 \<or> (nat (33 - l) \<le> i \<and> i \<le> 32) \<or> (33 \<le> i \<and> i < 43)"
proof -
  have m: "(0x3ff :: u64) = mask 10" by (simp add: mask_numeral)
  show ?thesis
    using assms unfolding defip_mask_def m by (auto simp: word_bits bit_ip_mask)
qed

lemma defip_entry:
  assumes "0 \<le> l" and "l \<le> 32" and "0 \<le> nh" and "nh < 16384"
  shows "defip_matches (defip_pack_v4_ucast p l nh) addr \<longleftrightarrow> drop_bit (nat (32 - l)) addr = drop_bit (nat (32 - l)) p"
    and "entry_field (defip_pack_v4_ucast p l nh) 207 14 = nat nh"
    and "entry_bit (defip_pack_v4_ucast p l nh) 0" and "\<not> entry_bit (defip_pack_v4_ucast p l nh) 206"
proof -
  let ?w = "defip_pack_v4_ucast p l nh"
  have "defip_matches ?w addr \<longleftrightarrow>
      (\<forall>i<44. bit (defip_mask l) i \<longrightarrow> bit (defip_key p) i = bit (push_bit 1 (ucast addr) :: u64) i)"
    by (simp add: defip_matches_def defip_pack_bit list_all_iff Ball_def)
  also have "\<dots> \<longleftrightarrow> (\<forall>k<32. nat (32 - l) \<le> k \<longrightarrow> bit p k = bit addr k)" (is "?L \<longleftrightarrow> ?R")
  proof
    assume L: ?L
    have "bit p k = bit addr k" if "k < 32" "nat (32 - l) \<le> k" for k
      using L[rule_format, of "Suc k"] that assms(1,2) bit_defip_mask[OF assms(1,2), of "Suc k"]
      by (simp add: defip_key_def word_bits)
    then show ?R by blast
  next
    assume R: ?R
    show ?L
    proof (intro allI impI)
      fix i :: nat assume "i < 44" and "bit (defip_mask l) i"
      then have "i = 0 \<or> (nat (33 - l) \<le> i \<and> i \<le> 32) \<or> 33 \<le> i"
        using bit_defip_mask[OF assms(1,2)] by auto
      then show "bit (defip_key p) i = bit (push_bit 1 (ucast addr) :: u64) i"
        using R[rule_format, of "i - 1"] assms(1,2)
        by (auto simp: defip_key_def word_bits dest: bit_word_len)
    qed
  qed
  also have "\<dots> \<longleftrightarrow> drop_bit (nat (32 - l)) addr = drop_bit (nat (32 - l)) p"
    by (rule same_high_bits)
  finally show "defip_matches ?w addr \<longleftrightarrow> drop_bit (nat (32 - l)) addr = drop_bit (nat (32 - l)) p" .
  have "entry_field ?w 207 14 = unat (take_bit 14 (word_of_int nh AND 0x3fff :: u64))"
    by (rule entry_field_eqI) (simp add: defip_pack_bit)
  then show "entry_field ?w 207 14 = nat nh"
    using unat_low_bits[of 14 nh, where 'a = 64] assms(3,4) by (simp add: mask_numeral)
  show "entry_bit ?w 0" "\<not> entry_bit ?w 206" by (simp_all add: defip_pack_bit)
qed

text \<open>C13. A route entry matches exactly the addresses of its prefix, and forwards to its next
  hop: the entry packed for prefix p of length l and next hop nh is valid, its TCAM key and mask
  accept an address iff the first l bits agree with p (whatever host bits p carries), and its
  next-hop field is nh with the ECMP flag clear.\<close>

theorem defip_entry_meaning:
  assumes "0 \<le> l" and "l \<le> 32" and "0 \<le> nh" and "nh < 16384"
  shows "let w = defip_pack_v4_ucast p l nh in
    (defip_matches w addr \<longleftrightarrow> drop_bit (nat (32 - l)) addr = drop_bit (nat (32 - l)) p) \<and>
    entry_field w 207 14 = nat nh \<and> entry_bit w 0 \<and> \<not> entry_bit w 206"
  using defip_entry[OF assms] by (simp add: Let_def)

theorem defip_entry_meaning_witness:
  "defip_matches (defip_pack_v4_ucast 0x0a010200 24 77) 0x0a0102fe \<and>
   \<not> defip_matches (defip_pack_v4_ucast 0x0a010200 24 77) 0x0a0103fe \<and>
   entry_field (defip_pack_v4_ucast 0x0a010200 24 77) 207 14 = 77"
  using defip_entry_meaning[of 24 77 "0x0a010200" "0x0a0102fe"]
    defip_entry_meaning[of 24 77 "0x0a010200" "0x0a0103fe"]
  by (simp add: Let_def)

section \<open>The route database\<close>

definition routes :: "'z l3_state_scheme \<Rightarrow> int \<Rightarrow> (u32 \<times> int) option" where
  "routes s i = (if 0 \<le> i \<and> i < MAX_L3_DEFIP \<and> defip_used s i \<noteq> 0
                 then Some (defip_prefix s i, defip_plen s i) else None)"

definition routes_distinct :: "'z l3_state_scheme \<Rightarrow> bool" where
  "routes_distinct s \<longleftrightarrow> (\<forall>i j k. routes s i = Some k \<longrightarrow> routes s j = Some k \<longrightarrow> i = j)"

definition route_valid :: "l3_route \<Rightarrow> bool" where
  "route_valid rt \<longleftrightarrow> rt_is_ipv6 rt = 0 \<and> 0 \<le> rt_prefix_len rt \<and> rt_prefix_len rt \<le> 32 \<and>
     0 < rt_egress_id rt \<and> rt_egress_id rt < MAX_L3_NHOP"

definition route_key :: "l3_route \<Rightarrow> u32 \<times> int" where
  "route_key rt = (ntohl (rt_prefix rt), rt_prefix_len rt)"

lemma defip_find_neg: "defip_find s p l < 0 \<longleftrightarrow> (p, l) \<notin> ran (routes s)"
proof (cases "find (\<lambda>i. defip_used s i \<noteq> 0 \<and> defip_prefix s i = p \<and> defip_plen s i = l) [0..MAX_L3_DEFIP - 1]")
  case None
  then have "defip_find s p l = - 1" by (simp add: defip_find_def)
  then show ?thesis using None by (auto simp: ran_def routes_def find_upto_None)
next
  case (Some i)
  then have "routes s i = Some (p, l)" "0 \<le> i"
    using find_upto_Some[OF Some] by (auto simp: routes_def)
  then show ?thesis using Some by (auto simp: defip_find_def ran_def)
qed

lemma defip_find_pos: "0 \<le> defip_find s p l \<Longrightarrow> routes s (defip_find s p l) = Some (p, l)"
  by (auto simp: defip_find_def routes_def split: option.splits dest!: find_upto_Some)

lemma l3_write_frame:
  "\<exists>tr. exec (l3_defip_write E i w) s = s\<lparr>trace := tr\<rparr>"
  "\<exists>tr. exec (egr_l3_intf_write E i w) s = s\<lparr>trace := tr\<rparr>"
  "\<exists>tr. exec (ing_l3_nhop_write E i w) s = s\<lparr>trace := tr\<rparr>"
  "\<exists>tr. exec (egr_l3_nhop_write E i w) s = s\<lparr>trace := tr\<rparr>"
  unfolding l3_defip_write_def egr_l3_intf_write_def ing_l3_nhop_write_def egr_l3_nhop_write_def
  by (rule bus_frame[OF emits_sbus(6)])+

text \<open>The slot an addition uses: that of the key, or else the lowest free one.\<close>

lemma route_add_run:
  assumes "route_valid rt" and "route_key rt = (p, l)"
  shows "let i0 = defip_find s p l;
             (used, i1) = alloc_id (defip_used s) MAX_L3_DEFIP 0;
             idx = (if i0 < 0 then i1 else i0);
             s1 = (if i0 < 0 \<and> 0 \<le> i1 then s\<lparr>defip_used := used, defip_prefix := (defip_prefix s)(i1 := p),
                     defip_plen := (defip_plen s)(i1 := l)\<rparr> else s)
         in if idx < 0 then run_state (bcm56846_l3_route_add E (Some rt)) s = (- ENOSPC, s)
            else run_state (bcm56846_l3_route_add E (Some rt)) s =
              (let (rc, s2) = run_state (l3_defip_write E idx (defip_pack_v4_ucast p l (rt_egress_id rt))) s1
               in (if rc \<noteq> 0 then - EIO else 0, s2))"
proof -
  have v: "rt_is_ipv6 rt = 0" "0 \<le> rt_prefix_len rt" "rt_prefix_len rt \<le> 32" "0 < rt_egress_id rt"
    "rt_egress_id rt < MAX_L3_NHOP" "ntohl (rt_prefix rt) = p" "rt_prefix_len rt = l"
    using assms by (auto simp: route_valid_def route_key_def)
  obtain used i1 where a: "alloc_id (defip_used s) MAX_L3_DEFIP 0 = (used, i1)" by fastforce
  have neg: "i1 < 0 \<Longrightarrow> used = defip_used s"
    using a by (auto simp: alloc_id_def split: option.splits dest!: find_upto_Some)
  show ?thesis
    using a neg v by (simp add: bcm56846_l3_route_add_def Let_def split_beta)
qed

lemma alloc_id_cases:
  assumes "alloc_id used limit start = (used', i)" and "0 \<le> start"
  shows "(i = - 1 \<and> used' = used \<and> (\<forall>j. start \<le> j \<and> j < limit \<longrightarrow> used j \<noteq> 0)) \<or>
         (start \<le> i \<and> i < limit \<and> used i = 0 \<and> used' = used(i := 1))"
  using assms
  by (auto simp: alloc_id_def find_upto_None split: option.splits dest!: find_upto_Some)

lemma routes_trace [simp]: "routes (s\<lparr>trace := tr\<rparr>) = routes s"
  by (simp add: routes_def fun_eq_iff)

lemma distinct_update:
  assumes "routes_distinct s" and "routes s' = (routes s)(i \<mapsto> k)"
    and "routes s i = Some k \<or> k \<notin> ran (routes s)"
  shows "routes_distinct s'"
  using assms unfolding routes_distinct_def by (auto simp: ran_def split: if_splits)

lemma route_add_db:
  fixes E :: env and s :: "'z l3_state_scheme"
  assumes v: "route_valid rt" and d: "routes_distinct s"
  defines "s' \<equiv> exec (bcm56846_l3_route_add E (Some rt)) s"
  shows "routes_distinct s' \<and>
     (if result (bcm56846_l3_route_add E (Some rt)) s = - ENOSPC
      then s' = s \<and> route_key rt \<notin> ran (routes s) \<and> (\<forall>i \<in> {0..<8192}. routes s i \<noteq> None)
      else \<exists>i \<in> {0..<8192}. routes s' = (routes s)(i \<mapsto> route_key rt) \<and>
             (routes s i = Some (route_key rt) \<or> routes s i = None \<and> route_key rt \<notin> ran (routes s)))"
proof -
  obtain p l where k: "route_key rt = (p, l)" by fastforce
  let ?i0 = "defip_find s p l"
  obtain used i1 where a: "alloc_id (defip_used s) MAX_L3_DEFIP 0 = (used, i1)" by fastforce
  note run = route_add_run[OF v k, of s E, unfolded a Let_def prod.case]
  show ?thesis
  proof (cases "?i0 < 0")
    case False
    then have r: "routes s ?i0 = Some (p, l)" by (intro defip_find_pos) simp
    then have rng: "0 \<le> ?i0 \<and> ?i0 < 8192" by (auto simp: routes_def split: if_splits)
    obtain tr where "s' = s\<lparr>trace := tr\<rparr>" "result (bcm56846_l3_route_add E (Some rt)) s \<noteq> - ENOSPC"
      using run False l3_write_frame(1)[of E ?i0 "defip_pack_v4_ucast p l (rt_egress_id rt)" s]
      by (auto simp: s'_def split_beta)
    then show ?thesis
      using d r rng k by (auto simp: routes_distinct_def fun_upd_idem intro!: bexI[of _ ?i0])
  next
    case True
    then have n: "(p, l) \<notin> ran (routes s)" using defip_find_neg by blast
    show ?thesis
      using alloc_id_cases[OF a order.refl]
    proof (elim disjE)
      assume "i1 = - 1 \<and> used = defip_used s \<and> (\<forall>j. 0 \<le> j \<and> j < 8192 \<longrightarrow> defip_used s j \<noteq> 0)"
      then show ?thesis using run True d n k by (auto simp: s'_def routes_def)
    next
      assume i: "0 \<le> i1 \<and> i1 < 8192 \<and> defip_used s i1 = 0 \<and> used = (defip_used s)(i1 := 1)"
      let ?s1 = "s\<lparr>defip_used := used, defip_prefix := (defip_prefix s)(i1 := p), defip_plen := (defip_plen s)(i1 := l)\<rparr>"
      have "routes ?s1 = (routes s)(i1 \<mapsto> (p, l))" using i by (auto simp: routes_def fun_eq_iff)
      moreover obtain tr where "s' = ?s1\<lparr>trace := tr\<rparr>" "result (bcm56846_l3_route_add E (Some rt)) s \<noteq> - ENOSPC"
        using run True i l3_write_frame(1)[of E i1 "defip_pack_v4_ucast p l (rt_egress_id rt)" ?s1]
        by (auto simp: s'_def split_beta)
      ultimately have r: "routes s' = (routes s)(i1 \<mapsto> (p, l))" "result (bcm56846_l3_route_add E (Some rt)) s \<noteq> - ENOSPC"
        by simp_all
      have "routes s i1 = None" using i by (simp add: routes_def)
      then show ?thesis
        using r i n k distinct_update[OF d r(1)] by (auto intro!: bexI[of _ i1])
    qed
  qed
qed

lemma route_delete_db:
  fixes E :: env and s :: "'z l3_state_scheme"
  assumes v: "route_valid rt" and d: "routes_distinct s"
  defines "s' \<equiv> exec (bcm56846_l3_route_delete E (Some rt)) s"
  shows "result (bcm56846_l3_route_delete E (Some rt)) s = 0 \<and> routes_distinct s' \<and>
         routes s' = (\<lambda>i. if routes s i = Some (route_key rt) then None else routes s i)"
proof -
  obtain p l where k: "route_key rt = (p, l)" by fastforce
  have v': "rt_is_ipv6 rt = 0" "0 \<le> rt_prefix_len rt" "rt_prefix_len rt \<le> 32" "ntohl (rt_prefix rt) = p"
    "rt_prefix_len rt = l"
    using v k by (auto simp: route_valid_def route_key_def)
  let ?i = "defip_find s p l"
  have u: "routes s' = (\<lambda>i. if routes s i = Some (p, l) then None else routes s i)"
    "result (bcm56846_l3_route_delete E (Some rt)) s = 0"
  proof -
    show "result (bcm56846_l3_route_delete E (Some rt)) s = 0"
      using v' by (simp add: bcm56846_l3_route_delete_def Let_def split_beta)
    show "routes s' = (\<lambda>i. if routes s i = Some (p, l) then None else routes s i)"
    proof (cases "?i < 0")
      case True
      then have "(p, l) \<notin> ran (routes s)" using defip_find_neg by blast
      then show ?thesis
        using True v' by (auto simp: s'_def bcm56846_l3_route_delete_def Let_def fun_eq_iff ran_def)
    next
      case False
      then have r: "routes s ?i = Some (p, l)" by (intro defip_find_pos) simp
      obtain tr where "exec (l3_defip_write E ?i [0, 0, 0, 0, 0, 0, 0, 0]) s = s\<lparr>trace := tr\<rparr>"
        using l3_write_frame(1) by blast
      then have "s' = s\<lparr>trace := tr, defip_used := (defip_used s)(?i := 0), defip_prefix := (defip_prefix s)(?i := 0),
          defip_plen := (defip_plen s)(?i := 0)\<rparr>"
        using False v' by (simp add: s'_def bcm56846_l3_route_delete_def Let_def split_beta)
      then have "routes s' = (routes s)(?i := None)" by (auto simp: routes_def fun_eq_iff)
      then show ?thesis using d r unfolding routes_distinct_def by (auto simp: fun_eq_iff)
    qed
  qed
  have "routes_distinct s'" using d unfolding routes_distinct_def u(1) by (auto split: if_splits)
  with u k show ?thesis by simp
qed


definition l3_0 :: l3_state where
  "l3_0 = bde_state.extend bde0 \<lparr>intf_used = \<lambda>_. 0, nhop_used = \<lambda>_. 0, defip_used = \<lambda>_. 0,
     defip_prefix = \<lambda>_. 0, defip_plen = \<lambda>_. 0\<rparr>"

lemma route_0: "routes l3_0 i = None"
  by (simp add: routes_def l3_0_def bde_state.defs)


text \<open>A route addition over a chip that answers, when the key has a slot or a free one exists: the
  database gets the key, and of the whole chip only the entry at that slot changes, to the packed
  words, except for word 5.\<close>

lemma route_add_device:
  fixes E :: env and s :: "'z l3_state_scheme"
  assumes "table_ok E s" and "route_valid rt" and "routes s j = None" and "0 \<le> j" and "j < 8192"
  obtains i s' h where "0 \<le> i" "i < 8192" "run_state (bcm56846_l3_route_add E (Some rt)) s = (0, s')"
    "table_ok E s'" "routes s' = (routes s)(i \<mapsto> route_key rt)" "intf_used s' = intf_used s" "nhop_used s' = nhop_used s"
    "routes s i = None \<or> routes s i = Some (route_key rt)"
    "\<And>b a k. chip_word s' b a k = (if b = cdk_addr_to_block L3_DEFIP_BASE \<and> a = L3_DEFIP_BASE + word_of_int i \<and> k < 8
       then (if k = 5 then bar0_answer E h CMIC_MISC_CONTROL
             else defip_pack_v4_ucast (ntohl (rt_prefix rt)) (rt_prefix_len rt) (rt_egress_id rt) ! k)
       else chip_word s b a k)"
proof -
  obtain p l where k: "route_key rt = (p, l)" by fastforce
  then have pl: "ntohl (rt_prefix rt) = p" "rt_prefix_len rt = l" by (simp_all add: route_key_def)
  let ?i0 = "defip_find s p l"
  obtain used i1 where a: "alloc_id (defip_used s) MAX_L3_DEFIP 0 = (used, i1)" by fastforce
  define idx where "idx = (if ?i0 < 0 then i1 else ?i0)"
  define s1 where "s1 = (if ?i0 < 0 \<and> 0 \<le> i1 then s\<lparr>defip_used := used, defip_prefix := (defip_prefix s)(i1 := p),
     defip_plen := (defip_plen s)(i1 := l)\<rparr> else s)"
  let ?w = "defip_pack_v4_ucast p l (rt_egress_id rt)"
  note run = route_add_run[OF assms(2) k, of s E, unfolded a Let_def prod.case, folded idx_def s1_def]
  have i1: "0 \<le> i1 \<and> i1 < 8192 \<and> defip_used s i1 = 0 \<and> used = (defip_used s)(i1 := 1)"
    using alloc_id_cases[OF a order.refl] assms(3-5) by (auto simp: routes_def split: if_splits)
  have rng: "0 \<le> idx" "idx < 8192"
    using i1 defip_find_pos[of s p l] by (auto simp: idx_def routes_def split: if_splits)
  have slot: "routes s idx = None \<or> routes s idx = Some (p, l)"
    using i1 defip_find_pos[of s p l] by (auto simp: idx_def routes_def)
  have r1: "routes s1 = (routes s)(idx \<mapsto> (p, l))"
  proof (cases "?i0 < 0")
    case True
    then show ?thesis using i1 by (auto simp: s1_def idx_def routes_def fun_eq_iff)
  next
    case False
    then show ?thesis using defip_find_pos[of s p l] by (simp add: s1_def idx_def fun_upd_idem)
  qed
  have ok: "table_ok E s1" using assms(1) by (simp add: s1_def table_ok_def bde_ready_def)
  note w = mem_write_device[OF ok, of 8 ?w L3_DEFIP_BASE idx, simplified]
  obtain tr where f: "exec (l3_defip_write E idx ?w) s1 = s1\<lparr>trace := tr\<rparr>"
    using l3_write_frame(1) by blast
  have run': "run_state (bcm56846_l3_route_add E (Some rt)) s = (0, s1\<lparr>trace := tr\<rparr>)"
    using run rng w f by (simp add: l3_defip_write_def split_beta)
  have s1: "chip_word s1 b a k = chip_word s b a k" "intf_used s1 = intf_used s" "nhop_used s1 = nhop_used s" for b a k
    by (simp_all add: s1_def chip_word_def)
  have chip: "chip_word (s1\<lparr>trace := tr\<rparr>) b a k =
      (if b = cdk_addr_to_block L3_DEFIP_BASE \<and> a = L3_DEFIP_BASE + word_of_int idx \<and> k < 8
       then (if k = 5 then misc_at E (after_copy_in s1) else ?w ! k) else chip_word s b a k)" for b a k
    using w f s1(1) by (simp add: l3_defip_write_def)
  show thesis
    by (rule that[unfolded k pl, OF rng run' _ _ _ _ _ chip[unfolded misc_at_def]])
      (use ok r1 s1 slot in \<open>simp_all add: table_ok_def bde_ready_def\<close>)
qed

text \<open>What a route addition installs: over a chip that answers, when the key has a slot or a
  free one exists, the addition succeeds, and the chip's entry at that slot is the packed entry,
  except for its word 5, which holds CMIC_MISC_CONTROL instead of zero.\<close>

lemma l3_route_installed:
  assumes "table_ok E s" and "route_valid rt" and "routes s j = None" and "j \<in> {0..<8192}"
  shows "let s' = exec (bcm56846_l3_route_add E (Some rt)) s in
     result (bcm56846_l3_route_add E (Some rt)) s = 0 \<and>
     (\<exists>i \<in> {0..<8192}. routes s' i = Some (route_key rt) \<and>
        (\<forall>k < 8. k \<noteq> 5 \<longrightarrow> chip_word s' (cdk_addr_to_block 0x0a170000) (0x0a170000 + word_of_int i) k =
           defip_pack_v4_ucast (ntohl (rt_prefix rt)) (rt_prefix_len rt) (rt_egress_id rt) ! k) \<and>
        (\<exists>h. chip_word s' (cdk_addr_to_block 0x0a170000) (0x0a170000 + word_of_int i) 5 = bar0_answer E h CMIC_MISC_CONTROL))"
proof -
  have j: "0 \<le> j" "j < 8192" using assms(4) by simp_all
  show ?thesis
    by (rule route_add_device[OF assms(1-3) j]) (auto simp: Let_def intro!: bexI)
qed

section \<open>Identifiers\<close>

abbreviation "intfs s \<equiv> ids_taken 1 MAX_L3_INTF (intf_used s)"
abbreviation "nhops s \<equiv> ids_taken 1 MAX_L3_NHOP (nhop_used s)"

text \<open>What an allocation step did to a pool, given the outcome the caller reports.\<close>

definition id_outcome :: "int set \<Rightarrow> int set \<Rightarrow> int \<Rightarrow> int \<times> int option \<Rightarrow> int option \<Rightarrow> bool" where
  "id_outcome before after limit r out =
     (if fst r = 0 then (\<exists>i. snd r = Some i \<and> 1 \<le> i \<and> i < limit \<and> i \<notin> before \<and> after = insert i before)
      else after = before \<and> snd r = out)"

lemma emits_l3_write:
  "emits in_bar0 (egr_l3_intf_write E i w)" "emits in_bar0 (ing_l3_nhop_write E i w)"
  "emits in_bar0 (egr_l3_nhop_write E i w)" "emits in_bar0 (l3_defip_write E i w)"
  unfolding l3_defip_write_def egr_l3_intf_write_def ing_l3_nhop_write_def egr_l3_nhop_write_def
  by (rule emits_sbus(6))+

lemmas wp_l3_write [wp_rules] =
  wp_bus[OF emits_l3_write(1)] wp_bus[OF emits_l3_write(2)] wp_bus[OF emits_l3_write(3)] wp_bus[OF emits_l3_write(4)]

lemma routes_frame [simp]:
  "routes (s\<lparr>intf_used := u\<rparr>) = routes s" "routes (s\<lparr>nhop_used := u\<rparr>) = routes s"
  by (simp_all add: routes_def fun_eq_iff)

lemma intf_step:
  assumes "alloc_id (intf_used s) MAX_L3_INTF 1 = (used, i)"
  shows "i < 0 \<Longrightarrow> ids_taken 1 MAX_L3_INTF used = intfs s"
    and "\<not> i < 0 \<Longrightarrow> id_outcome (intfs s) (ids_taken 1 MAX_L3_INTF used) MAX_L3_INTF (0, Some i) out"
    and "\<not> i < 0 \<Longrightarrow> ids_taken 1 MAX_L3_INTF (free_id used MAX_L3_INTF i) = intfs s"
  using intf_pool.alloc_ok[OF TrueI assms] intf_pool.alloc_full[OF TrueI assms] intf_pool.alloc_release[OF TrueI assms]
  by (auto simp: id_outcome_def)

lemma nhop_step:
  assumes "alloc_id (nhop_used s) MAX_L3_NHOP 1 = (used, i)"
  shows "i < 0 \<Longrightarrow> ids_taken 1 MAX_L3_NHOP used = nhops s"
    and "\<not> i < 0 \<Longrightarrow> id_outcome (nhops s) (ids_taken 1 MAX_L3_NHOP used) MAX_L3_NHOP (0, Some i) out"
    and "\<not> i < 0 \<Longrightarrow> ids_taken 1 MAX_L3_NHOP (free_id used MAX_L3_NHOP i) = nhops s"
  using nhop_pool.alloc_ok[OF TrueI assms] nhop_pool.alloc_full[OF TrueI assms] nhop_pool.alloc_release[OF TrueI assms]
  by (auto simp: id_outcome_def)

lemma wp_intf_create:
  "wp (bcm56846_l3_intf_create E mac vid out)
      (\<lambda>r s'. id_outcome (intfs s) (intfs s') MAX_L3_INTF r out \<and> nhop_used s' = nhop_used s \<and> routes s' = routes s) s"
  unfolding bcm56846_l3_intf_create_def
  by (cases mac; cases out; simp only: prod.case option.case; intro wp_rules)
    (auto simp: id_outcome_def intf_step(1,3) dest: intf_step(2)[unfolded id_outcome_def])

lemma wp_egress_create:
  "wp (bcm56846_l3_egress_create E eg out)
      (\<lambda>r s'. id_outcome (nhops s) (nhops s') MAX_L3_NHOP r out \<and> intf_used s' = intf_used s \<and> routes s' = routes s) s"
  unfolding bcm56846_l3_egress_create_def
  by (cases eg; cases out; simp only: prod.case option.case; intro wp_rules)
    (auto simp: id_outcome_def nhop_step(1,3) dest: nhop_step(2)[unfolded id_outcome_def])

text \<open>C14. Interface and next-hop identifiers never leak and are never shared: whatever the bus
  answers, a successful creation returns an identifier in range that was free and marks exactly it
  used; every failure (bad arguments, exhaustion, bus error) leaves the pool as it was and the
  out-parameter unwritten; destroying an identifier in range frees exactly it. None of them
  touches the other pool or the route database.\<close>

theorem l3_identifiers:
  "(let r = result (bcm56846_l3_intf_create E mac vid out) s; s' = exec (bcm56846_l3_intf_create E mac vid out) s in
      id_outcome (intfs s) (intfs s') MAX_L3_INTF r out \<and> nhop_used s' = nhop_used s \<and> routes s' = routes s) \<and>
   (let r = result (bcm56846_l3_egress_create E eg out) s; s' = exec (bcm56846_l3_egress_create E eg out) s in
      id_outcome (nhops s) (nhops s') MAX_L3_NHOP r out \<and> intf_used s' = intf_used s \<and> routes s' = routes s) \<and>
   intfs (exec (bcm56846_l3_intf_destroy E i) s) = intfs s - {i} \<and>
   nhops (exec (bcm56846_l3_egress_destroy E i) s) = nhops s - {i}"
proof -
  have "wp (bcm56846_l3_intf_destroy E i) (\<lambda>_ s'. intfs s' = intfs s - {i}) s"
    unfolding bcm56846_l3_intf_destroy_def
    by (intro wp_rules) (auto simp: ids_taken_def free_id_def)
  moreover have "wp (bcm56846_l3_egress_destroy E i) (\<lambda>_ s'. nhops s' = nhops s - {i}) s"
    unfolding bcm56846_l3_egress_destroy_def
    by (intro wp_rules) (auto simp: ids_taken_def free_id_def)
  ultimately show ?thesis
    using wpD[OF wp_intf_create[of E mac vid out s]] wpD[OF wp_egress_create[of E eg out s]]
    by (auto simp: Let_def dest: wpD)
qed

end
