(* ===== verification/Netlink.thy ===== *)
theory Netlink
  imports Port L2 L3 Ctext
begin

text \<open>
  The netlink listener of the switch daemon (src/switchd/src/netlink.c): attribute parsing, the
  neighbour cache, the handlers of link, address, neighbour and route messages, and the receive
  loop. A received datagram is the memory from the start of the buffer, \<open>nlbuf\<close>, a total
  function: reading behind the datagram gives whatever is there. Multi-byte fields are big-endian,
  as on the P2020. The handlers call the models of the SDK; those that work on the L3 tables run on
  the L3 variables of the process by \<open>on_l3\<close>.
\<close>

section \<open>State\<close>

record neigh_entry =
  ne_ip :: u32
  ne_ifindex :: int
  ne_mac :: "u8 list"

text \<open>The array with its count is the list of its first \<open>neigh_cache_count\<close> entries.\<close>

record nl_state = port_state +
  l3_vars :: "unit l3_state_ext"
  ifindex_to_port :: "int list"
  port_to_intf_id :: "int list"
  neigh_cache :: "neigh_entry list"

definition l3_view :: "'z nl_state_scheme \<Rightarrow> l3_state" where
  "l3_view s = bde_state.extend (bde_state.truncate s) (l3_vars s)"

definition l3_put :: "'z nl_state_scheme \<Rightarrow> l3_state \<Rightarrow> 'z nl_state_scheme" where
  "l3_put s t = (bde_state.extend (bde_state.truncate t) (bde_state.more s))\<lparr>l3_vars := bde_state.more t\<rparr>"

definition on_l3 :: "(l3_state, 'a) state \<Rightarrow> ('z nl_state_scheme, 'a) state" where
  "on_l3 m = State (\<lambda>s. let (r, t) = run_state m (l3_view s) in (r, l3_put s t))"

abbreviation (input) "MAX_IFINDEX \<equiv> (512::int)"
abbreviation (input) "NEIGH_CACHE_SIZE \<equiv> (256::nat)"
abbreviation (input) "MAX_PORTS \<equiv> (56::int)"
abbreviation (input) "RTA_TB_SIZE \<equiv> (32::nat)"
abbreviation (input) "NDA_TB_SIZE \<equiv> (32::nat)"

section \<open>Messages\<close>

type_synonym nlbuf = "nat \<Rightarrow> u8"

definition be16 :: "nlbuf \<Rightarrow> nat \<Rightarrow> u16" where
  "be16 b i = push_bit 8 (ucast (b i)) OR ucast (b (i + 1))"

definition be32 :: "nlbuf \<Rightarrow> nat \<Rightarrow> u32" where
  "be32 b i = push_bit 24 (ucast (b i)) OR push_bit 16 (ucast (b (i + 1)))
     OR push_bit 8 (ucast (b (i + 2))) OR ucast (b (i + 3))"

definition bytes_at :: "nlbuf \<Rightarrow> nat \<Rightarrow> nat \<Rightarrow> u8 list" where
  "bytes_at b i n = map b [i..<i + n]"

text \<open>\<open>NLMSG_ALIGN\<close> and \<open>RTA_ALIGN\<close>; the attribute header and its payload.\<close>

definition align4 :: "int \<Rightarrow> int" where "align4 n = (n + 3) div 4 * 4"
definition rta_len :: "nlbuf \<Rightarrow> nat \<Rightarrow> int" where "rta_len b rta = uint (be16 b rta)"
definition rta_type :: "nlbuf \<Rightarrow> nat \<Rightarrow> nat" where "rta_type b rta = unat (be16 b (rta + 2))"
definition RTA_DATA :: "nat \<Rightarrow> nat" where "RTA_DATA rta = rta + 4"
definition nlmsg_len :: "nlbuf \<Rightarrow> nat \<Rightarrow> int" where "nlmsg_len b nlh = uint (be32 b nlh)"
definition nlmsg_type :: "nlbuf \<Rightarrow> nat \<Rightarrow> u16" where "nlmsg_type b nlh = be16 b (nlh + 4)"

definition RTA_OK :: "nlbuf \<Rightarrow> nat \<Rightarrow> int \<Rightarrow> bool" where
  "RTA_OK b rta len \<longleftrightarrow> len \<ge> 4 \<and> rta_len b rta \<ge> 4 \<and> rta_len b rta \<le> len"

definition NLMSG_OK :: "nlbuf \<Rightarrow> nat \<Rightarrow> int \<Rightarrow> bool" where
  "NLMSG_OK b nlh len \<longleftrightarrow> len \<ge> 16 \<and> nlmsg_len b nlh \<ge> 16 \<and> nlmsg_len b nlh \<le> len"

lemma align4: "n \<le> align4 n" "align4 n < n + 4"
  by (simp_all add: align4_def)

text \<open>\<open>parse_rtattr\<close>: the table entry of a type is the last attribute of that type.\<close>

function rtattr_loop :: "(nat \<Rightarrow> nat option) \<Rightarrow> nlbuf \<Rightarrow> nat \<Rightarrow> nat \<Rightarrow> int \<Rightarrow> (nat \<Rightarrow> nat option)" where
  "rtattr_loop tb b max_type rta len =
     (if RTA_OK b rta len
      then rtattr_loop (if rta_type b rta < max_type then tb(rta_type b rta := Some rta) else tb) b max_type
             (rta + nat (align4 (rta_len b rta))) (len - align4 (rta_len b rta))
      else tb)"
  by pat_completeness auto
termination
proof (relation "measure (\<lambda>(tb, b, m, rta, len). nat len)")
  fix tb b m rta and len :: int
  assume "RTA_OK b rta len"
  then show "((if rta_type b rta < m then tb(rta_type b rta := Some rta) else tb, b, m,
      rta + nat (align4 (rta_len b rta)), len - align4 (rta_len b rta)), tb, b, m, rta, len)
    \<in> measure (\<lambda>(tb, b, m, rta, len). nat len)"
    using align4(1)[of "rta_len b rta"] by (auto simp: RTA_OK_def)
qed simp

declare rtattr_loop.simps [simp del]

definition parse_rtattr :: "nlbuf \<Rightarrow> nat \<Rightarrow> nat \<Rightarrow> int \<Rightarrow> (nat \<Rightarrow> nat option)" where
  "parse_rtattr b max_type rta len = rtattr_loop (\<lambda>_. None) b max_type rta len"

text \<open>A C string of at most \<open>n\<close> characters of memory.\<close>

fun cstring :: "nlbuf \<Rightarrow> nat \<Rightarrow> nat \<Rightarrow> string" where
  "cstring b i 0 = []"
| "cstring b i (Suc n) = (if b i = 0 then [] else char_of (unat (b i)) # cstring b (i + 1) n)"

text \<open>\<open>sscanf("%u")\<close>: a negated number wraps, one that does not fit is the largest.\<close>

definition scan_uint :: "string \<Rightarrow> int option" where
  "scan_uint s = (let (neg, u) = split_sign (dropWhile is_space s); ds = takeWhile is_digit u; v = int (digits_val ds) in
     if ds = [] then None
     else if v > 4294967295 then Some 4294967295
     else Some (if neg then (- v) mod 4294967296 else v))"

definition ifname_to_port :: "string \<Rightarrow> int option" where
  "ifname_to_port ifname =
     (if take 3 ifname \<noteq> ''swp'' then None
      else case scan_uint (drop 3 ifname) of
          None \<Rightarrow> None
        | Some n \<Rightarrow> if n = 0 \<or> n > 56 then None else Some n)"

section \<open>Neighbour cache\<close>

definition is_neigh :: "u32 \<Rightarrow> int \<Rightarrow> neigh_entry \<Rightarrow> bool" where
  "is_neigh ip ifindex e \<longleftrightarrow> ne_ip e = ip \<and> ne_ifindex e = ifindex"

fun neigh_set :: "u32 \<Rightarrow> int \<Rightarrow> u8 list \<Rightarrow> neigh_entry list \<Rightarrow> neigh_entry list option" where
  "neigh_set ip ifindex mac [] = None"
| "neigh_set ip ifindex mac (e # es) =
     (if is_neigh ip ifindex e then Some (e\<lparr>ne_mac := mac\<rparr> # es)
      else map_option ((#) e) (neigh_set ip ifindex mac es))"

definition neigh_cache_set :: "u32 \<Rightarrow> int \<Rightarrow> u8 list \<Rightarrow> neigh_entry list \<Rightarrow> neigh_entry list" where
  "neigh_cache_set ip ifindex mac es =
     (case neigh_set ip ifindex mac es of
        Some es' \<Rightarrow> es'
      | None \<Rightarrow> if length es \<ge> NEIGH_CACHE_SIZE then es
                else es @ [\<lparr>ne_ip = ip, ne_ifindex = ifindex, ne_mac = mac\<rparr>])"

definition neigh_cache_get :: "u32 \<Rightarrow> int \<Rightarrow> neigh_entry list \<Rightarrow> u8 list option" where
  "neigh_cache_get ip ifindex es = map_option ne_mac (find (is_neigh ip ifindex) es)"

fun neigh_cache_remove :: "u32 \<Rightarrow> int \<Rightarrow> neigh_entry list \<Rightarrow> neigh_entry list" where
  "neigh_cache_remove ip ifindex [] = []"
| "neigh_cache_remove ip ifindex (e # es) =
     (if is_neigh ip ifindex e then es else e # neigh_cache_remove ip ifindex es)"

section \<open>Message handlers\<close>

definition RTM_NEWLINK :: u16 where "RTM_NEWLINK = 16"
definition RTM_DELLINK :: u16 where "RTM_DELLINK = 17"
definition RTM_NEWADDR :: u16 where "RTM_NEWADDR = 20"
definition RTM_DELADDR :: u16 where "RTM_DELADDR = 21"
definition RTM_NEWROUTE :: u16 where "RTM_NEWROUTE = 24"
definition RTM_DELROUTE :: u16 where "RTM_DELROUTE = 25"
definition RTM_NEWNEIGH :: u16 where "RTM_NEWNEIGH = 28"
definition RTM_DELNEIGH :: u16 where "RTM_DELNEIGH = 29"

text \<open>The port of an interface index, read as unsigned: \<open>None\<close> when it is outside the table.\<close>

definition port_of_index :: "'z nl_state_scheme \<Rightarrow> u32 \<Rightarrow> int option" where
  "port_of_index s idx = (if uint idx < MAX_IFINDEX then Some (ifindex_to_port s ! nat (uint idx)) else None)"

definition set_index_port :: "u32 \<Rightarrow> int \<Rightarrow> ('z nl_state_scheme, unit) state" where
  "set_index_port idx port =
     (if uint idx < MAX_IFINDEX
      then modify (\<lambda>s. s\<lparr>ifindex_to_port := (ifindex_to_port s)[nat (uint idx) := port]\<rparr>) else return ())"

definition handle_link :: "env \<Rightarrow> u8 list \<Rightarrow> nlbuf \<Rightarrow> nat \<Rightarrow> ('z nl_state_scheme, unit) state" where
  "handle_link E fw b nlh =
     (if nlmsg_len b nlh < 16 + 16 then return ()
      else do {
        let ifi = nlh + 16;
        let len = nlmsg_len b nlh - 32;
        let tb = parse_rtattr b RTA_TB_SIZE (ifi + 16) len;
        let ifi_index = be32 b (ifi + 4);
        let ifi_flags = be32 b (ifi + 8);
        if nlmsg_type b nlh = RTM_DELLINK then set_index_port ifi_index (-1)
        else (case tb 3 of None \<Rightarrow> return ()
          | Some rta \<Rightarrow> (case ifname_to_port (cstring b (RTA_DATA rta) 65536) of
              None \<Rightarrow> return ()
            | Some port \<Rightarrow> do {
                set_index_port ifi_index port;
                let up = (if ifi_flags AND 1 \<noteq> 0 then 1 else 0);
                _ \<leftarrow> bcm56846_port_enable_set E fw port up;
                return ()
              }))
      })"

definition handle_addr :: "env \<Rightarrow> nlbuf \<Rightarrow> nat \<Rightarrow> ('z nl_state_scheme, unit) state" where
  "handle_addr E b nlh =
     (if nlmsg_len b nlh < 16 + 8 then return ()
      else do {
        let ifa = nlh + 16;
        let len = nlmsg_len b nlh - 24;
        let tb = parse_rtattr b RTA_TB_SIZE (ifa + 8) len;
        let ifa_index = be32 b (ifa + 4);
        port \<leftarrow> gets (\<lambda>s. port_of_index s ifa_index);
        (case port of None \<Rightarrow> return ()
         | Some port \<Rightarrow>
             if tb 1 = None \<or> port \<le> 0 \<or> port \<ge> MAX_PORTS then return ()
             else do {
               let mac = [0x02, 0, 0, 0, 0, word_of_int port];
               if nlmsg_type b nlh = RTM_NEWADDR then do {
                 (rc, intf_id) \<leftarrow> on_l3 (bcm56846_l3_intf_create E (Some mac) 0 (Some 0));
                 if rc = 0 then modify (\<lambda>s. s\<lparr>port_to_intf_id := (port_to_intf_id s)[nat port := the intf_id]\<rparr>)
                 else return ()
               } else do {
                 id \<leftarrow> gets (\<lambda>s. port_to_intf_id s ! nat port);
                 if id \<noteq> 0 then do {
                   _ \<leftarrow> on_l3 (bcm56846_l3_intf_destroy E id);
                   modify (\<lambda>s. s\<lparr>port_to_intf_id := (port_to_intf_id s)[nat port := 0]\<rparr>)
                 } else return ()
               }
             })
      })"

definition handle_neigh :: "env \<Rightarrow> nlbuf \<Rightarrow> nat \<Rightarrow> ('z nl_state_scheme, unit) state" where
  "handle_neigh E b nlh =
     (if nlmsg_len b nlh < 16 + 12 then return ()
      else if b (nlh + 16) \<noteq> 2 then return ()
      else do {
        let ndm = nlh + 16;
        let len = nlmsg_len b nlh - 28;
        let tb = parse_rtattr b NDA_TB_SIZE (ndm + 12) len;
        let lladdr = (case tb 2 of None \<Rightarrow> None
                      | Some rta \<Rightarrow> if rta_len b rta - 4 \<ge> 6 then Some (bytes_at b (RTA_DATA rta) 6) else None);
        let dst_ip = (case tb 1 of None \<Rightarrow> 0 | Some rta \<Rightarrow> be32 b (RTA_DATA rta));
        let vid = (case tb 5 of None \<Rightarrow> 0 | Some rta \<Rightarrow> be16 b (RTA_DATA rta));
        let idx = be32 b (ndm + 4);
        let ifindex = sint idx;
        port \<leftarrow> gets (\<lambda>s. port_of_index s idx);
        (case port of None \<Rightarrow> return ()
         | Some port \<Rightarrow>
             if port \<le> 0 then return ()
             else if nlmsg_type b nlh = RTM_NEWNEIGH then
               (case lladdr of None \<Rightarrow> return ()
                | Some mac \<Rightarrow> do {
                    _ \<leftarrow> bcm56846_l2_addr_add E (Some \<lparr>l2_mac = mac, l2_vid = vid, l2_port = port, l2_static = 1\<rparr>);
                    modify (\<lambda>s. s\<lparr>neigh_cache := neigh_cache_set dst_ip ifindex mac (neigh_cache s)\<rparr>)
                  })
             else do {
               known \<leftarrow> gets (\<lambda>s. neigh_cache_get dst_ip ifindex (neigh_cache s));
               (case lladdr of
                  Some mac \<Rightarrow> do { _ \<leftarrow> bcm56846_l2_addr_delete E (Some mac) vid; return () }
                | None \<Rightarrow> (case (if dst_ip \<noteq> 0 then known else None) of
                      None \<Rightarrow> return ()
                    | Some mac \<Rightarrow> do { _ \<leftarrow> bcm56846_l2_addr_delete E (Some mac) vid; return () }));
               modify (\<lambda>s. s\<lparr>neigh_cache := neigh_cache_remove dst_ip ifindex (neigh_cache s)\<rparr>)
             })
      })"

definition handle_route :: "env \<Rightarrow> nlbuf \<Rightarrow> nat \<Rightarrow> ('z nl_state_scheme, unit) state" where
  "handle_route E b nlh =
     (if nlmsg_len b nlh < 16 + 12 then return ()
      else if b (nlh + 16) \<noteq> 2 \<or> b (nlh + 16 + 7) \<noteq> 1 then return ()
      else do {
        let rtm = nlh + 16;
        let len = nlmsg_len b nlh - 28;
        let tb = parse_rtattr b RTA_TB_SIZE (rtm + 12) len;
        let dst = (case tb 1 of None \<Rightarrow> 0 | Some rta \<Rightarrow> be32 b (RTA_DATA rta));
        let plen = uint (b (rtm + 1));
        if nlmsg_type b nlh = RTM_DELROUTE then do {
          _ \<leftarrow> on_l3 (bcm56846_l3_route_delete E (Some \<lparr>rt_prefix = dst, rt_prefix6 = [0, 0, 0, 0],
                 rt_prefix_len = plen, rt_egress_id = 0, rt_is_ipv6 = 0\<rparr>));
          return ()
        } else do {
          let gateway = (case tb 5 of None \<Rightarrow> 0 | Some rta \<Rightarrow> be32 b (RTA_DATA rta));
          let oif = (case tb 4 of None \<Rightarrow> 0 | Some rta \<Rightarrow> be32 b (RTA_DATA rta));
          port \<leftarrow> gets (\<lambda>s. port_of_index s oif);
          (case port of None \<Rightarrow> return ()
           | Some port \<Rightarrow>
               if port \<le> 0 then return ()
               else do {
                 intf_id \<leftarrow> gets (\<lambda>s. if port < MAX_PORTS then port_to_intf_id s ! nat port else 0);
                 mac \<leftarrow> gets (\<lambda>s. case neigh_cache_get gateway (sint oif) (neigh_cache s) of
                                 None \<Rightarrow> [0, 0, 0, 0, 0, 0] | Some m \<Rightarrow> m);
                 (rc, egress_id) \<leftarrow> on_l3 (bcm56846_l3_egress_create E
                     (Some \<lparr>eg_mac = mac, eg_vid = 0, eg_port = port, eg_intf_id = intf_id\<rparr>) (Some 0));
                 if rc \<noteq> 0 then return ()
                 else do {
                   _ \<leftarrow> on_l3 (bcm56846_l3_route_add E (Some \<lparr>rt_prefix = dst, rt_prefix6 = [0, 0, 0, 0],
                          rt_prefix_len = plen, rt_egress_id = the egress_id, rt_is_ipv6 = 0\<rparr>));
                   return ()
                 }
               })
        }
      })"

definition nl_dispatch :: "env \<Rightarrow> u8 list \<Rightarrow> nlbuf \<Rightarrow> nat \<Rightarrow> ('z nl_state_scheme, unit) state" where
  "nl_dispatch E fw b nlh =
     (let t = nlmsg_type b nlh in
      if t = RTM_NEWLINK \<or> t = RTM_DELLINK then handle_link E fw b nlh
      else if t = RTM_NEWADDR \<or> t = RTM_DELADDR then handle_addr E b nlh
      else if t = RTM_NEWROUTE \<or> t = RTM_DELROUTE then handle_route E b nlh
      else if t = RTM_NEWNEIGH \<or> t = RTM_DELNEIGH then handle_neigh E b nlh
      else return ())"

section \<open>Receiving\<close>

text \<open>The offsets \<open>NLMSG_OK\<close>/\<open>NLMSG_NEXT\<close> visit in a datagram of \<open>len\<close> bytes.\<close>

function nl_messages :: "nlbuf \<Rightarrow> nat \<Rightarrow> int \<Rightarrow> nat list" where
  "nl_messages b nlh len =
     (if NLMSG_OK b nlh len
      then nlh # nl_messages b (nlh + nat (align4 (nlmsg_len b nlh))) (len - align4 (nlmsg_len b nlh))
      else [])"
  by pat_completeness auto
termination
proof (relation "measure (\<lambda>(b, nlh, len). nat len)")
  fix b nlh and len :: int
  assume "NLMSG_OK b nlh len"
  then show "((b, nlh + nat (align4 (nlmsg_len b nlh)), len - align4 (nlmsg_len b nlh)), b, nlh, len)
    \<in> measure (\<lambda>(b, nlh, len). nat len)"
    using align4(1)[of "nlmsg_len b nlh"] by (auto simp: NLMSG_OK_def)
qed simp

declare nl_messages.simps [simp del]

definition nl_datagram :: "env \<Rightarrow> u8 list \<Rightarrow> nlbuf \<Rightarrow> int \<Rightarrow> ('z nl_state_scheme, unit) state" where
  "nl_datagram E fw b len = for_each (nl_messages b 0 len) (\<lambda>nlh.
     if nlmsg_type b nlh = 3 \<or> nlmsg_type b nlh = 2 then return () else nl_dispatch E fw b nlh)"

text \<open>\<open>recv\<close> answers the length or the negated \<open>errno\<close>; \<open>R\<close> is the buffer it leaves. The
  list says for each iteration whether \<open>netlink_running\<close> is still set.\<close>

fun nl_recv_loop :: "env \<Rightarrow> u8 list \<Rightarrow> (io_event list \<Rightarrow> nlbuf) \<Rightarrow> bool list \<Rightarrow> ('z nl_state_scheme, unit) state" where
  "nl_recv_loop E fw R [] = return ()"
| "nl_recv_loop E fw R (running # rest) =
     (if \<not> running then return ()
      else do {
        len \<leftarrow> os E sys_recv [65536];
        if len \<le> 0 then
          (if len = - EINTR \<or> len = - 11 then nl_recv_loop E fw R rest else return ())
        else do {
          tr \<leftarrow> gets trace;
          nl_datagram E fw (R tr) len;
          nl_recv_loop E fw R rest
        }
      })"

definition netlink_thread ::
  "env \<Rightarrow> u8 list \<Rightarrow> (io_event list \<Rightarrow> nlbuf) \<Rightarrow> bool list \<Rightarrow> ('z nl_state_scheme, unit) state" where
  "netlink_thread E fw R running = do {
     modify (\<lambda>s. s\<lparr>ifindex_to_port := replicate 512 (-1), port_to_intf_id := replicate 56 0, neigh_cache := []\<rparr>);
     buf \<leftarrow> os E sys_malloc [65536];
     if buf = 0 then return ()
     else do {
       fd \<leftarrow> os E sys_socket [];
       if fd < 0 then return ()
       else do {
         rc \<leftarrow> os E sys_bind [fd];
         if rc < 0 then do { _ \<leftarrow> os E sys_close [fd]; return () }
         else do {
           nl_recv_loop E fw R running;
           _ \<leftarrow> os E sys_close [fd];
           return ()
         }
       }
     }
   }"

section \<open>The L3 variables inside the process\<close>

lemma l3_fragment: obtains i n d p l where "(m :: unit l3_state_ext) = l3_state.fields i n d p l"
proof -
  obtain t :: l3_state where t: "bde_state.more t = m"
    using that by (metis bde_state.select_convs(4))
  show thesis
  proof (cases t)
    case (fields tr pr fd db ds i n d p l)
    then show thesis using t that[of i n d p l] by (simp add: l3_state.defs)
  qed
qed

lemma l3_view_cong:
  assumes "l3_vars s' = l3_vars s"
  shows "intf_used (l3_view s') = intf_used (l3_view s)" "nhop_used (l3_view s') = nhop_used (l3_view s)"
    "routes (l3_view s') = routes (l3_view s)"
proof -
  obtain i n d p l where f: "l3_vars s = l3_state.fields i n d p l" by (rule l3_fragment)
  show "intf_used (l3_view s') = intf_used (l3_view s)" "nhop_used (l3_view s') = nhop_used (l3_view s)"
    by (simp_all add: l3_view_def assms f l3_state.defs bde_state.defs)
  show "routes (l3_view s') = routes (l3_view s)"
    by (simp add: routes_def fun_eq_iff l3_view_def assms f l3_state.defs bde_state.defs)
qed

lemma l3_put_simps [simp]:
  "l3_view (l3_put s t) = t" "ifindex_to_port (l3_put s t) = ifindex_to_port s"
  "port_to_intf_id (l3_put s t) = port_to_intf_id s" "neigh_cache (l3_put s t) = neigh_cache s"
proof -
  show "l3_view (l3_put s t) = t"
    by (cases s; cases t) (simp add: l3_view_def l3_put_def bde_state.defs)
  show "ifindex_to_port (l3_put s t) = ifindex_to_port s"
    "port_to_intf_id (l3_put s t) = port_to_intf_id s" "neigh_cache (l3_put s t) = neigh_cache s"
    by (cases s; simp add: l3_put_def bde_state.defs)+
qed

lemma wp_on_l3: "wp m (\<lambda>r t. Q r (l3_put s t)) (l3_view s) \<Longrightarrow> wp (on_l3 m) Q s"
  by (simp add: wp_def on_l3_def split_beta)

section \<open>What a datagram can do\<close>

definition neigh_keys :: "neigh_entry list \<Rightarrow> (u32 \<times> int) list" where
  "neigh_keys es = map (\<lambda>e. (ne_ip e, ne_ifindex e)) es"

definition neigh_inv :: "neigh_entry list \<Rightarrow> bool" where
  "neigh_inv es \<longleftrightarrow> distinct (neigh_keys es) \<and> length es \<le> NEIGH_CACHE_SIZE \<and> (\<forall>e \<in> set es. length (ne_mac e) = 6)"

text \<open>Interface identifiers recorded for the ports are in use and not shared.\<close>

definition intf_ids_ok :: "int list \<Rightarrow> int set \<Rightarrow> bool" where
  "intf_ids_ok ids used \<longleftrightarrow> (\<forall>p < 56. ids ! p \<noteq> 0 \<longrightarrow> ids ! p \<in> used \<and> (\<forall>q < 56. q \<noteq> p \<longrightarrow> ids ! q \<noteq> ids ! p))"

definition nl_inv :: "'z nl_state_scheme \<Rightarrow> bool" where
  "nl_inv s \<longleftrightarrow> length (ifindex_to_port s) = 512 \<and> (\<forall>p \<in> set (ifindex_to_port s). p = -1 \<or> 1 \<le> p \<and> p \<le> 56) \<and>
     length (port_to_intf_id s) = 56 \<and> intf_ids_ok (port_to_intf_id s) (intfs (l3_view s)) \<and>
     neigh_inv (neigh_cache s) \<and> routes_distinct (l3_view s)"

lemma neigh_set_None: "neigh_set ip i mac es = None \<longleftrightarrow> (ip, i) \<notin> set (neigh_keys es)"
  by (induction es) (auto simp: is_neigh_def neigh_keys_def)

lemma neigh_set_Some:
  "neigh_set ip i mac es = Some es' \<Longrightarrow> neigh_keys es' = neigh_keys es \<and> length es' = length es \<and>
     (\<forall>e \<in> set es'. e \<in> set es \<or> ne_mac e = mac)"
  by (induction es arbitrary: es') (auto simp: is_neigh_def neigh_keys_def split: if_splits)

lemma neigh_set_inv: "neigh_inv es \<Longrightarrow> length mac = 6 \<Longrightarrow> neigh_inv (neigh_cache_set ip i mac es)"
  using neigh_set_None[of ip i mac es] neigh_set_Some[of ip i mac es]
  by (auto simp: neigh_inv_def neigh_cache_set_def split: option.splits) (auto simp: neigh_keys_def)

lemma neigh_remove_subset: "set (neigh_cache_remove ip i es) \<subseteq> set es"
  by (induction es) auto

lemma neigh_remove_inv: "neigh_inv es \<Longrightarrow> neigh_inv (neigh_cache_remove ip i es)"
proof -
  have "distinct (neigh_keys es) \<Longrightarrow> distinct (neigh_keys (neigh_cache_remove ip i es))"
    using neigh_remove_subset by (induction es) (force simp: neigh_keys_def)+
  moreover have "length (neigh_cache_remove ip i es) \<le> length es" by (induction es) auto
  ultimately show "neigh_inv es \<Longrightarrow> neigh_inv (neigh_cache_remove ip i es)"
    using neigh_remove_subset[of ip i es] by (auto simp: neigh_inv_def)
qed

text \<open>The state may change only in the history, the serdes and the port enable variables.\<close>

definition nl_same :: "'z nl_state_scheme \<Rightarrow> 'z nl_state_scheme \<Rightarrow> bool" where
  "nl_same s s' \<longleftrightarrow> l3_vars s' = l3_vars s \<and> ifindex_to_port s' = ifindex_to_port s \<and>
     port_to_intf_id s' = port_to_intf_id s \<and> neigh_cache s' = neigh_cache s"

text \<open>The invariant, and no next hop is given back.\<close>

definition nl_step :: "int set \<Rightarrow> 'z nl_state_scheme \<Rightarrow> bool" where
  "nl_step N s \<longleftrightarrow> nl_inv s \<and> N \<subseteq> nhops (l3_view s)"

lemma nl_step_same: "nl_step N s \<Longrightarrow> nl_same s s' \<Longrightarrow> nl_step N s'"
  using l3_view_cong[of s' s]
  by (auto simp: nl_step_def nl_inv_def nl_same_def routes_distinct_def)

lemma nl_same_emits: "emits P m \<Longrightarrow> nl_same s (exec m s)"
  by (erule emitsE[where s = s]) (simp add: nl_same_def)

lemma wp_nl_emits: "nl_step N s \<Longrightarrow> emits P m \<Longrightarrow> (\<And>r s'. nl_step N s' \<Longrightarrow> nl_same s s' \<Longrightarrow> Q r s') \<Longrightarrow> wp m Q s"
  using nl_same_emits nl_step_same unfolding wp_def by blast


lemma nl_same_trans: "nl_same s t \<Longrightarrow> nl_same t u \<Longrightarrow> nl_same s u"
  by (simp add: nl_same_def)

lemma serdes_same: "nl_same s (exec (bcm56846_serdes_init_10g E fw port) s)"
proof (cases "port_to_phy_bus port")
  case None
  then show ?thesis by (simp add: bcm56846_serdes_init_10g_def nl_same_def)
next
  case (Some x)
  then obtain evs l where "exec (bcm56846_serdes_init_10g E fw port) s = s\<lparr>phy_inited := l, trace := evs @ trace s\<rparr>"
    using emits_serdes_init_valid by (metis prod_cases3)
  then show ?thesis by (simp add: nl_same_def)
qed

lemma wp_same:
  "nl_same s t \<Longrightarrow> nl_same t (exec m t) \<Longrightarrow> (\<And>r s'. nl_same s s' \<Longrightarrow> Q r s') \<Longrightarrow> wp m Q t"
  using nl_same_trans unfolding wp_def by blast

lemma port_enable_same: "nl_same s (exec (bcm56846_port_enable_set E fw port enable) s)"
proof -
  have "wp (bcm56846_port_enable_set E fw port enable) (\<lambda>_. nl_same s) s"
    unfolding bcm56846_port_enable_set_def Let_def
    apply (intro wp_rules)
      apply (simp_all add: nl_same_def)[2]
    apply (rule wp_same[where s = s])
      apply (simp add: nl_same_def)
     apply (rule nl_same_emits, rule emits_sbus)
    apply (intro wp_rules)
      apply assumption
     apply (erule wp_same, rule serdes_same)
     apply (intro wp_rules, assumption)
    apply assumption
    done
  then show ?thesis by (rule wpD)
qed

lemma l3_view_upd [simp]:
  "l3_view (s\<lparr>ifindex_to_port := x\<rparr>) = l3_view s" "l3_view (s\<lparr>port_to_intf_id := y\<rparr>) = l3_view s"
  "l3_view (s\<lparr>neigh_cache := z\<rparr>) = l3_view s"
  by (cases s; simp add: l3_view_def bde_state.defs)+

lemma wp_set_index_port:
  assumes "nl_step N s" and "port = -1 \<or> 1 \<le> port \<and> port \<le> 56" and "\<And>s'. nl_step N s' \<Longrightarrow> Q () s'"
  shows "wp (set_index_port idx port) Q s"
  unfolding set_index_port_def
proof (intro wp_rules)
  have "set ((ifindex_to_port s)[nat (uint idx) := port]) \<subseteq> insert port (set (ifindex_to_port s))"
    by (rule set_update_subset_insert)
  then show "Q () (s\<lparr>ifindex_to_port := (ifindex_to_port s)[nat (uint idx) := port]\<rparr>)"
    using assms(1,2) by (intro assms(3)) (auto simp: nl_step_def nl_inv_def)
qed (use assms in auto)

lemma scan_uint_nonneg: "scan_uint t = Some n \<Longrightarrow> 0 \<le> n"
  by (auto simp: scan_uint_def Let_def split: prod.splits if_splits)

lemma ifname_to_port_range: "ifname_to_port name = Some p \<Longrightarrow> 1 \<le> p \<and> p \<le> 56"
  using scan_uint_nonneg by (fastforce simp: ifname_to_port_def split: if_splits option.splits)

lemma wp_nl_same:
  "nl_step N s \<Longrightarrow> nl_same s (exec m s) \<Longrightarrow> (\<And>r s'. nl_step N s' \<Longrightarrow> Q r s') \<Longrightarrow> wp m Q s"
  using nl_step_same unfolding wp_def by blast

lemma handle_link_step: "nl_step N s \<Longrightarrow> wp (handle_link E fw b nlh) (\<lambda>_. nl_step N) s"
  unfolding handle_link_def Let_def
  apply (intro wp_rules)
      apply assumption
     apply (erule wp_set_index_port, simp, assumption)
    apply assumption
   apply assumption
  apply (erule wp_set_index_port, rule disjI2, erule ifname_to_port_range)
  apply (rule wp_bind, rule wp_nl_same, assumption, rule port_enable_same)
  apply (intro wp_rules, assumption)
  done

lemma port_of_index_range:
  "nl_step N s \<Longrightarrow> port_of_index s idx = Some p \<Longrightarrow> p = -1 \<or> 1 \<le> p \<and> p \<le> 56"
proof -
  assume s: "nl_step N s" and p: "port_of_index s idx = Some p"
  then have "nat (uint idx) < length (ifindex_to_port s)" "p = ifindex_to_port s ! nat (uint idx)"
    by (simp_all only: port_of_index_def nl_step_def nl_inv_def nat_less_iff[OF uint_ge_0] of_nat_numeral split: if_splits) auto
  then have "p \<in> set (ifindex_to_port s)" by simp
  then show ?thesis using s by (simp add: nl_step_def nl_inv_def)
qed

lemma bytes_at_length [simp]: "length (bytes_at b i n) = n"
  by (simp add: bytes_at_def)

lemma emits_l2 [emits_rules]:
  "emits in_bar0 (bcm56846_l2_addr_add E a)" "emits in_bar0 (bcm56846_l2_addr_delete E m vid)"
  unfolding bcm56846_l2_addr_add_def bcm56846_l2_addr_delete_def l2_table_delete_at_def l2_table_write_def Let_def
  by (intro emits_rules)+

lemma nl_step_neigh:
  "nl_step N s \<Longrightarrow> neigh_inv es \<Longrightarrow> nl_step N (s\<lparr>neigh_cache := es\<rparr>)"
  by (simp add: nl_step_def nl_inv_def)

lemma nl_step_cache: "nl_step N s \<Longrightarrow> neigh_inv (neigh_cache s)"
  by (simp add: nl_step_def nl_inv_def)


lemma wp_l2:
  assumes "nl_step N s" and "\<And>r s'. nl_step N s' \<Longrightarrow> Q r s'"
  shows "wp (bcm56846_l2_addr_add E a) Q s" "wp (bcm56846_l2_addr_delete E m vid) Q s"
  by (rule wp_nl_emits[OF assms(1) emits_l2(1) assms(2)], assumption)
    (rule wp_nl_emits[OF assms(1) emits_l2(2) assms(2)], assumption)

lemma nl_step_cache_ops:
  "nl_step N s \<Longrightarrow> nl_step N (s\<lparr>neigh_cache := neigh_cache_remove ip i (neigh_cache s)\<rparr>)"
  "nl_step N s \<Longrightarrow> length mac = 6 \<Longrightarrow> nl_step N (s\<lparr>neigh_cache := neigh_cache_set ip i mac (neigh_cache s)\<rparr>)"
  by (simp_all add: nl_step_neigh nl_step_cache neigh_remove_inv neigh_set_inv)

lemma handle_neigh_step: "nl_step N s \<Longrightarrow> wp (handle_neigh E b nlh) (\<lambda>_. nl_step N) s"
  unfolding handle_neigh_def Let_def
  by (intro wp_rules wp_l2) (auto intro: nl_step_cache_ops split: option.splits if_splits)

lemma wp_intf_destroy:
  "wp (bcm56846_l3_intf_destroy E i)
      (\<lambda>_ s'. intfs s' = intfs s - {i} \<and> nhop_used s' = nhop_used s \<and> routes s' = routes s) s"
  unfolding bcm56846_l3_intf_destroy_def
  by (intro wp_rules) (auto simp: ids_taken_def free_id_def)

lemma intf_ids_ok_fresh:
  assumes "intf_ids_ok ids used" and "length ids = 56" and "i \<notin> used" and "p < 56"
  shows "intf_ids_ok (ids[p := i]) (insert i used)"
  using assms by (auto simp: intf_ids_ok_def nth_list_update)

lemma intf_ids_ok_gone:
  assumes "intf_ids_ok ids used" and "length ids = 56" and "p < 56" and "ids ! p \<noteq> 0"
  shows "intf_ids_ok (ids[p := 0]) (used - {ids ! p})"
  using assms by (auto simp: intf_ids_ok_def nth_list_update)

lemma handle_addr_step:
  assumes s: "nl_step N s"
  shows "wp (handle_addr E b nlh) (\<lambda>_. nl_step N) s"
proof -
  have new: "wp (on_l3 (bcm56846_l3_intf_create E mac 0 (Some 0))) (\<lambda>a. wp (case a of (rc, intf_id) \<Rightarrow>
      if rc = 0 then modify (\<lambda>s. s\<lparr>port_to_intf_id := (port_to_intf_id s)[p := the intf_id]\<rparr>) else return ()) (\<lambda>_. nl_step N)) s"
    if "p < 56" for mac p
    apply (rule wp_on_l3, rule wp_mono[OF wp_intf_create], intro wp_rules)
    using s that by (auto simp: id_outcome_def nl_step_def nl_inv_def routes_distinct_def intro!: intf_ids_ok_fresh)
  have del: "wp (on_l3 (bcm56846_l3_intf_destroy E (port_to_intf_id s ! p)))
      (\<lambda>a. wp (modify (\<lambda>s. s\<lparr>port_to_intf_id := (port_to_intf_id s)[p := 0]\<rparr>)) (\<lambda>_. nl_step N)) s"
    if "p < 56" "port_to_intf_id s ! p \<noteq> 0" for p
    apply (rule wp_on_l3, rule wp_mono[OF wp_intf_destroy], intro wp_rules)
    using s that by (auto simp: nl_step_def nl_inv_def routes_distinct_def intro!: intf_ids_ok_gone)
  show ?thesis
    unfolding handle_addr_def Let_def
    by (intro wp_rules new del) (use s in auto)
qed

lemma wp_route_add:
  assumes "routes_distinct s"
  shows "wp (bcm56846_l3_route_add E (Some rt))
      (\<lambda>_ s'. routes_distinct s' \<and> intf_used s' = intf_used s \<and> nhop_used s' = nhop_used s) s"
proof -
  have "wp (bcm56846_l3_route_add E (Some rt)) (\<lambda>_ s'. intf_used s' = intf_used s \<and> nhop_used s' = nhop_used s) s"
    unfolding bcm56846_l3_route_add_def Let_def option.case
    by (intro wp_rules) simp_all
  moreover have "routes_distinct (exec (bcm56846_l3_route_add E (Some rt)) s)"
  proof (cases "route_valid rt")
    case True
    then show ?thesis using route_add_db[OF True assms, of E] by simp
  next
    case False
    then have "exec (bcm56846_l3_route_add E (Some rt)) s = s"
      by (auto simp: bcm56846_l3_route_add_def route_valid_def not_less not_le)
    then show ?thesis using assms by simp
  qed
  ultimately show ?thesis by (auto dest: wpD simp: wp_def)
qed

lemma wp_route_delete:
  assumes "routes_distinct s"
  shows "wp (bcm56846_l3_route_delete E (Some rt))
      (\<lambda>_ s'. routes_distinct s' \<and> intf_used s' = intf_used s \<and> nhop_used s' = nhop_used s) s"
proof -
  have "wp (bcm56846_l3_route_delete E (Some rt))
      (\<lambda>_ s'. (\<forall>i. routes s' i = routes s i \<or> routes s' i = None) \<and> intf_used s' = intf_used s \<and> nhop_used s' = nhop_used s) s"
    unfolding bcm56846_l3_route_delete_def Let_def option.case
    by (intro wp_rules) (auto simp: routes_def)
  then show ?thesis
    by (rule wp_mono) (use assms in \<open>simp add: routes_distinct_def; metis option.distinct(1)\<close>)
qed

lemma nl_stepD: "nl_step N s \<Longrightarrow> routes_distinct (l3_view s)"
  by (simp add: nl_step_def nl_inv_def)

lemma nl_step_keep:
  "nl_step N s \<Longrightarrow> routes_distinct t \<Longrightarrow> intf_used t = intf_used (l3_view s) \<Longrightarrow> nhop_used t = nhop_used (l3_view s) \<Longrightarrow>
   nl_step N (l3_put s t)"
  by (simp add: nl_step_def nl_inv_def)

lemma nl_step_more_nhops:
  "nl_step N s \<Longrightarrow> routes t = routes (l3_view s) \<Longrightarrow> intf_used t = intf_used (l3_view s) \<Longrightarrow>
   id_outcome (nhops (l3_view s)) (nhops t) limit r out \<Longrightarrow> nl_step N (l3_put s t)"
  by (auto simp: nl_step_def nl_inv_def routes_distinct_def id_outcome_def split: if_splits)

lemma wp_on_route_add:
  "nl_step N s \<Longrightarrow> wp (on_l3 (bcm56846_l3_route_add E (Some rt))) (\<lambda>_. nl_step N) s"
  by (rule wp_on_l3, rule wp_mono[OF wp_route_add[OF nl_stepD]]) (auto intro: nl_step_keep)

lemma wp_on_route_delete:
  "nl_step N s \<Longrightarrow> wp (on_l3 (bcm56846_l3_route_delete E (Some rt))) (\<lambda>_. nl_step N) s"
  by (rule wp_on_l3, rule wp_mono[OF wp_route_delete[OF nl_stepD]]) (auto intro: nl_step_keep)

lemma wp_on_egress_create:
  "nl_step N s \<Longrightarrow> wp (on_l3 (bcm56846_l3_egress_create E eg out)) (\<lambda>_. nl_step N) s"
  by (rule wp_on_l3, rule wp_mono[OF wp_egress_create]) (auto intro: nl_step_more_nhops)

lemma wp_then: "wp m (\<lambda>_. P) s \<Longrightarrow> (\<And>a s'. P s' \<Longrightarrow> wp (f a) Q s') \<Longrightarrow> wp (Monad_Syntax.bind m f) Q s"
  by (simp add: wp_def split_beta)

lemma handle_route_step:
  assumes s: "nl_step N s"
  shows "wp (handle_route E b nlh) (\<lambda>_. nl_step N) s"
proof -
  show ?thesis
    unfolding handle_route_def Let_def
    by (intro wp_if wp_return wp_option wp_then[OF wp_on_route_delete] wp_then[OF wp_on_egress_create]
        wp_then[OF wp_on_route_add] wp_prod wp_bind[of "gets f" for f] wp_gets) (use s in auto)
qed

lemma nl_dispatch_step: "nl_step N s \<Longrightarrow> wp (nl_dispatch E fw b nlh) (\<lambda>_. nl_step N) s"
  unfolding nl_dispatch_def Let_def
  by (intro wp_if handle_link_step handle_addr_step handle_route_step handle_neigh_step wp_return)

lemma nl_datagram_step: "nl_step N s \<Longrightarrow> wp (nl_datagram E fw b len) (\<lambda>_. nl_step N) s"
  unfolding nl_datagram_def
  by (rule wp_for_each[where P = "nl_step N"]) (auto intro: wp_return nl_dispatch_step)

text \<open>C6. Whatever bytes arrive, the daemon's tables stay well formed: every interface index maps to
  no port or to a port from 1 to 56, each recorded L3 interface identifier is in use in the SDK and
  belongs to one port, the neighbour cache holds at most 256 entries with distinct keys and
  six-byte addresses, and the route database has no duplicates. And no message ever gives a next
  hop back: the next hops in use after a datagram include those in use before.\<close>

theorem nl_datagram_invariant:
  assumes "nl_inv s"
  shows "nl_inv (exec (nl_datagram E fw b len) s) \<and>
    nhops (l3_view s) \<subseteq> nhops (l3_view (exec (nl_datagram E fw b len) s))"
  using wpD[OF nl_datagram_step[of "nhops (l3_view s)" s E fw b len]] assms by (simp add: nl_step_def)

section \<open>Attributes\<close>

text \<open>C29. Attribute parsing stays inside the message and ends: each attribute the table names lies
  wholly inside the given bytes, header and payload, has the type it is filed under, and that type
  is below the size of the table.\<close>

theorem parse_rtattr_in_bounds:
  assumes "parse_rtattr b max_type rta len t = Some off"
  shows "t < max_type \<and> rta_type b off = t \<and> rta \<le> off \<and> 4 \<le> rta_len b off \<and>
    int off + rta_len b off \<le> int rta + len"
proof -
  have "t < m \<and> rta_type b off = t \<and> rta \<le> off \<and> 4 \<le> rta_len b off \<and> int off + rta_len b off \<le> int rta + len"
    if "rtattr_loop tb b m rta len t = Some off" "tb t \<noteq> Some off" for tb m rta len
    using that
  proof (induction tb b m rta len rule: rtattr_loop.induct)
    case (1 tb b m rta len)
    show ?case
    proof (cases "RTA_OK b rta len")
      case True
      let ?tb = "if rta_type b rta < m then tb(rta_type b rta := Some rta) else tb"
      let ?a = "align4 (rta_len b rta)"
      have r: "rtattr_loop ?tb b m (rta + nat ?a) (len - ?a) t = Some off"
        using 1(2) True by (subst (asm) rtattr_loop.simps) simp
      have a: "4 \<le> rta_len b rta" "rta_len b rta \<le> len" "rta_len b rta \<le> ?a" "int (rta + nat ?a) = int rta + ?a"
        using True align4(1)[of "rta_len b rta"] by (auto simp: RTA_OK_def)
      show ?thesis
      proof (cases "?tb t = Some off")
        case t: True
        then have "rta_type b rta < m" "t = rta_type b rta" "off = rta"
          using 1(3) by (auto split: if_splits)
        then show ?thesis using a by simp
      next
        case False
        then show ?thesis using 1(1)[OF True r False] a by (auto simp: le_diff_eq)
      qed
    next
      case False
      then show ?thesis using 1(2,3) by (subst (asm) rtattr_loop.simps) simp
    qed
  qed
  then show ?thesis using assms unfolding parse_rtattr_def by blast
qed

section \<open>The neighbour cache is a map\<close>

definition neigh_map :: "neigh_entry list \<Rightarrow> u32 \<times> int \<Rightarrow> u8 list option" where
  "neigh_map es k = neigh_cache_get (fst k) (snd k) es"

lemma neigh_get_simps [simp]:
  "neigh_cache_get ip i [] = None"
  "neigh_cache_get ip i (e # es) = (if is_neigh ip i e then Some (ne_mac e) else neigh_cache_get ip i es)"
  by (simp_all add: neigh_cache_get_def)

lemma neigh_get_None: "neigh_cache_get ip i es = None \<longleftrightarrow> (ip, i) \<notin> set (neigh_keys es)"
  by (induction es) (auto simp: neigh_keys_def is_neigh_def)

lemma neigh_get_append:
  "neigh_cache_get ip i (es @ fs) = (case neigh_cache_get ip i es of None \<Rightarrow> neigh_cache_get ip i fs | r \<Rightarrow> r)"
  by (induction es) auto

lemma neigh_set_get:
  "neigh_set ip i mac es = Some es' \<Longrightarrow>
   neigh_cache_get ip' i' es' = (if ip' = ip \<and> i' = i then Some mac else neigh_cache_get ip' i' es)"
  by (induction es arbitrary: es') (auto simp: is_neigh_def split: if_splits)

lemma neigh_remove_get:
  "distinct (neigh_keys es) \<Longrightarrow>
   neigh_cache_get ip' i' (neigh_cache_remove ip i es) = (if ip' = ip \<and> i' = i then None else neigh_cache_get ip' i' es)"
  by (induction es) (auto simp: is_neigh_def neigh_keys_def neigh_get_None)

text \<open>The neighbour cache implements a map from address and interface to MAC address with room
  for 256 keys: storing under a key it holds, or under a new one while there is room, updates the
  map at that key; storing a new key in a full cache changes nothing; removing deletes exactly the
  key.\<close>

lemma neigh_cache_refines_map:
  assumes "neigh_inv es"
  shows "neigh_map (neigh_cache_set ip i mac es) =
      (if length es < 256 \<or> (ip, i) \<in> dom (neigh_map es) then (neigh_map es)((ip, i) \<mapsto> mac) else neigh_map es) \<and>
    neigh_map (neigh_cache_remove ip i es) = (neigh_map es)((ip, i) := None)"
proof
  have get: "neigh_cache_get ip' i' (neigh_cache_set ip i mac es) =
      (if (length es < 256 \<or> (ip, i) \<in> set (neigh_keys es)) \<and> ip' = ip \<and> i' = i then Some mac else neigh_cache_get ip' i' es)"
    for ip' i'
  proof (cases "neigh_set ip i mac es")
    case None
    then have "(ip, i) \<notin> set (neigh_keys es)" by (simp add: neigh_set_None)
    then show ?thesis
      using None neigh_get_None[of ip i es]
      by (auto simp: neigh_cache_set_def neigh_get_append is_neigh_def split: option.splits)
  next
    case (Some es')
    then have "(ip, i) \<in> set (neigh_keys es)" using neigh_set_None[of ip i mac es] by auto
    then show ?thesis using Some by (simp add: neigh_cache_set_def neigh_set_get)
  qed
  have dom: "(ip, i) \<in> dom (neigh_map es) \<longleftrightarrow> (ip, i) \<in> set (neigh_keys es)"
    using neigh_get_None[of ip i es] by (auto simp: neigh_map_def)
  show "neigh_map (neigh_cache_set ip i mac es) =
      (if length es < 256 \<or> (ip, i) \<in> dom (neigh_map es) then (neigh_map es)((ip, i) \<mapsto> mac) else neigh_map es)"
    unfolding dom by (auto simp: fun_eq_iff neigh_map_def get)
  show "neigh_map (neigh_cache_remove ip i es) = (neigh_map es)((ip, i) := None)"
    using assms by (auto simp: fun_eq_iff neigh_map_def neigh_remove_get neigh_inv_def)
qed

section \<open>Instances\<close>

text \<open>The state \<open>netlink_thread\<close> starts from, and the attribute \<open>IFLA_IFNAME\<close> = \<open>"swp7"\<close>.\<close>

definition nl0 :: nl_state where
  "nl0 = \<lparr>trace = [], bde_priv = bde_priv bde0, bde_fd = 3, bde_dma_base = - 1, bde_dma_size = 0,
     phy_inited = [0, 0, 0], xlport_enable_shadow = replicate 16 0, l3_vars = bde_state.more l3_0,
     ifindex_to_port = replicate 512 (-1), port_to_intf_id = replicate 56 0, neigh_cache = []\<rparr>"

lemma nl0_inv: "nl_inv nl0"
proof -
  have "routes (l3_view nl0) = routes l3_0" "intf_used (l3_view nl0) = intf_used l3_0"
    by (auto simp: fun_eq_iff routes_def l3_view_def nl0_def l3_0_def bde_state.defs)
  then show ?thesis
    by (simp add: nl_inv_def nl0_def intf_ids_ok_def neigh_inv_def neigh_keys_def routes_distinct_def route_0)
qed

definition ifname_attr :: nlbuf where
  "ifname_attr i = (let bs = [0, 9, 0, 3, 115, 119, 112, 55, 0] in if i < length bs then bs ! i else 0xEE)"

theorem nl_datagram_invariant_witness:
  "nl_inv (exec (nl_datagram chip_env [] ifname_attr 9) nl0)"
  using nl_datagram_invariant[OF nl0_inv, of chip_env "[]" ifname_attr 9] by blast

theorem parse_rtattr_in_bounds_witness:
  "rta_type ifname_attr 0 = 3 \<and> 4 \<le> rta_len ifname_attr 0"
proof -
  have "parse_rtattr ifname_attr 32 0 9 3 = Some 0"
    by (simp add: parse_rtattr_def rtattr_loop.simps[of _ _ _ 0] rtattr_loop.simps[of _ _ _ 12] RTA_OK_def rta_len_def
        rta_type_def be16_def ifname_attr_def align4_def)
  from parse_rtattr_in_bounds[OF this] show ?thesis by simp
qed

end
