(* ===== verification/Ports.thy ===== *)
theory Ports
  imports Config Pktio Netlink
begin

text \<open>
  The daemon's list of ports (src/switchd/src/port_config.c) and its TAP interfaces
  (src/switchd/src/tun.c), on the state of the whole daemon: the variables of the listener and the
  ports, with those of the SDK's initialisation and packet I/O beside them. File contents are the
  parameter \<open>F\<close> of \<open>Soc\<close>. An \<open>ioctl\<close> on an interface is an OS call whose arguments are
  the descriptor, the request, the flags and the characters of the interface name.
\<close>

section \<open>State of the daemon\<close>

record switchd_state = nl_state +
  init_vars :: "unit init_state_ext soc_state_ext"
  pktio_vars :: "unit pktio_state_ext"
  port_names :: "string list"
  port_count :: int
  tun_fds :: "int list"
  num_ports :: int
  netlink_fd :: int

definition init_view :: "'z switchd_state_scheme \<Rightarrow> init_state" where
  "init_view s = bde_state.extend (bde_state.truncate s) (init_vars s)"

definition on_init :: "(init_state, 'a) state \<Rightarrow> ('z switchd_state_scheme, 'a) state" where
  "on_init m = State (\<lambda>s. let (r, t) = run_state m (init_view s) in
     (r, (bde_state.extend (bde_state.truncate t) (bde_state.more s))\<lparr>init_vars := bde_state.more t\<rparr>))"

definition pktio_view :: "'z switchd_state_scheme \<Rightarrow> pktio_state" where
  "pktio_view s = bde_state.extend (bde_state.truncate s) (pktio_vars s)"

definition on_pktio :: "(pktio_state, 'a) state \<Rightarrow> ('z switchd_state_scheme, 'a) state" where
  "on_pktio m = State (\<lambda>s. let (r, t) = run_state m (pktio_view s) in
     (r, (bde_state.extend (bde_state.truncate t) (bde_state.more s))\<lparr>pktio_vars := bde_state.more t\<rparr>))"

section \<open>The list of ports\<close>

abbreviation (input) "PC_MAX_PORTS \<equiv> (56::nat)"
abbreviation (input) "MAX_NAME \<equiv> (32::nat)"

definition port_config_get_name :: "int \<Rightarrow> 'z switchd_state_scheme \<Rightarrow> string option" where
  "port_config_get_name i s = (if i < 0 \<or> i \<ge> port_count s then None else Some (port_names s ! nat i))"

definition port_config_get_count :: "'z switchd_state_scheme \<Rightarrow> int" where
  "port_config_get_count s = port_count s"

definition swp_name :: "int \<Rightarrow> string" where
  "swp_name n = snprintf_buf MAX_NAME (''swp'' @ dec_int n)"

text \<open>52 ports \<open>swp1\<close> to \<open>swp52\<close>.\<close>

definition default_ports :: "('z switchd_state_scheme, unit) state" where
  "default_ports = do {
     modify (\<lambda>s. s\<lparr>port_count := 52\<rparr>);
     for_each [0..<52] (\<lambda>i. modify (\<lambda>s. s\<lparr>port_names := (port_names s)[i := swp_name (int i + 1)]\<rparr>))
   }"

text \<open>A line: \<open>sscanf(line, "%d=", &n) == 1\<close>.\<close>

definition port_line :: "string \<Rightarrow> ('z switchd_state_scheme, unit) state" where
  "port_line line = (case scan_d (c_string line) of None \<Rightarrow> return ()
     | Some (n, _) \<Rightarrow>
         if n \<ge> 1 \<and> n \<le> int PC_MAX_PORTS then
           modify (\<lambda>s. s\<lparr>port_names := (port_names s)[nat (port_count s) := swp_name n],
                          port_count := port_count s + 1\<rparr>)
         else return ())"

fun port_lines :: "string list \<Rightarrow> ('z switchd_state_scheme, unit) state" where
  "port_lines [] = return ()"
| "port_lines (line # lines) = do {
     n \<leftarrow> gets port_count;
     if n < int PC_MAX_PORTS then do { port_line line; port_lines lines } else return ()
   }"

definition port_config_load :: "files \<Rightarrow> string \<Rightarrow> ('z switchd_state_scheme, int) state" where
  "port_config_load F path = do {
     modify (\<lambda>s. s\<lparr>port_count := 0, port_names := replicate PC_MAX_PORTS []\<rparr>);
     h \<leftarrow> gets trace;
     (case F h path of
       None \<Rightarrow> do { emit (OsCall sys_fopen [] 0); default_ports; return 0 }
     | Some body \<Rightarrow> do {
         emit (OsCall sys_fopen [] 1);
         port_lines (fgets_lines 128 body);
         emit (OsCall sys_fclose [] 0);
         n \<leftarrow> gets port_count;
         (if n = 0 then default_ports else return ());
         return 0
       })
   }"

section \<open>TAP interfaces\<close>

definition TUNSETIFF :: int where "TUNSETIFF = 0x800454ca"
definition SIOCGIFFLAGS :: int where "SIOCGIFFLAGS = 0x8913"
definition SIOCSIFFLAGS :: int where "SIOCSIFFLAGS = 0x8914"
definition IFF_TAP_NO_PI :: int where "IFF_TAP_NO_PI = 0x1002"

text \<open>\<open>ifr_name\<close>: at most 15 characters of the name.\<close>

definition ifr :: "int \<Rightarrow> int \<Rightarrow> int \<Rightarrow> string \<Rightarrow> int list" where
  "ifr fd req flags ifname = fd # req # flags # List.map of_char (take 15 ifname)"

definition tun_create :: "env \<Rightarrow> string \<Rightarrow> ('z io_scheme, int option) state" where
  "tun_create E ifname = do {
     fd \<leftarrow> os E sys_open [];
     if fd < 0 then return None
     else do {
       rc \<leftarrow> os E sys_ioctl (ifr fd TUNSETIFF IFF_TAP_NO_PI ifname);
       if rc < 0 then do { os E sys_close [fd]; return None }
       else return (Some fd)
     }
   }"

text \<open>\<open>while (i--) close(fds[i])\<close>\<close>

fun close_down :: "env \<Rightarrow> int list \<Rightarrow> nat \<Rightarrow> ('z io_scheme, unit) state" where
  "close_down E fds 0 = return ()"
| "close_down E fds (Suc i) = do { os E sys_close [fds ! i]; close_down E fds i }"

fun tun_create_from :: "env \<Rightarrow> string list \<Rightarrow> nat \<Rightarrow> int list \<Rightarrow> ('z io_scheme, int \<times> int list) state" where
  "tun_create_from E [] i fds = return (0, fds)"
| "tun_create_from E (name # names) i fds = do {
     r \<leftarrow> tun_create E name;
     (case r of None \<Rightarrow> do { close_down E fds i; return (- 1, fds) }
      | Some fd \<Rightarrow> tun_create_from E names (i + 1) (fds[i := fd]))
   }"

definition tun_create_all :: "env \<Rightarrow> string list \<Rightarrow> int list \<Rightarrow> ('z io_scheme, int \<times> int list) state" where
  "tun_create_all E names fds = tun_create_from E names 0 fds"

definition tun_close_all :: "env \<Rightarrow> int list \<Rightarrow> nat \<Rightarrow> ('z io_scheme, unit) state" where
  "tun_close_all E fds count =
     for_each [0..<count] (\<lambda>i. if fds ! i \<ge> 0 then do { os E sys_close [fds ! i]; return () } else return ())"

text \<open>The flags the kernel reports are 16 bits of which nothing is known.\<close>

definition tun_set_up :: "env \<Rightarrow> string \<Rightarrow> int \<Rightarrow> ('z io_scheme, int) state" where
  "tun_set_up E ifname up = do {
     sock \<leftarrow> os E sys_socket [];
     if sock < 0 then return (- 1)
     else do {
       rc \<leftarrow> os E sys_ioctl (ifr sock SIOCGIFFLAGS 0 ifname);
       if rc < 0 then do { os E sys_close [sock]; return (- 1) }
       else do {
         w \<leftarrow> indeterminate E;
         let fl = (ucast w :: u16);
         let fl = (if up \<noteq> 0 then fl OR 1 else fl AND NOT 1);
         rc \<leftarrow> os E sys_ioctl (ifr sock SIOCSIFFLAGS (uint fl) ifname);
         os E sys_close [sock];
         return (if rc < 0 then - 1 else 0)
       }
     }
   }"

section \<open>Names and port numbers\<close>

text \<open>The listener reads the port number back from a name.\<close>

lemma swp_name_port: "1 \<le> n \<Longrightarrow> n \<le> 56 \<Longrightarrow> ifname_to_port (swp_name n) = Some n"
proof -
  assume "1 \<le> n" "n \<le> 56"
  then have "n \<in> set [1..56]" by simp
  moreover have "list_all (\<lambda>n. ifname_to_port (swp_name n) = Some n) [1..56]" by code_simp
  ultimately show "ifname_to_port (swp_name n) = Some n" unfolding list_all_iff by blast
qed

lemma swp_name_inj: "1 \<le> n \<Longrightarrow> n \<le> 56 \<Longrightarrow> ifname_to_port (swp_name n) = Some k \<longleftrightarrow> n = k"
  by (simp add: swp_name_port)

text \<open>The list of ports holds the names of \<open>ns\<close>.\<close>

definition ports_hold :: "int list \<Rightarrow> 'z switchd_state_scheme \<Rightarrow> bool" where
  "ports_hold ns s \<longleftrightarrow> length ns \<le> 56 \<and> port_count s = int (length ns) \<and>
     port_names s = List.map swp_name ns @ replicate (56 - length ns) []"

lemma replicate_update:
  "length xs < n \<Longrightarrow> (xs @ replicate (n - length xs) z)[length xs := y] = (xs @ [y]) @ replicate (n - Suc (length xs)) z"
  by (cases "n - length xs") (simp_all add: list_update_append)

lemma ports_hold_snoc:
  assumes "ports_hold ns s" and "length ns < 56"
  shows "ports_hold (ns @ [n]) (s\<lparr>port_names := (port_names s)[nat (port_count s) := swp_name n], port_count := port_count s + 1\<rparr>)"
  using assms replicate_update[of "List.map swp_name ns" 56 "[]" "swp_name n"] by (simp add: ports_hold_def)

fun ports_conf_line :: "int \<times> string \<Rightarrow> string" where
  "ports_conf_line (n, mode) = dec_int n @ ''='' @ mode"

fun ports_entry_ok :: "int \<times> string \<Rightarrow> bool" where
  "ports_entry_ok (n, mode) \<longleftrightarrow> 1 \<le> n \<and> n \<le> 56 \<and> newline \<notin> set mode \<and> CHR 0x00 \<notin> set mode \<and> length mode < 100"

lemma run_port_line:
  assumes "ports_entry_ok (n, mode)"
  shows "run_state (port_line (ports_conf_line (n, mode) @ [newline])) s =
    ((), s\<lparr>port_names := (port_names s)[nat (port_count s) := swp_name n], port_count := port_count s + 1\<rparr>)"
proof -
  have "c_string (ports_conf_line (n, mode) @ [newline]) = dec_int n @ CHR ''='' # mode @ [newline]"
    using assms dec_int_plain(2)[of n] by (subst c_string_id) (auto simp: list_all_iff newline_def)
  moreover have "scan_d (dec_int n @ CHR ''='' # mode @ [newline]) = Some (n, CHR ''='' # mode @ [newline])"
    using assms by (intro scan_d_dec_int) (simp_all add: int_range_def no_digit_first_def is_digit_def)
  ultimately show ?thesis using assms by (simp add: port_line_def)
qed

lemma port_lines_hold:
  "ports_hold ns s \<Longrightarrow> list_all ports_entry_ok es \<Longrightarrow> length ns + length es \<le> 56 \<Longrightarrow>
   ports_hold (ns @ List.map fst es) (exec (port_lines (List.map (\<lambda>e. ports_conf_line e @ [newline]) es)) s)"
proof (induction es arbitrary: ns s)
  case (Cons e es)
  obtain n mode where e: "e = (n, mode)" by (cases e)
  with Cons.prems have ok: "ports_entry_ok (n, mode)" and len: "length ns < 56" by simp_all
  have "port_count s < 56" using Cons.prems(1) len by (simp add: ports_hold_def)
  with Cons.IH[OF ports_hold_snoc[OF Cons.prems(1) len, of n]] Cons.prems(2,3)
  show ?case by (simp add: e run_port_line[OF ok] del: ports_conf_line.simps)
qed simp

lemma default_names:
  fixes s :: "'z switchd_state_scheme"
  assumes "k \<le> length (port_names s)"
  shows "run_state (for_each [0..<k] (\<lambda>i. modify (\<lambda>s. s\<lparr>port_names := (port_names s)[i := swp_name (int i + 1)]\<rparr>))) s
     = ((), s\<lparr>port_names := List.map swp_name [1..int k] @ drop k (port_names s)\<rparr>)"
  using assms
proof (induction k)
  case (Suc k)
  have "[1..int (Suc k)] = [1..int k] @ [int k + 1]" by (simp add: upto_rec2 add.commute)
  moreover have "(List.map swp_name [1..int k] @ drop k (port_names s))[k := w] = List.map swp_name [1..int k] @ w # drop (Suc k) (port_names s)" for w
    using Suc.prems by (subst list_update_append) (simp add: Cons_nth_drop_Suc[symmetric])
  ultimately show ?case using Suc by (simp add: for_each_append)
qed simp

lemma default_hold:
  fixes s :: "'z switchd_state_scheme"
  assumes "ports_hold [] s"
  shows "ports_hold [1..52] (exec default_ports s)"
proof -
  have "port_names s = replicate 56 []" using assms by (simp add: ports_hold_def)
  then show ?thesis
    using default_names[of 52 "s\<lparr>port_count := 52\<rparr>"] by (simp add: default_ports_def ports_hold_def del: upto_rec_numeral)
qed

lemma ports_hold_trace [simp]: "ports_hold ns (s\<lparr>trace := tr\<rparr>) = ports_hold ns s"
  by (simp add: ports_hold_def)

lemma ports_hold_name:
  "ports_hold ns s \<Longrightarrow> i < length ns \<Longrightarrow> port_config_get_name (int i) s = Some (swp_name (ns ! i))"
  by (simp add: ports_hold_def port_config_get_name_def nth_append)

text \<open>C35. The port list against the port numbers. Loading a missing or empty \<open>ports.conf\<close> yields
  \<open>swp1\<close> to \<open>swp52\<close>; loading one printed line by line (port 1 to 56, any mode) yields the names
  of its ports in the order of the lines. The listener takes the number in a name as the port, the
  packet threads and the link poller take the position plus one: the two agree on all ports exactly
  if the file lists the ports from 1 on without a gap, in order.\<close>

theorem ports_conf_agreement:
  fixes s :: "'z switchd_state_scheme"
  assumes es: "list_all ports_entry_ok es" "length es \<le> 56"
    and body: "F (trace s) path = (if missing then None else Some (concat (List.map (\<lambda>e. ports_conf_line e @ [newline]) es)))"
  defines "ns \<equiv> (if missing \<or> es = [] then [1..52] else List.map fst es)"
    and "t \<equiv> exec (port_config_load F path) s"
  shows "port_config_get_count t = int (length ns) \<and>
    (\<forall>i < length ns. port_config_get_name (int i) t = Some (swp_name (ns ! i)) \<and> ifname_to_port (swp_name (ns ! i)) = Some (ns ! i)) \<and>
    ((\<forall>i < length ns. ifname_to_port (the (port_config_get_name (int i) t)) = Some (int i + 1)) \<longleftrightarrow> ns = [1..int (length ns)])"
proof -
  let ?lines = "List.map (\<lambda>e. ports_conf_line e @ [newline]) es"
  define s1 where "s1 = s\<lparr>port_count := 0, port_names := replicate PC_MAX_PORTS []\<rparr>"
  have s1: "ports_hold [] s1" by (simp add: s1_def ports_hold_def)
  have hold: "ports_hold ns t"
  proof (cases missing)
    case True
    then have "t = exec default_ports (s1\<lparr>trace := OsCall sys_fopen [] 0 # trace s\<rparr>)"
      using body by (simp add: t_def port_config_load_def s1_def split_beta)
    then show ?thesis using default_hold[of "s1\<lparr>trace := OsCall sys_fopen [] 0 # trace s\<rparr>"] s1 True by (simp add: ns_def del: upto_rec_numeral)
  next
    case False
    have "newline \<notin> set l \<and> length l + 1 < 128" if "l \<in> set (List.map ports_conf_line es)" for l
    proof -
      from that obtain n mode where m: "(n, mode) \<in> set es" "l = ports_conf_line (n, mode)" by auto
      then have ok: "ports_entry_ok (n, mode)" using es(1) unfolding list_all_iff by blast
      then have "length (dec_int n) \<le> 11" by (intro dec_int_length) (simp add: int_range_def)
      then show ?thesis using ok m(2) dec_int_plain(1)[of n] by (auto simp: newline_def)
    qed
    from fgets_lines_concat[of "List.map ports_conf_line es" 128, OF this]
    have lines: "fgets_lines 128 (concat ?lines) = ?lines" by (simp add: comp_def del: ports_conf_line.simps)
    define s2 where "s2 = exec (port_lines ?lines) (s1\<lparr>trace := OsCall sys_fopen [] 1 # trace s\<rparr>)"
    have s2: "ports_hold (List.map fst es) s2"
      using port_lines_hold[of "[]" "s1\<lparr>trace := OsCall sys_fopen [] 1 # trace s\<rparr>" es] s1 es by (simp add: s2_def)
    then have c: "port_count s2 = int (length es)" by (simp add: ports_hold_def)
    have "t = (let s3 = s2\<lparr>trace := OsCall sys_fclose [] 0 # trace s2\<rparr> in
        if es = [] then exec default_ports s3 else s3)"
      using body False lines c by (simp add: t_def port_config_load_def s2_def s1_def split_beta Let_def)
    then show ?thesis
      using s2 False default_hold[of "s2\<lparr>trace := OsCall sys_fclose [] 0 # trace s2\<rparr>"]
      by (simp add: ns_def Let_def del: upto_rec_numeral split: if_splits)
  qed
  have range: "1 \<le> n \<and> n \<le> 56" if "n \<in> set ns" for n
    using that es(1) by (auto simp: ns_def list_all_iff simp del: upto_rec_numeral split: if_splits)
  have names: "port_config_get_name (int i) t = Some (swp_name (ns ! i))" "ifname_to_port (swp_name (ns ! i)) = Some (ns ! i)"
    if "i < length ns" for i
    using that ports_hold_name[OF hold] swp_name_port[of "ns ! i"] range[of "ns ! i"] by simp_all
  have "ns = [1..int (length ns)] \<longleftrightarrow> (\<forall>i < length ns. ns ! i = int i + 1)"
    by (subst list_eq_iff_nth_eq) (auto simp: add.commute)
  with names hold show ?thesis by (simp add: ports_hold_def port_config_get_count_def)
qed

theorem ports_conf_agreement_witness:
  "\<exists>F :: files. \<forall>s :: switchd_state. port_config_get_name 0 (exec (port_config_load F ''ports.conf'') s) = Some (swp_name 2) \<and>
     ifname_to_port (swp_name 2) = Some 2 \<and> ifname_to_port (swp_name 2) \<noteq> Some (0 + 1)"
proof -
  define es where "es = [(2, ''10G''), (3, ''4x10G'') :: int \<times> string]"
  define F :: files where "F = (\<lambda>_ _. Some (concat (List.map (\<lambda>e. ports_conf_line e @ [newline]) es)))"
  have es: "list_all ports_entry_ok es" "length es \<le> 56" by (simp_all add: es_def newline_def)
  have ns: "(if False \<or> es = [] then [1..52] else List.map fst es) = [2, 3]" by (simp add: es_def)
  have "port_config_get_name 0 (exec (port_config_load F ''ports.conf'') s) = Some (swp_name 2) \<and> ifname_to_port (swp_name 2) = Some 2"
    for s :: switchd_state
    using ports_conf_agreement[where s = s and F = F and path = "''ports.conf''" and missing = False and es = es, OF es,
        unfolded ns, THEN conjunct2, THEN conjunct1, rule_format, of 0] by (simp add: F_def)
  then show ?thesis by auto
qed

section \<open>Descriptors\<close>

text \<open>How many open descriptors of each number the history leaves.\<close>

fun open_fds :: "io_event list \<Rightarrow> int \<Rightarrow> int" where
  "open_fds [] = (\<lambda>fd. 0)"
| "open_fds (OsCall sys_open args r # tr) = (if r \<ge> 0 then (open_fds tr)(r := open_fds tr r + 1) else open_fds tr)"
| "open_fds (OsCall sys_socket args r # tr) = (if r \<ge> 0 then (open_fds tr)(r := open_fds tr r + 1) else open_fds tr)"
| "open_fds (OsCall sys_close args r # tr) = (open_fds tr)(hd args := open_fds tr (hd args) - 1)"
| "open_fds (_ # tr) = open_fds tr"

lemma count_take_Suc: "i < length xs \<Longrightarrow> count_list (take (Suc i) xs) x = count_list (take i xs) x + (if xs ! i = x then 1 else 0)"
  by (simp add: take_Suc_conv_app_nth)

lemma wp_tun_create:
  "wp (tun_create E name) (\<lambda>r t. case r of None \<Rightarrow> open_fds (trace t) = open_fds (trace s)
     | Some fd \<Rightarrow> fd \<ge> 0 \<and> open_fds (trace t) = (open_fds (trace s))(fd := open_fds (trace s) fd + 1)) s"
  unfolding tun_create_def ifr_def by (intro wp_rules) auto

lemma close_down_fds:
  "i \<le> length fds \<Longrightarrow> wp (close_down E fds i) (\<lambda>_ t. \<forall>x. open_fds (trace t) x = open_fds (trace s) x - int (count_list (take i fds) x)) s"
proof (induction i arbitrary: s)
  case (Suc i)
  have "wp (close_down E fds i) (\<lambda>_ t. \<forall>x. open_fds (trace t) x = open_fds (trace s) x - int (count_list (take (Suc i) fds) x))
      (s\<lparr>trace := OsCall sys_close [fds ! i] r # trace s\<rparr>)" for r
    by (rule wp_mono[OF Suc.IH]) (use Suc.prems in \<open>auto simp: count_take_Suc\<close>)
  then show ?case unfolding close_down.simps by (intro wp_bind wp_os)
qed (simp add: wp_def)

lemma close_all_fds:
  "k \<le> length fds \<Longrightarrow> (\<And>i. i < k \<Longrightarrow> fds ! i \<ge> 0) \<Longrightarrow>
   open_fds (trace (exec (tun_close_all E fds k) s)) x = open_fds (trace s) x - int (count_list (take k fds) x)"
proof (induction k arbitrary: x)
  case (Suc k)
  then show ?case by (simp add: tun_close_all_def for_each_append count_take_Suc)
qed (simp add: tun_close_all_def)

lemma tun_create_from_fds:
  assumes "i + length names \<le> length fds" and "\<And>j. j < i \<Longrightarrow> fds ! j \<ge> 0"
    and "\<And>x. open_fds (trace s) x = base x + int (count_list (take i fds) x)"
  shows "wp (tun_create_from E names i fds) (\<lambda>(rc, fds') t. length fds' = length fds \<and>
     (rc = - 1 \<and> open_fds (trace t) = base \<or>
      rc = 0 \<and> (\<forall>j < i + length names. fds' ! j \<ge> 0) \<and>
        (\<forall>x. open_fds (trace t) x = base x + int (count_list (take (i + length names) fds') x)))) s"
  using assms
proof (induction names arbitrary: i fds s)
  case (Cons name names)
  let ?Q = "\<lambda>(rc, fds') t. length fds' = length fds \<and>
     (rc = - (1::int) \<and> open_fds (trace t) = base \<or>
      rc = 0 \<and> (\<forall>j < i + length (name # names). fds' ! j \<ge> 0) \<and>
        (\<forall>x. open_fds (trace t) x = base x + int (count_list (take (i + length (name # names)) fds') x)))"
  have failed: "wp (do { close_down E fds i; return (- 1, fds) }) ?Q t" if "open_fds (trace t) = open_fds (trace s)" for t :: "'a io_scheme"
    using that Cons.prems by (intro wp_bind wp_mono[OF close_down_fds]) (auto intro!: wp_return)
  have ok: "wp (tun_create_from E names (i + 1) (fds[i := fd])) ?Q t"
    if "fd \<ge> 0" "open_fds (trace t) = (open_fds (trace s))(fd := open_fds (trace s) fd + 1)" for fd and t :: "'a io_scheme"
  proof (rule wp_mono[OF Cons.IH])
    show "0 \<le> fds[i := fd] ! j" if "j < i + 1" for j
      using that Cons.prems(1,2) \<open>fd \<ge> 0\<close> by (cases "j = i") auto
    show "open_fds (trace t) x = base x + int (count_list (take (i + 1) (fds[i := fd])) x)" for x
      using Cons.prems(1) Cons.prems(3)[of x] that(2) by (auto simp: count_take_Suc)
  qed (use Cons.prems(1) in auto)
  show ?case
    unfolding tun_create_from.simps
  proof (rule wp_bind, rule wp_mono[OF wp_tun_create])
    fix r :: "int option" and t :: "'a io_scheme"
    assume r: "case r of None \<Rightarrow> open_fds (trace t) = open_fds (trace s)
     | Some fd \<Rightarrow> fd \<ge> 0 \<and> open_fds (trace t) = (open_fds (trace s))(fd := open_fds (trace s) fd + 1)"
    show "wp (case r of None \<Rightarrow> do { close_down E fds i; return (- 1, fds) }
        | Some fd \<Rightarrow> tun_create_from E names (i + 1) (fds[i := fd])) ?Q t"
    proof (cases r)
      case None
      then show ?thesis using r failed[of t] by (simp only: option.case)
    next
      case (Some fd)
      then show ?thesis using r ok[of fd t] by (simp only: option.case)
    qed
  qed
qed (use assms in \<open>auto simp: wp_def\<close>)

text \<open>C36. The TAP interfaces are created all or none: whatever the kernel answers, \<open>tun_create_all\<close>
  returns 0 with a valid descriptor in every place, each opened once more than before, or -1 with
  every descriptor it opened closed again (also those of a failed set-up); closing all after a
  success leaves the descriptors as they were before.\<close>

theorem tun_create_all_handles:
  fixes E :: env and s :: "'z io_scheme"
  assumes len: "length names \<le> length fds"
  defines "r \<equiv> result (tun_create_all E names fds) s" and "t \<equiv> exec (tun_create_all E names fds) s"
  shows "length (snd r) = length fds \<and>
    (fst r = - 1 \<and> open_fds (trace t) = open_fds (trace s) \<or>
     fst r = 0 \<and> (\<forall>j < length names. snd r ! j \<ge> 0) \<and>
       (\<forall>x. open_fds (trace t) x = open_fds (trace s) x + int (count_list (take (length names) (snd r)) x)) \<and>
       open_fds (trace (exec (tun_close_all E (snd r) (length names)) t)) = open_fds (trace s))"
proof -
  have "wp (tun_create_from E names 0 fds) (\<lambda>(rc, fds') t. length fds' = length fds \<and>
     (rc = - 1 \<and> open_fds (trace t) = open_fds (trace s) \<or>
      rc = 0 \<and> (\<forall>j < 0 + length names. fds' ! j \<ge> 0) \<and>
        (\<forall>x. open_fds (trace t) x = open_fds (trace s) x + int (count_list (take (0 + length names) fds') x)))) s"
    by (rule tun_create_from_fds) (use len in auto)
  then have r: "length (snd r) = length fds \<and> (fst r = - 1 \<and> open_fds (trace t) = open_fds (trace s) \<or>
      fst r = 0 \<and> (\<forall>j < length names. snd r ! j \<ge> 0) \<and>
        (\<forall>x. open_fds (trace t) x = open_fds (trace s) x + int (count_list (take (length names) (snd r)) x)))"
    unfolding wp_def tun_create_all_def[symmetric] r_def t_def by (simp add: case_prod_unfold)
  moreover have "open_fds (trace (exec (tun_close_all E (snd r) (length names)) t)) = open_fds (trace s)"
    if "\<forall>j < length names. snd r ! j \<ge> 0"
      and "\<forall>x. open_fds (trace t) x = open_fds (trace s) x + int (count_list (take (length names) (snd r)) x)"
    using close_all_fds[of "length names" "snd r" E t] len r that by (auto simp: fun_eq_iff)
  ultimately show ?thesis by blast
qed

theorem tun_create_all_handles_witness:
  "fst (result (tun_create_all miim_env [''swp1'', ''swp2''] [- 1, - 1, - 1]) init0) = 0 \<and>
   open_fds (trace (exec (tun_close_all miim_env (snd (result (tun_create_all miim_env [''swp1'', ''swp2''] [- 1, - 1, - 1]) init0)) 2)
     (exec (tun_create_all miim_env [''swp1'', ''swp2''] [- 1, - 1, - 1]) init0))) = (\<lambda>fd. 0)"
proof -
  have "fst (result (tun_create_all miim_env [''swp1'', ''swp2''] [- 1, - 1, - 1]) init0) = 0"
    by (simp add: tun_create_all_def tun_create_def miim_env_def)
  moreover have "length [''swp1'', ''swp2''] \<le> length [- 1, - 1, - 1 :: int]" by simp
  from tun_create_all_handles[OF this, of miim_env init0]
  have "fst (result (tun_create_all miim_env [''swp1'', ''swp2''] [- 1, - 1, - 1]) init0) = - 1 \<or>
    open_fds (trace (exec (tun_close_all miim_env (snd (result (tun_create_all miim_env [''swp1'', ''swp2''] [- 1, - 1, - 1]) init0)) 2)
     (exec (tun_create_all miim_env [''swp1'', ''swp2''] [- 1, - 1, - 1]) init0))) = open_fds (trace init0)"
    by (auto simp: numeral_2_eq_2)
  ultimately show ?thesis by (simp add: init0_def)
qed

section \<open>Any file\<close>

definition ports_wf :: "'z switchd_state_scheme \<Rightarrow> bool" where
  "ports_wf s \<longleftrightarrow> length (port_names s) = 56 \<and> 0 \<le> port_count s \<and> port_count s \<le> 56 \<and>
     list_all (\<lambda>w. w \<in> swp_name ` {1..56}) (take (nat (port_count s)) (port_names s))"

lemma ports_wf_line:
  assumes "ports_wf s" and "port_count s < 56"
  shows "ports_wf (exec (port_line l) s)"
proof -
  have "nat (port_count s) < length (port_names s)" "nat (port_count s + 1) = Suc (nat (port_count s))"
    using assms by (simp_all add: ports_wf_def nat_add_distrib)
  then show ?thesis
    using assms by (auto simp: port_line_def ports_wf_def take_Suc_conv_app_nth split: option.splits)
qed

lemma ports_wf_lines: "ports_wf s \<Longrightarrow> ports_wf (exec (port_lines ls) s)"
proof (induction ls arbitrary: s)
  case (Cons l ls)
  then show ?case using ports_wf_line[of s l] by (simp add: exec_bind result_bind del: run_state_bind)
qed simp

lemma ports_hold_wf: "ports_hold ns s \<Longrightarrow> set ns \<subseteq> {1..56} \<Longrightarrow> ports_wf s"
  by (auto simp: ports_hold_def ports_wf_def list_all_iff)

text \<open>C38. The port list is well formed whatever the file holds: after loading any text, or none,
  there are 1 to 56 ports in an array of 56 names, and each of them is called \<open>swp1\<close> to \<open>swp56\<close>.
  So the checks of the port count in the program and the link poller never fail.\<close>

theorem port_config_load_wf:
  "length (port_names (exec (port_config_load F path) s)) = 56 \<and>
   1 \<le> port_count (exec (port_config_load F path) s) \<and> port_count (exec (port_config_load F path) s) \<le> 56 \<and>
   list_all (\<lambda>w. w \<in> swp_name ` {1..56})
     (take (nat (port_count (exec (port_config_load F path) s))) (port_names (exec (port_config_load F path) s)))"
proof -
  define s1 where "s1 = s\<lparr>port_count := 0, port_names := replicate PC_MAX_PORTS []\<rparr>"
  have s1: "ports_hold [] s1" by (simp add: s1_def ports_hold_def)
  have default: "ports_wf (exec default_ports u) \<and> 1 \<le> port_count (exec default_ports u)"
    if "length (port_names u) = 56" for u :: "'a switchd_state_scheme"
  proof -
    have "exec default_ports u = u\<lparr>port_count := 52, port_names := List.map swp_name [1..52] @ drop 52 (port_names u)\<rparr>"
      using default_names[of 52 "u\<lparr>port_count := 52\<rparr>"] that by (simp add: default_ports_def del: upto_rec_numeral)
    then show ?thesis using that by (auto simp: ports_wf_def list_all_iff simp del: upto_rec_numeral)
  qed
  have "ports_wf (exec (port_config_load F path) s) \<and> 1 \<le> port_count (exec (port_config_load F path) s)"
  proof (cases "F (trace s) path")
    case None
    then show ?thesis
      using default[of "s1\<lparr>trace := OsCall sys_fopen [] 0 # trace s\<rparr>"] by (simp add: port_config_load_def s1_def split_beta)
  next
    case (Some body)
    define s2 where "s2 = exec (port_lines (fgets_lines 128 body)) (s1\<lparr>trace := OsCall sys_fopen [] 1 # trace s\<rparr>)"
    have wf: "ports_wf s2" unfolding s2_def by (rule ports_wf_lines, rule ports_hold_wf[of "[]"]) (simp_all add: s1)
    then have len: "length (port_names s2) = 56" "0 \<le> port_count s2" by (simp_all add: ports_wf_def)
    have "exec (port_config_load F path) s = (let s3 = s2\<lparr>trace := OsCall sys_fclose [] 0 # trace s2\<rparr> in
        if port_count s2 = 0 then exec default_ports s3 else s3)"
      using Some by (simp add: port_config_load_def s2_def s1_def split_beta Let_def)
    then show ?thesis
      using default[of "s2\<lparr>trace := OsCall sys_fclose [] 0 # trace s2\<rparr>"] wf len by (simp add: ports_wf_def Let_def)
  qed
  then show ?thesis by (simp add: ports_wf_def)
qed

end
