(* ===== verification/Switchd.thy ===== *)
theory Switchd
  imports Ports
begin

text \<open>
  The control plane daemon: the link state poller (src/switchd/src/link_state.c), the transmit
  thread and receive callback between TAP interfaces and packet I/O (src/switchd/src/tx_rx.c) and
  the start and end of the program (src/switchd/src/main.c). A loop that runs while a volatile flag
  is set takes the values it reads there as a list. What \<open>epoll_wait\<close> and \<open>read\<close> deliver are the
  parameters \<open>W\<close> and \<open>R\<close>. The threads are modelled one by one; their interleaving is not.
\<close>

section \<open>Link state\<close>

definition POLL_MS :: nat where "POLL_MS = 200"

text \<open>One port; \<open>last_up\<close> and \<open>link_up\<close> are the local variables of the thread.\<close>

definition link_port ::
  "env \<Rightarrow> nat \<Rightarrow> int list \<times> int \<Rightarrow> ('z switchd_state_scheme, int list \<times> int) state" where
  "link_port E i vars = do {
     let (last_up, link_up) = vars;
     (rc, up) \<leftarrow> bcm56846_port_link_status_get E (int i + 1) (Some link_up);
     let link_up = (case up of None \<Rightarrow> link_up | Some u \<Rightarrow> u);
     if rc \<noteq> 0 then return (last_up, link_up)
     else do {
       let changed = (last_up ! i \<noteq> link_up);
       (if changed then do {
          name \<leftarrow> gets (port_config_get_name (int i));
          (case name of None \<Rightarrow> return ()
           | Some nm \<Rightarrow> do { _ \<leftarrow> tun_set_up E nm link_up; return () })
        } else return ());
       return (last_up[i := link_up], link_up)
     }
   }"

fun link_ports :: "env \<Rightarrow> nat list \<Rightarrow> int list \<times> int \<Rightarrow> ('z switchd_state_scheme, int list \<times> int) state" where
  "link_ports E [] vars = return vars"
| "link_ports E (i # is) vars = do { vars \<leftarrow> link_port E i vars; link_ports E is vars }"

fun link_loop :: "env \<Rightarrow> nat \<Rightarrow> bool list \<Rightarrow> int list \<times> int \<Rightarrow> ('z switchd_state_scheme, int list \<times> int) state" where
  "link_loop E n (True # running) vars = do {
     usleep (POLL_MS * 1000);
     vars \<leftarrow> link_ports E [0..<n] vars;
     link_loop E n running vars
   }"
| "link_loop E n _ vars = return vars"

definition link_state_thread :: "env \<Rightarrow> bool list \<Rightarrow> ('z switchd_state_scheme, unit) state" where
  "link_state_thread E running = do {
     n \<leftarrow> gets port_config_get_count;
     if n \<le> 0 \<or> n > int PC_MAX_PORTS then return ()
     else do {
       w \<leftarrow> indeterminate E;
       _ \<leftarrow> link_loop E (nat n) running (replicate PC_MAX_PORTS (- 1), sint w);
       return ()
     }
   }"

section \<open>Packets\<close>

abbreviation (input) "MAX_PKT_SIZE \<equiv> (2048::nat)"
abbreviation (input) "EPOLL_MAX \<equiv> (64::nat)"

text \<open>The cookie is the array of descriptors and their number.\<close>

definition rx_callback ::
  "env \<Rightarrow> int list \<Rightarrow> int \<Rightarrow> int \<Rightarrow> int \<Rightarrow> int \<Rightarrow> int \<Rightarrow> int \<Rightarrow> ('z io_scheme, unit) state" where
  "rx_callback E fds n unit port pkt len cookie = (let idx = port - 1 in
     if idx < 0 \<or> idx \<ge> n \<or> fds ! nat idx < 0 then return ()
     else do { _ \<leftarrow> os E sys_write [fds ! nat idx, pkt, len]; return () })"

datatype epoll_answer = Ready "int list" | Interrupted | Wait_failed

text \<open>An event of descriptor \<open>fd\<close>. False is a fault in \<open>bcm56846_tx\<close>.\<close>

definition tx_event ::
  "env \<Rightarrow> (io_event list \<Rightarrow> int \<Rightarrow> u8 list option) \<Rightarrow> int list \<Rightarrow> nat \<Rightarrow> int \<Rightarrow> ('z switchd_state_scheme, bool) state" where
  "tx_event E R fds n fd = do {
     h \<leftarrow> gets trace;
     let pkt = (case R h fd of None \<Rightarrow> [] | Some bs \<Rightarrow> take MAX_PKT_SIZE bs);
     emit (OsCall sys_read [fd, int MAX_PKT_SIZE] (if R h fd = None then - 1 else int (length pkt)));
     if pkt = [] then return True
     else (case find (\<lambda>j. fds ! j = fd) [0..<n] of
         None \<Rightarrow> return True
       | Some j \<Rightarrow> do {
           r \<leftarrow> on_pktio (bcm56846_tx E (int j + 1) (Some pkt) (int (length pkt)));
           return (r \<noteq> None)
         })
   }"

fun tx_events ::
  "env \<Rightarrow> (io_event list \<Rightarrow> int \<Rightarrow> u8 list option) \<Rightarrow> int list \<Rightarrow> nat \<Rightarrow> int list \<Rightarrow> ('z switchd_state_scheme, bool) state" where
  "tx_events E R fds n [] = return True"
| "tx_events E R fds n (fd # evs) = do {
     ok \<leftarrow> tx_event E R fds n fd;
     if ok then tx_events E R fds n evs else return False
   }"

fun tx_loop ::
  "env \<Rightarrow> (io_event list \<Rightarrow> int \<Rightarrow> u8 list option) \<Rightarrow> (io_event list \<Rightarrow> epoll_answer) \<Rightarrow> int list \<Rightarrow> nat \<Rightarrow> bool list \<Rightarrow>
   ('z switchd_state_scheme, bool) state" where
  "tx_loop E R W fds n (True # running) = do {
     h \<leftarrow> gets trace;
     (case W h of
       Interrupted \<Rightarrow> do { emit (OsCall sys_epoll_wait [] (- 1)); tx_loop E R W fds n running }
     | Wait_failed \<Rightarrow> do { emit (OsCall sys_epoll_wait [] (- 1)); return True }
     | Ready evs \<Rightarrow> do {
         emit (OsCall sys_epoll_wait [] (int (length (take EPOLL_MAX evs))));
         ok \<leftarrow> tx_events E R fds n (take EPOLL_MAX evs);
         if ok then tx_loop E R W fds n running else return False
       })
   }"
| "tx_loop E R W fds n _ = return True"

definition tx_thread ::
  "env \<Rightarrow> (io_event list \<Rightarrow> int \<Rightarrow> u8 list option) \<Rightarrow> (io_event list \<Rightarrow> epoll_answer) \<Rightarrow> int list \<Rightarrow> nat \<Rightarrow> bool list \<Rightarrow>
   ('z switchd_state_scheme, bool) state" where
  "tx_thread E R W fds n running = do {
     pkt \<leftarrow> os E sys_malloc [int MAX_PKT_SIZE];
     if pkt = 0 then return True
     else do {
       epfd \<leftarrow> os E sys_epoll_create [];
       if epfd < 0 then return True
       else do {
         for_each [0..<n] (\<lambda>i. if fds ! i < 0 then return ()
            else do { _ \<leftarrow> os E sys_epoll_ctl [epfd, fds ! i]; return () });
         ok \<leftarrow> tx_loop E R W fds n running;
         (if ok then do { _ \<leftarrow> os E sys_close [epfd]; return () } else return ());
         return ok
       }
     }
   }"

text \<open>The pointer to \<open>rx_callback\<close> and to the cookie are some addresses that are not NULL.\<close>

definition rx_start :: "env \<Rightarrow> int \<Rightarrow> int \<Rightarrow> ('z switchd_state_scheme, int) state" where
  "rx_start E callback cookie = do {
     rc \<leftarrow> on_pktio (bcm56846_rx_register callback cookie);
     if rc \<noteq> 0 then return (- 1) else on_pktio (bcm56846_rx_start E)
   }"

section \<open>The program\<close>

definition PORTS_CONF_DEFAULT :: string where "PORTS_CONF_DEFAULT = ''/etc/nos/ports.conf''"
definition CONFIG_PATH_DEFAULT :: string where "CONFIG_PATH_DEFAULT = ''/etc/nos''"

text \<open>Start-up: \<open>Some 1\<close> is the exit code of a failure, \<open>None\<close> means the daemon is up.\<close>

definition switchd_start :: "env \<Rightarrow> files \<Rightarrow> u8 list \<Rightarrow> int \<Rightarrow> int \<Rightarrow> ('z switchd_state_scheme, int option) state" where
  "switchd_start E F fw callback cookie = do {
     os E sys_signal [2];
     os E sys_signal [15];
     modify (\<lambda>s. s\<lparr>tun_fds := replicate PC_MAX_PORTS (- 1)\<rparr>);
     rc \<leftarrow> port_config_load F PORTS_CONF_DEFAULT;
     if rc < 0 then return (Some 1) else do {
     n \<leftarrow> gets port_config_get_count;
     modify (\<lambda>s. s\<lparr>num_ports := n\<rparr>);
     if n \<le> 0 \<or> n > int PC_MAX_PORTS then return (Some 1) else do {
     rc \<leftarrow> on_init (bcm56846_attach E);
     if rc < 0 then return (Some 1) else do {
     rc \<leftarrow> on_init (bcm56846_init E F (Some CONFIG_PATH_DEFAULT));
     if rc < 0 then do { on_init (bcm56846_detach E); return (Some 1) } else do {
     for_each [0..n - 1] (\<lambda>i. bcm56846_port_enable_set E fw (i + 1) 1);
     names \<leftarrow> gets (\<lambda>s. List.map (\<lambda>i. the (port_config_get_name i s)) [0..n - 1]);
     fds \<leftarrow> gets tun_fds;
     (rc, fds) \<leftarrow> tun_create_all E names fds;
     modify (\<lambda>s. s\<lparr>tun_fds := fds\<rparr>);
     if rc < 0 then do { on_init (bcm56846_detach E); return (Some 1) } else do {
     _ \<leftarrow> rx_start E callback cookie;
     os E sys_pthread_create [1];
     os E sys_pthread_create [2];
     os E sys_pthread_create [3];
     return None
     }}}}}
   }"

text \<open>\<open>while (running) sleep(1);\<close> and the shutdown.\<close>

definition switchd_stop :: "env \<Rightarrow> bool list \<Rightarrow> ('z switchd_state_scheme, int) state" where
  "switchd_stop E running = do {
     for_each (takeWhile (\<lambda>r. r) running) (\<lambda>_. os E sys_sleep [1]);
     fd \<leftarrow> gets netlink_fd;
     (if fd \<ge> 0 then do { _ \<leftarrow> os E sys_shutdown [fd]; return () } else return ());
     os E sys_pthread_join [1];
     os E sys_pthread_join [2];
     os E sys_pthread_join [3];
     fds \<leftarrow> gets tun_fds;
     n \<leftarrow> gets num_ports;
     tun_close_all E fds (nat n);
     on_init (bcm56846_detach E);
     return 0
   }"

definition switchd_main :: "env \<Rightarrow> files \<Rightarrow> u8 list \<Rightarrow> int \<Rightarrow> int \<Rightarrow> bool list \<Rightarrow> ('z switchd_state_scheme, int) state" where
  "switchd_main E F fw callback cookie running = do {
     r \<leftarrow> switchd_start E F fw callback cookie;
     (case r of Some code \<Rightarrow> return code | None \<Rightarrow> switchd_stop E running)
   }"

section \<open>Packets keep their port\<close>

lemma find_fd:
  assumes "distinct (take n fds)" and "n \<le> length fds" and "j < n"
  shows "find (\<lambda>i. fds ! i = fds ! j) [0..<n] = Some j"
proof -
  have inj: "i = j" if "i < n" "fds ! i = fds ! j" for i
    using assms that nth_eq_iff_index_eq[OF assms(1), of i j] by simp
  show ?thesis
  proof (cases "find (\<lambda>i. fds ! i = fds ! j) [0..<n]")
    case None
    then show ?thesis using assms(3) by (auto simp: find_None_iff)
  next
    case (Some i)
    then obtain k where "k < n" "fds ! ([0..<n] ! k) = fds ! j" "i = [0..<n] ! k" by (auto simp: find_Some_iff)
    then have "i = j" using inj[of k] by simp
    then show ?thesis using Some by simp
  qed
qed

text \<open>C37. Ports and TAP interfaces correspond one to one: with \<open>n\<close> distinct descriptors open, a
  packet the chip received on port \<open>p\<close> is written to the descriptor at position \<open>p - 1\<close> in one
  call with its address and length, a packet for another port is dropped; and what the kernel
  delivers on that descriptor is transmitted on port \<open>p\<close>, its first 2048 bytes with their
  length, the empty and the failed read being dropped.\<close>

theorem packets_keep_port:
  fixes s :: "'z switchd_state_scheme" and p :: int
  assumes fds: "distinct (take n fds)" "n \<le> length fds" "\<forall>j < n. fds ! j \<ge> 0" and p: "1 \<le> p" "p \<le> int n"
  defines "fd \<equiv> fds ! nat (p - 1)"
  shows "run_state (rx_callback E fds (int n) unit p pkt len cookie) s =
       ((), s\<lparr>trace := OsCall sys_write [fd, pkt, len] (os_answer E (trace s) sys_write [fd, pkt, len]) # trace s\<rparr>) \<and>
    (\<forall>q. 1 \<le> q \<and> q \<le> int n \<or> run_state (rx_callback E fds (int n) unit q pkt len cookie) s = ((), s)) \<and>
    run_state (tx_event E R fds n fd) s =
      (case R (trace s) fd of
         None \<Rightarrow> (True, s\<lparr>trace := OsCall sys_read [fd, 2048] (- 1) # trace s\<rparr>)
       | Some bs \<Rightarrow>
           let bs = take 2048 bs; u = s\<lparr>trace := OsCall sys_read [fd, 2048] (int (length bs)) # trace s\<rparr> in
           if bs = [] then (True, u)
           else (let (r, v) = run_state (on_pktio (bcm56846_tx E p (Some bs) (int (length bs)))) u in (r \<noteq> None, v)))"
proof (intro conjI)
  have n: "nat (p - 1) < n" and j: "int (nat (p - 1)) + 1 = p" using p by simp_all
  have nn: "0 \<le> fd" using fds(3) n by (simp add: fd_def)
  show "run_state (rx_callback E fds (int n) unit p pkt len cookie) s =
       ((), s\<lparr>trace := OsCall sys_write [fd, pkt, len] (os_answer E (trace s) sys_write [fd, pkt, len]) # trace s\<rparr>)"
    using p nn by (simp add: rx_callback_def Let_def fd_def)
  show "\<forall>q. 1 \<le> q \<and> q \<le> int n \<or> run_state (rx_callback E fds (int n) unit q pkt len cookie) s = ((), s)"
    by (auto simp: rx_callback_def Let_def)
  have find: "find (\<lambda>j. fds ! j = fd) [0..<n] = Some (nat (p - 1))"
    unfolding fd_def by (rule find_fd[OF fds(1,2) n])
  show "run_state (tx_event E R fds n fd) s =
      (case R (trace s) fd of
         None \<Rightarrow> (True, s\<lparr>trace := OsCall sys_read [fd, 2048] (- 1) # trace s\<rparr>)
       | Some bs \<Rightarrow>
           let bs = take 2048 bs; u = s\<lparr>trace := OsCall sys_read [fd, 2048] (int (length bs)) # trace s\<rparr> in
           if bs = [] then (True, u)
           else (let (r, v) = run_state (on_pktio (bcm56846_tx E p (Some bs) (int (length bs)))) u in (r \<noteq> None, v)))"
    using j by (auto simp: tx_event_def find Let_def split_beta split: option.split)
qed

section \<open>Start and failure\<close>

lemma init_view_put [simp]:
  "init_view ((bde_state.extend (bde_state.truncate t) (bde_state.more s))\<lparr>init_vars := bde_state.more (t :: init_state)\<rparr>) = t"
  by (cases s; cases t) (simp add: init_view_def bde_state.defs)

lemma wp_on_init:
  "wp m (\<lambda>r t. \<forall>u. init_view u = t \<longrightarrow> Q r u) (init_view s) \<Longrightarrow> wp (on_init m) Q s"
  by (simp add: wp_def on_init_def split_beta)

lemma wp_detached: "(\<And>u. \<not> attached (init_view u) \<Longrightarrow> Q () u) \<Longrightarrow> wp (on_init (bcm56846_detach E)) Q s"
  by (rule wp_on_init) (simp add: wp_def bcm56846_detach_def split_beta)

lemma wp_any: "(\<And>r u. Q r u) \<Longrightarrow> wp m Q s"
  by (simp add: wp_def)

lemma attached_init_vars:
  "init_vars s = init_vars t \<Longrightarrow> attached (init_view s) = attached (init_view t)"
proof -
  assume "init_vars s = init_vars t"
  moreover obtain i where "bde_state.more i = init_vars t" by (metis bde_state.select_convs(4))
  moreover have "attached (bde_state.extend (bde_state.truncate u) (bde_state.more i)) = attached i" for i :: init_state and u :: "'c bde_state_scheme"
    by (cases i) (simp add: bde_state.defs)
  ultimately show ?thesis unfolding init_view_def by metis
qed

lemma port_lines_init_vars: "init_vars (exec (port_lines ls) s) = init_vars s"
proof (induction ls arbitrary: s)
  case (Cons l ls)
  have "init_vars (exec (port_line l) t) = init_vars t" for t :: "'a switchd_state_scheme"
    by (auto simp: port_line_def split: option.splits)
  then show ?case using Cons by (simp add: exec_bind result_bind del: run_state_bind)
qed simp

lemma default_init_vars: "init_vars (exec default_ports s) = init_vars s"
proof -
  have "init_vars (exec (for_each is (\<lambda>i. modify (\<lambda>s. s\<lparr>port_names := (port_names s)[i := f i]\<rparr>))) t) = init_vars t" for "is" f and t :: "'a switchd_state_scheme"
    by (induction "is" arbitrary: t) simp_all
  then show ?thesis by (simp add: default_ports_def)
qed

lemma port_config_load_keeps: "result (port_config_load F p) s = 0 \<and> init_vars (exec (port_config_load F p) s) = init_vars s"
  by (auto simp: port_config_load_def split_beta port_lines_init_vars default_init_vars split: option.splits)

lemma attached_emits:
  fixes v :: init_state
  shows "emits P m \<Longrightarrow> attached (exec m v) = attached v"
  by (erule emitsE[of P m v]) simp

lemma attached_mmap: "attached (exec (bde_mmap_dma E) v) = attached (v :: init_state)"
proof -
  have "emits (\<lambda>_. True) (mmap_bde E n)" for n
    unfolding mmap_bde_def nos_bde_mmap_def nos_bde_get_dma_pbase_def nos_bde_get_dma_size_def nos_bde_get_bar0_def
    by (intro emits_rules) simp_all
  note frames = attached_emits[OF this] attached_emits[OF emits_get_dma_info]
  have m: "wp m (\<lambda>_ u. attached u = attached v) w" if "attached (exec m w) = attached w" "attached w = attached v" for m w
    using that by (simp add: wp_def)
  show ?thesis
    by (rule wpD[where Q = "\<lambda>_ u. attached u = attached v"])
      (auto simp: bde_mmap_dma_def wp_def split_beta exec_bind result_bind frames simp del: run_state_bind)
qed

lemma attach_failed:
  fixes v :: init_state
  assumes "\<not> attached v"
  shows "wp (bcm56846_attach E) (\<lambda>rc v. rc < 0 \<longrightarrow> \<not> attached v) v"
proof -
  have "attached (exec (bde_close E) u) = attached u" "attached (exec (bde_open E) u) = attached u" for u :: init_state
    by (simp_all add: bde_close_def bde_open_def)
  then show ?thesis
    using assms by (simp add: wp_def bcm56846_attach_def exec_bind result_bind attached_mmap del: run_state_bind)
qed

text \<open>A start-up that fails leaves with exit code 1 and the device detached.\<close>

lemma switchd_start_fails:
  assumes "\<not> attached (init_view s)"
  shows "wp (switchd_start E F fw callback cookie) (\<lambda>r t. r = None \<or> r = Some 1 \<and> \<not> attached (init_view t)) s"
proof -
  have att: "\<not> attached (init_view u)" if "init_vars u = init_vars s" for u :: "'a switchd_state_scheme"
    using attached_init_vars[OF that] assms by simp
  have load: "wp (port_config_load F p) (\<lambda>rc u. rc = 0 \<and> init_vars u = init_vars t) t" for p and t :: "'a switchd_state_scheme"
    using port_config_load_keeps[of F p t] by (simp add: wp_def)
  have attach: "wp (on_init (bcm56846_attach E)) (\<lambda>rc u. rc < 0 \<longrightarrow> \<not> attached (init_view u)) t"
    if "init_vars t = init_vars s" for t :: "'a switchd_state_scheme"
  proof (rule wp_on_init)
    have "wp (bcm56846_attach E) (\<lambda>rc v. rc < 0 \<longrightarrow> \<not> attached v) (init_view t)"
      by (rule attach_failed) (rule att[OF that])
    then show "wp (bcm56846_attach E) (\<lambda>r u. \<forall>v. init_view v = u \<longrightarrow> r < 0 \<longrightarrow> \<not> attached (init_view v)) (init_view t)"
      unfolding wp_def by auto
  qed
  show ?thesis
    unfolding switchd_start_def
    apply (intro wp_bind wp_os wp_modify)
    apply (rule wp_mono[OF load])
    apply (intro wp_if wp_return wp_bind wp_gets wp_modify)
    apply (use att in auto)[1]
    apply (use att in auto)[1]
    apply (rule wp_mono[OF attach], simp)
    apply (intro wp_if wp_return wp_bind)
    apply simp
    apply (rule wp_any)
    apply (intro wp_if wp_return wp_bind)
    apply (rule wp_detached, rule wp_return, simp)
    apply (rule wp_any)
    apply (intro wp_gets wp_bind)
    apply (rule wp_any)
    apply (intro wp_prod wp_bind wp_modify wp_if)
    apply (rule wp_detached, rule wp_return, simp)
    apply (rule wp_any)
    apply (intro wp_bind wp_os wp_return)
    apply simp
    done
qed

theorem packets_keep_port_witness:
  "\<forall>s :: switchd_state.
     run_state (rx_callback miim_env [5, 7] 2 0 2 0x1000 64 0) s = ((), s\<lparr>trace := OsCall sys_write [7, 0x1000, 64] 0 # trace s\<rparr>) \<and>
     run_state (tx_event miim_env (\<lambda>_ _. None) [5, 7] 2 7) s = (True, s\<lparr>trace := OsCall sys_read [7, 2048] (- 1) # trace s\<rparr>)"
proof
  fix s :: switchd_state
  have d: "distinct (take 2 [5, 7 :: int])" "2 \<le> length [5, 7 :: int]" "\<forall>j < 2. [5, 7 :: int] ! j \<ge> 0" "1 \<le> (2 :: int)" "(2 :: int) \<le> int 2"
    by (auto simp: numeral_2_eq_2 less_Suc_eq)
  note k = packets_keep_port[OF d, of miim_env 0 "0x1000" 64 0 s "\<lambda>_ _. None"]
  have e: "[5, 7 :: int] ! nat (2 - 1) = 7" "int 2 = 2" "os_answer miim_env h f args = 0" for h f args
    by (simp_all add: miim_env_def)
  show "run_state (rx_callback miim_env [5, 7] 2 0 2 0x1000 64 0) s = ((), s\<lparr>trace := OsCall sys_write [7, 0x1000, 64] 0 # trace s\<rparr>) \<and>
     run_state (tx_event miim_env (\<lambda>_ _. None) [5, 7] 2 7) s = (True, s\<lparr>trace := OsCall sys_read [7, 2048] (- 1) # trace s\<rparr>)"
    using k[THEN conjunct1] k[THEN conjunct2, THEN conjunct2] unfolding e option.case by blast
qed

end
