(* ===== verification/Forwarding.thy ===== *)
theory Forwarding
  imports Netlink
begin

text \<open>
  The whole way of the kernel's configuration, from the netlink message (src/switchd/src/netlink.c)
  to the chip: how link and address messages make an interface a port with an L3 interface, what
  the neighbour messages leave in the L2 table and the neighbour cache, and what a unicast route
  leaves in the L3 tables that forward the packets, through the functions of the SDK
  (src/sdk/src/l3.c, src/sdk/src/l2.c, src/sdk/src/port.c) and every layer below them.
\<close>

section \<open>The entries of a next hop\<close>

text \<open>The words \<open>bcm56846_l3_egress_create\<close> packs.\<close>

definition ing_nhop_entry :: "int \<Rightarrow> u32 list" where
  "ing_nhop_entry port = set_bits_u64_l3 (set_bits_u64_l3 (replicate 2 0) ING_L3_NEXT_HOP_WORDS 0 2 0)
     ING_L3_NEXT_HOP_WORDS 16 7 (word_of_int port AND 0x7f)"

definition egr_nhop_entry :: "int \<Rightarrow> u8 list \<Rightarrow> u32 list" where
  "egr_nhop_entry intf_id mac = set_bits_u64_l3 (set_bits_u64_l3 (set_bits_u64_l3 (replicate 4 0)
     EGR_L3_NEXT_HOP_WORDS 0 2 0) EGR_L3_NEXT_HOP_WORDS 3 12 (word_of_int intf_id AND 0xfff))
     EGR_L3_NEXT_HOP_WORDS 15 48 (mac48_to_u64 mac)"

lemma length_nhop_entries [simp]: "length (ing_nhop_entry port) = 2" "length (egr_nhop_entry i mac) = 4"
  by (simp_all add: ing_nhop_entry_def egr_nhop_entry_def l3f.setn_length)

lemma mac48_range: "take_bit 48 (mac48_to_u64 mac) = mac48_to_u64 mac"
proof -
  have "k < 48" if "bit (mac48_to_u64 mac) k" for k
    using that unfolding mac48_to_u64_def by (auto simp only: bit_or_iff bit_push_bit_iff bit_unsigned_iff dest!: bit_word_len) simp_all
  then show ?thesis by (intro bit_eqI) (auto simp: bit_take_bit_iff)
qed

lemma ing_nhop_fields: "entry_field (ing_nhop_entry port) 16 7 = nat (port mod 128)"
proof -
  have "entry_field (ing_nhop_entry port) 16 7 = unat (take_bit 7 (word_of_int port AND 0x7f :: u64))"
    unfolding ing_nhop_entry_def
    by (rule l3f.field_written[of 16 _ 2 7, simplified]) (simp_all add: l3f.setn_length)
  then show ?thesis using unat_low_bits[of 7 port, where 'a = 64] by (simp add: mask_numeral)
qed

lemma egr_nhop_fields:
  "entry_field (egr_nhop_entry i mac) 3 12 = nat (i mod 4096)"
  "entry_field (egr_nhop_entry i mac) 15 48 = unat (mac48_to_u64 mac)"
proof -
  let ?w = "set_bits_u64_l3 (set_bits_u64_l3 (replicate 4 0) 4 0 2 0) 4 3 12 (word_of_int i AND 0xfff)"
  have l: "length ?w = 4" by (simp add: l3f.setn_length)
  have "entry_field (egr_nhop_entry i mac) 3 12 = entry_field ?w 3 12"
    unfolding egr_nhop_entry_def by (rule l3f.field_kept) (simp_all add: l)
  also have "\<dots> = unat (take_bit 12 (word_of_int i AND 0xfff :: u64))"
    by (rule l3f.field_written[of 3 _ 4 12, simplified]) (simp_all add: l3f.setn_length)
  also have "\<dots> = nat (i mod 4096)" using unat_low_bits[of 12 i, where 'a = 64] by (simp add: mask_numeral)
  finally show "entry_field (egr_nhop_entry i mac) 3 12 = nat (i mod 4096)" .
  have "entry_field (egr_nhop_entry i mac) 15 48 = unat (take_bit 48 (mac48_to_u64 mac))"
    unfolding egr_nhop_entry_def by (rule l3f.field_written[of 15 ?w 4 48, simplified]) (simp_all add: l)
  then show "entry_field (egr_nhop_entry i mac) 15 48 = unat (mac48_to_u64 mac)" by (simp only: mac48_range)
qed

section \<open>Creating a next hop\<close>

text \<open>The chip after a memory write of at most five words.\<close>

lemma small_write:
  assumes "table_ok E s" and "1 \<le> n" and "n \<le> 5" and "length ws = nat n"
  obtains tr where "run_state (sbus_mem_write E base i ws n) s = (0, s\<lparr>trace := tr\<rparr>)"
    "table_ok E (s\<lparr>trace := tr\<rparr>)"
    "\<And>b a k. chip_word (s\<lparr>trace := tr\<rparr>) b a k =
       (if b = cdk_addr_to_block base \<and> a = base + word_of_int i \<and> k < nat n then ws ! k else chip_word s b a k)"
proof -
  obtain tr where tr: "exec (sbus_mem_write E base i ws n) s = s\<lparr>trace := tr\<rparr>"
    using bus_frame[OF emits_sbus(6)] by blast
  have n: "n \<le> 14" using assms(3) by simp
  note w = mem_write_device[OF assms(1,2) n assms(4), of base i, unfolded tr]
  have "run_state (sbus_mem_write E base i ws n) s = (0, s\<lparr>trace := tr\<rparr>)" using w tr by (metis prod.collapse)
  moreover have "table_ok E (s\<lparr>trace := tr\<rparr>)" using assms(1) by (simp add: table_ok_def)
  moreover have "chip_word (s\<lparr>trace := tr\<rparr>) b a k =
       (if b = cdk_addr_to_block base \<and> a = base + word_of_int i \<and> k < nat n then ws ! k else chip_word s b a k)" for b a k
    using w[of b a k] assms(3) by auto
  ultimately show thesis by (rule that)
qed

lemma egress_create_device:
  fixes E :: env and s :: "'z l3_state_scheme"
  assumes ok: "table_ok E s" and port: "0 < eg_port eg" "eg_port eg \<le> 255"
    and intf: "0 < eg_intf_id eg" "eg_intf_id eg < 4096"
    and free: "j \<notin> nhops s" "1 \<le> j" "j < 16384"
  obtains n s' where "1 \<le> n" "n < 16384" "n \<notin> nhops s"
    "run_state (bcm56846_l3_egress_create E (Some eg) (Some out)) s = ((0, Some n), s')"
    "table_ok E s'" "nhops s' = insert n (nhops s)" "intf_used s' = intf_used s" "routes s' = routes s"
    "\<And>b a k. chip_word s' b a k =
       (if b = cdk_addr_to_block EGR_L3_NEXT_HOP_BASE \<and> a = EGR_L3_NEXT_HOP_BASE + word_of_int n \<and> k < 4
        then egr_nhop_entry (eg_intf_id eg) (eg_mac eg) ! k
        else if b = cdk_addr_to_block ING_L3_NEXT_HOP_BASE \<and> a = ING_L3_NEXT_HOP_BASE + word_of_int n \<and> k < 2
        then ing_nhop_entry (eg_port eg) ! k else chip_word s b a k)"
proof -
  obtain used n where a: "alloc_id (nhop_used s) MAX_L3_NHOP 1 = (used, n)" by fastforce
  have n: "1 \<le> n" "n < 16384" "nhop_used s n = 0" "used = (nhop_used s)(n := 1)"
    using alloc_id_cases[OF a] free by (auto simp: ids_taken_def)
  define s1 where "s1 = s\<lparr>nhop_used := used\<rparr>"
  have ok1: "table_ok E s1" using ok by (simp add: s1_def table_ok_def bde_ready_def)
  obtain t1 where 1: "run_state (sbus_mem_write E ING_L3_NEXT_HOP_BASE n (ing_nhop_entry (eg_port eg)) 2) s1 = (0, s1\<lparr>trace := t1\<rparr>)"
    "table_ok E (s1\<lparr>trace := t1\<rparr>)"
    "\<And>b a k. chip_word (s1\<lparr>trace := t1\<rparr>) b a k = (if b = cdk_addr_to_block ING_L3_NEXT_HOP_BASE \<and>
       a = ING_L3_NEXT_HOP_BASE + word_of_int n \<and> k < nat 2 then ing_nhop_entry (eg_port eg) ! k else chip_word s1 b a k)"
    by (rule small_write[OF ok1, of 2 "ing_nhop_entry (eg_port eg)" ING_L3_NEXT_HOP_BASE n]) auto
  obtain t2 where 2: "run_state (sbus_mem_write E EGR_L3_NEXT_HOP_BASE n (egr_nhop_entry (eg_intf_id eg) (eg_mac eg)) 4) (s1\<lparr>trace := t1\<rparr>)
       = (0, s1\<lparr>trace := t1\<rparr>\<lparr>trace := t2\<rparr>)" "table_ok E (s1\<lparr>trace := t1\<rparr>\<lparr>trace := t2\<rparr>)"
    "\<And>b a k. chip_word (s1\<lparr>trace := t1\<rparr>\<lparr>trace := t2\<rparr>) b a k = (if b = cdk_addr_to_block EGR_L3_NEXT_HOP_BASE \<and>
       a = EGR_L3_NEXT_HOP_BASE + word_of_int n \<and> k < nat 4 then egr_nhop_entry (eg_intf_id eg) (eg_mac eg) ! k
       else chip_word (s1\<lparr>trace := t1\<rparr>) b a k)"
    by (rule small_write[OF 1(2), of 4 "egr_nhop_entry (eg_intf_id eg) (eg_mac eg)" EGR_L3_NEXT_HOP_BASE n]) auto
  let ?s' = "s1\<lparr>trace := t1\<rparr>\<lparr>trace := t2\<rparr>"
  have run: "run_state (bcm56846_l3_egress_create E (Some eg) (Some out)) s = ((0, Some n), ?s')"
    using 1(1) 2(1) a port intf n(1)
    by (simp add: bcm56846_l3_egress_create_def Let_def ing_l3_nhop_write_def egr_l3_nhop_write_def s1_def
        ing_nhop_entry_def egr_nhop_entry_def)
  have chip1: "chip_word s1 b a k = chip_word s b a k" for b a k by (simp add: s1_def chip_word_def)
  have chip: "chip_word ?s' b a k =
       (if b = cdk_addr_to_block EGR_L3_NEXT_HOP_BASE \<and> a = EGR_L3_NEXT_HOP_BASE + word_of_int n \<and> k < 4
        then egr_nhop_entry (eg_intf_id eg) (eg_mac eg) ! k
        else if b = cdk_addr_to_block ING_L3_NEXT_HOP_BASE \<and> a = ING_L3_NEXT_HOP_BASE + word_of_int n \<and> k < 2
        then ing_nhop_entry (eg_port eg) ! k else chip_word s b a k)" for b a k
    unfolding 2(3) 1(3) chip1 by (simp only: nat_numeral)
  have pool: "n \<notin> nhops s" "nhops ?s' = insert n (nhops s)" "intf_used ?s' = intf_used s" "routes ?s' = routes s"
    using n by (auto simp: s1_def ids_taken_def)
  show thesis by (rule that[OF n(1,2) pool(1) run 2(2) pool(2-4) chip])
qed

section \<open>The tables of the chip\<close>

text \<open>Word 5 of a route entry carries no bit of the key, the mask, the next hop or the flags.\<close>

lemma defip_without_word5:
  assumes "\<And>k. k < 8 \<Longrightarrow> k \<noteq> 5 \<Longrightarrow> ws ! k = defip_pack_v4_ucast p l n ! k"
    and "0 \<le> l" "l \<le> 32" "0 \<le> n" "n < 16384"
  shows "entry_bit ws 0" and "\<not> entry_bit ws 206" and "entry_field ws 207 14 = nat n"
    and "defip_matches ws addr \<longleftrightarrow> drop_bit (nat (32 - l)) addr = drop_bit (nat (32 - l)) p"
proof -
  have same: "entry_bit ws j = entry_bit (defip_pack_v4_ucast p l n) j" if "j < 160 \<or> 192 \<le> j \<and> j < 256" for j
  proof -
    have "j div 32 < 8" "j div 32 \<noteq> 5" using that by (auto simp: less_mult_imp_div_less div_less_iff_less_mult)
    then show ?thesis using assms(1) by (simp add: entry_bit_def)
  qed
  note entry = defip_entry[OF assms(2-5)]
  show "entry_bit ws 0" "\<not> entry_bit ws 206" using entry(3,4) by (simp_all add: same)
  have "entry_field ws 207 14 = entry_field (defip_pack_v4_ucast p l n) 207 14"
    by (rule entry_field_cong) (simp add: same)
  then show "entry_field ws 207 14 = nat n" using entry(2) by simp
  have "defip_matches ws addr = defip_matches (defip_pack_v4_ucast p l n) addr"
    unfolding defip_matches_def by (rule list.pred_cong) (auto simp: same)
  then show "defip_matches ws addr \<longleftrightarrow> drop_bit (nat (32 - l)) addr = drop_bit (nat (32 - l)) p"
    using entry(1) by simp
qed

lemma table_cell_words: "k < n \<Longrightarrow> table_cell base n s i ! k = chip_word s (cdk_addr_to_block base) (base + word_of_int i) k"
  by (simp add: table_cell_def chip_word_def)

lemma table_cell_eqI:
  "length ws = n \<Longrightarrow> (\<And>k. k < n \<Longrightarrow> chip_word s (cdk_addr_to_block base) (base + word_of_int i) k = ws ! k) \<Longrightarrow>
   table_cell base n s i = ws"
  by (intro nth_equalityI) (simp_all add: table_cell_words)

text \<open>The next-hop tables are elsewhere than the route table, and in different blocks.\<close>

lemma nhop_tables_apart:
  assumes "0 \<le> i" "i < 8192" "0 \<le> n" "n < 16384"
  shows "ING_L3_NEXT_HOP_BASE + word_of_int n \<noteq> L3_DEFIP_BASE + word_of_int i"
    and "cdk_addr_to_block EGR_L3_NEXT_HOP_BASE \<noteq> cdk_addr_to_block L3_DEFIP_BASE"
    and "cdk_addr_to_block EGR_L3_NEXT_HOP_BASE \<noteq> cdk_addr_to_block ING_L3_NEXT_HOP_BASE"
proof -
  have "(word_of_int (0x0e17c000 + n) :: u32) \<noteq> word_of_int (0x0a170000 + i)"
    using assms by (subst word_of_int_inj) auto
  then show "ING_L3_NEXT_HOP_BASE + word_of_int n \<noteq> L3_DEFIP_BASE + word_of_int i" by simp
  show "cdk_addr_to_block EGR_L3_NEXT_HOP_BASE \<noteq> cdk_addr_to_block L3_DEFIP_BASE"
    "cdk_addr_to_block EGR_L3_NEXT_HOP_BASE \<noteq> cdk_addr_to_block ING_L3_NEXT_HOP_BASE"
    by (simp_all add: cdk_addr_to_block_def)
qed

lemma bde_of_l3 [simp]:
  "chip_word (l3_put s t) b a k = chip_word t b a k" "chip_word (l3_view s) b a k = chip_word s b a k"
  "table_ok E (l3_put s t) = table_ok E t" "table_ok E (l3_view s) = table_ok E s"
proof -
  have "trace (l3_put s t) = trace t" "bde_fd (l3_put s t) = bde_fd t" "bde_priv (l3_put s t) = bde_priv t"
    by (cases s; cases t; simp add: l3_put_def bde_state.defs)+
  then show "chip_word (l3_put s t) b a k = chip_word t b a k" "table_ok E (l3_put s t) = table_ok E t"
    by (simp_all add: chip_word_def table_ok_def bde_ready_def)
  show "chip_word (l3_view s) b a k = chip_word s b a k" "table_ok E (l3_view s) = table_ok E s"
    by (simp_all add: chip_word_def table_ok_def bde_ready_def l3_view_def bde_state.defs)
qed

lemma run_on_l3: "run_state m (l3_view s) = (r, t) \<Longrightarrow> run_state (on_l3 m) s = (r, l3_put s t)"
  by (simp add: on_l3_def)

section \<open>The route message\<close>

text \<open>The message at \<open>nlh\<close> announces an IPv4 unicast route: destination and length, gateway and
  outgoing interface, 0 where the attribute is missing.\<close>

definition route_msg :: "nlbuf \<Rightarrow> nat \<Rightarrow> u32 \<Rightarrow> int \<Rightarrow> u32 \<Rightarrow> u32 \<Rightarrow> bool" where
  "route_msg b nlh dst plen gw oif \<longleftrightarrow>
     nlmsg_type b nlh = RTM_NEWROUTE \<and> 28 \<le> nlmsg_len b nlh \<and> b (nlh + 16) = 2 \<and> b (nlh + 23) = 1 \<and>
     plen = uint (b (nlh + 17)) \<and>
     (let attr = (\<lambda>t. case parse_rtattr b RTA_TB_SIZE (nlh + 28) (nlmsg_len b nlh - 28) t of
                     None \<Rightarrow> 0 | Some rta \<Rightarrow> be32 b (RTA_DATA rta))
      in dst = attr 1 \<and> gw = attr 5 \<and> oif = attr 4)"

definition neigh_mac :: "'z nl_state_scheme \<Rightarrow> u32 \<Rightarrow> u32 \<Rightarrow> u8 list" where
  "neigh_mac s gw oif = (case neigh_cache_get gw (sint oif) (neigh_cache s) of None \<Rightarrow> [0, 0, 0, 0, 0, 0] | Some m \<Rightarrow> m)"

lemma route_msg_run:
  fixes s :: "'z nl_state_scheme"
  assumes msg: "route_msg b nlh dst plen gw oif"
    and port: "port_of_index s oif = Some port" "0 < port" "port < 56"
    and egr: "run_state (bcm56846_l3_egress_create E (Some \<lparr>eg_mac = neigh_mac s gw oif, eg_vid = 0, eg_port = port,
                eg_intf_id = port_to_intf_id s ! nat port\<rparr>) (Some 0)) (l3_view s) = ((0, Some n), t)"
    and add: "run_state (bcm56846_l3_route_add E (Some \<lparr>rt_prefix = dst, rt_prefix6 = [0, 0, 0, 0],
                rt_prefix_len = plen, rt_egress_id = n, rt_is_ipv6 = 0\<rparr>)) t = (rc, t')"
  shows "exec (nl_dispatch E fw b nlh) s = l3_put (l3_put s t) t'"
proof -
  have m: "nlmsg_type b nlh = RTM_NEWROUTE" "28 \<le> nlmsg_len b nlh" "b (nlh + 16) = 2" "b (nlh + 23) = 1" "plen = uint (b (nlh + 17))"
    using msg by (auto simp: route_msg_def)
  have d: "nl_dispatch E fw b nlh = handle_route E b nlh"
    using m(1) by (simp add: nl_dispatch_def Let_def RTM_NEWLINK_def RTM_DELLINK_def RTM_NEWADDR_def RTM_DELADDR_def RTM_NEWROUTE_def)
  have nd: "RTM_NEWROUTE \<noteq> RTM_DELROUTE" by (simp add: RTM_NEWROUTE_def RTM_DELROUTE_def)
  have a: "run_state (on_l3 (bcm56846_l3_route_add E (Some \<lparr>rt_prefix = dst, rt_prefix6 = [0, 0, 0, 0],
      rt_prefix_len = plen, rt_egress_id = n, rt_is_ipv6 = 0\<rparr>))) (l3_put s t) = (rc, l3_put (l3_put s t) t')"
    by (rule run_on_l3) (use add in simp)
  show ?thesis
    using msg port run_on_l3[OF egr] a nd m unfolding d
    by (auto simp: handle_route_def route_msg_def Let_def neigh_mac_def add.commute[of _ nlh])
qed

text \<open>C1. A route announced by the kernel ends up forwarding packets. The daemon gets an IPv4 unicast
  RTM_NEWROUTE for an interface that is one of its ports and has an L3 interface, the chip answers,
  and there is a free next hop and a free route slot. Then exactly one next hop is taken and the
  route database gains exactly the route. The entry in the chip at its slot is valid, matches the
  addresses of the prefix and no others, and names that next hop; the next hop's ingress entry
  sends to the port, and its egress entry rewrites to the port's L3 interface and to the MAC
  address the neighbour cache has for the gateway.\<close>

theorem route_message_forwards:
  assumes "route_msg b nlh dst plen gw oif" and "plen \<le> 32"
    and "port_of_index s oif = Some port" and "0 < port" and "port < 56"
    and "0 < port_to_intf_id s ! nat port" and "port_to_intf_id s ! nat port < 4096"
    and "table_ok E s"
    and "free \<notin> nhops (l3_view s)" and "1 \<le> free" and "free < 16384"
    and "routes (l3_view s) slot = None" and "0 \<le> slot" and "slot < 8192"
  shows "let s' = exec (nl_dispatch E fw b nlh) s in
    \<exists>i n. n \<notin> nhops (l3_view s) \<and> nhops (l3_view s') = insert n (nhops (l3_view s)) \<and>
      0 \<le> i \<and> i < 8192 \<and> routes (l3_view s') = (routes (l3_view s))(i \<mapsto> (dst, plen)) \<and>
      (let d = table_cell 0x0a170000 8 s' i; ing = table_cell 0x0e17c000 2 s' n; egr = table_cell 0x0c260000 4 s' n in
         entry_bit d 0 \<and> \<not> entry_bit d 206 \<and> entry_field d 207 14 = nat n \<and>
         (\<forall>addr. defip_matches d addr \<longleftrightarrow> drop_bit (nat (32 - plen)) addr = drop_bit (nat (32 - plen)) dst) \<and>
         entry_field ing 16 7 = nat port \<and> entry_field egr 3 12 = nat (port_to_intf_id s ! nat port) \<and>
         entry_field egr 15 48 = unat (mac48_to_u64 (neigh_mac s gw oif)))"
proof -
  let ?eg = "\<lparr>eg_mac = neigh_mac s gw oif, eg_vid = 0, eg_port = port, eg_intf_id = port_to_intf_id s ! nat port\<rparr>"
  have ok: "table_ok E (l3_view s)" using assms(8) by simp
  have p: "0 < eg_port ?eg" "eg_port ?eg \<le> 255" "0 < eg_intf_id ?eg" "eg_intf_id ?eg < 4096" using assms(4-7) by simp_all
  obtain n t where n: "1 \<le> n" "n < 16384" "n \<notin> nhops (l3_view s)"
    and egr: "run_state (bcm56846_l3_egress_create E (Some ?eg) (Some 0)) (l3_view s) = ((0, Some n), t)"
    and t: "table_ok E t" "nhops t = insert n (nhops (l3_view s))" "routes t = routes (l3_view s)"
    and chip: "\<And>b a k. chip_word t b a k =
       (if b = cdk_addr_to_block EGR_L3_NEXT_HOP_BASE \<and> a = EGR_L3_NEXT_HOP_BASE + word_of_int n \<and> k < 4
        then egr_nhop_entry (eg_intf_id ?eg) (eg_mac ?eg) ! k
        else if b = cdk_addr_to_block ING_L3_NEXT_HOP_BASE \<and> a = ING_L3_NEXT_HOP_BASE + word_of_int n \<and> k < 2
        then ing_nhop_entry (eg_port ?eg) ! k else chip_word (l3_view s) b a k)"
    by (rule egress_create_device[OF ok p assms(9-11), of 0]) blast
  let ?rt = "\<lparr>rt_prefix = dst, rt_prefix6 = [0, 0, 0, 0], rt_prefix_len = plen, rt_egress_id = n, rt_is_ipv6 = 0\<rparr>"
  have l: "0 \<le> plen" using assms(1) by (auto simp: route_msg_def)
  then have v: "route_valid ?rt" and key: "route_key ?rt = (dst, plen)"
    using assms(2) n by (simp_all add: route_valid_def route_key_def ntohl_def)
  have slot: "routes t slot = None" using assms(12) t(3) by simp
  obtain i t' h where i: "0 \<le> i" "i < 8192"
    and add: "run_state (bcm56846_l3_route_add E (Some ?rt)) t = (0, t')"
    and t': "routes t' = (routes t)(i \<mapsto> (dst, plen))" "nhop_used t' = nhop_used t"
    and chip': "\<And>b a k. chip_word t' b a k = (if b = cdk_addr_to_block L3_DEFIP_BASE \<and> a = L3_DEFIP_BASE + word_of_int i \<and> k < 8
       then (if k = 5 then bar0_answer E h CMIC_MISC_CONTROL else defip_pack_v4_ucast dst plen n ! k) else chip_word t b a k)"
    by (rule route_add_device[OF t(1) v slot assms(13,14), unfolded key ntohl_def l3_route.select_convs]) blast
  define s' where "s' = exec (nl_dispatch E fw b nlh) s"
  have s': "s' = l3_put (l3_put s t) t'"
    unfolding s'_def by (rule route_msg_run[OF assms(1,3,4,5) egr add])
  note apart = nhop_tables_apart[OF i order.trans[OF zero_le_one n(1)] n(2)]
  have d: "k < 8 \<Longrightarrow> k \<noteq> 5 \<Longrightarrow> table_cell 0x0a170000 8 s' i ! k = defip_pack_v4_ucast dst plen n ! k" for k
    by (simp add: table_cell_words s' chip')
  have ing: "table_cell 0x0e17c000 2 s' n = ing_nhop_entry port"
    by (rule table_cell_eqI) (use apart in \<open>auto simp: s' chip' chip\<close>)
  have out: "table_cell 0x0c260000 4 s' n = egr_nhop_entry (port_to_intf_id s ! nat port) (neigh_mac s gw oif)"
    by (rule table_cell_eqI) (use apart in \<open>auto simp: s' chip' chip\<close>)
  note entry = defip_without_word5[OF d l assms(2) order.trans[OF zero_le_one n(1)] n(2)]
  have db: "nhops (l3_view s') = insert n (nhops (l3_view s))" "routes (l3_view s') = (routes (l3_view s))(i \<mapsto> (dst, plen))"
    using t t' by (simp_all add: s')
  show ?thesis
    unfolding Let_def s'_def[symmetric]
    by (rule exI[of _ i], rule exI[of _ n]) (use db n(3) i entry assms(4-7) in \<open>simp add: ing out ing_nhop_fields egr_nhop_fields\<close>)
qed

section \<open>The neighbour message\<close>

text \<open>The message at \<open>nlh\<close> is about an IPv4 neighbour: its type, address, interface, VLAN (0 when the
  attribute is missing) and link layer address (none when missing or too short).\<close>

definition neigh_msg :: "nlbuf \<Rightarrow> nat \<Rightarrow> u16 \<Rightarrow> u32 \<Rightarrow> u32 \<Rightarrow> u16 \<Rightarrow> u8 list option \<Rightarrow> bool" where
  "neigh_msg b nlh ty ip idx vid ll \<longleftrightarrow>
     nlmsg_type b nlh = ty \<and> 28 \<le> nlmsg_len b nlh \<and> b (nlh + 16) = 2 \<and> idx = be32 b (nlh + 20) \<and>
     (let tb = parse_rtattr b NDA_TB_SIZE (nlh + 28) (nlmsg_len b nlh - 28)
      in ip = (case tb 1 of None \<Rightarrow> 0 | Some rta \<Rightarrow> be32 b (RTA_DATA rta)) \<and>
         vid = (case tb 5 of None \<Rightarrow> 0 | Some rta \<Rightarrow> be16 b (RTA_DATA rta)) \<and>
         ll = (case tb 2 of None \<Rightarrow> None
               | Some rta \<Rightarrow> if rta_len b rta - 4 \<ge> 6 then Some (bytes_at b (RTA_DATA rta) 6) else None))"

lemma l2_abs_cache [simp]:
  "l2_abs (s\<lparr>neigh_cache := es\<rparr>) = l2_abs s" "l2_inv E (s\<lparr>neigh_cache := es\<rparr>) = l2_inv E s"
  by (simp_all add: l2_abs_def fun_eq_iff l2_cell_def table_cell_def l2_inv_def table_ok_def bde_ready_def)

lemma nl_same_cache: "nl_same s s' \<Longrightarrow> neigh_cache s' = neigh_cache s"
  by (simp add: nl_same_def)

lemma l2_ops_abs:
  fixes s :: "'z nl_state_scheme"
  assumes "l2_inv E s"
  shows "length (l2_mac a) = 6 \<Longrightarrow> l2_inv E (exec (bcm56846_l2_addr_add E (Some a)) s) \<and>
           l2_abs (exec (bcm56846_l2_addr_add E (Some a)) s) = (l2_abs s)(l2_hash_index (l2_mac a) (l2_vid a) \<mapsto> l2_normalise a)"
    and "l2_inv E (exec (bcm56846_l2_addr_delete E (Some m) v) s) \<and>
           l2_abs (exec (bcm56846_l2_addr_delete E (Some m) v) s) = (l2_abs s)(l2_hash_index m v := None)"
    and "neigh_cache (exec (bcm56846_l2_addr_add E (Some a)) s) = neigh_cache s"
    and "neigh_cache (exec (bcm56846_l2_addr_delete E (Some m) v) s) = neigh_cache s"
proof -
  have ok: "table_ok E s" using assms by (simp add: l2_inv_def)
  have v: "l2_pack_entry a ! 0 AND 1 \<noteq> 0" by (simp add: l2_pack_fields)
  note add = l2_abs_write[OF ok l2_hash_index_bounds, of "l2_pack_entry a" "l2_mac a" "l2_vid a"]
  note del = l2_abs_write[OF ok l2_hash_index_bounds, of "[0, 0, 0, 0]" m v]
  show "l2_inv E (exec (bcm56846_l2_addr_add E (Some a)) s) \<and>
      l2_abs (exec (bcm56846_l2_addr_add E (Some a)) s) = (l2_abs s)(l2_hash_index (l2_mac a) (l2_vid a) \<mapsto> l2_normalise a)"
    if "length (l2_mac a) = 6"
    using assms add v l2_hash_index_aligned(1)[of "l2_mac a" "l2_vid a"]
    by (auto simp: l2_add_run[OF ok] l2_unpack_pack[OF that] l2_inv_def)
  show "l2_inv E (exec (bcm56846_l2_addr_delete E (Some m) v) s) \<and>
      l2_abs (exec (bcm56846_l2_addr_delete E (Some m) v) s) = (l2_abs s)(l2_hash_index m v := None)"
    using assms del l2_hash_index_aligned(1)[of m v] by (auto simp: l2_delete_run[OF ok] l2_inv_def)
  show "neigh_cache (exec (bcm56846_l2_addr_add E (Some a)) s) = neigh_cache s"
    by (rule nl_same_cache[OF nl_same_emits[OF emits_l2(1)]])
  show "neigh_cache (exec (bcm56846_l2_addr_delete E (Some m) v) s) = neigh_cache s"
    by (rule nl_same_cache[OF nl_same_emits[OF emits_l2(2)]])
qed

text \<open>What the message does to the two maps: the chip's L2 table by slot, the cache by address and
  interface.\<close>

definition neigh_added :: "u8 list \<Rightarrow> u16 \<Rightarrow> int \<Rightarrow> (int \<Rightarrow> l2_addr option) \<Rightarrow> int \<Rightarrow> l2_addr option" where
  "neigh_added mac vid port tab = tab(l2_hash_index mac vid \<mapsto>
     \<lparr>l2_mac = mac, l2_vid = vid AND 0xfff, l2_port = port mod 128, l2_static = 1\<rparr>)"

definition neigh_gone :: "u8 list option \<Rightarrow> u16 \<Rightarrow> (int \<Rightarrow> l2_addr option) \<Rightarrow> int \<Rightarrow> l2_addr option" where
  "neigh_gone mac vid tab = (case mac of None \<Rightarrow> tab | Some m \<Rightarrow> tab(l2_hash_index m vid := None))"

text \<open>C7. The neighbour messages keep two maps, over a chip that answers. RTM_NEWNEIGH with a link layer
  address puts a static entry for it, on the port of the interface, into its slot of the chip's L2
  table and maps the neighbour to it in the cache, if the cache knows the neighbour or has room;
  without one it changes nothing. RTM_DELNEIGH empties the slot of the address given, or else of
  the one the cache has, and removes exactly the neighbour from the cache. The invariants of both
  tables are kept.\<close>

theorem neigh_message_refines:
  fixes E :: env and s :: "'z nl_state_scheme" and fw :: "u8 list" and b :: nlbuf
  assumes msg: "neigh_msg b nlh ty ip idx vid ll" and ty: "ty = RTM_NEWNEIGH \<or> ty = RTM_DELNEIGH"
    and port: "port_of_index s idx = Some port" "0 < port" "port < 128"
    and inv: "l2_inv E s" "neigh_inv (neigh_cache s)"
  defines "s' \<equiv> exec (nl_dispatch E fw b nlh) s" and "cache \<equiv> neigh_map (neigh_cache s)" and "k \<equiv> (ip, sint idx)"
  shows "l2_inv E s' \<and> neigh_inv (neigh_cache s') \<and>
    (if ty = RTM_NEWNEIGH
     then (case ll of None \<Rightarrow> s' = s
       | Some mac \<Rightarrow> l2_abs s' = neigh_added mac vid port (l2_abs s) \<and>
           neigh_map (neigh_cache s') =
             (if length (neigh_cache s) < 256 \<or> k \<in> dom cache then cache(k \<mapsto> mac) else cache))
     else l2_abs s' = neigh_gone (if ll = None \<and> ip \<noteq> 0 then cache k else ll) vid (l2_abs s) \<and>
          neigh_map (neigh_cache s') = cache(k := None))"
proof -
  have m: "nlmsg_type b nlh = ty" "28 \<le> nlmsg_len b nlh" "b (nlh + 16) = 2" "idx = be32 b (nlh + 20)"
    using msg by (auto simp: neigh_msg_def)
  have six: "length mac = 6" if "ll = Some mac" for mac
    using msg that by (auto simp: neigh_msg_def Let_def split: option.splits if_splits)
  have d: "nl_dispatch E fw b nlh = handle_neigh E b nlh"
    using m(1) ty by (auto simp: nl_dispatch_def Let_def RTM_NEWLINK_def RTM_DELLINK_def RTM_NEWADDR_def RTM_DELADDR_def
        RTM_NEWROUTE_def RTM_DELROUTE_def RTM_NEWNEIGH_def RTM_DELNEIGH_def)
  have nd: "RTM_NEWNEIGH \<noteq> RTM_DELNEIGH" by (simp add: RTM_NEWNEIGH_def RTM_DELNEIGH_def)
  let ?add = "bcm56846_l2_addr_add E (Some \<lparr>l2_mac = the ll, l2_vid = vid, l2_port = port, l2_static = 1\<rparr>)"
  let ?old = "if ll = None \<and> ip \<noteq> 0 then cache k else ll"
  have s': "s' = (if ty = RTM_NEWNEIGH
       then if ll = None then s else (exec ?add s)\<lparr>neigh_cache := neigh_cache_set ip (sint idx) (the ll) (neigh_cache (exec ?add s))\<rparr>
       else let t = (case ?old of None \<Rightarrow> s | Some x \<Rightarrow> exec (bcm56846_l2_addr_delete E (Some x) vid) s)
            in t\<lparr>neigh_cache := neigh_cache_remove ip (sint idx) (neigh_cache t)\<rparr>)"
    using msg port m ty nd unfolding s'_def d cache_def k_def neigh_map_def fst_conv snd_conv
    by (auto simp: handle_neigh_def neigh_msg_def Let_def exec_bind add.commute[of _ nlh] split: option.splits simp del: run_state_bind)
  note ref = neigh_cache_refines_map[OF inv(2), of ip "sint idx"]
  show ?thesis
  proof (cases "ty = RTM_NEWNEIGH")
    case True
    then show ?thesis
      using l2_ops_abs(1,3)[OF inv(1), of "\<lparr>l2_mac = the ll, l2_vid = vid, l2_port = port, l2_static = 1\<rparr>"] six ref inv port(3)
      by (cases ll) (auto simp: s' neigh_added_def l2_normalise_def neigh_set_inv cache_def k_def)
  next
    case False
    then show ?thesis
      using l2_ops_abs(2,4)[OF inv(1), of _ vid] ref inv
      by (auto simp: s' Let_def neigh_gone_def neigh_remove_inv cache_def k_def split: option.splits)
  qed
qed

section \<open>The messages of an interface\<close>

text \<open>The entry \<open>bcm56846_l3_intf_create\<close> packs.\<close>

definition intf_entry :: "u8 list \<Rightarrow> u16 \<Rightarrow> u32 list" where
  "intf_entry mac vid = set_bits_u64_l3 (set_bits_u64_l3 (replicate 4 0) EGR_L3_INTF_WORDS 13 12 (ucast (vid AND 0xfff)))
     EGR_L3_INTF_WORDS 33 48 (mac48_to_u64 mac)"

lemma length_intf_entry [simp]: "length (intf_entry mac vid) = 4"
  by (simp add: intf_entry_def l3f.setn_length)

lemma intf_entry_fields:
  "entry_field (intf_entry mac vid) 33 48 = unat (mac48_to_u64 mac)"
  "entry_field (intf_entry mac vid) 13 12 = unat (take_bit 12 (ucast (vid AND 0xfff) :: u64))"
proof -
  let ?w = "set_bits_u64_l3 (replicate 4 0) 4 13 12 (ucast (vid AND 0xfff))"
  have l: "length ?w = 4" by (simp add: l3f.setn_length)
  have "entry_field (intf_entry mac vid) 33 48 = unat (take_bit 48 (mac48_to_u64 mac))"
    unfolding intf_entry_def by (rule l3f.field_written[of 33 ?w 4 48, simplified]) (simp_all add: l)
  then show "entry_field (intf_entry mac vid) 33 48 = unat (mac48_to_u64 mac)" by (simp only: mac48_range)
  have "entry_field (intf_entry mac vid) 13 12 = entry_field ?w 13 12"
    unfolding intf_entry_def by (rule l3f.field_kept) (simp_all add: l)
  also have "\<dots> = unat (take_bit 12 (ucast (vid AND 0xfff) :: u64))"
    by (rule l3f.field_written[of 13 _ 4 12, simplified]) simp_all
  finally show "entry_field (intf_entry mac vid) 13 12 = unat (take_bit 12 (ucast (vid AND 0xfff) :: u64))" .
qed

lemma intf_create_device:
  fixes E :: env and s :: "'z l3_state_scheme"
  assumes ok: "table_ok E s" and free: "j \<notin> intfs s" "1 \<le> j" "j < 4096"
  obtains n s' where "1 \<le> n" "n < 4096" "n \<notin> intfs s"
    "run_state (bcm56846_l3_intf_create E (Some mac) vid (Some out)) s = ((0, Some n), s')"
    "table_ok E s'" "intfs s' = insert n (intfs s)" "nhop_used s' = nhop_used s" "routes s' = routes s"
    "table_cell EGR_L3_INTF_BASE 4 s' n = intf_entry mac vid"
proof -
  obtain used n where a: "alloc_id (intf_used s) MAX_L3_INTF 1 = (used, n)" by fastforce
  have n: "1 \<le> n" "n < 4096" "intf_used s n = 0" "used = (intf_used s)(n := 1)"
    using alloc_id_cases[OF a] free by (auto simp: ids_taken_def)
  define s1 where "s1 = s\<lparr>intf_used := used\<rparr>"
  have ok1: "table_ok E s1" using ok by (simp add: s1_def table_ok_def bde_ready_def)
  obtain tr where 1: "run_state (sbus_mem_write E EGR_L3_INTF_BASE n (intf_entry mac vid) 4) s1 = (0, s1\<lparr>trace := tr\<rparr>)"
    "table_ok E (s1\<lparr>trace := tr\<rparr>)"
    "\<And>b a k. chip_word (s1\<lparr>trace := tr\<rparr>) b a k = (if b = cdk_addr_to_block EGR_L3_INTF_BASE \<and>
       a = EGR_L3_INTF_BASE + word_of_int n \<and> k < nat 4 then intf_entry mac vid ! k else chip_word s1 b a k)"
    by (rule small_write[OF ok1, of 4 "intf_entry mac vid" EGR_L3_INTF_BASE n]) auto
  have run: "run_state (bcm56846_l3_intf_create E (Some mac) vid (Some out)) s = ((0, Some n), s1\<lparr>trace := tr\<rparr>)"
    using 1(1) a n(1) by (simp add: bcm56846_l3_intf_create_def Let_def egr_l3_intf_write_def s1_def intf_entry_def)
  have cell: "table_cell EGR_L3_INTF_BASE 4 (s1\<lparr>trace := tr\<rparr>) n = intf_entry mac vid"
    by (rule table_cell_eqI) (simp_all add: 1(3))
  have pool: "n \<notin> intfs s" "intfs (s1\<lparr>trace := tr\<rparr>) = insert n (intfs s)" "nhop_used (s1\<lparr>trace := tr\<rparr>) = nhop_used s"
    "routes (s1\<lparr>trace := tr\<rparr>) = routes s"
    using n by (auto simp: s1_def ids_taken_def)
  show thesis by (rule that[OF n(1,2) pool(1) run 1(2) pool(2-4) cell])
qed

text \<open>Enabling a port leaves the device open and the driver bound.\<close>

definition bde_same :: "'z bde_state_scheme \<Rightarrow> 'z bde_state_scheme \<Rightarrow> bool" where
  "bde_same s s' \<longleftrightarrow> bde_fd s' = bde_fd s \<and> bde_priv s' = bde_priv s"

lemma wp_bde_same:
  "bde_same s t \<Longrightarrow> bde_same t (exec m t) \<Longrightarrow> (\<And>r s'. bde_same s s' \<Longrightarrow> Q r s') \<Longrightarrow> wp m Q t"
  unfolding wp_def bde_same_def by simp

lemma bde_same_emits: "emits P m \<Longrightarrow> bde_same s (exec m s)"
  by (erule emitsE[where s = s]) (simp add: bde_same_def)

lemma bde_same_serdes: "bde_same s (exec (bcm56846_serdes_init_10g E fw port) s)"
proof (cases "port_to_phy_bus port")
  case None
  then show ?thesis by (simp add: bcm56846_serdes_init_10g_def bde_same_def)
next
  case (Some x)
  then obtain evs l where "exec (bcm56846_serdes_init_10g E fw port) s = s\<lparr>phy_inited := l, trace := evs @ trace s\<rparr>"
    using emits_serdes_init_valid by (metis prod_cases3)
  then show ?thesis by (simp add: bde_same_def)
qed

lemma bde_same_port_enable: "bde_same s (exec (bcm56846_port_enable_set E fw port enable) s)"
proof -
  have "wp (bcm56846_port_enable_set E fw port enable) (\<lambda>_. bde_same s) s"
    unfolding bcm56846_port_enable_set_def Let_def
    apply (intro wp_rules)
      apply (simp_all add: bde_same_def)[2]
    apply (rule wp_bde_same[where s = s])
      apply (simp add: bde_same_def)
     apply (rule bde_same_emits, rule emits_sbus)
    apply (intro wp_rules)
      apply assumption
     apply (erule wp_bde_same, rule bde_same_serdes)
     apply (intro wp_rules, assumption)
    apply assumption
    done
  then show ?thesis by (rule wpD)
qed

text \<open>A message that announces the link of a port, with the flags of the interface, and one that
  announces an address on an interface.\<close>

definition link_msg :: "nlbuf \<Rightarrow> nat \<Rightarrow> u32 \<Rightarrow> u32 \<Rightarrow> int \<Rightarrow> bool" where
  "link_msg b nlh idx flags port \<longleftrightarrow>
     nlmsg_type b nlh = RTM_NEWLINK \<and> 32 \<le> nlmsg_len b nlh \<and> idx = be32 b (nlh + 20) \<and> flags = be32 b (nlh + 24) \<and>
     (case parse_rtattr b RTA_TB_SIZE (nlh + 32) (nlmsg_len b nlh - 32) 3 of None \<Rightarrow> False
      | Some rta \<Rightarrow> ifname_to_port (cstring b (RTA_DATA rta) 65536) = Some port)"

definition addr_msg :: "nlbuf \<Rightarrow> nat \<Rightarrow> u32 \<Rightarrow> bool" where
  "addr_msg b nlh idx \<longleftrightarrow>
     nlmsg_type b nlh = RTM_NEWADDR \<and> 24 \<le> nlmsg_len b nlh \<and> idx = be32 b (nlh + 20) \<and>
     parse_rtattr b RTA_TB_SIZE (nlh + 24) (nlmsg_len b nlh - 24) 1 \<noteq> None"

lemma link_msg_run:
  assumes "link_msg b nlh idx flags port" and "uint idx < 512"
  shows "exec (nl_dispatch E fw b nlh) s = exec (bcm56846_port_enable_set E fw port (if flags AND 1 \<noteq> 0 then 1 else 0))
    (s\<lparr>ifindex_to_port := (ifindex_to_port s)[nat (uint idx) := port]\<rparr>)"
proof -
  have d: "nl_dispatch E fw b nlh = handle_link E fw b nlh" and nd: "RTM_NEWLINK \<noteq> RTM_DELLINK"
    using assms(1) by (simp_all add: link_msg_def nl_dispatch_def Let_def RTM_NEWLINK_def RTM_DELLINK_def)
  show ?thesis
    using assms nd unfolding d
    by (auto simp: handle_link_def link_msg_def set_index_port_def Let_def split_beta add.commute[of _ nlh] split: option.splits)
qed

lemma addr_msg_run:
  fixes s :: "'z nl_state_scheme"
  assumes msg: "addr_msg b nlh idx" and port: "port_of_index s idx = Some port" "0 < port" "port < 56"
    and run: "run_state (bcm56846_l3_intf_create E (Some [2, 0, 0, 0, 0, word_of_int port]) 0 (Some 0)) (l3_view s) = ((0, Some n), t)"
  shows "exec (nl_dispatch E fw b nlh) s = (l3_put s t)\<lparr>port_to_intf_id := (port_to_intf_id s)[nat port := n]\<rparr>"
proof -
  have d: "nl_dispatch E fw b nlh = handle_addr E b nlh" and nd: "RTM_NEWADDR \<noteq> RTM_DELADDR"
    using msg by (simp_all add: addr_msg_def nl_dispatch_def Let_def RTM_NEWLINK_def RTM_DELLINK_def RTM_NEWADDR_def RTM_DELADDR_def)
  show ?thesis
    using msg port run_on_l3[OF run] nd unfolding d
    by (auto simp: handle_addr_def addr_msg_def Let_def add.commute[of _ nlh])
qed

lemma port_of_index_updated:
  "length (ifindex_to_port s) = 512 \<Longrightarrow> uint idx < 512 \<Longrightarrow>
   port_of_index (s\<lparr>ifindex_to_port := (ifindex_to_port s)[nat (uint idx) := port]\<rparr>) idx = Some port"
proof -
  assume l: "length (ifindex_to_port s) = 512" "uint idx < 512"
  then have "nat (uint idx) < length (ifindex_to_port s)" by arith
  then show ?thesis using l(2) unfolding port_of_index_def by (simp only: nl_state.select_convs nl_state.update_convs if_True nth_list_update_eq) simp
qed

lemma trace_l3_put [simp]: "trace (l3_put s t) = trace t"
  by (cases s; cases t) (simp add: l3_put_def bde_state.defs)

lemma intf_id_update [simp]:
  "table_ok E (s\<lparr>port_to_intf_id := ids\<rparr>) = table_ok E s" "port_of_index (s\<lparr>port_to_intf_id := ids\<rparr>) idx = port_of_index s idx"
  "port_of_index (l3_put s t) idx = port_of_index s idx"
  by (simp_all add: table_ok_def bde_ready_def port_of_index_def)

lemma shadow_l3_put [simp]: "xlport_enable_shadow (l3_put s t) = xlport_enable_shadow s"
  by (cases s) (simp add: l3_put_def bde_state.defs)

lemma l3_same:
  assumes "nl_same s s'"
  shows "intfs (l3_view s') = intfs (l3_view s)" "nhop_used (l3_view s') = nhop_used (l3_view s)"
    "routes (l3_view s') = routes (l3_view s)" "port_of_index s' idx = port_of_index s idx"
    "port_to_intf_id s' = port_to_intf_id s"
  using assms l3_view_cong[of s' s] by (simp_all add: nl_same_def port_of_index_def)


section \<open>An instance\<close>

text \<open>10.1.2.0/24 through 10.0.0.1 on interface 7, which is port 3 with L3 interface 1; the neighbour
  is known.\<close>

definition route_bytes :: nlbuf where
  "route_bytes i = (let bs = [0, 0, 0, 52, 0, 24, 0, 0, 0, 0, 0, 0, 0, 0, 0, 0,
     2, 24, 0, 0, 0, 0, 0, 1, 0, 0, 0, 0,
     0, 8, 0, 1, 10, 1, 2, 0, 0, 8, 0, 5, 10, 0, 0, 1, 0, 8, 0, 4, 0, 0, 0, 7] in if i < length bs then bs ! i else 0xEE)"

definition nl1 :: nl_state where
  "nl1 = nl0\<lparr>ifindex_to_port := (replicate 512 (-1))[7 := 3], port_to_intf_id := (replicate 56 0)[3 := 1],
     neigh_cache := [\<lparr>ne_ip = 0x0a000001, ne_ifindex = 7, ne_mac = [2, 0, 0, 0, 0, 9]\<rparr>]\<rparr>"

lemma route_bytes_msg: "route_msg route_bytes 0 0x0a010200 24 0x0a000001 7"
proof -
  have b: "nlmsg_type route_bytes 0 = 24" "nlmsg_len route_bytes 0 = 52" "route_bytes 16 = 2" "route_bytes 23 = 1" "route_bytes 17 = 24"
    by (simp_all add: nlmsg_type_def nlmsg_len_def be16_def be32_def route_bytes_def)
  have a: "rta_len route_bytes 28 = 8" "rta_len route_bytes 36 = 8" "rta_len route_bytes 44 = 8"
    "rta_type route_bytes 28 = 1" "rta_type route_bytes 36 = 5" "rta_type route_bytes 44 = 4"
    "be32 route_bytes 32 = 0x0a010200" "be32 route_bytes 40 = 0x0a000001" "be32 route_bytes 48 = 7"
    by (simp_all add: rta_len_def rta_type_def be16_def be32_def route_bytes_def)
  have p: "parse_rtattr route_bytes 32 28 24 = (\<lambda>_. None)(1 := Some 28, 5 := Some 36, 4 := Some 44)"
    by (simp add: parse_rtattr_def rtattr_loop.simps[of _ _ _ 28] rtattr_loop.simps[of _ _ _ 36]
        rtattr_loop.simps[of _ _ _ 44] rtattr_loop.simps[of _ _ _ 52] RTA_OK_def a align4_def)
  show ?thesis by (simp add: route_msg_def b p RTM_NEWROUTE_def RTA_DATA_def a)
qed

lemma nl1_facts:
  "table_ok chip_env nl1" "nhops (l3_view nl1) = {}" "routes (l3_view nl1) 0 = None"
  "port_of_index nl1 7 = Some 3" "port_to_intf_id nl1 ! 3 = 1" "neigh_mac nl1 0x0a000001 7 = [2, 0, 0, 0, 0, 9]"
proof -
  show "table_ok chip_env nl1" using bde0_ok by (simp add: nl1_def nl0_def table_ok_def bde_ready_def bde0_def)
  have v: "l3_vars nl1 = bde_state.more l3_0" by (simp add: nl1_def nl0_def)
  show "nhops (l3_view nl1) = {}" "routes (l3_view nl1) 0 = None"
    by (simp_all add: l3_view_def v l3_0_def bde_state.defs ids_taken_def routes_def)
  show "port_of_index nl1 7 = Some 3" "port_to_intf_id nl1 ! 3 = 1" "neigh_mac nl1 0x0a000001 7 = [2, 0, 0, 0, 0, 9]"
    by (simp_all add: nl1_def port_of_index_def neigh_mac_def is_neigh_def)
qed

theorem route_message_forwards_witness:
  "let s' = exec (nl_dispatch chip_env [] route_bytes 0) nl1 in
     \<exists>i n. nhops (l3_view s') = {n} \<and> routes (l3_view s') i = Some (0x0a010200, 24) \<and>
       defip_matches (table_cell 0x0a170000 8 s' i) 0x0a0102fe \<and> \<not> defip_matches (table_cell 0x0a170000 8 s' i) 0x0a0103fe \<and>
       entry_field (table_cell 0x0e17c000 2 s' n) 16 7 = 3 \<and> entry_field (table_cell 0x0c260000 4 s' n) 15 48 = 0x020000000009"
proof -
  have m: "unat (mac48_to_u64 [2, 0, 0, 0, 0, 9]) = 0x020000000009" by (simp add: mac48_to_u64_def)
  define s' where "s' = exec (nl_dispatch chip_env [] route_bytes 0) nl1"
  from route_message_forwards[OF route_bytes_msg _ nl1_facts(4) _ _ _ _ nl1_facts(1), of 1 0 "[]"]
  obtain i n where "nhops (l3_view s') = {n}" "routes (l3_view s') = (routes (l3_view nl1))(i \<mapsto> (0x0a010200, 24))"
    "\<And>addr. defip_matches (table_cell 0x0a170000 8 s' i) addr \<longleftrightarrow> drop_bit 8 addr = drop_bit 8 (0x0a010200 :: u32)"
    "entry_field (table_cell 0x0e17c000 2 s' n) 16 7 = 3" "entry_field (table_cell 0x0c260000 4 s' n) 15 48 = 0x020000000009"
    unfolding s'_def[symmetric] Let_def by (auto simp: nl1_facts m)
  then show ?thesis unfolding s'_def[symmetric] Let_def by - (rule exI[of _ i], rule exI[of _ n], simp)
qed

text \<open>The neighbour 10.0.0.1 on interface 7 and VLAN 100.\<close>

definition neigh_bytes :: nlbuf where
  "neigh_bytes i = (let bs = [0, 0, 0, 56, 0, 28, 0, 0, 0, 0, 0, 0, 0, 0, 0, 0,
     2, 0, 0, 0, 0, 0, 0, 7, 0, 0, 0, 0, 0, 8, 0, 1, 10, 0, 0, 1,
     0, 10, 0, 2, 2, 0, 0, 0, 0, 9, 0, 0, 0, 6, 0, 5, 0, 100, 0, 0] in if i < length bs then bs ! i else 0xEE)"

lemma neigh_bytes_msg: "neigh_msg neigh_bytes 0 RTM_NEWNEIGH 0x0a000001 7 100 (Some [2, 0, 0, 0, 0, 9])"
proof -
  have b: "nlmsg_type neigh_bytes 0 = 28" "nlmsg_len neigh_bytes 0 = 56" "neigh_bytes 16 = 2" "be32 neigh_bytes 20 = 7"
    by (simp_all add: nlmsg_type_def nlmsg_len_def be16_def be32_def neigh_bytes_def)
  have a: "rta_len neigh_bytes 28 = 8" "rta_len neigh_bytes 36 = 10" "rta_len neigh_bytes 48 = 6"
    "rta_type neigh_bytes 28 = 1" "rta_type neigh_bytes 36 = 2" "rta_type neigh_bytes 48 = 5"
    "be32 neigh_bytes 32 = 0x0a000001" "be16 neigh_bytes 52 = 100" "bytes_at neigh_bytes 40 6 = [2, 0, 0, 0, 0, 9]"
    by (simp_all add: rta_len_def rta_type_def be16_def be32_def bytes_at_def neigh_bytes_def upt_rec)
  have p: "parse_rtattr neigh_bytes 32 28 28 = (\<lambda>_. None)(1 := Some 28, 2 := Some 36, 5 := Some 48)"
    by (simp add: parse_rtattr_def rtattr_loop.simps[of _ _ _ 28] rtattr_loop.simps[of _ _ _ 36]
        rtattr_loop.simps[of _ _ _ 48] rtattr_loop.simps[of _ _ _ 56] RTA_OK_def a align4_def)
  show ?thesis by (simp add: neigh_msg_def b p RTM_NEWNEIGH_def RTA_DATA_def a)
qed

theorem neigh_message_refines_witness:
  "let s' = exec (nl_dispatch chip_env [] neigh_bytes 0) (nl1\<lparr>neigh_cache := []\<rparr>) in
     l2_abs s' 67136 = Some \<lparr>l2_mac = [2, 0, 0, 0, 0, 9], l2_vid = 100, l2_port = 3, l2_static = 1\<rparr> \<and>
     neigh_map (neigh_cache s') (0x0a000001, 7) = Some [2, 0, 0, 0, 0, 9]"
proof -
  let ?s = "nl1\<lparr>neigh_cache := []\<rparr>"
  have "l2_inv chip_env nl1"
    using nl1_facts(1) by (simp add: l2_inv_def l2_abs_def l2_cell_def table_cell_def nl1_def nl0_def)
  then have "l2_inv chip_env ?s" by simp
  moreover have "port_of_index ?s 7 = Some 3" "neigh_inv (neigh_cache ?s)"
    by (simp_all add: nl1_def port_of_index_def neigh_inv_def neigh_keys_def)
  ultimately show ?thesis
    using neigh_message_refines[OF neigh_bytes_msg, of ?s 3 chip_env "[]"]
    by (simp add: Let_def neigh_added_def l2_hash_index_eq)
qed

text \<open>The link of \<open>swp3\<close>, up, on interface 7, and the address 10.0.0.254 on it.\<close>

definition link_bytes :: nlbuf where
  "link_bytes i = (let bs = [0, 0, 0, 44, 0, 16, 0, 0, 0, 0, 0, 0, 0, 0, 0, 0,
     0, 0, 0, 1, 0, 0, 0, 7, 0, 0, 16, 67, 0, 0, 0, 0, 0, 9, 0, 3, 115, 119, 112, 51, 0, 0, 0, 0] in
     if i < length bs then bs ! i else 0xEE)"

definition addr_bytes :: nlbuf where
  "addr_bytes i = (let bs = [0, 0, 0, 32, 0, 20, 0, 0, 0, 0, 0, 0, 0, 0, 0, 0,
     2, 24, 0, 0, 0, 0, 0, 7, 0, 8, 0, 1, 10, 0, 0, 254] in if i < length bs then bs ! i else 0xEE)"

lemma cstring_step: "0 < n \<Longrightarrow> cstring b i n = (if b i = 0 then [] else char_of (unat (b i)) # cstring b (i + 1) (n - 1))"
  by (cases n) simp_all

lemma link_bytes_msg: "link_msg link_bytes 0 7 0x1043 3"
proof -
  have b: "nlmsg_type link_bytes 0 = 16" "nlmsg_len link_bytes 0 = 44" "be32 link_bytes 20 = 7" "be32 link_bytes 24 = 0x1043"
    by (simp_all add: nlmsg_type_def nlmsg_len_def be16_def be32_def link_bytes_def)
  have a: "rta_len link_bytes 32 = 9" "rta_type link_bytes 32 = 3"
    by (simp_all add: rta_len_def rta_type_def be16_def link_bytes_def)
  have p: "parse_rtattr link_bytes 32 32 12 = (\<lambda>_. None)(3 := Some 32)"
    by (simp add: parse_rtattr_def rtattr_loop.simps[of _ _ _ 32] rtattr_loop.simps[of _ _ _ 44] RTA_OK_def a align4_def)
  have "cstring link_bytes 36 65536 = ''swp3''"
    by (simp add: cstring_step[of 65536] cstring_step[of 65535] cstring_step[of 65534] cstring_step[of 65533]
        cstring_step[of 65532] link_bytes_def) code_simp
  moreover have "ifname_to_port ''swp3'' = Some 3" by code_simp
  ultimately show ?thesis by (simp add: link_msg_def b p RTM_NEWLINK_def RTA_DATA_def)
qed

lemma addr_bytes_msg: "addr_msg addr_bytes 0 7"
proof -
  have b: "nlmsg_type addr_bytes 0 = 20" "nlmsg_len addr_bytes 0 = 32" "be32 addr_bytes 20 = 7"
    by (simp_all add: nlmsg_type_def nlmsg_len_def be16_def be32_def addr_bytes_def)
  have a: "rta_len addr_bytes 24 = 8" "rta_type addr_bytes 24 = 1"
    by (simp_all add: rta_len_def rta_type_def be16_def addr_bytes_def)
  have p: "parse_rtattr addr_bytes 32 24 8 = (\<lambda>_. None)(1 := Some 24)"
    by (simp add: parse_rtattr_def rtattr_loop.simps[of _ _ _ 24] rtattr_loop.simps[of _ _ _ 32] RTA_OK_def a align4_def)
  show ?thesis by (simp add: addr_msg_def b p RTM_NEWADDR_def)
qed


end
