(* ===== verification/Cpld_Ctl.thy ===== *)
theory Cpld_Ctl
  imports Cscan
begin

text \<open>
  The command line tool for the CPLD (src/tools/cpld-ctl.c): it maps the 4096 bytes of the CPLD's
  chip select and reads or writes one of them. The environment answers each read from the
  history; an index behind the mapping is a fault. What is printed is a list of events with its
  values.
\<close>

section \<open>Interactions\<close>

datatype ctl_event =
    MapRd nat u8              \<comment> \<open>\<open>cpld[i]\<close> was read\<close>
  | MapWr nat u8
  | Shown nat u8              \<comment> \<open>\<open>read\<close>: register, value\<close>
  | Written nat u32 u8        \<comment> \<open>\<open>write\<close>: register, value, read back\<close>
  | Fan_set int u8 u8         \<comment> \<open>percentage, raw value, read back\<close>
  | Status u8 u8 u8 bool bool bool u8 int u8 u8
  | Dumped u8
  | Usage

datatype ctl_end = Exit int | Fault

record ctl_env =
  map_answer :: "ctl_event list \<Rightarrow> nat \<Rightarrow> u8"
  mem_opens :: bool
  mem_maps :: bool

definition CPLD_SIZE :: nat where "CPLD_SIZE = 4096"
definition REG_PSU2_STATUS :: nat where "REG_PSU2_STATUS = 0x01"
definition REG_PSU1_STATUS :: nat where "REG_PSU1_STATUS = 0x02"
definition REG_SYS_STATUS :: nat where "REG_SYS_STATUS = 0x03"
definition REG_FAN_SPEED :: nat where "REG_FAN_SPEED = 0x0D"
definition REG_LED :: nat where "REG_LED = 0x13"
definition REG_LED_LOC :: nat where "REG_LED_LOC = 0x15"

text \<open>The state is the history, newest first.\<close>

definition shown :: "ctl_event \<Rightarrow> (ctl_event list, unit) state" where
  "shown e = modify (\<lambda>h. e # h)"

definition map_rd :: "ctl_env \<Rightarrow> nat \<Rightarrow> (ctl_event list, u8) state" where
  "map_rd C i = do {
     h \<leftarrow> gets (\<lambda>h. h);
     let v = map_answer C h i;
     shown (MapRd i v);
     return v
   }"

definition map_wr :: "nat \<Rightarrow> u8 \<Rightarrow> (ctl_event list, unit) state" where
  "map_wr i v = shown (MapWr i v)"

section \<open>Commands\<close>

definition ctl_open :: "ctl_env \<Rightarrow> int" where
  "ctl_open C = (if \<not> mem_opens C then - 1 else if \<not> mem_maps C then - 1 else 0)"

definition dump_status :: "ctl_env \<Rightarrow> (ctl_event list, unit) state" where
  "dump_status C = do {
     v \<leftarrow> map_rd C REG_FAN_SPEED;
     let fan_pwm = v AND 0x1F;
     sys \<leftarrow> map_rd C REG_SYS_STATUS;
     psu1 \<leftarrow> map_rd C REG_PSU1_STATUS;
     psu2 \<leftarrow> map_rd C REG_PSU2_STATUS;
     led \<leftarrow> map_rd C REG_LED;
     loc \<leftarrow> map_rd C REG_LED_LOC;
     shown (Status psu2 psu1 sys (sys AND 0x04 = 0) (sys AND 0x08 = 0) (sys AND 0x10 \<noteq> 0)
              fan_pwm (uint fan_pwm * 100 div 31) led loc);
     for_each [0..<32] (\<lambda>i. do { v \<leftarrow> map_rd C i; shown (Dumped v) })
   }"

text \<open>\<open>strtoul(s, NULL, 16)\<close> and \<open>atoi(s)\<close>: 0 where there is no number.\<close>

definition strtoul16 :: "string \<Rightarrow> u32" where
  "strtoul16 s = (case scan_x s of None \<Rightarrow> 0 | Some (v, _) \<Rightarrow> v)"

definition atoi :: "string \<Rightarrow> int" where
  "atoi s = (case scan_d s of None \<Rightarrow> 0 | Some (v, _) \<Rightarrow> v)"

definition fan_pct :: "int \<Rightarrow> int" where
  "fan_pct pct = (let pct = (if pct < 0 then 0 else pct) in if pct > 100 then 100 else pct)"

definition fan_raw :: "int \<Rightarrow> u8" where
  "fan_raw pct = (let raw = word_of_int (fan_pct pct * 31 div 100) :: u8 in
     if fan_pct pct > 0 \<and> raw = 0 then 1 else raw)"

definition cpld_ctl_main :: "ctl_env \<Rightarrow> string list \<Rightarrow> (ctl_event list, ctl_end) state" where
  "cpld_ctl_main C args =
     (if ctl_open C < 0 then return (Exit 1)
      else if args = [] then do { dump_status C; return (Exit 0) }
      else if args ! 0 = ''read'' \<and> length args \<ge> 2 then
        (let reg = unat (strtoul16 (args ! 1)) in
         if reg \<ge> CPLD_SIZE then return Fault
         else do { v \<leftarrow> map_rd C reg; shown (Shown reg v); return (Exit 0) })
      else if args ! 0 = ''write'' \<and> length args \<ge> 3 then
        (let reg = unat (strtoul16 (args ! 1)); val = strtoul16 (args ! 2) in
         if reg \<ge> CPLD_SIZE then return Fault
         else do {
           map_wr reg (ucast val);
           v \<leftarrow> map_rd C reg;
           shown (Written reg val v);
           return (Exit 0)
         })
      else if args ! 0 = ''fan'' \<and> length args \<ge> 2 then
        (let pct = atoi (args ! 1) in do {
           map_wr REG_FAN_SPEED (fan_raw pct);
           v \<leftarrow> map_rd C REG_FAN_SPEED;
           shown (Fan_set (fan_pct pct) (fan_raw pct) v);
           return (Exit 0)
         })
      else do { shown Usage; return (Exit 1) })"

section \<open>The fan command\<close>

lemma fan_raw_uint: "uint (fan_raw pct) = (if fan_pct pct > 0 \<and> fan_pct pct * 31 div 100 = 0 then 1 else fan_pct pct * 31 div 100)"
proof -
  have "0 \<le> fan_pct pct * 31 div 100" "fan_pct pct * 31 div 100 \<le> 31" by (auto simp: fan_pct_def Let_def)
  then have "uint (word_of_int (fan_pct pct * 31 div 100) :: u8) = fan_pct pct * 31 div 100"
    by (simp add: uint_word_of_int)
  then show ?thesis by (auto simp: fan_raw_def Let_def uint_0_iff[symmetric] simp del: uint_0_iff)
qed

text \<open>The raw value fits the five bits of the register, is 0 only for 0 percent, grows with the
  percentage, and the duty \<open>dump_status\<close> prints for it is at most four below what was asked for.\<close>

theorem fan_raw_duty:
  "uint (fan_raw p) \<le> 31 \<and> fan_raw p AND 0x1F = fan_raw p \<and> (fan_raw p = 0 \<longleftrightarrow> p \<le> 0) \<and>
   (p \<le> q \<longrightarrow> uint (fan_raw p) \<le> uint (fan_raw q)) \<and>
   (4 \<le> p \<and> p \<le> 100 \<longrightarrow> p - 4 \<le> uint (fan_raw p) * 100 div 31 \<and> uint (fan_raw p) * 100 div 31 \<le> p)"
proof -
  have r: "uint (fan_raw p) \<le> 31" by (auto simp: fan_raw_uint fan_pct_def Let_def)
  have "uint (fan_raw p AND 0x1F) = uint (fan_raw p)"
  proof -
    have "uint (fan_raw p AND 0x1F) = uint (fan_raw p) AND mask 5" by (simp add: uint_and mask_eq_exp_minus_1)
    also have "\<dots> = take_bit 5 (uint (fan_raw p))" by (simp only: take_bit_eq_mask)
    also have "\<dots> = uint (fan_raw p)" using r by (intro take_bit_int_eq_self) simp_all
    finally show ?thesis .
  qed
  then have "fan_raw p AND 0x1F = fan_raw p" by (simp only: word_uint_eq_iff)
  moreover have "fan_raw p = 0 \<longleftrightarrow> p \<le> 0"
    unfolding uint_0_iff[symmetric] fan_raw_uint by (auto simp: fan_pct_def Let_def)
  moreover have "p \<le> q \<longrightarrow> uint (fan_raw p) \<le> uint (fan_raw q)"
    by (auto simp: fan_raw_uint fan_pct_def Let_def zdiv_mono1)
  moreover have "4 \<le> p \<and> p \<le> 100 \<longrightarrow> p - 4 \<le> uint (fan_raw p) * 100 div 31 \<and> uint (fan_raw p) * 100 div 31 \<le> p"
    by (auto simp: fan_raw_uint fan_pct_def Let_def)
  ultimately show ?thesis using r by blast
qed

end
