(* ===== verification/Nos_Init.thy ===== *)
theory Nos_Init
  imports Prelude
begin

text \<open>
  The init program of the initramfs (src/initramfs/nos-init.c): it waits for the root partition,
  mounts it with a writable overlay where it can, and switches to the new root. The state is the
  history of system calls, newest first; the environment answers each call from it. A successful
  \<open>execve\<close> replaces the program and ends it. The texts written to the console are left out.
\<close>

section \<open>System calls\<close>

datatype mount_kind = Plain | Read_only | Bind | Move

datatype boot_call =
    Mkdir string nat
  | Mount string string "string option" mount_kind "string option"
  | Is_blk string              \<comment> \<open>\<open>stat\<close> succeeds and shows a block device: answer 0\<close>
  | Mknod_blk string int int
  | Sleep_s nat
  | Chdir string
  | Chroot string
  | Execve string

type_synonym boot_hist = "(boot_call \<times> int) list"
type_synonym boot_env = "boot_hist \<Rightarrow> boot_call \<Rightarrow> int"

definition call :: "boot_env \<Rightarrow> boot_call \<Rightarrow> (boot_hist, int) state" where
  "call B c = do {
     h \<leftarrow> gets (\<lambda>h. h);
     let r = B h c;
     modify (\<lambda>h. (c, r) # h);
     return r
   }"

lemma run_call [simp]: "run_state (call B c) h = (B h c, (c, B h c) # h)"
  by (simp add: call_def Let_def)

lemma wp_call [wp_rules]: "(\<And>r. Q r ((c, r) # h)) \<Longrightarrow> wp (call B c) Q h"
  by (simp add: wp_def)

section \<open>Waiting for a partition\<close>

fun wait_loop :: "boot_env \<Rightarrow> string \<Rightarrow> nat \<Rightarrow> (boot_hist, bool) state" where
  "wait_loop B dev 0 = return False"
| "wait_loop B dev (Suc n) = do {
     r \<leftarrow> call B (Is_blk dev);
     if r = 0 then return True
     else do { _ \<leftarrow> call B (Sleep_s 1); wait_loop B dev n }
   }"

definition wait_blk :: "boot_env \<Rightarrow> string \<Rightarrow> int \<Rightarrow> int \<Rightarrow> nat \<Rightarrow> (boot_hist, int) state" where
  "wait_blk B dev major minor secs = do {
     found \<leftarrow> wait_loop B dev secs;
     if found then return 0
     else do {
       _ \<leftarrow> call B (Mknod_blk dev major minor);
       r \<leftarrow> call B (Is_blk dev);
       return (if r = 0 then 0 else - 1)
     }
   }"

section \<open>Switching to the new root\<close>

definition move_mounts :: "boot_env \<Rightarrow> string \<Rightarrow> (boot_hist, unit) state" where
  "move_mounts B newroot =
     for_each [''/proc'', ''/sys'', ''/dev''] (\<lambda>p. do {
       _ \<leftarrow> call B (Mount p (take 127 (newroot @ p)) None Move None);
       return ()
     })"

text \<open>None: the program was replaced. Some: the switch failed.\<close>

definition do_switch_root :: "boot_env \<Rightarrow> string \<Rightarrow> (boot_hist, unit option) state" where
  "do_switch_root B newroot = do {
     move_mounts B newroot;
     r \<leftarrow> call B (Chdir newroot);
     if r \<noteq> 0 then return (Some ()) else do {
     r \<leftarrow> call B (Mount ''.'' ''/'' None Move None);
     if r \<noteq> 0 then return (Some ()) else do {
     r \<leftarrow> call B (Chroot ''.'');
     if r \<noteq> 0 then return (Some ()) else do {
     _ \<leftarrow> call B (Chdir ''/'');
     r \<leftarrow> call B (Execve ''/sbin/init'');
     if r = 0 then return None else do {
     r \<leftarrow> call B (Execve ''/etc/init'');
     if r = 0 then return None else do {
     r \<leftarrow> call B (Execve ''/bin/init'');
     if r = 0 then return None else return (Some ())
     }}}}}
   }"

section \<open>The program\<close>

text \<open>\<open>Halted\<close> is \<open>for (;;) sleep(1)\<close>.\<close>

datatype boot_end = Replaced | Halted

definition mount_overlay :: "boot_env \<Rightarrow> (boot_hist, unit option) state" where
  "mount_overlay B = do {
     _ \<leftarrow> call B (Mkdir ''/rw'' 0x1ED);
     w \<leftarrow> wait_blk B ''/dev/sda3'' 8 3 5;
     m \<leftarrow> (if w = 0 then call B (Mount ''/dev/sda3'' ''/rw'' (Some ''ext2'') Plain None) else return (- 1));
     if m = 0 then do {
       _ \<leftarrow> call B (Mkdir ''/rw/upper'' 0x1ED);
       _ \<leftarrow> call B (Mkdir ''/rw/work'' 0x1C0);
       r \<leftarrow> call B (Mount ''overlay'' ''/newroot'' (Some ''overlay'') Plain
              (Some ''lowerdir=/lower,upperdir=/rw/upper,workdir=/rw/work''));
       if r = 0 then do_switch_root B ''/newroot'' else return (Some ())
     } else return (Some ())
   }"

definition nos_init_main :: "boot_env \<Rightarrow> (boot_hist, boot_end) state" where
  "nos_init_main B = do {
     _ \<leftarrow> call B (Mkdir ''/proc'' 0x1ED);
     _ \<leftarrow> call B (Mount ''proc'' ''/proc'' (Some ''proc'') Plain None);
     _ \<leftarrow> call B (Mkdir ''/sys'' 0x1ED);
     _ \<leftarrow> call B (Mount ''sysfs'' ''/sys'' (Some ''sysfs'') Plain None);
     _ \<leftarrow> call B (Mkdir ''/dev'' 0x1ED);
     _ \<leftarrow> call B (Mount ''devtmpfs'' ''/dev'' (Some ''devtmpfs'') Plain None);
     w \<leftarrow> wait_blk B ''/dev/sda6'' 8 6 30;
     if w \<noteq> 0 then return Halted else do {
     _ \<leftarrow> call B (Mkdir ''/lower'' 0x1ED);
     r \<leftarrow> call B (Mount ''/dev/sda6'' ''/lower'' (Some ''squashfs'') Read_only None);
     if r \<noteq> 0 then return Halted else do {
     _ \<leftarrow> call B (Mkdir ''/newroot'' 0x1ED);
     sw \<leftarrow> mount_overlay B;
     (case sw of None \<Rightarrow> return Replaced
      | Some _ \<Rightarrow> do {
          _ \<leftarrow> call B (Mount ''/lower'' ''/newroot'' None Bind None);
          sw \<leftarrow> do_switch_root B ''/newroot'';
          return (case sw of None \<Rightarrow> Replaced | Some _ \<Rightarrow> Halted)
        })
     }}
   }"

section \<open>What is true when init is replaced\<close>

text \<open>Seconds slept.\<close>

fun boot_slept :: "boot_hist \<Rightarrow> nat" where
  "boot_slept [] = 0"
| "boot_slept ((Sleep_s n, r) # h) = n + boot_slept h"
| "boot_slept (_ # h) = boot_slept h"

definition calls_more :: "nat \<Rightarrow> boot_hist \<Rightarrow> boot_hist \<Rightarrow> bool" where
  "calls_more n h h' \<longleftrightarrow> set h \<subseteq> set h' \<and> boot_slept h' \<le> boot_slept h + n"

lemma calls_more_refl [simp]: "calls_more n h h"
  by (simp add: calls_more_def)

lemma calls_more_trans: "calls_more m h h1 \<Longrightarrow> calls_more n h1 h2 \<Longrightarrow> calls_more (m + n) h h2"
  by (auto simp: calls_more_def)

lemma wp_wait_loop: "wp (wait_loop B dev n) (\<lambda>_ h'. calls_more n h h') h"
proof (induction n arbitrary: h)
  case (Suc n)
  have "wp (wait_loop B dev n) (\<lambda>_ h'. calls_more (Suc n) h h') ((Sleep_s 1, r) # (Is_blk dev, q) # h)" for r q
    by (rule wp_mono[OF Suc.IH]) (auto simp: calls_more_def)
  then show ?case unfolding wait_loop.simps by (intro wp_rules) (auto simp: calls_more_def)
qed (simp add: wp_def)

lemma wp_wait_blk: "wp (wait_blk B dev major minor n) (\<lambda>_ h'. calls_more n h h') h"
  unfolding wait_blk_def
  by (intro wp_bind, rule wp_mono[OF wp_wait_loop[of B dev n h]], intro wp_rules) (auto simp: calls_more_def)

text \<open>The program was replaced: the last call is a successful \<open>execve\<close>, in a root that was moved
  to \<open>/\<close> and entered.\<close>

definition switched :: "boot_hist \<Rightarrow> bool" where
  "switched h \<longleftrightarrow> (\<exists>p h'. h = (Execve p, 0) # h') \<and> (Chroot ''.'', 0) \<in> set h \<and> (Mount ''.'' ''/'' None Move None, 0) \<in> set h"

lemma wp_switch_root: "wp (do_switch_root B root) (\<lambda>r h'. (r = None \<longrightarrow> switched h') \<and> calls_more 0 h h') h"
proof -
  have moves: "wp (move_mounts B root) (\<lambda>_ h'. calls_more 0 h h') h"
    unfolding move_mounts_def for_each.simps by (intro wp_rules) (simp add: calls_more_def subset_insertI2)
  show ?thesis
    unfolding do_switch_root_def
    by (intro wp_bind, rule wp_mono[OF moves], intro wp_rules) (auto simp: calls_more_def switched_def)
qed

lemma wp_mount_overlay: "wp (mount_overlay B) (\<lambda>r h'. (r = None \<longrightarrow> switched h') \<and> calls_more 5 h h') h"
proof -
  have tail: "wp (if m = 0 then do {
       _ \<leftarrow> call B (Mkdir ''/rw/upper'' 0x1ED);
       _ \<leftarrow> call B (Mkdir ''/rw/work'' 0x1C0);
       r \<leftarrow> call B (Mount ''overlay'' ''/newroot'' (Some ''overlay'') Plain
              (Some ''lowerdir=/lower,upperdir=/rw/upper,workdir=/rw/work''));
       if r = 0 then do_switch_root B ''/newroot'' else return (Some ())
     } else return (Some ())) (\<lambda>r h'. (r = None \<longrightarrow> switched h') \<and> calls_more 5 h h') h1"
    if "calls_more 5 h h1" for m h1
    using that
    by (intro wp_if wp_bind wp_call wp_return wp_mono[OF wp_switch_root]) (auto simp: calls_more_def)
  show ?thesis
    unfolding mount_overlay_def
    by (intro wp_bind wp_call wp_mono[OF wp_wait_blk] wp_if wp_return tail) (auto simp: calls_more_def)
qed


end
