(* ===== verification/Schan_Diag.thy ===== *)
theory Schan_Diag
  imports User_Bde
begin

text \<open>
  The S-Channel diagnostic (src/scripts/schan_diag.c). It does not use the SDK: it builds its own
  request numbers and structures and sends them to the driver's ioctl handler. A request number
  is the four fields the \<open>_IO*\<close> macros pack (direction, type, number, size of the argument); the
  caller's structure is its list of 32-bit words. What is printed is a list of lines with
  their values, newest first; headings are left out.
\<close>

section \<open>Request numbers\<close>

datatype ioc_dir = IO_R | IO_W | IO_WR

record ioc =
  ioc_dir :: ioc_dir
  ioc_type :: char
  ioc_nr :: nat
  ioc_bytes :: nat

definition ioc_num :: "ioc_dir \<Rightarrow> nat \<Rightarrow> nat \<Rightarrow> ioc" where
  "ioc_num d n k = \<lparr>ioc_dir = d, ioc_type = CHR ''B'', ioc_nr = n, ioc_bytes = k\<rparr>"

text \<open>The numbers of the driver (src/bde/nos_user_bde.c) with the sizes of its structures, and the
  request its \<open>switch\<close> takes a call for.\<close>

definition DRV_READ_REG :: ioc where "DRV_READ_REG = ioc_num IO_WR 1 8"
definition DRV_WRITE_REG :: ioc where "DRV_WRITE_REG = ioc_num IO_R 2 8"
definition DRV_GET_DMA_INFO :: ioc where "DRV_GET_DMA_INFO = ioc_num IO_R 3 16"
definition DRV_SCHAN_OP :: ioc where "DRV_SCHAN_OP = ioc_num IO_WR 4 (4 * (16 + 16 + 1 + 1))"

definition drv_request :: "ioc \<Rightarrow> u32 list \<Rightarrow> bde_request" where
  "drv_request n m =
     (if n = DRV_READ_REG then NOS_BDE_READ_REG \<lparr>reg_offset = m ! 0, reg_value = m ! 1\<rparr>
      else if n = DRV_WRITE_REG then NOS_BDE_WRITE_REG \<lparr>reg_offset = m ! 0, reg_value = m ! 1\<rparr>
      else if n = DRV_GET_DMA_INFO then NOS_BDE_GET_DMA_INFO \<lparr>info_pbase = 0, info_size = 0\<rparr>
      else if n = DRV_SCHAN_OP then NOS_BDE_SCHAN_OP \<lparr>sch_cmd = take 16 m, sch_data = take 16 (drop 16 m),
             sch_len = sint (m ! 32), sch_status = sint (m ! 33)\<rparr>
      else UNKNOWN_REQUEST)"

text \<open>The words the handler copied back, where the diagnostic can look at them.\<close>

definition drv_words :: "bde_request \<Rightarrow> u32 list \<Rightarrow> u32 list" where
  "drv_words req m = (case req of
       NOS_BDE_READ_REG r \<Rightarrow> [reg_offset r, reg_value r]
     | NOS_BDE_SCHAN_OP s \<Rightarrow> sch_cmd s @ sch_data s @ [word_of_int (sch_len s), word_of_int (sch_status s)]
     | _ \<Rightarrow> m)"

section \<open>The program\<close>

datatype diag_line =
    Reg_line u32 u32                          \<comment> \<open>offset, value\<close>
  | Ctrl_line u32 u32 string                  \<comment> \<open>offset, value, its bits\<close>
  | Ioctl_line string int int u32 string      \<comment> \<open>label, \<open>ioctl=\<close>, \<open>st=\<close>, \<open>ctrl=\<close>, its bits\<close>
  | Data_line u32 u32
  | Raw_line string u32 string u32            \<comment> \<open>label, \<open>ctrl=\<close>, its bits, \<open>resp=\<close>\<close>

record diag_state = kernel_bde +
  diag_fd :: int
  diag_out :: "diag_line list"

definition diag_print :: "diag_line \<Rightarrow> (diag_state, unit) state" where
  "diag_print l = modify (\<lambda>s. s\<lparr>diag_out := l # diag_out s\<rparr>)"

definition RR :: ioc where "RR = ioc_num IO_WR 1 8"
definition WW :: ioc where "WW = ioc_num IO_W 2 8"
definition SC :: ioc where "SC = ioc_num IO_WR 4 (4 * (8 + 16 + 1 + 1))"

definition raw_ioctl :: "env \<Rightarrow> ioc \<Rightarrow> u32 list \<Rightarrow> (diag_state, int \<times> u32 list) state" where
  "raw_ioctl E n m = do {
     (r, req) \<leftarrow> nos_bde_ioctl E (drv_request n m);
     return (if r < 0 then - 1 else r, drv_words req m)
   }"

definition rr :: "env \<Rightarrow> u32 \<Rightarrow> (diag_state, u32) state" where
  "rr E off = do {
     (rc, m) \<leftarrow> raw_ioctl E RR [off, 0];
     if rc < 0 then return (0xDEAD0000 OR (off AND 0xffff))
     else return (m ! 1)
   }"

definition ww :: "env \<Rightarrow> u32 \<Rightarrow> u32 \<Rightarrow> (diag_state, unit) state" where
  "ww E off v = do { _ \<leftarrow> raw_ioctl E WW [off, v]; return () }"

definition ctrl_str :: "u32 \<Rightarrow> string" where
  "ctrl_str c =
     (if c = 0 then ''IDLE''
      else (if c AND 1 \<noteq> 0 then ''START '' else '''') @ (if c AND 2 \<noteq> 0 then ''DONE '' else '''') @
        (if c AND 4 \<noteq> 0 then ''ERROR '' else '''') @ (if c AND 8 \<noteq> 0 then ''NACK '' else '''') @
        (if c AND NOT 0xf \<noteq> 0 then ''+OTHER'' else ''''))"

text \<open>\<open>struct schan\<close> as \<open>schan_ioctl\<close> fills it: 8 command words, 16 data words, length, status.\<close>

definition sc_words :: "u32 \<Rightarrow> u32 \<Rightarrow> u32 list" where
  "sc_words w0 addr = [w0, addr] @ replicate 6 0 @ replicate 16 0 @ [2, - 1]"

definition schan_ioctl :: "env \<Rightarrow> u32 \<Rightarrow> u32 \<Rightarrow> string \<Rightarrow> (diag_state, unit) state" where
  "schan_ioctl E w0 addr label = do {
     (r, m) \<leftarrow> raw_ioctl E SC (sc_words w0 addr);
     ctrl \<leftarrow> rr E 0x33000;
     diag_print (Ioctl_line label r (sint (m ! 25)) ctrl (ctrl_str ctrl));
     if m ! 25 = 0 then diag_print (Data_line (m ! 8) (m ! 9)) else return ()
   }"

text \<open>The poll of \<open>schan_raw\<close>: at most 500 reads, 100 microseconds apart.\<close>

fun raw_poll :: "env \<Rightarrow> u32 \<Rightarrow> nat \<Rightarrow> u32 \<Rightarrow> (diag_state, u32) state" where
  "raw_poll E ctrl_reg 0 ctrl = return ctrl"
| "raw_poll E ctrl_reg (Suc n) ctrl = do {
     udelay 100;
     ctrl \<leftarrow> rr E ctrl_reg;
     if ctrl AND 0xe \<noteq> 0 then return ctrl else raw_poll E ctrl_reg n ctrl
   }"

definition schan_raw :: "env \<Rightarrow> u32 \<Rightarrow> u32 \<Rightarrow> u32 \<Rightarrow> u32 \<Rightarrow> string \<Rightarrow> (diag_state, unit) state" where
  "schan_raw E ctrl_reg msg_base w0 addr label = do {
     prev \<leftarrow> rr E ctrl_reg;
     (if prev \<noteq> 0 then do {
        ww E ctrl_reg (prev OR 4); udelay 2000; ww E ctrl_reg 0; udelay 500
      } else return ());
     ww E (msg_base + 0x00) w0;
     ww E (msg_base + 0x04) addr;
     ww E ctrl_reg 0;
     udelay 100;
     ww E ctrl_reg 1;
     ctrl \<leftarrow> raw_poll E ctrl_reg 500 0;
     ww E ctrl_reg 0;
     resp \<leftarrow> rr E msg_base;
     diag_print (Raw_line label ctrl (ctrl_str ctrl) resp)
   }"

definition show_reg :: "env \<Rightarrow> u32 \<Rightarrow> (diag_state, unit) state" where
  "show_reg E off = do { v \<leftarrow> rr E off; diag_print (Reg_line off v) }"

definition show_ctrl :: "env \<Rightarrow> u32 \<Rightarrow> (diag_state, unit) state" where
  "show_ctrl E off = do { v \<leftarrow> rr E off; w \<leftarrow> rr E off; diag_print (Ctrl_line off v (ctrl_str w)) }"

text \<open>The seven numbered sections of \<open>main\<close>.\<close>

definition diag_sections :: "env \<Rightarrow> (diag_state, unit) state" where
  "diag_sections E = do {
     for_each [0x178, 0x200, 0x204, 0x208, 0x20c, 0x210, 0x214] (show_reg E);
     for_each [0x31000, 0x33000] (show_ctrl E);
     for_each [(0x200, 0x7d0), (0x204, 0x43052100), (0x208, 0x33333343), (0x20c, 0x44444333),
         (0x210, 0x00034444), (0x214, 0), (0x218, 0), (0x21c, 0), (0x220, 0)] (\<lambda>(off, v). ww E off v);
     udelay 1000;
     for_each [0x204, 0x208] (show_reg E);
     for_each [(0x2a000001, 0x00000000, ''0x2a(our-READ) len=1 addr=0''),
         (0x2a000001, 0x02000000, ''0x2a(our-READ) len=1 addr=0x2000000''),
         (0x2a000002, 0x00000000, ''0x2a(our-READ) len=2 addr=0''),
         (0x1c000001, 0x00000000, ''opcode=0x07(MEM_READ)  addr=0''),
         (0x1c000001, 0x02000000, ''opcode=0x07(MEM_READ)  addr=0x2000000''),
         (0x2c000001, 0x00000000, ''opcode=0x0b(REG_READ)  addr=0''),
         (0x2c000001, 0x02000000, ''opcode=0x0b(REG_READ)  addr=0x2000000''),
         (0x2c000001, 0x40a0082c, ''opcode=0x0b(REG_READ)  XMAC_TX_CTRL port0'')]
       (\<lambda>(w0, addr, label). schan_ioctl E w0 addr label);
     for_each [(0x2a000001, 0x00000000, ''CMC0 0x2a addr=0''),
         (0x1c000001, 0x00000000, ''CMC0 opcode=0x07 addr=0''),
         (0x2c000001, 0x00000000, ''CMC0 opcode=0x0b addr=0''),
         (0x2a000001, 0x02000000, ''CMC0 0x2a addr=0x2000000'')]
       (\<lambda>(w0, addr, label). schan_raw E 0x31000 0x3100c w0 addr label);
     for_each [(0x2a000001, 0x00000000, ''CMC2 0x2a addr=0''),
         (0x1c000001, 0x00000000, ''CMC2 opcode=0x07 addr=0''),
         (0x2c000001, 0x00000000, ''CMC2 opcode=0x0b addr=0''),
         (0x2a000001, 0x02000000, ''CMC2 0x2a addr=0x2000000'')]
       (\<lambda>(w0, addr, label). schan_raw E 0x33000 0x3300c w0 addr label);
     for_each [0x31000, 0x33000] (show_reg E)
   }"

definition schan_diag_main :: "env \<Rightarrow> (diag_state, int) state" where
  "schan_diag_main E = do {
     fd \<leftarrow> os E sys_open [];
     modify (\<lambda>s. s\<lparr>diag_fd := fd\<rparr>);
     if fd < 0 then return 1
     else do {
       diag_sections E;
       _ \<leftarrow> os E sys_close [fd];
       return 0
     }
   }"

section \<open>What the diagnostic can see\<close>

lemma drv_request_RR: "drv_request RR [off, v] = NOS_BDE_READ_REG \<lparr>reg_offset = off, reg_value = v\<rparr>"
  by (simp add: drv_request_def RR_def DRV_READ_REG_def)

lemma drv_request_refused: "drv_request WW m = UNKNOWN_REQUEST" "drv_request SC m = UNKNOWN_REQUEST"
  by (simp_all add: drv_request_def WW_def SC_def ioc_num_def DRV_READ_REG_def DRV_WRITE_REG_def
      DRV_GET_DMA_INFO_def DRV_SCHAN_OP_def)

lemma silent_read_request: "emits silent (nos_bde_ioctl E (NOS_BDE_READ_REG r))"
  unfolding nos_bde_ioctl_def nos_bde_get_bar0_def
  by (simp only: bde_request.case) (intro emits_rules silent_simps)

lemma refused_request:
  "\<exists>e > 0. run_state (nos_bde_ioctl E UNKNOWN_REQUEST) s = ((- e, UNKNOWN_REQUEST), s)"
  by (auto simp: nos_bde_ioctl_def nos_bde_get_bar0_def intro: exI[of _ 19] exI[of _ 25])

text \<open>A line that shows a refused S-Channel request, or none.\<close>

definition refused :: "diag_line \<Rightarrow> bool" where
  "refused l = (case l of Ioctl_line label r st ctrl bits \<Rightarrow> r = - 1 \<and> st = - 1 | Data_line a b \<Rightarrow> False | _ \<Rightarrow> True)"

text \<open>\<open>only_reads m\<close>: \<open>m\<close> adds no register write to the history and no other S-Channel line to
  the output.\<close>

definition only_reads :: "(diag_state, 'a) state \<Rightarrow> bool" where
  "only_reads m \<longleftrightarrow> (\<forall>s. (\<exists>evs. trace (exec m s) = evs @ trace s \<and> list_all silent evs) \<and>
      (\<exists>ls. diag_out (exec m s) = ls @ diag_out s \<and> list_all refused ls))"

named_theorems only_reads_rules \<open>composed code that only reads\<close>

lemma only_reads_same: "(\<And>s. trace (exec m s) = trace s \<and> diag_out (exec m s) = diag_out s) \<Longrightarrow> only_reads m"
  by (simp add: only_reads_def)

lemma only_reads_return [only_reads_rules]: "only_reads (return x)"
  by (rule only_reads_same) simp

lemma only_reads_emits:
  assumes "emits silent m"
  shows "only_reads m"
  unfolding only_reads_def
proof (intro allI)
  fix s
  obtain evs where e: "exec m s = s\<lparr>trace := evs @ trace s\<rparr>" "list_all silent evs"
    using assms by (rule emitsE)
  then have "diag_out (exec m s) = [] @ diag_out s" "trace (exec m s) = evs @ trace s" by simp_all
  then show "(\<exists>evs. trace (exec m s) = evs @ trace s \<and> list_all silent evs) \<and>
      (\<exists>ls. diag_out (exec m s) = ls @ diag_out s \<and> list_all refused ls)"
    using e(2) by (intro conjI exI[of _ evs] exI[of _ "[]"]) simp_all
qed

lemma only_reads_bind [only_reads_rules]:
  assumes "only_reads m" and "\<And>a. only_reads (f a)"
  shows "only_reads (Monad_Syntax.bind m f)"
  unfolding only_reads_def
proof (intro allI)
  fix s
  let ?s1 = "exec m s" and ?s2 = "exec (f (result m s)) (exec m s)"
  obtain e1 l1 where 1: "trace ?s1 = e1 @ trace s" "list_all silent e1" "diag_out ?s1 = l1 @ diag_out s" "list_all refused l1"
    using assms(1) unfolding only_reads_def by meson
  obtain e2 l2 where 2: "trace ?s2 = e2 @ trace ?s1" "list_all silent e2" "diag_out ?s2 = l2 @ diag_out ?s1" "list_all refused l2"
    using assms(2) unfolding only_reads_def by meson
  have "trace ?s2 = (e2 @ e1) @ trace s \<and> list_all silent (e2 @ e1)" "diag_out ?s2 = (l2 @ l1) @ diag_out s \<and> list_all refused (l2 @ l1)"
    using 1 2 by simp_all
  then show "(\<exists>evs. trace (exec (Monad_Syntax.bind m f) s) = evs @ trace s \<and> list_all silent evs) \<and>
      (\<exists>ls. diag_out (exec (Monad_Syntax.bind m f) s) = ls @ diag_out s \<and> list_all refused ls)"
    unfolding exec_bind by blast
qed

lemma only_reads_if [only_reads_rules]: "only_reads m \<Longrightarrow> only_reads n \<Longrightarrow> only_reads (if b then m else n)"
  by simp

lemma only_reads_for_each [only_reads_rules]: "(\<And>i. only_reads (f i)) \<Longrightarrow> only_reads (for_each is f)"
  by (induction "is") (auto intro!: only_reads_rules)

lemma only_reads_prod [only_reads_rules]: "(\<And>x y. only_reads (f x y)) \<Longrightarrow> only_reads (case z of (x, y) \<Rightarrow> f x y)"
  by (cases z) simp

lemma only_reads_print [only_reads_rules]: "refused l \<Longrightarrow> only_reads (diag_print l)"
  unfolding only_reads_def diag_print_def by (auto intro: exI[of _ "[l]"])

lemma only_reads_udelay [only_reads_rules]: "only_reads (udelay n)"
  by (rule only_reads_emits) (intro emits_rules silent_simps)

lemma only_reads_os [only_reads_rules]: "only_reads (os E name args)"
  by (rule only_reads_emits) (intro emits_rules silent_simps)

lemma only_reads_rr [only_reads_rules]: "only_reads (rr E off)"
  unfolding rr_def raw_ioctl_def drv_request_RR
  by (intro only_reads_rules only_reads_emits silent_read_request)

lemma raw_ioctl_refused:
  assumes "n = WW \<or> n = SC"
  shows "run_state (raw_ioctl E n m) s = ((- 1, m), s)"
proof -
  obtain e where "e > 0" "run_state (nos_bde_ioctl E UNKNOWN_REQUEST) s = ((- e, UNKNOWN_REQUEST), s)"
    using refused_request by blast
  then show ?thesis using assms by (auto simp: raw_ioctl_def drv_request_refused drv_words_def)
qed

lemma only_reads_ww [only_reads_rules]: "only_reads (ww E off v)"
  by (rule only_reads_same) (simp add: ww_def raw_ioctl_refused)

lemma only_reads_ioctl [only_reads_rules]: "only_reads (schan_ioctl E w0 addr label)"
proof -
  have m: "sc_words w0 addr ! 25 = - 1" by (simp add: sc_words_def nth_append)
  have "run_state (schan_ioctl E w0 addr label) = run_state (do {
     ctrl \<leftarrow> rr E 0x33000;
     diag_print (Ioctl_line label (- 1) (- 1) ctrl (ctrl_str ctrl))
   })"
    by (rule ext) (simp add: schan_ioctl_def raw_ioctl_refused m split_beta diag_print_def)
  moreover have "only_reads (do {
     ctrl \<leftarrow> rr E 0x33000;
     diag_print (Ioctl_line label (- 1) (- 1) ctrl (ctrl_str ctrl))
   })"
    by (intro only_reads_rules) (simp add: refused_def)
  ultimately show ?thesis by (simp only: only_reads_def simp_thms)
qed

lemma only_reads_poll [only_reads_rules]: "only_reads (raw_poll E reg n c)"
  by (induction n arbitrary: c) (auto intro!: only_reads_rules)

lemma only_reads_sections: "only_reads (diag_sections E)"
  unfolding diag_sections_def show_reg_def show_ctrl_def schan_raw_def
  by (intro only_reads_rules) (simp_all add: refused_def)

text \<open>C39. The diagnostic cannot answer its own question: its register writes carry a request
  number with the other direction and its S-Channel requests one of the other size, the driver
  refuses them all, and the program goes on. Whatever the chip holds and however it answers, no
  register is written, every S-Channel test prints \<open>ioctl=-1 st=-1\<close> and no data, and the exit code
  depends only on opening the device.\<close>

theorem schan_diag_only_reads:
  "writes (trace (exec (schan_diag_main E) s)) = writes (trace s) \<and>
   (\<exists>ls. diag_out (exec (schan_diag_main E) s) = ls @ diag_out s \<and> list_all refused ls) \<and>
   result (schan_diag_main E) s = (if os_answer E (trace s) sys_open [] < 0 then 1 else 0)"
proof -
  have "only_reads (schan_diag_main E)"
    unfolding schan_diag_main_def
    by (intro only_reads_rules only_reads_sections only_reads_same) simp
  then have "(\<exists>evs. trace (exec (schan_diag_main E) s) = evs @ trace s \<and> list_all silent evs) \<and>
      (\<exists>ls. diag_out (exec (schan_diag_main E) s) = ls @ diag_out s \<and> list_all refused ls)"
    unfolding only_reads_def by blast
  moreover have "result (schan_diag_main E) s = (if os_answer E (trace s) sys_open [] < 0 then 1 else 0)"
    by (simp add: schan_diag_main_def result_bind split_beta)
  ultimately show ?thesis by (auto simp: writes_silent)
qed

end
