(* ===== verification/Spec2Isabelle.thy ===== *)
theory Spec2Isabelle
  imports Ecmp Vlan Platform Switchd Forwarding Cpld_Ctl Nos_Init Schan_Diag
begin

text \<open>
  A verification development for open-nos-as5610, a network operating system for the Edgecore
  AS5610-52X (Broadcom BCM56846 switch chip, PowerPC P2020 host). All paths are under src/.

  \<^bold>\<open>The program.\<close> The kernel module bde/nos_kernel_bde.c owns the chip's register window (BAR0) and its
  DMA pool; bde/nos_user_bde.c offers both as the device /dev/nos-bde. The SDK (sdk/src) runs in the
  daemon's process: bde_ioctl.c calls the device, sbus.c, reg.c and schan.c turn table and register
  accesses into S-Channel messages, l2.c, l3.c, ecmp.c, vlan.c, port.c, stats.c keep the forwarding
  tables, serdes.c and i2c.c drive the SerDes over MDIO, init.c and init_datapath.c bring the chip up,
  soc.c runs command scripts, config.c and attach.c start and stop the SDK, pktio.c moves packets by
  DMA. The daemon switchd (switchd/src) mirrors the kernel's state into the chip: netlink.c follows
  links, addresses, neighbours and routes, link_state.c the port states, tx_rx.c, tun.c and port_config.c
  connect a TAP interface with each port. Beside it run the CPLD driver and the platform daemon
  (platform), the tool tools/cpld-ctl.c, the diagnostic scripts/schan_diag.c, and at boot
  initramfs/nos-init.c.

  \<^bold>\<open>How it is modelled.\<close> Every C function with effects is a definition of its name in the state monad of
  HOL-Library, whose state is a record with the static variables of the files involved, extended
  from one component to the next as the calls need it (\<open>io\<close>, \<open>kernel_bde\<close>, \<open>bde_state\<close>, then a
  component's own record; \<open>on_l3\<close>, \<open>on_init\<close>, \<open>on_pktio\<close> run an operation on its part of the daemon's
  state). Integers that wrap are words, the others \<open>int\<close>; a pointer that may be NULL is an option or the
  integer 0; out-parameters are arguments and results. \<open>return -E\<close> is a negative result, and an access
  the C code must not make is a result of its own (\<open>None\<close> of \<open>bcm56846_tx\<close>, \<open>Fault\<close> of the CPLD tool).
  The chip, the operating system and the clock are the argument \<open>env\<close>: each read and each call is
  answered by an arbitrary function of the whole history, which the field \<open>trace\<close> records. Interrupts,
  concurrent processes and changing inputs are answers that change from one history to the next.

  \<^bold>\<open>Theories, from the bottom up.\<close>
  \<^item> \<open>Prelude\<close>: integer types, error numbers, the monad, the loop shapes \<open>for_each\<close> and \<open>for_ret\<close>, weakest
    preconditions (\<open>wp\<close> with the rule collection \<open>wp_rules\<close>), lemmas on bits and buffers. \<open>Machine\<close>: events,
    environments, register access, and \<open>emits\<close>, the effect of code that only interacts.
  \<^item> \<open>Kernel_Bde\<close> (bde/nos_kernel_bde.c), \<open>User_Bde\<close> (bde/nos_user_bde.c, sdk/src/bde_ioctl.c), \<open>Sbus\<close>
    (sbus.c, reg.c, schan.c): the layers from a message to the registers. Lemmas: the message the chip
    gets at START, what is restored and unlocked on every path, the reset order, the unwinding of
    probe, the window of the device.
  \<^item> \<open>Device_Model\<close> and \<open>Sbus_Log\<close>: the contract \<open>sbus_device\<close> of a chip that answers, the contents of its
    tables (\<open>chip_word\<close>, \<open>table_cell\<close>) and its registers (\<open>sbus_log\<close>) read off the history, and what each
    access of \<open>Sbus\<close> does to them. The locale \<open>sbus_table\<close> is the interface the table components use.
  \<^item> \<open>Bitfield\<close> and \<open>Id_Pool\<close>: the locales \<open>field_writer\<close> and \<open>id_pool\<close> for the bit-field writers and the
    identifier allocators, of which l3.c and ecmp.c each have their own copy.
  \<^item> \<open>L2\<close>, \<open>L3\<close>, \<open>Ecmp\<close>, \<open>Vlan\<close>: one theory per file, with the interpretations of these locales. Lemmas: the
    L2 table as a map, the meaning of a route entry, the invariants of the databases and
    allocators under every answer of the bus, what reaches the chip.
  \<^item> \<open>Miim\<close>, \<open>Serdes\<close> (serdes.c, i2c.c), \<open>Port\<close> (port.c, stats.c), \<open>Datapath\<close> (init_datapath.c),
    \<open>Chip_Init\<close> (init.c): the sequences of register and MDIO requests, the three copies of the port
    map (locale \<open>lane_map\<close>), the set of enabled ports, the power-up order, the default VLAN.
  \<^item> \<open>Ctext\<close> and \<open>Cscan\<close>: the conversions of printf, sscanf and fgets that the sources use. \<open>Soc\<close> (soc.c) and
    \<open>Config\<close> (config.c, attach.c): parsing against printing, termination of nested scripts, and no
    handle lost by attach and detach.
  \<^item> \<open>Pktio\<close> (pktio.c), \<open>Netlink\<close> (switchd/src/netlink.c), \<open>Ports\<close> (port_config.c, tun.c), \<open>Switchd\<close>
    (link_state.c, tx_rx.c, main.c): DMA regions, the hand-over of a packet, the invariant of the
    listener under arbitrary datagrams, the neighbour cache as a bounded map, the names and
    numbers of the ports. \<open>Forwarding\<close> composes the listener with the SDK down to the chip's
    tables: link and address messages give a port its L3 interface, neighbour messages keep the L2
    table and the cache, a route message programs an entry that forwards exactly its prefix.
  \<^item> \<open>Cpld\<close> (platform/drivers/accton_as5610_cpld.c) and \<open>Platform\<close> (platform/platform-mgrd/main.c): sysfs
    attributes, and the daemon on them, from temperatures to fan registers. \<open>Cpld_Ctl\<close>
    (tools/cpld-ctl.c), \<open>Nos_Init\<close> (initramfs/nos-init.c), \<open>Schan_Diag\<close> (scripts/schan_diag.c).

  \<^bold>\<open>Loops and bounds.\<close> A loop with a bound in the source has that bound: the MIIM poll 2000, the polls of
    serdes.c 500 and 200, the wait of a transmission 5000, the L2 probes 0 to 5, the raw poll of the
    diagnostic 500, the waits of nos-init 30 and 5 seconds. The S-Channel poll runs until a deadline;
    how many polls fit before it is an answer of the OS. Scripts have fuel 9, one more than
    RCLOAD_MAX_DEPTH, and it is shown that it never runs out and that more changes nothing. Loops
    over a volatile flag (receive thread, link poller, transmit thread, listener, main program) take
    the list of values read from the flag. The parsers and the attribute loop recurse on what is left
    of their input, with termination proofs.

  \<^bold>\<open>Hypotheses.\<close> \<open>sbus_device\<close> (the lock is free, at least one poll is made, the chip completes each message,
    user copies succeed, and reads give what was written), \<open>copies_ok\<close> and \<open>miim_done\<close> (MDIO), \<open>cpld_latch\<close> (a CPLD register keeps what is
    written) and \<open>kernel_lib_ok\<close> (kstrtol and sysfs_streq as documented) are contracts of hardware and
    kernel; each is satisfied by an environment of the development, on which the witnesses run.
    Safety and invariant properties do not need them: they hold for every environment. Parameters
    are the contents of files, the firmware image, received packets and datagrams.

  \<^bold>\<open>Not modelled.\<close> The firmware image sdk/src/wc_ucode_b0.c (third-party data; the download is
    proved for every image), code under \<open>#if 0\<close> in serdes.c (not compiled), the texts of messages,
    module tables, file operations tables and headers that only declare, tests/bde_validate.c (a test),
    the machine description in boot/kernel-patches (tables and calls into the kernel), and the
    scripts, device trees and package descriptions that build and install the images. The threads of the
    daemon are modelled one by one; the sources share the SDK's variables between them without a
    lock, so nothing is claimed about an interleaving in the middle of an SDK call.
\<close>

end
